(* ===== verification/Prelude.thy ===== *)
theory Prelude
  imports
    Main
    "HOL-Library.AList"
    "HOL-Library.List_Lexorder"
    "HOL-Library.Char_ord"
    "HOL-Library.Product_Lexorder"
    "HOL-Library.Multiset"
begin

text \<open>
  Shared vocabulary of the development: the exceptions of the control plane as one error
  type, results as a sum, Python dictionaries as association lists in insertion order, and
  the lemmas about them that every component uses.

  A Python dictionary iterates in insertion order; overwriting a key keeps its position and a
  new key goes last. \<^const>\<open>AList.update\<close> does exactly that on an association list, and
  \<^const>\<open>map_of\<close> is the lookup.
\<close>

named_theorems dict_simps \<open>lookup and key facts about dictionaries\<close>

named_theorems res_simps \<open>how results of guarded computations decompose\<close>


section \<open>Exceptions and results\<close>

text \<open>The persistence errors of \<^verbatim>\<open>ports/store.py\<close>.\<close>

datatype store_error =
    AlreadyExists
  | NotFound
  | VersionConflict
  | IdempotencyConflict
  | ReplayDetected
  | InvariantViolation

text \<open>The plan validation errors of \<^verbatim>\<open>domain/plans.py\<close> (subclasses of ValueError).\<close>

datatype plan_error =
    PlanActorMismatch
  | PlanActionMismatch
  | PlanNormalizationError
  | PlanMaterialMismatch
  | PlanExpired
  | PlanStateMismatch

text \<open>The errors of \<^verbatim>\<open>ports/execution.py\<close>: its base class and the classes derived from it.\<close>

datatype exec_error =
    ExecutionPlaneError
  | RetryableExecutionPlaneError
  | TaskConflictError
  | TaskNotFoundError
  | ArtifactConflictError
  | SecretMetadataDeniedError

text \<open>
  Every exception a modelled function can raise. Exceptions are told apart by class, as the
  callers do; message texts are not modelled.
\<close>

datatype err =
    ValueErr
  | InvalidTransition
  | TypeErr
  | KeyErr
  | OverflowErr
  | QuotaPolicyError
  | ActivityMetricsError
  | UsageLedgerError
  | OrgCostGuardDenied
  | AccessDenied
  | TokenDenied
  | ScheduleDenied string
  | SecretDenied string
  | DeploymentDenied string
  | ConfigError
  | JsonDecodeError
  | SnapshotValidationError
  | ManifestValidationError
  | RepositoryAdmissionError
  | GitHubWebhookError
  | GitHubSourceError
  | GitHubSourceUnavailableError
  | GitHubSourceIntegrityError
  | DesiredStateDenied
  | ServiceErr
  | StoreErr store_error
  | PlanErr plan_error
  | ExecErr exec_error

text \<open>Which classes an \<^verbatim>\<open>except ValueError\<close> clause catches.\<close>

fun is_value_error :: "err \<Rightarrow> bool" where
  "is_value_error ValueErr = True"
| "is_value_error InvalidTransition = True"
| "is_value_error QuotaPolicyError = True"
| "is_value_error ActivityMetricsError = True"
| "is_value_error UsageLedgerError = True"
| "is_value_error ConfigError = True"
| "is_value_error JsonDecodeError = True"
| "is_value_error SnapshotValidationError = True"
| "is_value_error ManifestValidationError = True"
| "is_value_error RepositoryAdmissionError = True"
| "is_value_error GitHubWebhookError = True"
| "is_value_error (PlanErr _) = True"
| "is_value_error _ = False"

type_synonym 'a res = "err + 'a"

definition bind_res :: "'a res \<Rightarrow> ('a \<Rightarrow> 'b res) \<Rightarrow> 'b res" where
  "bind_res m f = (case m of Inl e \<Rightarrow> Inl e | Inr x \<Rightarrow> f x)"

text \<open>A guard: raise \<open>e\<close> unless \<open>c\<close> holds, then go on.\<close>

definition require :: "bool \<Rightarrow> err \<Rightarrow> 'a res \<Rightarrow> 'a res" where
  "require c e k = (if c then k else Inl e)"

lemma bind_res_simps [simp]:
  "bind_res (Inl e) f = Inl e"
  "bind_res (Inr x) f = f x"
  by (simp_all add: bind_res_def)

lemma bind_res_Inr [res_simps]: "bind_res m f = Inr y \<longleftrightarrow> (\<exists>x. m = Inr x \<and> f x = Inr y)"
  by (cases m) auto

lemma bind_res_Inl [res_simps]:
  "bind_res m f = Inl e \<longleftrightarrow> m = Inl e \<or> (\<exists>x. m = Inr x \<and> f x = Inl e)"
  by (cases m) auto

lemma require_simps [simp]:
  "require True e k = k"
  "require False e k = Inl e"
  by (simp_all add: require_def)

lemma require_Inr [res_simps]: "require c e k = Inr x \<longleftrightarrow> c \<and> k = Inr x"
  by (simp add: require_def)

lemma require_Inl [res_simps]: "require c e k = Inl e' \<longleftrightarrow> (if c then k = Inl e' else e = e')"
  by (simp add: require_def)

lemma bind_res_cong [fundef_cong]:
  "m = m' \<Longrightarrow> (\<And>x. m' = Inr x \<Longrightarrow> f x = f' x) \<Longrightarrow> bind_res m f = bind_res m' f'"
  by (cases m') auto

text \<open>\<^verbatim>\<open>for x in xs\<close> with a body that may raise and threads one value through.\<close>

fun fold_res :: "('a \<Rightarrow> 's \<Rightarrow> 's res) \<Rightarrow> 'a list \<Rightarrow> 's \<Rightarrow> 's res" where
  "fold_res f [] s = Inr s"
| "fold_res f (x # xs) s = bind_res (f x s) (fold_res f xs)"

lemma fold_res_append:
  "fold_res f (xs @ ys) s = bind_res (fold_res f xs s) (fold_res f ys)"
  by (induction xs arbitrary: s) (auto simp: bind_res_def split: sum.splits)

lemma fold_res_invariant:
  assumes "fold_res f xs s = Inr t" and "P s"
    and "\<And>x s s'. x \<in> set xs \<Longrightarrow> P s \<Longrightarrow> f x s = Inr s' \<Longrightarrow> P s'"
  shows "P t"
  using assms
proof (induction xs arbitrary: s)
  case Nil
  then show ?case by simp
next
  case (Cons x xs)
  from Cons.prems(1) obtain s' where step: "f x s = Inr s'" and rest: "fold_res f xs s' = Inr t"
    by (auto simp: res_simps)
  have "P s'" using Cons.prems(2,3) step by auto
  then show ?case using Cons.IH [OF rest] Cons.prems(3) by auto
qed


section \<open>Calls on a state\<close>

text \<open>
  A method that reads and writes a state returns its result or exception together with the
  state it leaves behind, so that "an exception leaves the state as it was" is a statement
  about the model and not a consequence of its types. \<open>commit\<close> is the shape most methods
  have: everything is validated first, then one dictionary is written.
\<close>

type_synonym ('s, 'a) outcome = "'a res \<times> 's"

definition commit :: "'s \<Rightarrow> 'a \<Rightarrow> 'd res \<Rightarrow> ('d \<Rightarrow> 's) \<Rightarrow> ('s, 'a) outcome" where
  "commit s x r upd = (case r of Inl e \<Rightarrow> (Inl e, s) | Inr d \<Rightarrow> (Inr x, upd d))"

lemma commit_simps [simp]:
  "commit s x (Inl e) upd = (Inl e, s)"
  "commit s x (Inr d) upd = (Inr x, upd d)"
  by (simp_all add: commit_def)

lemma commit_Inr [res_simps]: "commit s x r upd = (Inr y, s') \<longleftrightarrow> (\<exists>d. r = Inr d \<and> y = x \<and> s' = upd d)"
  by (cases r) auto

lemma commit_Inl [res_simps]: "commit s x r upd = (Inl e, s') \<longleftrightarrow> r = Inl e \<and> s' = s"
  by (cases r) auto


text \<open>
  Methods that write several dictionaries are written in the order of the code: each place that
  can raise hands back the state as it is at that place.
\<close>

definition ensure :: "'s \<Rightarrow> bool \<Rightarrow> err \<Rightarrow> ('s, 'a) outcome \<Rightarrow> ('s, 'a) outcome" where
  "ensure s c e k = (if c then k else (Inl e, s))"

definition attempt :: "'s \<Rightarrow> 'b res \<Rightarrow> ('b \<Rightarrow> ('s, 'a) outcome) \<Rightarrow> ('s, 'a) outcome" where
  "attempt s r k = (case r of Inl e \<Rightarrow> (Inl e, s) | Inr x \<Rightarrow> k x)"

lemma ensure_simps [simp]:
  "ensure s True e k = k"
  "ensure s False e k = (Inl e, s)"
  by (simp_all add: ensure_def)

lemma attempt_simps [simp]:
  "attempt s (Inl e) k = (Inl e, s)"
  "attempt s (Inr x) k = k x"
  by (simp_all add: attempt_def)

lemma ensure_Inr [res_simps]: "ensure s c e k = (Inr x, s') \<longleftrightarrow> c \<and> k = (Inr x, s')"
  by (auto simp: ensure_def)

lemma ensure_Inl [res_simps]:
  "ensure s c e k = (Inl e', s') \<longleftrightarrow> (if c then k = (Inl e', s') else e = e' \<and> s = s')"
  by (auto simp: ensure_def)

lemma attempt_Inr [res_simps]:
  "attempt s r k = (Inr x, s') \<longleftrightarrow> (\<exists>y. r = Inr y \<and> k y = (Inr x, s'))"
  by (cases r) auto

lemma attempt_Inl [res_simps]:
  "attempt s r k = (Inl e, s') \<longleftrightarrow>
     (r = Inl e \<and> s' = s) \<or> (\<exists>y. r = Inr y \<and> k y = (Inl e, s'))"
  by (cases r) auto

text \<open>A call is atomic when raising leaves the state as it was.\<close>

definition atomic_call :: "'s \<Rightarrow> ('s, 'a) outcome \<Rightarrow> bool" where
  "atomic_call s out \<longleftrightarrow> (\<forall>e. fst out = Inl e \<longrightarrow> snd out = s)"

named_theorems atomic_intros \<open>calls that change nothing when they raise\<close>

lemma atomic_return [atomic_intros]: "atomic_call s (Inr x, s')"
  by (simp add: atomic_call_def)

lemma atomic_raise [atomic_intros]: "atomic_call s (Inl e, s)"
  by (simp add: atomic_call_def)

lemma atomic_commit [atomic_intros]: "atomic_call s (commit s x r upd)"
  by (cases r) (simp_all add: atomic_call_def)

lemma atomic_ensure [atomic_intros]: "atomic_call s k \<Longrightarrow> atomic_call s (ensure s c e k)"
  by (simp add: atomic_call_def ensure_def)

lemma atomic_attempt [atomic_intros]: "(\<And>x. atomic_call s (k x)) \<Longrightarrow> atomic_call s (attempt s r k)"
  by (cases r) (simp_all add: atomic_call_def)

lemma atomic_if [atomic_intros]:
  "atomic_call s a \<Longrightarrow> atomic_call s b \<Longrightarrow> atomic_call s (if c then a else b)"
  by simp

lemma atomic_option [atomic_intros]:
  "atomic_call s a \<Longrightarrow> (\<And>x. atomic_call s (f x)) \<Longrightarrow>
     atomic_call s (case v of None \<Rightarrow> a | Some x \<Rightarrow> f x)"
  by (cases v) auto

lemma atomic_prod [atomic_intros]:
  "(\<And>x y. atomic_call s (f x y)) \<Longrightarrow> atomic_call s (case p of (x, y) \<Rightarrow> f x y)"
  by (cases p) auto


section \<open>Dictionaries\<close>

type_synonym ('k, 'v) dict = "('k \<times> 'v) list"

abbreviation dict_get :: "('k, 'v) dict \<Rightarrow> 'k \<Rightarrow> 'v option" where
  "dict_get \<equiv> map_of"

abbreviation dict_put :: "'k \<Rightarrow> 'v \<Rightarrow> ('k, 'v) dict \<Rightarrow> ('k, 'v) dict" where
  "dict_put \<equiv> AList.update"

abbreviation dict_values :: "('k, 'v) dict \<Rightarrow> 'v list" where
  "dict_values d \<equiv> map snd d"

abbreviation dict_keys :: "('k, 'v) dict \<Rightarrow> 'k list" where
  "dict_keys d \<equiv> map fst d"

abbreviation dict_ok :: "('k, 'v) dict \<Rightarrow> bool" where
  "dict_ok d \<equiv> distinct (map fst d)"

lemma dict_get_put [dict_simps, simp]:
  "dict_get (dict_put k v d) k' = (if k' = k then Some v else dict_get d k')"
  by (simp add: AList.update_conv')

lemma dict_ok_put [dict_simps, simp]: "dict_ok d \<Longrightarrow> dict_ok (dict_put k v d)"
  by (rule AList.distinct_update)

lemma dict_keys_put: "set (dict_keys (dict_put k v d)) = insert k (set (dict_keys d))"
  by (induction d) auto

lemma dict_values_get: "dict_ok d \<Longrightarrow> v \<in> set (dict_values d) \<longleftrightarrow> (\<exists>k. dict_get d k = Some v)"
  by (auto simp: image_iff) (metis map_of_eq_Some_iff snd_conv)+

lemma dict_values_put_subset: "set (dict_values (dict_put k v d)) \<subseteq> insert v (set (dict_values d))"
  by (induction d) auto

lemma dict_keys_get: "k \<in> set (dict_keys d) \<longleftrightarrow> dict_get d k \<noteq> None"
  by (force simp: map_of_eq_None_iff)

text \<open>Overwriting a key with the value it has changes nothing, not even the order.\<close>

lemma dict_put_same: "dict_get d k = Some v \<Longrightarrow> dict_put k v d = d"
  by (rule AList.update_triv)

text \<open>\<^verbatim>\<open>del d[k]\<close>\<close>

definition dict_del :: "'k \<Rightarrow> ('k, 'v) dict \<Rightarrow> ('k, 'v) dict" where
  "dict_del k d = filter (\<lambda>(k', _). k' \<noteq> k) d"

lemma dict_get_del [dict_simps, simp]:
  "dict_get (dict_del k d) k' = (if k' = k then None else dict_get d k')"
  by (induction d) (auto simp: dict_del_def)

lemma dict_keys_del: "set (dict_keys (dict_del k d)) = set (dict_keys d) - {k}"
  by (force simp: dict_del_def image_iff)

lemma dict_ok_del [dict_simps, simp]: "dict_ok d \<Longrightarrow> dict_ok (dict_del k d)"
  by (simp add: dict_del_def distinct_map_filter)

text \<open>A dictionary whose records carry their own key.\<close>

definition keyed_by :: "('r \<Rightarrow> 'k) \<Rightarrow> ('k, 'r) dict \<Rightarrow> bool" where
  "keyed_by key d \<longleftrightarrow> dict_ok d \<and> (\<forall>k r. dict_get d k = Some r \<longrightarrow> key r = k)"

lemma keyed_by_empty [simp]: "keyed_by key []"
  by (simp add: keyed_by_def)

lemma keyed_by_put: "keyed_by key d \<Longrightarrow> key r = k \<Longrightarrow> keyed_by key (dict_put k r d)"
  by (simp add: keyed_by_def)

lemma keyed_by_del: "keyed_by key d \<Longrightarrow> keyed_by key (dict_del k d)"
  by (simp add: keyed_by_def)

lemma keyed_by_get: "keyed_by key d \<Longrightarrow> dict_get d k = Some r \<Longrightarrow> key r = k"
  by (simp add: keyed_by_def)

lemma keyed_by_ok: "keyed_by key d \<Longrightarrow> dict_ok d"
  by (simp add: keyed_by_def)

text \<open>Every record of the dictionary has a property.\<close>

definition dict_all :: "('r \<Rightarrow> bool) \<Rightarrow> ('k, 'r) dict \<Rightarrow> bool" where
  "dict_all P d \<longleftrightarrow> (\<forall>k r. dict_get d k = Some r \<longrightarrow> P r)"

lemma dict_all_empty [simp]: "dict_all P []"
  by (simp add: dict_all_def)

lemma dict_all_put: "dict_all P d \<Longrightarrow> P r \<Longrightarrow> dict_all P (dict_put k r d)"
  by (simp add: dict_all_def)

lemma dict_all_del: "dict_all P d \<Longrightarrow> dict_all P (dict_del k d)"
  by (simp add: dict_all_def)

lemma dict_all_get: "dict_all P d \<Longrightarrow> dict_get d k = Some r \<Longrightarrow> P r"
  by (auto simp: dict_all_def)


text \<open>
  A table of claims beside a table of items: each claim names the item that made it, and each
  item has its claim. \<open>key\<close> and \<open>claim\<close> say what claim an item makes, \<open>item\<close> which item a claim
  names.
\<close>

definition claims_index ::
    "('x \<Rightarrow> 'k) \<Rightarrow> ('x \<Rightarrow> 'c) \<Rightarrow> ('c \<Rightarrow> 'i) \<Rightarrow> ('k, 'c) dict \<Rightarrow> ('i, 'x) dict \<Rightarrow> bool" where
  "claims_index key claim item claims items \<longleftrightarrow>
     (\<forall>k c. dict_get claims k = Some c \<longrightarrow>
        (\<exists>x. dict_get items (item c) = Some x \<and> key x = k \<and> claim x = c)) \<and>
     (\<forall>i x. dict_get items i = Some x \<longrightarrow> dict_get claims (key x) = Some (claim x))"

lemma claims_index_empty [simp]: "claims_index key claim item [] []"
  by (simp add: claims_index_def)

lemma claims_index_insert:
  assumes "claims_index key claim item claims items"
    and "dict_get claims (key x) = None" and "dict_get items i = None" and "item (claim x) = i"
  shows "claims_index key claim item (dict_put (key x) (claim x) claims) (dict_put i x items)"
  unfolding claims_index_def
proof (intro conjI allI impI)
  fix k c
  assume c: "dict_get (dict_put (key x) (claim x) claims) k = Some c"
  show "\<exists>y. dict_get (dict_put i x items) (item c) = Some y \<and> key y = k \<and> claim y = c"
  proof (cases "k = key x")
    case True
    with c assms(4) show ?thesis by auto
  next
    case False
    with c have "dict_get claims k = Some c" by simp
    with assms(1) obtain y where "dict_get items (item c) = Some y" "key y = k" "claim y = c"
      unfolding claims_index_def by blast
    with assms(3) show ?thesis by (intro exI [of _ y]) auto
  qed
next
  fix j y
  assume "dict_get (dict_put i x items) j = Some y"
  moreover have "dict_get items j = Some y \<Longrightarrow> key y \<noteq> key x \<and> dict_get claims (key y) = Some (claim y)"
    using assms(1,2) unfolding claims_index_def by (metis option.distinct(1))
  ultimately show "dict_get (dict_put (key x) (claim x) claims) (key y) = Some (claim y)"
    by (cases "j = i") auto
qed

lemma claims_index_update:
  assumes "claims_index key claim item claims items" and "dict_get items i = Some old"
    and "key x = key old" and "claim x = claim old"
  shows "claims_index key claim item claims (dict_put i x items)"
  unfolding claims_index_def
proof (intro conjI allI impI)
  fix k c
  assume "dict_get claims k = Some c"
  with assms(1) obtain y where "dict_get items (item c) = Some y" "key y = k" "claim y = c"
    unfolding claims_index_def by blast
  with assms show "\<exists>y. dict_get (dict_put i x items) (item c) = Some y \<and> key y = k \<and> claim y = c"
    by (cases "item c = i") auto
next
  fix j y
  assume "dict_get (dict_put i x items) j = Some y"
  with assms show "dict_get claims (key y) = Some (claim y)"
    unfolding claims_index_def by (cases "j = i") auto
qed

lemma claims_index_item:
  "claims_index key claim item claims items \<Longrightarrow> dict_get claims k = Some c \<Longrightarrow>
     \<exists>x. dict_get items (item c) = Some x \<and> key x = k \<and> claim x = c"
  by (simp add: claims_index_def)


section \<open>Sorted listings\<close>

text \<open>
  The listing methods sort the selected values by a key that is different for different
  records, so the order does not depend on the insertion order of the dictionary.
\<close>

lemma sort_key_perm_unique:
  assumes "mset xs = mset ys" and "inj_on f (set xs)"
  shows "sort_key f xs = sort_key f ys"
  by (rule sort_key_inj_key_eq) (use assms in auto)

end
