(* ===== verification/States.thy ===== *)
theory States
  imports Prelude
begin

text \<open>
  The closed state machines of \<^verbatim>\<open>domain/states.py\<close>: the enumerations with their wire values,
  the adjacency maps, and \<^verbatim>\<open>require_transition\<close> with its one wrapper per record type. The
  lemmas give the shape of the graphs that the record and store theories rest on: which states
  are final, which graphs cannot return to a state, and what a quarantined record can become.
\<close>

section \<open>Enumerations\<close>

datatype user_role =
    RoleUser
  | RoleAdmin

datatype user_state =
    UserActive
  | UserSuspended
  | UserOffboarded

datatype admission_state =
    AdmissionPending
  | Admitted
  | AdmissionRejected
  | AdmissionRevoked

datatype workload_kind =
    Streamlit
  | NextJs
  | ScheduledScript

datatype workload_state =
    WlPlanned
  | WlActive
  | WlPaused
  | WlFailed
  | WlQuarantined
  | WlArchived

datatype plan_state =
    PlanIssued
  | PlanConsumed
  | PlanExpiredState
  | PlanCancelled

datatype operation_state =
    OpPlanned
  | OpQueued
  | OpBuilding
  | OpDeploying
  | OpVerifying
  | OpSucceeded
  | OpFailed
  | OpRolledBack
  | OpCancelled
  | OpQuarantined

datatype schedule_state =
    ScEnabled
  | ScDisabled
  | ScPaused
  | ScQuarantined
  | ScArchived

datatype rotation_state =
    RotStable
  | Rotating
  | RetiringOldVersion

datatype secret_lifecycle =
    SecActive
  | SecLocked
  | SecRetiring
  | SecDestroyed

datatype mutation_state =
    MutIdle
  | MutCreating
  | MutAttaching
  | MutRotating

datatype usage_confidence =
    Estimated
  | Measured
  | Finalized

datatype activity_surface =
    SurfDashboard
  | SurfMcp
  | SurfOperator
  | SurfWorker

datatype activity_outcome =
    ActSucceeded
  | ActFailed
  | ActDenied

datatype lifecycle_kind =
    InactivityWarning
  | QuarantineAction
  | TransferAction
  | DeleteCompute
  | RestoreAction
  | DeleteImage

datatype lifecycle_state =
    LaPlanned
  | LaExecuted
  | LaCancelled
  | LaFailed

section \<open>Wire values\<close>

text \<open>\<^verbatim>\<open>.value\<close> of the enumerations whose value the program prints or parses.\<close>

fun user_state_value :: "user_state \<Rightarrow> string" where
  "user_state_value UserActive = ''active''"
| "user_state_value UserSuspended = ''suspended''"
| "user_state_value UserOffboarded = ''offboarded''"

fun workload_kind_value :: "workload_kind \<Rightarrow> string" where
  "workload_kind_value Streamlit = ''streamlit''"
| "workload_kind_value NextJs = ''nextjs''"
| "workload_kind_value ScheduledScript = ''scheduled_script''"

fun activity_surface_value :: "activity_surface \<Rightarrow> string" where
  "activity_surface_value SurfDashboard = ''dashboard''"
| "activity_surface_value SurfMcp = ''mcp''"
| "activity_surface_value SurfOperator = ''operator''"
| "activity_surface_value SurfWorker = ''worker''"

fun activity_outcome_value :: "activity_outcome \<Rightarrow> string" where
  "activity_outcome_value ActSucceeded = ''succeeded''"
| "activity_outcome_value ActFailed = ''failed''"
| "activity_outcome_value ActDenied = ''denied''"

fun lifecycle_kind_value :: "lifecycle_kind \<Rightarrow> string" where
  "lifecycle_kind_value InactivityWarning = ''inactivity_warning''"
| "lifecycle_kind_value QuarantineAction = ''quarantine''"
| "lifecycle_kind_value TransferAction = ''transfer''"
| "lifecycle_kind_value DeleteCompute = ''delete_compute''"
| "lifecycle_kind_value RestoreAction = ''restore''"
| "lifecycle_kind_value DeleteImage = ''delete_image''"

definition parse_activity_surface :: "string \<Rightarrow> activity_surface option" where
  "parse_activity_surface v = find (\<lambda>x. activity_surface_value x = v) [SurfDashboard, SurfMcp, SurfOperator, SurfWorker]"

definition parse_activity_outcome :: "string \<Rightarrow> activity_outcome option" where
  "parse_activity_outcome v = find (\<lambda>x. activity_outcome_value x = v) [ActSucceeded, ActFailed, ActDenied]"

section \<open>Adjacency maps\<close>

fun user_transitions :: "user_state \<Rightarrow> user_state set" where
  "user_transitions UserActive = {UserSuspended, UserOffboarded}"
| "user_transitions UserSuspended = {UserActive, UserOffboarded}"
| "user_transitions UserOffboarded = {}"

fun admission_transitions :: "admission_state \<Rightarrow> admission_state set" where
  "admission_transitions AdmissionPending = {Admitted, AdmissionRejected}"
| "admission_transitions Admitted = {AdmissionRevoked}"
| "admission_transitions AdmissionRejected = {}"
| "admission_transitions AdmissionRevoked = {}"

fun workload_transitions :: "workload_state \<Rightarrow> workload_state set" where
  "workload_transitions WlPlanned = {WlActive, WlFailed, WlQuarantined, WlArchived}"
| "workload_transitions WlActive = {WlPaused, WlFailed, WlQuarantined, WlArchived}"
| "workload_transitions WlPaused = {WlActive, WlQuarantined, WlArchived}"
| "workload_transitions WlFailed = {WlActive, WlQuarantined, WlArchived}"
| "workload_transitions WlQuarantined = {WlActive, WlPaused, WlArchived}"
| "workload_transitions WlArchived = {WlPlanned}"

fun plan_transitions :: "plan_state \<Rightarrow> plan_state set" where
  "plan_transitions PlanIssued = {PlanConsumed, PlanExpiredState, PlanCancelled}"
| "plan_transitions PlanConsumed = {}"
| "plan_transitions PlanExpiredState = {}"
| "plan_transitions PlanCancelled = {}"

fun operation_transitions :: "operation_state \<Rightarrow> operation_state set" where
  "operation_transitions OpPlanned = {OpQueued, OpCancelled}"
| "operation_transitions OpQueued = {OpBuilding, OpFailed, OpCancelled, OpQuarantined}"
| "operation_transitions OpBuilding = {OpDeploying, OpFailed, OpCancelled, OpQuarantined}"
| "operation_transitions OpDeploying = {OpVerifying, OpFailed, OpRolledBack, OpQuarantined}"
| "operation_transitions OpVerifying = {OpSucceeded, OpFailed, OpRolledBack, OpQuarantined}"
| "operation_transitions OpSucceeded = {}"
| "operation_transitions OpFailed = {}"
| "operation_transitions OpRolledBack = {}"
| "operation_transitions OpCancelled = {}"
| "operation_transitions OpQuarantined = {}"

fun schedule_transitions :: "schedule_state \<Rightarrow> schedule_state set" where
  "schedule_transitions ScEnabled = {ScDisabled, ScPaused, ScQuarantined, ScArchived}"
| "schedule_transitions ScDisabled = {ScEnabled, ScQuarantined, ScArchived}"
| "schedule_transitions ScPaused = {ScEnabled, ScDisabled, ScQuarantined, ScArchived}"
| "schedule_transitions ScQuarantined = {ScDisabled, ScArchived}"
| "schedule_transitions ScArchived = {}"

fun rotation_transitions :: "rotation_state \<Rightarrow> rotation_state set" where
  "rotation_transitions RotStable = {Rotating}"
| "rotation_transitions Rotating = {RotStable, RetiringOldVersion}"
| "rotation_transitions RetiringOldVersion = {RotStable}"

fun secret_lifecycle_transitions :: "secret_lifecycle \<Rightarrow> secret_lifecycle set" where
  "secret_lifecycle_transitions SecActive = {SecLocked, SecRetiring}"
| "secret_lifecycle_transitions SecLocked = {SecActive, SecRetiring}"
| "secret_lifecycle_transitions SecRetiring = {SecLocked, SecDestroyed}"
| "secret_lifecycle_transitions SecDestroyed = {}"

fun lifecycle_action_transitions :: "lifecycle_state \<Rightarrow> lifecycle_state set" where
  "lifecycle_action_transitions LaPlanned = {LaExecuted, LaCancelled, LaFailed}"
| "lifecycle_action_transitions LaExecuted = {}"
| "lifecycle_action_transitions LaCancelled = {}"
| "lifecycle_action_transitions LaFailed = {}"

section \<open>Validation\<close>

definition require_transition :: "'s \<Rightarrow> 's \<Rightarrow> ('s \<Rightarrow> 's set) \<Rightarrow> unit res" where
  "require_transition current target allowed =
     (if target \<notin> allowed current then Inl InvalidTransition else Inr ())"

definition require_operation_transition :: "operation_state \<Rightarrow> operation_state \<Rightarrow> unit res" where
  "require_operation_transition current target =
     require_transition current target operation_transitions"

definition require_user_transition :: "user_state \<Rightarrow> user_state \<Rightarrow> unit res" where
  "require_user_transition current target = require_transition current target user_transitions"

definition require_repository_admission_transition ::
    "admission_state \<Rightarrow> admission_state \<Rightarrow> unit res" where
  "require_repository_admission_transition current target =
     require_transition current target admission_transitions"

definition require_workload_transition :: "workload_state \<Rightarrow> workload_state \<Rightarrow> unit res" where
  "require_workload_transition current target =
     require_transition current target workload_transitions"

definition require_plan_transition :: "plan_state \<Rightarrow> plan_state \<Rightarrow> unit res" where
  "require_plan_transition current target = require_transition current target plan_transitions"

definition require_schedule_transition :: "schedule_state \<Rightarrow> schedule_state \<Rightarrow> unit res" where
  "require_schedule_transition current target =
     require_transition current target schedule_transitions"

definition require_secret_rotation_transition ::
    "rotation_state \<Rightarrow> rotation_state \<Rightarrow> unit res" where
  "require_secret_rotation_transition current target =
     require_transition current target rotation_transitions"

definition require_secret_lifecycle_transition ::
    "secret_lifecycle \<Rightarrow> secret_lifecycle \<Rightarrow> unit res" where
  "require_secret_lifecycle_transition current target =
     require_transition current target secret_lifecycle_transitions"

definition require_lifecycle_action_transition ::
    "lifecycle_state \<Rightarrow> lifecycle_state \<Rightarrow> unit res" where
  "require_lifecycle_action_transition current target =
     require_transition current target lifecycle_action_transitions"

lemma require_transition_Inr [res_simps, simp]:
  "require_transition current target allowed = Inr u \<longleftrightarrow> target \<in> allowed current"
  by (simp add: require_transition_def)

lemma require_transition_Inl [res_simps, simp]:
  "require_transition current target allowed = Inl e \<longleftrightarrow>
     target \<notin> allowed current \<and> e = InvalidTransition"
  by (auto simp: require_transition_def)

lemmas require_transition_defs =
  require_operation_transition_def require_user_transition_def
  require_repository_admission_transition_def require_workload_transition_def
  require_plan_transition_def require_schedule_transition_def
  require_secret_rotation_transition_def require_secret_lifecycle_transition_def
  require_lifecycle_action_transition_def


section \<open>Shape of the graphs\<close>

text \<open>
  One step either keeps the state or follows an edge; this is what a saved record may do to the
  stored one. The reflexive-transitive closure describes any number of saves.
\<close>

definition state_step :: "('s \<Rightarrow> 's set) \<Rightarrow> 's \<Rightarrow> 's \<Rightarrow> bool" where
  "state_step allowed a b \<longleftrightarrow> a = b \<or> b \<in> allowed a"

lemma state_step_final:
  assumes "(state_step allowed)\<^sup>*\<^sup>* a b" and "allowed a = {}"
  shows "b = a"
  using assms by (induction rule: rtranclp_induct) (auto simp: state_step_def)

text \<open>
  In a graph whose edges all raise a rank, a state that was left is never entered again, and
  the rank bounds the number of changes.
\<close>

lemma state_step_rank:
  fixes rank :: "'s \<Rightarrow> nat"
  assumes "(state_step allowed)\<^sup>*\<^sup>* a b" and "\<And>x y. y \<in> allowed x \<Longrightarrow> rank x < rank y"
  shows "a = b \<or> rank a < rank b"
  using assms(1) by (induction rule: rtranclp_induct) (auto simp: state_step_def dest: assms(2))

fun operation_rank :: "operation_state \<Rightarrow> nat" where
  "operation_rank OpPlanned = 0"
| "operation_rank OpQueued = 1"
| "operation_rank OpBuilding = 2"
| "operation_rank OpDeploying = 3"
| "operation_rank OpVerifying = 4"
| "operation_rank _ = 5"

lemma operation_rank_increases: "b \<in> operation_transitions a \<Longrightarrow> operation_rank a < operation_rank b"
  by (cases a) auto

lemma operation_final_iff:
  "operation_transitions a = {} \<longleftrightarrow>
     a \<in> {OpSucceeded, OpFailed, OpRolledBack, OpCancelled, OpQuarantined}"
  by (cases a) auto

lemma plan_final_iff: "plan_transitions a = {} \<longleftrightarrow> a \<noteq> PlanIssued"
  by (cases a) auto

fun transition_path :: "('s \<Rightarrow> 's set) \<Rightarrow> 's \<Rightarrow> 's list \<Rightarrow> bool" where
  "transition_path allowed a [] = True"
| "transition_path allowed a (b # bs) = (b \<in> allowed a \<and> transition_path allowed b bs)"

lemma transition_path_rank:
  fixes rank :: "'s \<Rightarrow> nat"
  assumes "transition_path allowed a bs" and "\<And>x y. y \<in> allowed x \<Longrightarrow> rank x < rank y"
  shows "rank a + length bs \<le> rank (last (a # bs))"
  using assms(1)
proof (induction bs arbitrary: a)
  case Nil
  then show ?case by simp
next
  case (Cons b bs)
  then have "b \<in> allowed a" and "rank b + length bs \<le> rank (last (b # bs))" by auto
  then show ?case using assms(2) [of b a] by auto
qed

lemma operation_rank_le: "operation_rank a \<le> 5"
  by (cases a) auto

lemma operation_path_length: "transition_path operation_transitions a bs \<Longrightarrow> length bs \<le> 5"
  using transition_path_rank [of operation_transitions a bs operation_rank]
    operation_rank_increases operation_rank_le [of "last (a # bs)"] by fastforce

text \<open>
  A deployment can only be reported as succeeded after it was queued, built, deployed and
  verified: the graph has one way to get there.
\<close>

lemma operation_success_path:
  assumes "transition_path operation_transitions OpPlanned bs" and "last (OpPlanned # bs) = OpSucceeded"
  shows "bs = [OpQueued, OpBuilding, OpDeploying, OpVerifying, OpSucceeded]"
  using assms
  by (cases bs; cases "tl bs"; cases "tl (tl bs)"; cases "tl (tl (tl bs))";
      cases "tl (tl (tl (tl bs)))"; cases "tl (tl (tl (tl (tl bs))))") auto

end
