(* ===== verification/PyTime.thy ===== *)
theory PyTime
  imports Prelude
begin

text \<open>
  \<^verbatim>\<open>datetime\<close> and \<^verbatim>\<open>timedelta\<close>. A timestamp is a count of microseconds; a naive one has no
  offset, an aware one has its instant (microseconds since the epoch, in UTC) and its offset.
  Two aware values compare by instant, two naive ones by their local time, and comparing an
  aware with a naive value for order raises TypeError. All persisted records hold values with
  offset zero, so for them equality of the model is equality of the code.
\<close>

datatype pytime = Naive int | Aware int int

type_synonym timedelta = int

definition seconds :: "int \<Rightarrow> timedelta" where
  "seconds n = n * 1000000"

definition hours :: "int \<Rightarrow> timedelta" where
  "hours n = seconds (3600 * n)"

definition days :: "int \<Rightarrow> timedelta" where
  "days n = hours (24 * n)"

fun instant :: "pytime \<Rightarrow> int" where
  "instant (Naive t) = t"
| "instant (Aware t _) = t"

text \<open>\<^verbatim>\<open>value.tzinfo is not None and value.utcoffset() == timedelta(0)\<close>\<close>

fun is_utc :: "pytime \<Rightarrow> bool" where
  "is_utc (Naive _) = False"
| "is_utc (Aware _ off) = (off = 0)"

abbreviation utc :: "int \<Rightarrow> pytime" where
  "utc t \<equiv> Aware t 0"

text \<open>Whether an order comparison of two values returns at all.\<close>

fun comparable :: "pytime \<Rightarrow> pytime \<Rightarrow> bool" where
  "comparable (Naive _) (Naive _) = True"
| "comparable (Aware _ _) (Aware _ _) = True"
| "comparable _ _ = False"

definition time_less :: "pytime \<Rightarrow> pytime \<Rightarrow> bool" where
  "time_less a b = (instant a < instant b)"

definition time_leq :: "pytime \<Rightarrow> pytime \<Rightarrow> bool" where
  "time_leq a b = (instant a \<le> instant b)"

lemma is_utc_comparable: "is_utc a \<Longrightarrow> is_utc b \<Longrightarrow> comparable a b"
  by (cases a; cases b) auto

lemma is_utc_instant: "is_utc a \<Longrightarrow> a = utc (instant a)"
  by (cases a) auto

lemma is_utc_eq: "is_utc a \<Longrightarrow> is_utc b \<Longrightarrow> a = b \<longleftrightarrow> instant a = instant b"
  by (cases a; cases b) auto

lemma time_leq_refl [simp]: "time_leq a a"
  by (simp add: time_leq_def)

lemma time_leq_trans: "time_leq a b \<Longrightarrow> time_leq b c \<Longrightarrow> time_leq a c"
  by (simp add: time_leq_def)

lemma not_time_less [simp]: "\<not> time_less a b \<longleftrightarrow> time_leq b a"
  by (auto simp: time_less_def time_leq_def)

lemma time_less_leq: "time_less a b \<Longrightarrow> time_leq a b"
  by (simp add: time_less_def time_leq_def)

lemma time_less_not_leq: "time_less a b \<longleftrightarrow> \<not> time_leq b a"
  by (auto simp: time_less_def time_leq_def)

text \<open>
  \<^verbatim>\<open>value + delta\<close> leaves the offset alone and raises OverflowError outside the years 1 to
  9999, whose first and last microsecond these are.
\<close>

definition time_min :: int where
  "time_min = - 62135596800000000"

definition time_max :: int where
  "time_max = 253402300799999999"

fun add_delta :: "pytime \<Rightarrow> timedelta \<Rightarrow> pytime res" where
  "add_delta (Naive t) d =
     (if time_min \<le> t + d \<and> t + d \<le> time_max then Inr (Naive (t + d)) else Inl OverflowErr)"
| "add_delta (Aware t off) d =
     (if time_min \<le> t + off + d \<and> t + off + d \<le> time_max then Inr (Aware (t + d) off)
      else Inl OverflowErr)"

lemma add_delta_instant: "add_delta a d = Inr b \<Longrightarrow> instant b = instant a + d"
  by (cases a) (auto split: if_splits)

lemma add_delta_utc: "add_delta a d = Inr b \<Longrightarrow> is_utc b = is_utc a"
  by (cases a) (auto split: if_splits)

end
