(* ===== verification/Versioned.thy ===== *)
theory Versioned
  imports States PyTime
begin

text \<open>
  The generic operations of \<^verbatim>\<open>adapters/memory_store.py\<close> on one collection: create-only inserts,
  lookups, and writes under optimistic versioning (\<^verbatim>\<open>_create\<close>, \<^verbatim>\<open>_get\<close>, \<^verbatim>\<open>_save_versioned\<close>,
  \<^verbatim>\<open>_save_stateful\<close> and their helpers). The contract of such a collection is stated as two
  locales; the store theories interpret them for every collection the store keeps, and the
  facts proved here once hold for each of them.
\<close>

section \<open>Operations\<close>

text \<open>
  The attributes the generic code reads with \<^verbatim>\<open>getattr\<close>; a record type without the attribute
  answers \<^const>\<open>None\<close>.
\<close>

record 'r attrs =
  version_of :: "'r \<Rightarrow> int"
  created_of :: "'r \<Rightarrow> pytime option"
  updated_of :: "'r \<Rightarrow> pytime option"

definition coll_create ::
    "('r \<Rightarrow> int option) \<Rightarrow> ('k, 'r) dict \<Rightarrow> 'k \<Rightarrow> 'r \<Rightarrow> ('k, 'r) dict res" where
  "coll_create version d key r =
     (if dict_get d key \<noteq> None then Inl (StoreErr AlreadyExists)
      else if version r \<noteq> None \<and> version r \<noteq> Some 1 then Inl (StoreErr VersionConflict)
      else Inr (dict_put key r d))"

definition coll_get :: "('k, 'r) dict \<Rightarrow> 'k \<Rightarrow> 'r res" where
  "coll_get d key = (case dict_get d key of None \<Rightarrow> Inl (StoreErr NotFound) | Some r \<Rightarrow> Inr r)"

definition validate_next_version :: "'r attrs \<Rightarrow> 'r \<Rightarrow> 'r \<Rightarrow> int \<Rightarrow> unit res" where
  "validate_next_version m current r expected_version =
     (if version_of m current \<noteq> expected_version then Inl (StoreErr VersionConflict)
      else if version_of m r \<noteq> expected_version + 1 then Inl (StoreErr VersionConflict)
      else if created_of m current \<noteq> created_of m r then Inl (StoreErr InvariantViolation)
      else
        (case (updated_of m current, updated_of m r) of
           (Some before, Some after) \<Rightarrow>
             if time_less after before then Inl (StoreErr InvariantViolation) else Inr ()
         | _ \<Rightarrow> Inr ()))"

definition save_versioned ::
    "'r attrs \<Rightarrow> ('k, 'r) dict \<Rightarrow> 'k \<Rightarrow> 'r \<Rightarrow> int \<Rightarrow> ('k, 'r) dict res" where
  "save_versioned m d key r expected_version =
     (case dict_get d key of
        None \<Rightarrow> Inl (StoreErr NotFound)
      | Some current \<Rightarrow>
          bind_res (validate_next_version m current r expected_version) (\<lambda>_.
            Inr (dict_put key r d)))"

text \<open>
  \<^verbatim>\<open>_save_stateful\<close>: \<open>same\<close> compares the immutable fields of the stored and the new record.
\<close>

definition save_stateful ::
    "'r attrs \<Rightarrow> ('r \<Rightarrow> 's) \<Rightarrow> ('s \<Rightarrow> 's \<Rightarrow> unit res) \<Rightarrow> ('r \<Rightarrow> 'r \<Rightarrow> bool)
       \<Rightarrow> ('k, 'r) dict \<Rightarrow> 'k \<Rightarrow> 'r \<Rightarrow> int \<Rightarrow> ('k, 'r) dict res" where
  "save_stateful m state_of validate same d key r expected_version =
     (case dict_get d key of
        None \<Rightarrow> Inl (StoreErr NotFound)
      | Some current \<Rightarrow>
          bind_res (validate_next_version m current r expected_version) (\<lambda>_.
          require (same current r) (StoreErr InvariantViolation)
         (bind_res
            (if state_of current \<noteq> state_of r then validate (state_of current) (state_of r)
             else Inr ()) (\<lambda>_.
          save_versioned m d key r expected_version))))"


section \<open>Their results\<close>

definition time_not_back :: "pytime option \<Rightarrow> pytime option \<Rightarrow> bool" where
  "time_not_back before after =
     (case (before, after) of (Some b, Some a) \<Rightarrow> \<not> time_less a b | _ \<Rightarrow> True)"

definition next_version :: "'r attrs \<Rightarrow> 'r \<Rightarrow> 'r \<Rightarrow> bool" where
  "next_version m current r \<longleftrightarrow>
     created_of m current = created_of m r \<and> time_not_back (updated_of m current) (updated_of m r)"

lemma coll_create_Inr [res_simps]:
  "coll_create version d key r = Inr d' \<longleftrightarrow>
     dict_get d key = None \<and> (version r = None \<or> version r = Some 1) \<and> d' = dict_put key r d"
  by (auto simp: coll_create_def)

lemma coll_create_Inl:
  "coll_create version d key r = Inl e \<longleftrightarrow>
     (if dict_get d key \<noteq> None then e = StoreErr AlreadyExists
      else version r \<noteq> None \<and> version r \<noteq> Some 1 \<and> e = StoreErr VersionConflict)"
  by (auto simp: coll_create_def)

lemma coll_get_Inr [res_simps]: "coll_get d key = Inr r \<longleftrightarrow> dict_get d key = Some r"
  by (auto simp: coll_get_def split: option.splits)

lemma coll_get_Inl [res_simps]:
  "coll_get d key = Inl e \<longleftrightarrow> dict_get d key = None \<and> e = StoreErr NotFound"
  by (auto simp: coll_get_def split: option.splits)

lemma validate_next_version_Inr [res_simps]:
  "validate_next_version m current r v = Inr u \<longleftrightarrow>
     version_of m current = v \<and> version_of m r = v + 1 \<and> next_version m current r"
  by (auto simp: validate_next_version_def next_version_def time_not_back_def time_less_not_leq
      split: option.splits)

lemma validate_next_version_stale:
  "version_of m current \<noteq> v \<Longrightarrow> validate_next_version m current r v = Inl (StoreErr VersionConflict)"
  by (simp add: validate_next_version_def)

lemma save_versioned_Inr [res_simps]:
  "save_versioned m d key r v = Inr d' \<longleftrightarrow>
     (\<exists>current. dict_get d key = Some current \<and> version_of m current = v \<and>
        version_of m r = v + 1 \<and> next_version m current r) \<and> d' = dict_put key r d"
  by (auto simp: save_versioned_def res_simps split: option.splits)

lemma save_stateful_Inr [res_simps]:
  assumes "\<And>a b u. validate a b = Inr u \<longleftrightarrow> b \<in> allowed a"
  shows "save_stateful m state_of validate same d key r v = Inr d' \<longleftrightarrow>
     (\<exists>current. dict_get d key = Some current \<and> version_of m current = v \<and>
        version_of m r = v + 1 \<and> next_version m current r \<and> same current r \<and>
        state_step allowed (state_of current) (state_of r)) \<and> d' = dict_put key r d"
  by (auto simp: save_stateful_def res_simps assms state_step_def split: option.splits if_splits)

lemma save_stateful_absent:
  "dict_get d key = None \<Longrightarrow>
     save_stateful m state_of validate same d key r v = Inl (StoreErr NotFound)"
  by (simp add: save_stateful_def)

lemma save_stateful_stale:
  "dict_get d key = Some current \<Longrightarrow> version_of m current \<noteq> v \<Longrightarrow>
     save_stateful m state_of validate same d key r v = Inl (StoreErr VersionConflict)"
  by (simp add: save_stateful_def validate_next_version_stale)

lemma save_versioned_absent:
  "dict_get d key = None \<Longrightarrow> save_versioned m d key r v = Inl (StoreErr NotFound)"
  by (simp add: save_versioned_def)

lemma save_versioned_stale:
  "dict_get d key = Some current \<Longrightarrow> version_of m current \<noteq> v \<Longrightarrow>
     save_versioned m d key r v = Inl (StoreErr VersionConflict)"
  by (simp add: save_versioned_def validate_next_version_stale)


section \<open>The contract of a versioned collection\<close>

text \<open>
  Clients race: each reads a record, builds the next version, and saves it naming the version
  it read. Rejected saves leave the collection alone.
\<close>

fun apply_saves ::
    "(('k, 'r) dict \<Rightarrow> 'r \<Rightarrow> int \<Rightarrow> ('k, 'r) dict res) \<Rightarrow> ('k, 'r) dict \<Rightarrow> ('r \<times> int) list
       \<Rightarrow> ('k, 'r) dict" where
  "apply_saves save d [] = d"
| "apply_saves save d ((r, v) # reqs) =
     apply_saves save (case save d r v of Inl _ \<Rightarrow> d | Inr d' \<Rightarrow> d') reqs"

locale guarded_collection =
  fixes save :: "('k, 'r) dict \<Rightarrow> 'r \<Rightarrow> int \<Rightarrow> ('k, 'r) dict res"
    and key :: "'r \<Rightarrow> 'k"
    and ver :: "'r \<Rightarrow> int"
    and admissible :: "'r \<Rightarrow> 'r \<Rightarrow> bool"
  assumes save_iff:
      "save d r v = Inr d' \<longleftrightarrow>
         (\<exists>cur. dict_get d (key r) = Some cur \<and> ver cur = v \<and> ver r = v + 1 \<and> admissible cur r) \<and>
         d' = dict_put (key r) r d"
begin

lemma save_reads_back: "save d r v = Inr d' \<Longrightarrow> dict_get d' (key r) = Some r"
  by (auto simp: save_iff)

lemma save_frame: "save d r v = Inr d' \<Longrightarrow> k \<noteq> key r \<Longrightarrow> dict_get d' k = dict_get d k"
  by (auto simp: save_iff)

lemma save_keyed: "save d r v = Inr d' \<Longrightarrow> keyed_by key d \<Longrightarrow> keyed_by key d'"
  by (auto simp: save_iff intro: keyed_by_put)

lemma save_all: "save d r v = Inr d' \<Longrightarrow> dict_all P d \<Longrightarrow> P r \<Longrightarrow> dict_all P d'"
  by (auto simp: save_iff intro: dict_all_put)

text \<open>One save moves the record under any key by an admissible step, or not at all.\<close>

lemma save_step:
  assumes "save d r v = Inr d'" and "dict_get d k = Some cur"
  shows "\<exists>new_cur. dict_get d' k = Some new_cur \<and>
    (new_cur = cur \<or> admissible cur new_cur \<and> ver new_cur = ver cur + 1)"
  using assms by (cases "k = key r") (auto simp: save_iff)

text \<open>Of two clients that read the same version, only the first can write.\<close>

lemma first_writer_wins:
  assumes "save d r1 v = Inr d'" and "key r2 = key r1"
  shows "save d' r2 v \<noteq> Inr d''"
  using assms by (auto simp: save_iff)

text \<open>
  Whatever a series of racing saves does, the record under a key evolves from the one stored
  there by admissible steps, and its version counts them.
\<close>

lemma apply_saves_history:
  assumes "dict_get d k = Some cur"
  shows "\<exists>r. dict_get (apply_saves save d reqs) k = Some r \<and> admissible\<^sup>*\<^sup>* cur r \<and> ver cur \<le> ver r"
  using assms
proof (induction reqs arbitrary: d cur)
  case Nil
  then show ?case by auto
next
  case (Cons req reqs)
  obtain r v where req: "req = (r, v)" by (cases req)
  show ?case
  proof (cases "save d r v")
    case (Inl e)
    with Cons req show ?thesis by simp
  next
    case (Inr d')
    from save_step [OF Inr Cons.prems] obtain next_cur where
      n: "dict_get d' k = Some next_cur" "admissible\<^sup>*\<^sup>* cur next_cur" "ver cur \<le> ver next_cur"
      by (metis r_into_rtranclp rtranclp.rtrancl_refl order_refl less_add_one less_imp_le)
    from Cons.IH [OF n(1)] obtain r' where "dict_get (apply_saves save d' reqs) k = Some r'"
        "admissible\<^sup>*\<^sup>* next_cur r'" "ver next_cur \<le> ver r'" by blast
    with n req Inr show ?thesis by (auto intro: rtranclp_trans)
  qed
qed

end

text \<open>A collection that also says which error a rejected save gets.\<close>

locale versioned_collection = guarded_collection +
  assumes save_absent: "dict_get d (key r) = None \<Longrightarrow> save d r v = Inl (StoreErr NotFound)"
    and save_stale:
      "dict_get d (key r) = Some cur \<Longrightarrow> ver cur \<noteq> v \<Longrightarrow> save d r v = Inl (StoreErr VersionConflict)"
begin

lemma no_lost_update:
  assumes "save d r1 v = Inr d'" and "key r2 = key r1"
  shows "save d' r2 v = Inl (StoreErr VersionConflict)"
proof (rule save_stale)
  show "dict_get d' (key r2) = Some r1" using save_reads_back [OF assms(1)] assms(2) by simp
  show "ver r1 \<noteq> v" using assms(1) by (auto simp: save_iff)
qed

end

text \<open>A collection whose records also carry a state that moves along a graph.\<close>

locale stateful_collection = guarded_collection save key ver admissible
  for save :: "('k, 'r) dict \<Rightarrow> 'r \<Rightarrow> int \<Rightarrow> ('k, 'r) dict res"
    and key :: "'r \<Rightarrow> 'k" and ver :: "'r \<Rightarrow> int" and admissible :: "'r \<Rightarrow> 'r \<Rightarrow> bool" +
  fixes state :: "'r \<Rightarrow> 's"
    and allowed :: "'s \<Rightarrow> 's set"
  assumes admissible_state: "admissible cur r \<Longrightarrow> state_step allowed (state cur) (state r)"
begin

lemma history_states: "admissible\<^sup>*\<^sup>* cur r \<Longrightarrow> (state_step allowed)\<^sup>*\<^sup>* (state cur) (state r)"
  by (induction rule: rtranclp_induct) (auto intro: rtranclp.rtrancl_into_rtrancl admissible_state)

lemma apply_saves_final:
  assumes "dict_get d k = Some cur" and "allowed (state cur) = {}"
  shows "\<exists>r. dict_get (apply_saves save d reqs) k = Some r \<and> state r = state cur"
  using apply_saves_history [OF assms(1), of reqs] state_step_final [OF history_states assms(2)]
  by blast

end

text \<open>What most collections of the store are.\<close>

locale record_collection =
  versioned_collection save key ver admissible +
  stateful_collection save key ver admissible state allowed
  for save :: "('k, 'r) dict \<Rightarrow> 'r \<Rightarrow> int \<Rightarrow> ('k, 'r) dict res"
    and key :: "'r \<Rightarrow> 'k" and ver :: "'r \<Rightarrow> int" and admissible :: "'r \<Rightarrow> 'r \<Rightarrow> bool"
    and state :: "'r \<Rightarrow> 's" and allowed :: "'s \<Rightarrow> 's set"

text \<open>The generic operations satisfy the contracts, whatever the record type.\<close>

lemma save_versioned_collection:
  "versioned_collection (\<lambda>d r v. save_versioned m d (key r) r v) key (version_of m) (next_version m)"
  by unfold_locales (auto simp: save_versioned_absent save_versioned_stale res_simps)

definition stateful_step ::
    "'r attrs \<Rightarrow> ('r \<Rightarrow> 's) \<Rightarrow> ('s \<Rightarrow> 's set) \<Rightarrow> ('r \<Rightarrow> 'r \<Rightarrow> bool) \<Rightarrow> 'r \<Rightarrow> 'r \<Rightarrow> bool" where
  "stateful_step m state_of allowed same current r \<longleftrightarrow>
     next_version m current r \<and> same current r \<and> state_step allowed (state_of current) (state_of r)"

lemma save_stateful_collection:
  assumes "\<And>a b u. validate a b = Inr u \<longleftrightarrow> b \<in> allowed a"
  shows "record_collection (\<lambda>d r v. save_stateful m state_of validate same d (key r) r v) key
    (version_of m) (stateful_step m state_of allowed same) state_of allowed"
  by unfold_locales
    (auto simp: save_stateful_absent save_stateful_stale save_stateful_Inr [OF assms]
      stateful_step_def)

end
