(* ===== verification/PyText.thy ===== *)
theory PyText
  imports Prelude
begin

text \<open>
  The parts of Python's \<^verbatim>\<open>str\<close> and \<^verbatim>\<open>bytes\<close> that the control plane uses. A \<^typ>\<open>char\<close> is a
  code point up to U+00FF, so the model covers text of that range; every constant and every
  identifier of the program is ASCII. \<^verbatim>\<open>bytes\<close> are lists of \<^typ>\<open>char\<close> as well, read as bytes.

  The regular expressions of the source are all of the form "prefix, then characters of a class,
  within length bounds", used with \<^verbatim>\<open>fullmatch\<close>; each is written out as such a predicate.
\<close>

type_synonym bytes = "char list"

section \<open>Whitespace, case and character classes\<close>

abbreviation code_point :: "char \<Rightarrow> nat" where
  "code_point c \<equiv> of_char c"

text \<open>\<^verbatim>\<open>str.isspace\<close> on U+0000 to U+00FF.\<close>

definition is_space :: "char \<Rightarrow> bool" where
  "is_space c =
     (let n = code_point c in
        9 \<le> n \<and> n \<le> 13 \<or> 28 \<le> n \<and> n \<le> 32 \<or> n = 133 \<or> n = 160)"

definition strip :: "string \<Rightarrow> string" where
  "strip s = rev (dropWhile is_space (rev (dropWhile is_space s)))"

text \<open>\<^verbatim>\<open>bool(value.strip())\<close>\<close>

definition nonblank :: "string \<Rightarrow> bool" where
  "nonblank s = (strip s \<noteq> [])"

lemma nonblank_iff: "nonblank s \<longleftrightarrow> (\<exists>c \<in> set s. \<not> is_space c)"
proof -
  have "strip s = [] \<longleftrightarrow> (\<forall>c \<in> set (dropWhile is_space s). is_space c)"
    by (simp add: strip_def dropWhile_eq_Nil_conv)
  also have "\<dots> \<longleftrightarrow> (\<forall>c \<in> set s. is_space c)"
    by (induction s) auto
  finally show ?thesis by (simp add: nonblank_def)
qed

lemma nonblank_Cons: "\<not> is_space c \<Longrightarrow> nonblank (c # s)"
  by (auto simp: nonblank_iff)

lemma nonblank_append: "nonblank s \<or> nonblank t \<Longrightarrow> nonblank (s @ t)"
  by (auto simp: nonblank_iff)

lemma nonblank_not_Nil [simp]: "\<not> nonblank []"
  by (simp add: nonblank_iff)

text \<open>\<^verbatim>\<open>str.lower\<close> on U+0000 to U+00FF.\<close>

definition lower_char :: "char \<Rightarrow> char" where
  "lower_char c =
     (let n = code_point c in
        if 65 \<le> n \<and> n \<le> 90 \<or> 192 \<le> n \<and> n \<le> 222 \<and> n \<noteq> 215 then char_of (n + 32) else c)"

definition lower :: "string \<Rightarrow> string" where
  "lower s = map lower_char s"

text \<open>
  \<^verbatim>\<open>value == value.casefold()\<close> on that range: no upper-case letter, no sharp s (it folds to
  ss) and no micro sign (it folds to a Greek letter).
\<close>

definition is_casefolded :: "string \<Rightarrow> bool" where
  "is_casefolded s =
     list_all (\<lambda>c. lower_char c = c \<and> code_point c \<noteq> 223 \<and> code_point c \<noteq> 181) s"

text \<open>
  \<^verbatim>\<open>str.casefold\<close> on that range. The micro sign folds to U+03BC, which lies outside of it; since
  no folded text contains a micro sign, U+00B5 stands for U+03BC there, so that folded texts of
  the model are equal exactly when those of the program are.
\<close>

definition casefold :: "string \<Rightarrow> string" where
  "casefold s = concat (map (\<lambda>c. if code_point c = 223 then ''ss'' else [lower_char c]) s)"

definition is_digit :: "char \<Rightarrow> bool" where
  "is_digit c = (CHR ''0'' \<le> c \<and> c \<le> CHR ''9'')"

definition is_ascii_alpha :: "char \<Rightarrow> bool" where
  "is_ascii_alpha c = ((CHR ''A'' \<le> c \<and> c \<le> CHR ''Z'') \<or> (CHR ''a'' \<le> c \<and> c \<le> CHR ''z''))"

definition is_ascii_alnum :: "char \<Rightarrow> bool" where
  "is_ascii_alnum c = (is_ascii_alpha c \<or> is_digit c)"

definition is_ascii_lower :: "char \<Rightarrow> bool" where
  "is_ascii_lower c \<longleftrightarrow> CHR ''a'' \<le> c \<and> c \<le> CHR ''z''"

text \<open>\<^verbatim>\<open>[a-z0-9]\<close> and \<^verbatim>\<open>[a-z0-9-]\<close>\<close>

definition is_lower_alnum :: "char \<Rightarrow> bool" where
  "is_lower_alnum c \<longleftrightarrow> is_ascii_lower c \<or> is_digit c"

definition is_label_char :: "char \<Rightarrow> bool" where
  "is_label_char c \<longleftrightarrow> is_lower_alnum c \<or> c = CHR ''-''"

definition is_lower_hex :: "char \<Rightarrow> bool" where
  "is_lower_hex c = (is_digit c \<or> CHR ''a'' \<le> c \<and> c \<le> CHR ''f'')"

text \<open>\<^verbatim>\<open>[0-9a-f]{n}\<close>, matched in full.\<close>

definition is_hex_text :: "nat \<Rightarrow> string \<Rightarrow> bool" where
  "is_hex_text n s = (length s = n \<and> list_all is_lower_hex s)"

lemma is_hex_text_nonblank: "is_hex_text n s \<Longrightarrow> 0 < n \<Longrightarrow> nonblank s"
  by (cases s)
    (auto simp: is_hex_text_def is_lower_hex_def is_digit_def is_space_def nonblank_iff
      less_eq_char_def)


section \<open>Substrings\<close>

definition starts_with :: "string \<Rightarrow> string \<Rightarrow> bool" where
  "starts_with s p = (take (length p) s = p)"

definition ends_with :: "string \<Rightarrow> string \<Rightarrow> bool" where
  "ends_with s p = starts_with (rev s) (rev p)"

text \<open>\<^verbatim>\<open>needle in s\<close>\<close>

fun contains :: "string \<Rightarrow> string \<Rightarrow> bool" where
  "contains needle [] = (needle = [])"
| "contains needle (c # s) = (starts_with (c # s) needle \<or> contains needle s)"

lemma starts_with_append: "starts_with s p \<longleftrightarrow> (\<exists>t. s = p @ t)"
  unfolding starts_with_def by (metis append_eq_conv_conj append_take_drop_id)

lemma contains_iff: "contains needle s \<longleftrightarrow> (\<exists>u v. s = u @ needle @ v)"
proof (induction s)
  case Nil
  then show ?case by auto
next
  case (Cons c s)
  show ?case
  proof
    assume "contains needle (c # s)"
    then consider "starts_with (c # s) needle" | "contains needle s" by auto
    then show "\<exists>u v. c # s = u @ needle @ v"
    proof cases
      case 1
      then show ?thesis by (metis starts_with_append append_Nil)
    next
      case 2
      then show ?thesis using Cons.IH by (metis append_Cons)
    qed
  next
    assume "\<exists>u v. c # s = u @ needle @ v"
    then obtain u v where eq: "c # s = u @ needle @ v" by blast
    then show "contains needle (c # s)"
    proof (cases u)
      case Nil
      with eq show ?thesis by (metis starts_with_append append_Nil contains.simps(2))
    next
      case (Cons x u')
      with eq have "s = u' @ needle @ v" by simp
      then show ?thesis using Cons.IH by auto
    qed
  qed
qed

text \<open>\<^verbatim>\<open>s.split(sep)\<close> for a one-character separator.\<close>

fun split_on :: "char \<Rightarrow> string \<Rightarrow> string list" where
  "split_on sep [] = [[]]"
| "split_on sep (c # s) =
     (if c = sep then [] # split_on sep s
      else (case split_on sep s of [] \<Rightarrow> [[c]] | w # ws \<Rightarrow> (c # w) # ws))"


section \<open>Decimal numbers\<close>

text \<open>\<^verbatim>\<open>str(n)\<close> for natural numbers and integers.\<close>

definition digit_char :: "nat \<Rightarrow> char" where
  "digit_char d = char_of (48 + d)"

fun show_nat :: "nat \<Rightarrow> string" where
  "show_nat n = (if n < 10 then [digit_char n] else show_nat (n div 10) @ [digit_char (n mod 10)])"

declare show_nat.simps [simp del]

definition show_int :: "int \<Rightarrow> string" where
  "show_int i = (if i < 0 then ''-'' @ show_nat (nat (- i)) else show_nat (nat i))"

definition read_digits :: "string \<Rightarrow> nat" where
  "read_digits s = foldl (\<lambda>n c. 10 * n + (code_point c - 48)) 0 s"

lemma code_point_digit_char: "d < 10 \<Longrightarrow> code_point (digit_char d) = 48 + d"
  by (simp add: digit_char_def)

lemma is_digit_code_point: "is_digit c \<longleftrightarrow> 48 \<le> code_point c \<and> code_point c \<le> 57"
  by (simp add: is_digit_def less_eq_char_def)

lemma is_digit_digit_char: "d < 10 \<Longrightarrow> is_digit (digit_char d)"
  by (simp add: is_digit_code_point code_point_digit_char)

lemma read_digits_snoc: "read_digits (s @ [c]) = 10 * read_digits s + (code_point c - 48)"
  by (simp add: read_digits_def)

lemma read_show_nat: "read_digits (show_nat n) = n"
proof (induction n rule: show_nat.induct)
  case (1 n)
  show ?case
  proof (cases "n < 10")
    case True
    then show ?thesis
      by (subst show_nat.simps) (simp add: read_digits_def code_point_digit_char)
  next
    case False
    with 1 show ?thesis
      by (subst show_nat.simps) (simp add: read_digits_snoc code_point_digit_char)
  qed
qed

lemma show_nat_inject: "show_nat m = show_nat n \<longleftrightarrow> m = n"
  by (metis read_show_nat)

lemma show_nat_digits: "c \<in> set (show_nat n) \<Longrightarrow> is_digit c"
proof (induction n rule: show_nat.induct)
  case (1 n)
  then show ?case
    by (subst (asm) show_nat.simps) (auto simp: is_digit_digit_char split: if_splits)
qed

lemma show_nat_not_Nil [simp]: "show_nat n \<noteq> []"
  by (subst show_nat.simps) simp

lemma not_digit_minus [simp]: "\<not> is_digit (CHR ''-'')"
  by (simp add: is_digit_code_point)

lemma show_int_inject: "show_int i = show_int j \<longleftrightarrow> i = j"
proof
  assume eq: "show_int i = show_int j"
  have no_minus: "show_nat n \<noteq> ''-'' @ t" for n t
    using show_nat_digits [of "CHR ''-''" n] by (metis append_Cons list.set_intros(1) not_digit_minus)
  from eq show "i = j"
    by (auto simp: show_int_def show_nat_inject no_minus no_minus [symmetric, simplified]
        split: if_splits dest: no_minus [simplified, THEN notE])
qed simp


section \<open>UTF-8\<close>

definition utf8_char :: "char \<Rightarrow> bytes" where
  "utf8_char c =
     (let n = code_point c in
        if n < 128 then [c] else [char_of (192 + n div 64), char_of (128 + n mod 64)])"

definition utf8 :: "string \<Rightarrow> bytes" where
  "utf8 s = concat (map utf8_char s)"

fun utf8_decode :: "bytes \<Rightarrow> string" where
  "utf8_decode [] = []"
| "utf8_decode [b] = [b]"
| "utf8_decode (b # b' # bs) =
     (if code_point b < 128 then b # utf8_decode (b' # bs)
      else char_of (64 * (code_point b - 192) + (code_point b' - 128)) # utf8_decode bs)"

lemma utf8_Cons: "utf8 (c # s) = utf8_char c @ utf8 s"
  by (simp add: utf8_def)

lemma utf8_decode_ascii: "code_point b < 128 \<Longrightarrow> utf8_decode (b # bs) = b # utf8_decode bs"
  by (cases bs) auto

lemma code_point_bound: "code_point c < (256 :: nat)"
  by (rule nat_of_char_less_256)

lemma utf8_roundtrip: "utf8_decode (utf8 s) = s"
proof (induction s)
  case Nil
  then show ?case by (simp add: utf8_def)
next
  case (Cons c s)
  show ?case
  proof (cases "code_point c < 128")
    case True
    with Cons show ?thesis by (simp add: utf8_Cons utf8_char_def utf8_decode_ascii)
  next
    case False
    define n where "n = code_point c"
    have bound: "n < 256" unfolding n_def by (rule code_point_bound)
    then have hi: "n div 64 < 4" by simp
    have b0: "code_point (char_of (192 + n div 64)) = 192 + n div 64"
      using hi by simp
    have b1: "code_point (char_of (128 + n mod 64)) = 128 + n mod 64"
      by simp
    from False have "utf8 (c # s) = char_of (192 + n div 64) # char_of (128 + n mod 64) # utf8 s"
      by (simp add: utf8_Cons utf8_char_def n_def Let_def)
    then have "utf8_decode (utf8 (c # s)) = char_of (64 * (n div 64) + n mod 64) # s"
      using Cons b0 b1 by simp
    then show ?thesis by (simp add: n_def)
  qed
qed

lemma utf8_inject: "utf8 s = utf8 t \<longleftrightarrow> s = t"
  by (metis utf8_roundtrip)

lemma utf8_ascii: "list_all (\<lambda>c. code_point c < 128) s \<Longrightarrow> utf8 s = s"
  by (induction s) (simp_all add: utf8_def utf8_char_def)

end
