(* ===== verification/Models_Identity.thy ===== *)
theory Models_Identity
  imports States PyText PyTime
begin

text \<open>
  The first records of \<^verbatim>\<open>domain/models.py\<close>: the field checks shared by all of them, and
  \<^verbatim>\<open>User\<close>, \<^verbatim>\<open>RepositoryAdmission\<close>, \<^verbatim>\<open>Workload\<close> and \<^verbatim>\<open>AppHostnameBinding\<close> with their
  \<^verbatim>\<open>__post_init__\<close> validation and their methods. A record type's \<open>_ok\<close> predicate is what its
  \<^verbatim>\<open>__post_init__\<close> accepts; \<open>_post_init\<close> is the constructor, which \<^verbatim>\<open>dataclasses.replace\<close> runs
  again. Checks of a value's dynamic type are discharged by the model's types.
\<close>

section \<open>Field checks\<close>

type_synonym user_id = string
type_synonym admission_id = string
type_synonym workload_id = string
type_synonym plan_id = string
type_synonym operation_id = string
type_synonym schedule_id = string
type_synonym secret_id = string

definition text_ok :: "string \<Rightarrow> bool" where
  "text_ok value = nonblank value"

definition opt_text_ok :: "string option \<Rightarrow> bool" where
  "opt_text_ok value = (case value of None \<Rightarrow> True | Some v \<Rightarrow> text_ok v)"

definition utc_ok :: "pytime option \<Rightarrow> bool" where
  "utc_ok value = (case value of None \<Rightarrow> True | Some t \<Rightarrow> is_utc t)"

definition timestamp_order_ok :: "pytime \<Rightarrow> pytime \<Rightarrow> bool" where
  "timestamp_order_ok created_at updated_at = (\<not> time_less updated_at created_at)"

definition version_ok :: "int \<Rightarrow> bool" where
  "version_ok version = (1 \<le> version)"

definition non_negative_ok :: "int \<Rightarrow> bool" where
  "non_negative_ok value = (0 \<le> value)"

definition transition_time_ok :: "pytime \<Rightarrow> pytime \<Rightarrow> bool" where
  "transition_time_ok at updated_at = (is_utc at \<and> \<not> time_less at updated_at)"

lemmas field_check_defs =
  text_ok_def opt_text_ok_def utc_ok_def timestamp_order_ok_def version_ok_def
  non_negative_ok_def transition_time_ok_def

lemma utc_ok_simps [simp]: "utc_ok None" "utc_ok (Some t) = is_utc t"
  by (simp_all add: utc_ok_def)

lemma opt_text_ok_simps [simp]: "opt_text_ok None" "opt_text_ok (Some v) = text_ok v"
  by (simp_all add: opt_text_ok_def)

lemma version_ok_Suc: "version_ok v \<Longrightarrow> version_ok (v + 1)"
  by (simp add: version_ok_def)

lemma timestamp_order_trans:
  "timestamp_order_ok c u \<Longrightarrow> transition_time_ok at u \<Longrightarrow> timestamp_order_ok c at"
  by (auto simp: field_check_defs time_leq_def)

lemma transition_time_utc: "transition_time_ok at u \<Longrightarrow> is_utc at"
  by (simp add: transition_time_ok_def)


section \<open>User\<close>

record user =
  usr_id :: user_id
  usr_email :: string
  usr_role :: user_role
  usr_state :: user_state
  usr_groups :: "string set"
  usr_identity_synced_at :: pytime
  usr_created_at :: pytime
  usr_updated_at :: pytime
  usr_version :: int

definition user_ok :: "user \<Rightarrow> bool" where
  "user_ok u \<longleftrightarrow>
     text_ok (usr_id u) \<and> text_ok (usr_email u) \<and>
     (\<forall>group \<in> usr_groups u. text_ok group) \<and>
     is_utc (usr_identity_synced_at u) \<and> is_utc (usr_created_at u) \<and>
     is_utc (usr_updated_at u) \<and>
     timestamp_order_ok (usr_created_at u) (usr_updated_at u) \<and>
     version_ok (usr_version u)"

definition user_post_init :: "user \<Rightarrow> user res" where
  "user_post_init u = require (user_ok u) ValueErr (Inr u)"

definition user_transition_state :: "user \<Rightarrow> user_state \<Rightarrow> pytime \<Rightarrow> user res" where
  "user_transition_state u target at =
     require (transition_time_ok at (usr_updated_at u)) ValueErr
       (bind_res (require_user_transition (usr_state u) target) (\<lambda>_.
          user_post_init
            (u\<lparr>usr_state := target, usr_updated_at := at, usr_version := usr_version u + 1\<rparr>)))"

text \<open>
  \<^verbatim>\<open>User.reconcile_identity\<close>: fold one authoritative directory observation into the record.
  Nothing to change returns the very same record, version included.
\<close>

definition reconcile_identity ::
    "user \<Rightarrow> user_state \<Rightarrow> string \<Rightarrow> bool \<Rightarrow> pytime \<Rightarrow> user res" where
  "reconcile_identity u target_state required_group in_required_group synced_at =
     require (text_ok required_group) ValueErr
    (require (is_utc synced_at) ValueErr
    (require (\<not> time_less synced_at (usr_identity_synced_at u)) ValueErr
    (let updated_groups =
           (if in_required_group then insert required_group (usr_groups u)
            else usr_groups u - {required_group});
         state_changed = (target_state \<noteq> usr_state u);
         groups_changed = (updated_groups \<noteq> usr_groups u)
     in bind_res
          (if state_changed then require_user_transition (usr_state u) target_state else Inr ())
          (\<lambda>_.
            if \<not> (state_changed \<or> groups_changed \<or> synced_at \<noteq> usr_identity_synced_at u) then Inr u
            else
              bind_res
                (if state_changed \<or> groups_changed then
                   require (\<not> time_less synced_at (usr_updated_at u)) ValueErr (Inr synced_at)
                 else Inr (usr_updated_at u))
                (\<lambda>updated_at.
                  user_post_init
                    (u\<lparr>usr_state := target_state, usr_groups := updated_groups,
                       usr_identity_synced_at := synced_at, usr_updated_at := updated_at,
                       usr_version := usr_version u + 1\<rparr>))))))"

lemma user_post_init_Inr [res_simps]: "user_post_init u = Inr v \<longleftrightarrow> user_ok u \<and> v = u"
  by (auto simp: user_post_init_def res_simps)

lemma user_transition_state_Inr:
  assumes "user_ok u"
  shows "user_transition_state u target at = Inr v \<longleftrightarrow>
    transition_time_ok at (usr_updated_at u) \<and> target \<in> user_transitions (usr_state u) \<and>
    v = u\<lparr>usr_state := target, usr_updated_at := at, usr_version := usr_version u + 1\<rparr>"
  using assms
  by (auto simp: user_transition_state_def res_simps require_transition_defs user_ok_def
      version_ok_Suc transition_time_utc timestamp_order_trans)

lemma reconcile_identity_ok:
  assumes "user_ok u" and "reconcile_identity u target g member at = Inr v"
  shows "user_ok v"
  using assms
  by (auto simp: reconcile_identity_def Let_def res_simps split: if_splits)

lemma reconcile_identity_fields:
  assumes "reconcile_identity u target g member at = Inr v"
  shows "usr_id v = usr_id u \<and> usr_email v = usr_email u \<and> usr_role v = usr_role u \<and>
    usr_created_at v = usr_created_at u \<and> usr_state v = target \<and>
    (g \<in> usr_groups v \<longleftrightarrow> member) \<and> usr_groups v - {g} = usr_groups u - {g} \<and>
    (v = u \<or> usr_version v = usr_version u + 1)"
  using assms
  by (auto simp: reconcile_identity_def Let_def res_simps split: if_splits)


section \<open>RepositoryAdmission\<close>

record repository_admission =
  adm_id :: admission_id
  adm_repository_numeric_id :: int
  adm_owner :: string
  adm_name :: string
  adm_installation_id :: int
  adm_state :: admission_state
  adm_admitted_sha :: string
  adm_created_at :: pytime
  adm_updated_at :: pytime
  adm_version :: int

definition admission_ok :: "repository_admission \<Rightarrow> bool" where
  "admission_ok a \<longleftrightarrow>
     text_ok (adm_id a) \<and> non_negative_ok (adm_repository_numeric_id a) \<and>
     non_negative_ok (adm_installation_id a) \<and> text_ok (adm_owner a) \<and>
     text_ok (adm_name a) \<and> text_ok (adm_admitted_sha a) \<and>
     is_utc (adm_created_at a) \<and> is_utc (adm_updated_at a) \<and>
     timestamp_order_ok (adm_created_at a) (adm_updated_at a) \<and>
     version_ok (adm_version a)"

definition admission_post_init :: "repository_admission \<Rightarrow> repository_admission res" where
  "admission_post_init a = require (admission_ok a) ValueErr (Inr a)"

definition admission_transition_state ::
    "repository_admission \<Rightarrow> admission_state \<Rightarrow> pytime \<Rightarrow> repository_admission res" where
  "admission_transition_state a target at =
     require (transition_time_ok at (adm_updated_at a)) ValueErr
       (bind_res (require_repository_admission_transition (adm_state a) target) (\<lambda>_.
          admission_post_init
            (a\<lparr>adm_state := target, adm_updated_at := at, adm_version := adm_version a + 1\<rparr>)))"

lemma admission_post_init_Inr [res_simps]:
  "admission_post_init a = Inr b \<longleftrightarrow> admission_ok a \<and> b = a"
  by (auto simp: admission_post_init_def res_simps)

lemma admission_transition_state_Inr:
  assumes "admission_ok a"
  shows "admission_transition_state a target at = Inr b \<longleftrightarrow>
    transition_time_ok at (adm_updated_at a) \<and> target \<in> admission_transitions (adm_state a) \<and>
    b = a\<lparr>adm_state := target, adm_updated_at := at, adm_version := adm_version a + 1\<rparr>"
  using assms
  by (auto simp: admission_transition_state_def res_simps require_transition_defs admission_ok_def
      version_ok_Suc transition_time_utc timestamp_order_trans)


section \<open>Workload\<close>

record workload =
  wl_id :: workload_id
  wl_owner_id :: user_id
  wl_repository_admission_id :: admission_id
  wl_name :: string
  wl_kind :: workload_kind
  wl_state :: workload_state
  wl_source_sha :: string
  wl_desired_manifest_hash :: string
  wl_created_at :: pytime
  wl_updated_at :: pytime
  wl_last_activity_at :: "pytime option"
  wl_last_healthy_image_digest :: "string option"
  wl_auto_deploy_enabled :: bool
  wl_auto_deploy_ref :: "string option"
  wl_version :: int

definition ref_char :: "char \<Rightarrow> bool" where
  "ref_char c = (is_ascii_alnum c \<or> c \<in> {CHR ''.'', CHR ''_'', CHR ''/'', CHR ''-''})"

text \<open>\<^verbatim>\<open>^refs/heads/[A-Za-z0-9._/-]{1,200}$\<close> matched in full, and no \<^verbatim>\<open>..\<close> inside.\<close>

definition auto_deploy_ref_ok :: "string \<Rightarrow> bool" where
  "auto_deploy_ref_ok r \<longleftrightarrow>
     (starts_with r ''refs/heads/'' \<and> 1 \<le> length (drop 11 r) \<and> length (drop 11 r) \<le> 200 \<and>
      list_all ref_char (drop 11 r)) \<and> \<not> contains ''..'' r"

definition source_sha_ok :: "string \<Rightarrow> bool" where
  "source_sha_ok s = (is_hex_text 40 s \<and> s \<noteq> replicate 40 (CHR ''0''))"

definition workload_ok :: "workload \<Rightarrow> bool" where
  "workload_ok w \<longleftrightarrow>
     text_ok (wl_id w) \<and> text_ok (wl_owner_id w) \<and> text_ok (wl_repository_admission_id w) \<and>
     text_ok (wl_name w) \<and> text_ok (wl_source_sha w) \<and> text_ok (wl_desired_manifest_hash w) \<and>
     is_utc (wl_created_at w) \<and> is_utc (wl_updated_at w) \<and> utc_ok (wl_last_activity_at w) \<and>
     timestamp_order_ok (wl_created_at w) (wl_updated_at w) \<and>
     wl_auto_deploy_enabled w = (wl_auto_deploy_ref w \<noteq> None) \<and>
     (case wl_auto_deploy_ref w of None \<Rightarrow> True | Some r \<Rightarrow> auto_deploy_ref_ok r) \<and>
     version_ok (wl_version w)"

definition workload_post_init :: "workload \<Rightarrow> workload res" where
  "workload_post_init w = require (workload_ok w) ValueErr (Inr w)"

definition workload_transition_state :: "workload \<Rightarrow> workload_state \<Rightarrow> pytime \<Rightarrow> workload res" where
  "workload_transition_state w target at =
     require (transition_time_ok at (wl_updated_at w)) ValueErr
       (bind_res (require_workload_transition (wl_state w) target) (\<lambda>_.
          workload_post_init
            (w\<lparr>wl_state := target, wl_updated_at := at, wl_version := wl_version w + 1\<rparr>)))"

definition record_activity :: "workload \<Rightarrow> pytime \<Rightarrow> workload res" where
  "record_activity w at =
     require (transition_time_ok at (wl_updated_at w)) ValueErr
       (workload_post_init
          (w\<lparr>wl_updated_at := at, wl_last_activity_at := Some at, wl_version := wl_version w + 1\<rparr>))"

definition advance_source ::
    "workload \<Rightarrow> admission_id \<Rightarrow> string \<Rightarrow> string \<Rightarrow> pytime \<Rightarrow> workload res" where
  "advance_source w repository_admission_id source_sha desired_manifest_hash at =
     require (transition_time_ok at (wl_updated_at w)) ValueErr
    (require (text_ok repository_admission_id) ValueErr
    (require (text_ok desired_manifest_hash) ValueErr
    (require (repository_admission_id \<noteq> wl_repository_admission_id w) ValueErr
    (require (source_sha_ok source_sha \<and> source_sha \<noteq> wl_source_sha w) ValueErr
       (workload_post_init
          (w\<lparr>wl_repository_admission_id := repository_admission_id, wl_source_sha := source_sha,
             wl_desired_manifest_hash := desired_manifest_hash, wl_updated_at := at,
             wl_last_activity_at := Some at, wl_version := wl_version w + 1\<rparr>))))))"

lemma workload_post_init_Inr [res_simps]: "workload_post_init w = Inr v \<longleftrightarrow> workload_ok w \<and> v = w"
  by (auto simp: workload_post_init_def res_simps)

lemma source_sha_text_ok: "source_sha_ok s \<Longrightarrow> text_ok s"
  by (auto simp: source_sha_ok_def text_ok_def dest: is_hex_text_nonblank)

lemma workload_transition_state_Inr:
  assumes "workload_ok w"
  shows "workload_transition_state w target at = Inr v \<longleftrightarrow>
    transition_time_ok at (wl_updated_at w) \<and> target \<in> workload_transitions (wl_state w) \<and>
    v = w\<lparr>wl_state := target, wl_updated_at := at, wl_version := wl_version w + 1\<rparr>"
  using assms
  by (auto simp: workload_transition_state_def res_simps require_transition_defs workload_ok_def
      version_ok_Suc transition_time_utc timestamp_order_trans)

lemma record_activity_Inr:
  assumes "workload_ok w"
  shows "record_activity w at = Inr v \<longleftrightarrow>
    transition_time_ok at (wl_updated_at w) \<and>
    v = w\<lparr>wl_updated_at := at, wl_last_activity_at := Some at, wl_version := wl_version w + 1\<rparr>"
  using assms
  by (auto simp: record_activity_def res_simps workload_ok_def
      version_ok_Suc transition_time_utc timestamp_order_trans)

lemma advance_source_Inr:
  assumes "workload_ok w"
  shows "advance_source w aid sha manifest at = Inr v \<longleftrightarrow>
    transition_time_ok at (wl_updated_at w) \<and> text_ok aid \<and> text_ok manifest \<and>
    aid \<noteq> wl_repository_admission_id w \<and> source_sha_ok sha \<and> sha \<noteq> wl_source_sha w \<and>
    v = w\<lparr>wl_repository_admission_id := aid, wl_source_sha := sha,
          wl_desired_manifest_hash := manifest, wl_updated_at := at,
          wl_last_activity_at := Some at, wl_version := wl_version w + 1\<rparr>"
  using assms
  by (auto simp: advance_source_def res_simps workload_ok_def source_sha_text_ok
      version_ok_Suc transition_time_utc timestamp_order_trans)


lemma advance_source_fields:
  assumes "advance_source w aid sha manifest at = Inr v"
  shows "wl_id v = wl_id w \<and> wl_owner_id v = wl_owner_id w \<and> wl_state v = wl_state w \<and>
    wl_kind v = wl_kind w \<and> wl_repository_admission_id v = aid \<and> wl_source_sha v = sha \<and>
    wl_version v = wl_version w + 1 \<and> wl_updated_at v = at \<and> workload_ok v"
  using assms by (auto simp: advance_source_def res_simps)


section \<open>AppHostnameBinding\<close>

datatype binding_state = BindActive | BindDisabled | BindRetired

fun app_host_binding_transitions :: "binding_state \<Rightarrow> binding_state set" where
  "app_host_binding_transitions BindActive = {BindDisabled, BindRetired}"
| "app_host_binding_transitions BindDisabled = {BindActive, BindRetired}"
| "app_host_binding_transitions BindRetired = {}"

text \<open>Unlike the machines of \<^verbatim>\<open>states.py\<close> this one raises a plain ValueError.\<close>

definition require_app_hostname_binding_transition ::
    "binding_state \<Rightarrow> binding_state \<Rightarrow> unit res" where
  "require_app_hostname_binding_transition current target =
     (if target \<notin> app_host_binding_transitions current then Inl ValueErr else Inr ())"

record app_hostname_binding =
  bnd_public_host :: string
  bnd_workload_id :: workload_id
  bnd_owner_id :: user_id
  bnd_workload_kind :: workload_kind
  bnd_service_resource :: string
  bnd_upstream_url :: string
  bnd_upstream_audience :: string
  bnd_state :: binding_state
  bnd_created_at :: pytime
  bnd_updated_at :: pytime
  bnd_version :: int

definition binding_ok :: "app_hostname_binding \<Rightarrow> bool" where
  "binding_ok b \<longleftrightarrow>
     text_ok (bnd_public_host b) \<and> text_ok (bnd_workload_id b) \<and> text_ok (bnd_owner_id b) \<and>
     text_ok (bnd_service_resource b) \<and> text_ok (bnd_upstream_url b) \<and>
     text_ok (bnd_upstream_audience b) \<and>
     is_utc (bnd_created_at b) \<and> is_utc (bnd_updated_at b) \<and>
     timestamp_order_ok (bnd_created_at b) (bnd_updated_at b) \<and> version_ok (bnd_version b) \<and>
     (bnd_public_host b = strip (bnd_public_host b) \<and> is_casefolded (bnd_public_host b)) \<and>
     bnd_upstream_url b = bnd_upstream_audience b"

definition binding_post_init :: "app_hostname_binding \<Rightarrow> app_hostname_binding res" where
  "binding_post_init b = require (binding_ok b) ValueErr (Inr b)"

definition binding_transition_state ::
    "app_hostname_binding \<Rightarrow> binding_state \<Rightarrow> pytime \<Rightarrow> app_hostname_binding res" where
  "binding_transition_state b target at =
     require (transition_time_ok at (bnd_updated_at b)) ValueErr
       (bind_res (require_app_hostname_binding_transition (bnd_state b) target) (\<lambda>_.
          binding_post_init
            (b\<lparr>bnd_state := target, bnd_updated_at := at, bnd_version := bnd_version b + 1\<rparr>)))"

lemma require_app_hostname_binding_transition_Inr [res_simps, simp]:
  "require_app_hostname_binding_transition current target = Inr u \<longleftrightarrow>
     target \<in> app_host_binding_transitions current"
  by (simp add: require_app_hostname_binding_transition_def)

lemma binding_post_init_Inr [res_simps]: "binding_post_init b = Inr c \<longleftrightarrow> binding_ok b \<and> c = b"
  by (auto simp: binding_post_init_def res_simps)

lemma binding_transition_state_Inr:
  assumes "binding_ok b"
  shows "binding_transition_state b target at = Inr c \<longleftrightarrow>
    transition_time_ok at (bnd_updated_at b) \<and>
    target \<in> app_host_binding_transitions (bnd_state b) \<and>
    c = b\<lparr>bnd_state := target, bnd_updated_at := at, bnd_version := bnd_version b + 1\<rparr>"
  using assms
  by (auto simp: binding_transition_state_def res_simps binding_ok_def
      version_ok_Suc transition_time_utc timestamp_order_trans)

end
