(* ===== verification/PyCalendar.thy ===== *)
theory PyCalendar
  imports PyTime PyText
begin

text \<open>
  Calendar fields of a timestamp and the two text forms the program prints: \<^verbatim>\<open>isoformat()\<close> and
  \<^verbatim>\<open>strftime("%Y%m%dT%H%M%SZ")\<close>. Days are counted from 1970-01-01; the conversion to year, month
  and day works on 400-year eras that start on 1 March, so that the leap day is the last day of
  a year.
\<close>

section \<open>Civil dates\<close>

definition civil_of_days :: "int \<Rightarrow> int \<times> int \<times> int" where
  "civil_of_days n =
     (let z = n + 719468;
          era = z div 146097;
          doe = z mod 146097;
          yoe = (doe - doe div 1460 + doe div 36524 - doe div 146096) div 365;
          doy = doe - (365 * yoe + yoe div 4 - yoe div 100);
          mp = (5 * doy + 2) div 153;
          d = doy - (153 * mp + 2) div 5 + 1;
          m = (if mp < 10 then mp + 3 else mp - 9);
          y = yoe + era * 400 + (if m \<le> 2 then 1 else 0)
      in (y, m, d))"


section \<open>Fields and text forms\<close>

text \<open>Local microseconds: what the date and time fields of the value show.\<close>

fun local_micros :: "pytime \<Rightarrow> int" where
  "local_micros (Naive t) = t"
| "local_micros (Aware t off) = t + off"

definition year_month_of :: "pytime \<Rightarrow> int \<times> int" where
  "year_month_of t =
     (case civil_of_days (local_micros t div days 1) of (y, m, _) \<Rightarrow> (y, m))"

text \<open>Decimal with leading zeros to a width.\<close>

definition pad :: "nat \<Rightarrow> int \<Rightarrow> string" where
  "pad width n = (let s = show_nat (nat n) in replicate (width - length s) (CHR ''0'') @ s)"

definition clock_fields :: "int \<Rightarrow> int \<times> int \<times> int \<times> int" where
  "clock_fields us =
     (us div 3600000000 mod 24, us div 60000000 mod 60, us div 1000000 mod 60, us mod 1000000)"

definition offset_text :: "timedelta \<Rightarrow> string" where
  "offset_text off =
     (case clock_fields \<bar>off\<bar> of (h, m, s, us) \<Rightarrow>
        (if off < 0 then ''-'' else ''+'') @ pad 2 h @ '':'' @ pad 2 m
          @ (if s = 0 \<and> us = 0 then [] else '':'' @ pad 2 s @ (if us = 0 then [] else ''.'' @ pad 6 us)))"

definition isoformat :: "pytime \<Rightarrow> string" where
  "isoformat t =
     (case (civil_of_days (local_micros t div days 1), clock_fields (local_micros t)) of
        ((y, mo, d), (h, m, s, us)) \<Rightarrow>
          pad 4 y @ ''-'' @ pad 2 mo @ ''-'' @ pad 2 d @ ''T'' @ pad 2 h @ '':'' @ pad 2 m @ '':'' @ pad 2 s
            @ (if us = 0 then [] else ''.'' @ pad 6 us)
            @ (case t of Naive _ \<Rightarrow> [] | Aware _ off \<Rightarrow> offset_text off))"

text \<open>\<^verbatim>\<open>%Y\<close> is not padded by the C library the program runs on.\<close>

definition stamp :: "pytime \<Rightarrow> string" where
  "stamp t =
     (case (civil_of_days (local_micros t div days 1), clock_fields (local_micros t)) of
        ((y, mo, d), (h, m, s, us)) \<Rightarrow>
          show_int y @ pad 2 mo @ pad 2 d @ ''T'' @ pad 2 h @ pad 2 m @ pad 2 s @ ''Z'')"

end
