(* ===== verification/Sha256.thy ===== *)
theory Sha256
  imports PyText "HOL-Library.Word"
begin

unbundle bit_operations_syntax

text \<open>
  \<^verbatim>\<open>hashlib.sha256(data).hexdigest()\<close>, the one hash function of the control plane, as FIPS 180-4
  defines it: padding to 64-byte blocks, the message schedule, 64 rounds of compression per
  block on eight 32-bit words, and the digest in lower-case hexadecimal.
\<close>

type_synonym u32 = "32 word"

definition rotr :: "nat \<Rightarrow> u32 \<Rightarrow> u32" where
  "rotr n x = (drop_bit n x) OR (push_bit (32 - n) x)"

definition sha_k :: "u32 list" where
  "sha_k =
     [1116352408, 1899447441, 3049323471, 3921009573, 961987163, 1508970993,
      2453635748, 2870763221, 3624381080, 310598401, 607225278, 1426881987,
      1925078388, 2162078206, 2614888103, 3248222580, 3835390401, 4022224774,
      264347078, 604807628, 770255983, 1249150122, 1555081692, 1996064986,
      2554220882, 2821834349, 2952996808, 3210313671, 3336571891, 3584528711,
      113926993, 338241895, 666307205, 773529912, 1294757372, 1396182291,
      1695183700, 1986661051, 2177026350, 2456956037, 2730485921, 2820302411,
      3259730800, 3345764771, 3516065817, 3600352804, 4094571909, 275423344,
      430227734, 506948616, 659060556, 883997877, 958139571, 1322822218,
      1537002063, 1747873779, 1955562222, 2024104815, 2227730452, 2361852424,
      2428436474, 2756734187, 3204031479, 3329325298]"

definition sha_init :: "u32 list" where
  "sha_init =
     [1779033703, 3144134277, 1013904242, 2773480762, 1359893119, 2600822924,
      528734635, 1541459225]"

text \<open>The last eight bytes of the padded message: its length in bits, big-endian.\<close>

fun be_bytes :: "nat \<Rightarrow> nat \<Rightarrow> bytes" where
  "be_bytes 0 n = []"
| "be_bytes (Suc k) n = be_bytes k (n div 256) @ [char_of (n mod 256)]"

definition sha_pad :: "bytes \<Rightarrow> bytes" where
  "sha_pad m =
     m @ [char_of (128 :: nat)] @ replicate ((55 + 63 * length m) mod 64) (char_of (0 :: nat))
       @ be_bytes 8 (8 * length m)"

fun be_words :: "bytes \<Rightarrow> u32 list" where
  "be_words (a # b # c # d # bs) =
     (push_bit 24 (of_char a) OR push_bit 16 (of_char b) OR push_bit 8 (of_char c) OR of_char d)
       # be_words bs"
| "be_words _ = []"

text \<open>
  The schedule, kept newest first: each new word comes from the words 16, 15, 7 and 2 places
  before it.
\<close>

fun sha_extend :: "nat \<Rightarrow> u32 list \<Rightarrow> u32 list" where
  "sha_extend 0 ws = ws"
| "sha_extend (Suc n) ws =
     (let w15 = ws ! 14; w2 = ws ! 1;
          s0 = rotr 7 w15 XOR rotr 18 w15 XOR drop_bit 3 w15;
          s1 = rotr 17 w2 XOR rotr 19 w2 XOR drop_bit 10 w2
      in sha_extend n ((ws ! 15 + s0 + ws ! 6 + s1) # ws))"

fun sha_round :: "u32 \<times> u32 \<Rightarrow> u32 list \<Rightarrow> u32 list" where
  "sha_round (k, w) [a, b, c, d, e, f, g, h] =
     (let t1 = h + (rotr 6 e XOR rotr 11 e XOR rotr 25 e)
                 + ((e AND f) XOR ((NOT e) AND g)) + k + w;
          t2 = (rotr 2 a XOR rotr 13 a XOR rotr 22 a)
                 + ((a AND b) XOR (a AND c) XOR (b AND c))
      in [t1 + t2, a, b, c, d + t1, e, f, g])"
| "sha_round _ hs = hs"

definition sha_block :: "u32 list \<Rightarrow> u32 list \<Rightarrow> u32 list" where
  "sha_block ws hs =
     map2 (+) hs (fold sha_round (zip sha_k (rev (sha_extend 48 (rev ws)))) hs)"

fun sha_blocks :: "nat \<Rightarrow> u32 list \<Rightarrow> u32 list \<Rightarrow> u32 list" where
  "sha_blocks 0 ws hs = hs"
| "sha_blocks (Suc n) ws hs = sha_blocks n (drop 16 ws) (sha_block (take 16 ws) hs)"

definition hex_char :: "nat \<Rightarrow> char" where
  "hex_char d = (if d < 10 then char_of (48 + d) else char_of (87 + d))"

fun hex_digits :: "nat \<Rightarrow> nat \<Rightarrow> string" where
  "hex_digits 0 n = []"
| "hex_digits (Suc k) n = hex_digits k (n div 16) @ [hex_char (n mod 16)]"

definition sha256_hex :: "bytes \<Rightarrow> string" where
  "sha256_hex m =
     (let ws = be_words (sha_pad m)
      in concat (map (\<lambda>w. hex_digits 8 (unat w)) (sha_blocks (length ws div 16) ws sha_init)))"


section \<open>The shape of a digest\<close>

lemma hex_char_lower_hex: "d < 16 \<Longrightarrow> is_lower_hex (hex_char d)"
  by (auto simp: hex_char_def is_lower_hex_def is_digit_code_point less_eq_char_def)

lemma hex_digits_length [simp]: "length (hex_digits k n) = k"
  by (induction k n rule: hex_digits.induct) auto

lemma hex_digits_lower_hex: "list_all is_lower_hex (hex_digits k n)"
  by (induction k n rule: hex_digits.induct) (auto simp: hex_char_lower_hex)

lemma sha_round_length: "length (sha_round kw hs) = length hs"
  by (induction kw hs rule: sha_round.induct) (auto simp: Let_def)

lemma fold_sha_round_length: "length (fold sha_round kws hs) = length hs"
  by (induction kws arbitrary: hs) (auto simp: sha_round_length)

lemma sha_blocks_length: "length (sha_blocks n ws hs) = length hs"
  by (induction n ws hs rule: sha_blocks.induct)
    (auto simp: sha_block_def fold_sha_round_length)

lemma sha256_hex_text: "is_hex_text 64 (sha256_hex m)"
proof -
  have len: "length (concat (map (\<lambda>w. hex_digits 8 (f w)) ws)) = 8 * length ws"
    for f and ws :: "u32 list"
    by (induction ws) auto
  have hex: "list_all is_lower_hex (concat (map (\<lambda>w. hex_digits 8 (f w)) ws))"
    for f and ws :: "u32 list"
    by (induction ws) (auto simp: hex_digits_lower_hex)
  show ?thesis
    unfolding is_hex_text_def sha256_hex_def Let_def
    by (simp only: len hex sha_blocks_length) (simp add: sha_init_def)
qed

lemma sha256_hex_nonblank: "nonblank (sha256_hex m)"
  using sha256_hex_text by (rule is_hex_text_nonblank) simp


end
