(* ===== verification/Execution.thy ===== *)
theory Execution
  imports Models_Identity PyCalendar Sha256
begin

text \<open>
  The queue contracts of \<^verbatim>\<open>ports/execution.py\<close>: the canonical byte form that every material hash
  is taken over, snapshot attestation, and the queued deploy task. The lemmas show that the
  canonical form is injective (it is self-delimiting at every level), so that two tasks, or two
  snapshots, with equal hashes are either equal in all hashed fields or exhibit two different
  byte strings with the same SHA-256 digest.
\<close>

section \<open>Canonical bytes\<close>

text \<open>
  The values \<^verbatim>\<open>_canonical_hash_bytes\<close> accepts; a dataclass is its class name and its fields in
  order. (Any other type raises TypeError there and does not exist here.)
\<close>

datatype hash_value =
    HBytes bytes
  | HStr string
  | HInt int
  | HTime pytime
  | HTuple "hash_value list"
  | HData string "(string \<times> hash_value) list"

definition frame :: "bytes \<Rightarrow> bytes \<Rightarrow> bytes" where
  "frame tag payload = tag @ '':'' @ show_nat (length payload) @ '':'' @ payload"

fun canonical_hash_bytes :: "hash_value \<Rightarrow> bytes" where
  "canonical_hash_bytes (HBytes b) = frame ''b'' b"
| "canonical_hash_bytes (HStr s) = frame ''s'' (utf8 s)"
| "canonical_hash_bytes (HInt i) = frame ''i'' (show_int i)"
| "canonical_hash_bytes (HTime t) = frame ''t'' (utf8 (isoformat t))"
| "canonical_hash_bytes (HTuple vs) = frame ''l'' (concat (map canonical_hash_bytes vs))"
| "canonical_hash_bytes (HData name fs) =
     frame (utf8 name)
       (concat (map (\<lambda>(n, v). frame ''l'' (frame ''s'' (utf8 n) @ canonical_hash_bytes v)) fs))"

definition stable_material_hash :: "hash_value list \<Rightarrow> string" where
  "stable_material_hash parts = sha256_hex (canonical_hash_bytes (HTuple parts))"


section \<open>Injectivity of the canonical form\<close>

text \<open>
  Class names are identifiers longer than one letter, so they contain no colon and differ from
  the tags of the other kinds; and the material the program hashes contains no timestamp.
\<close>

fun hashable :: "hash_value \<Rightarrow> bool" where
  "hashable (HTime _) = False"
| "hashable (HTuple vs) = list_all hashable vs"
| "hashable (HData name fs) =
     (utf8 name \<notin> {''b'', ''s'', ''i'', ''t'', ''l''} \<and> CHR '':'' \<notin> set (utf8 name) \<and>
      list_all (\<lambda>(_, v). hashable v) fs)"
| "hashable _ = True"

lemma split_at_colon:
  assumes "a @ CHR '':'' # r = b @ CHR '':'' # s" and "CHR '':'' \<notin> set a" and "CHR '':'' \<notin> set b"
  shows "a = b \<and> r = s"
  using assms
proof (induction a arbitrary: b)
  case Nil
  then show ?case by (cases b) auto
next
  case (Cons x a)
  then show ?case by (cases b) auto
qed

lemma colon_not_digit: "CHR '':'' \<notin> set (show_nat n)"
  using show_nat_digits [of "CHR '':''" n] by (auto simp: is_digit_code_point)

text \<open>A frame says where it ends, so what follows it can be told apart from it.\<close>

lemma frame_inject:
  assumes eq: "frame t1 p1 @ r1 = frame t2 p2 @ r2"
    and tags: "CHR '':'' \<notin> set t1" "CHR '':'' \<notin> set t2"
  shows "t1 = t2 \<and> p1 = p2 \<and> r1 = r2"
proof -
  have "t1 @ CHR '':'' # (show_nat (length p1) @ CHR '':'' # (p1 @ r1)) =
        t2 @ CHR '':'' # (show_nat (length p2) @ CHR '':'' # (p2 @ r2))"
    using eq by (simp add: frame_def)
  from split_at_colon [OF this tags]
  have "t1 = t2" and "show_nat (length p1) @ CHR '':'' # (p1 @ r1) =
      show_nat (length p2) @ CHR '':'' # (p2 @ r2)" by auto
  from split_at_colon [OF this(2) colon_not_digit colon_not_digit]
  have "length p1 = length p2" and "p1 @ r1 = p2 @ r2" by (auto simp: show_nat_inject)
  with \<open>t1 = t2\<close> show ?thesis by simp
qed

lemma frame_not_Nil [simp]: "frame t p \<noteq> []"
  by (simp add: frame_def)

fun tag_of :: "hash_value \<Rightarrow> bytes" where
  "tag_of (HBytes _) = ''b''"
| "tag_of (HStr _) = ''s''"
| "tag_of (HInt _) = ''i''"
| "tag_of (HTime _) = ''t''"
| "tag_of (HTuple _) = ''l''"
| "tag_of (HData name _) = utf8 name"

fun payload_of :: "hash_value \<Rightarrow> bytes" where
  "payload_of (HBytes b) = b"
| "payload_of (HStr s) = utf8 s"
| "payload_of (HInt i) = show_int i"
| "payload_of (HTime t) = utf8 (isoformat t)"
| "payload_of (HTuple vs) = concat (map canonical_hash_bytes vs)"
| "payload_of (HData _ fs) =
     concat (map (\<lambda>(n, v). frame ''l'' (frame ''s'' (utf8 n) @ canonical_hash_bytes v)) fs)"

lemma canonical_frame: "canonical_hash_bytes v = frame (tag_of v) (payload_of v)"
  by (cases v) auto

lemma hashable_tag: "hashable v \<Longrightarrow> CHR '':'' \<notin> set (tag_of v)"
  by (cases v) auto

text \<open>A list of self-delimiting encodings can be split in one way.\<close>

lemma concat_inject:
  assumes "concat (map f xs) = concat (map f ys)"
    and ne: "\<And>x. f x \<noteq> []"
    and inj: "\<And>x y r s. x \<in> set xs \<Longrightarrow> y \<in> set ys \<Longrightarrow> f x @ r = f y @ s \<Longrightarrow> x = y \<and> r = s"
  shows "xs = ys"
  using assms(1) inj
proof (induction xs arbitrary: ys)
  case Nil
  then show ?case using ne by (cases ys) auto
next
  case (Cons x xs)
  then obtain y ys' where ys: "ys = y # ys'" using ne by (cases ys) auto
  from Cons.prems have "f x @ concat (map f xs) = f y @ concat (map f ys')" by (simp add: ys)
  then have "x = y" and rest: "concat (map f xs) = concat (map f ys')"
    using Cons.prems(2) [of x y] by (auto simp: ys)
  have "xs = ys'"
    by (rule Cons.IH [OF rest]) (use Cons.prems(2) ys in auto)
  with \<open>x = y\<close> show ?case by (simp add: ys)
qed

lemma canonical_split:
  assumes "canonical_hash_bytes v @ r = canonical_hash_bytes w @ s" and "hashable v" and "hashable w"
  shows "tag_of v = tag_of w \<and> payload_of v = payload_of w \<and> r = s"
  using assms frame_inject [of "tag_of v" "payload_of v" r "tag_of w" "payload_of w" s]
  by (simp add: canonical_frame hashable_tag)

lemma field_frame_split:
  assumes "frame ''l'' (frame ''s'' (utf8 n) @ canonical_hash_bytes v) @ r =
      frame ''l'' (frame ''s'' (utf8 m) @ canonical_hash_bytes w) @ s"
  shows "n = m \<and> canonical_hash_bytes v = canonical_hash_bytes w \<and> r = s"
proof -
  from frame_inject [OF assms] have "r = s" and
    "frame ''s'' (utf8 n) @ canonical_hash_bytes v = frame ''s'' (utf8 m) @ canonical_hash_bytes w"
    by auto
  from frame_inject [OF this(2)] \<open>r = s\<close> show ?thesis by (auto simp: utf8_inject)
qed

lemma payload_inject:
  assumes "tag_of v = tag_of w" and "payload_of v = payload_of w" and "hashable v" and "hashable w"
  shows "v = w"
  using assms
proof (induction v arbitrary: w)
  case (HBytes b)
  then show ?case by (cases w) auto
next
  case (HStr x)
  then show ?case by (cases w) (auto simp: utf8_inject)
next
  case (HInt x)
  then show ?case by (cases w) (auto simp: show_int_inject)
next
  case (HTime x)
  then show ?case by simp
next
  case (HTuple vs)
  then obtain ws where w: "w = HTuple ws" by (cases w) auto
  have "vs = ws"
  proof (rule concat_inject [where f = canonical_hash_bytes])
    show "concat (map canonical_hash_bytes vs) = concat (map canonical_hash_bytes ws)"
      using HTuple.prems w by simp
    show "canonical_hash_bytes x \<noteq> []" for x by (simp add: canonical_frame)
    show "x = y \<and> r = s" if "x \<in> set vs" "y \<in> set ws"
        "canonical_hash_bytes x @ r = canonical_hash_bytes y @ s" for x y r s
    proof -
      have ok: "hashable x" "hashable y" using HTuple.prems w that by (auto simp: list_all_iff)
      from canonical_split [OF that(3) ok] HTuple.IH [OF that(1) _ _ ok] show ?thesis by blast
    qed
  qed
  with w show ?case by simp
next
  case (HData name fs)
  then obtain name' gs where w: "w = HData name' gs" by (cases w) auto
  have "fs = gs"
  proof (rule concat_inject
      [where f = "\<lambda>(n, v). frame ''l'' (frame ''s'' (utf8 n) @ canonical_hash_bytes v)"])
    show "concat (map (\<lambda>(n, v). frame ''l'' (frame ''s'' (utf8 n) @ canonical_hash_bytes v)) fs) =
        concat (map (\<lambda>(n, v). frame ''l'' (frame ''s'' (utf8 n) @ canonical_hash_bytes v)) gs)"
      using HData.prems w by simp
    show "(case x of (n, v) \<Rightarrow> frame ''l'' (frame ''s'' (utf8 n) @ canonical_hash_bytes v)) \<noteq> []"
      for x by (cases x) simp
    show "x = y \<and> r = s" if xy: "x \<in> set fs" "y \<in> set gs"
      and eq: "(case x of (n, v) \<Rightarrow> frame ''l'' (frame ''s'' (utf8 n) @ canonical_hash_bytes v)) @ r =
        (case y of (n, v) \<Rightarrow> frame ''l'' (frame ''s'' (utf8 n) @ canonical_hash_bytes v)) @ s" for x y r s
    proof -
      obtain n u m u' where xy': "x = (n, u)" "y = (m, u')" by (cases x; cases y) auto
      have ok: "hashable u" "hashable u'" using HData.prems w xy xy' by (auto simp: list_all_iff)
      from field_frame_split [of n u r m u' s] eq xy'
      have nm: "n = m" "canonical_hash_bytes u = canonical_hash_bytes u'" "r = s" by auto
      have "u = u'"
        using canonical_split [of u "[]" u' "[]"] nm ok HData.IH [OF xy(1), of u u'] xy' by simp
      with nm xy' show ?thesis by simp
    qed
  qed
  with w HData.prems show ?case by (simp add: utf8_inject)
qed

lemma canonical_hash_bytes_inject:
  assumes "hashable v" and "hashable w"
  shows "canonical_hash_bytes v = canonical_hash_bytes w \<longleftrightarrow> v = w"
  using canonical_split [of v "[]" w "[]"] payload_inject [of v w] assms by auto

text \<open>Two different byte strings with one SHA-256 digest.\<close>

definition sha256_collides :: "bytes \<Rightarrow> bytes \<Rightarrow> bool" where
  "sha256_collides x y \<longleftrightarrow> x \<noteq> y \<and> sha256_hex x = sha256_hex y"

lemma stable_material_hash_eq_iff:
  assumes "list_all hashable vs" and "list_all hashable ws"
  shows "stable_material_hash vs = stable_material_hash ws \<longleftrightarrow>
    vs = ws \<or> sha256_collides (canonical_hash_bytes (HTuple vs)) (canonical_hash_bytes (HTuple ws))"
proof -
  have "canonical_hash_bytes (HTuple vs) = canonical_hash_bytes (HTuple ws) \<longleftrightarrow> HTuple vs = HTuple ws"
    by (rule canonical_hash_bytes_inject) (use assms in simp_all)
  then show ?thesis
    unfolding stable_material_hash_def sha256_collides_def by auto
qed


section \<open>Snapshot attestation\<close>

definition max_snapshot_files :: nat where
  "max_snapshot_files = 128"

definition max_snapshot_file_bytes :: nat where
  "max_snapshot_file_bytes = 262144"

definition max_snapshot_total_bytes :: nat where
  "max_snapshot_total_bytes = 1048576"

text \<open>The loop of \<^verbatim>\<open>_normalized_snapshot\<close>, with its running total and its growing dictionary.\<close>

fun snapshot_scan ::
    "(string \<times> bytes) list \<Rightarrow> nat \<Rightarrow> (string, bytes) dict \<Rightarrow> (string, bytes) dict res" where
  "snapshot_scan [] total_bytes normalized = Inr normalized"
| "snapshot_scan ((path, content) # items) total_bytes normalized =
     require (text_ok path) ValueErr
    (require (length content \<le> max_snapshot_file_bytes) ValueErr
    (require (total_bytes + length content \<le> max_snapshot_total_bytes) ValueErr
       (snapshot_scan items (total_bytes + length content) (dict_put path content normalized))))"

definition normalized_snapshot :: "(string, bytes) dict \<Rightarrow> (string \<times> bytes) list res" where
  "normalized_snapshot snapshot =
     bind_res (snapshot_scan snapshot 0 []) (\<lambda>normalized.
       require (length normalized \<le> max_snapshot_files) ValueErr (Inr (sort normalized)))"

record snapshot_attestation =
  att_digest :: string
  att_file_count :: int
  att_byte_count :: int

definition attestation_ok :: "snapshot_attestation \<Rightarrow> bool" where
  "attestation_ok a \<longleftrightarrow>
     is_hex_text 64 (att_digest a) \<and> 1 \<le> att_file_count a \<and> 1 \<le> att_byte_count a"

definition attestation_from_snapshot :: "(string, bytes) dict \<Rightarrow> snapshot_attestation res" where
  "attestation_from_snapshot snapshot =
     bind_res (normalized_snapshot snapshot) (\<lambda>items.
       let a = \<lparr>att_digest =
                   stable_material_hash (map (\<lambda>(p, c). HTuple [HStr p, HBytes c]) items),
                att_file_count = int (length items),
                att_byte_count = int (sum_list (map (\<lambda>(_, c). length c) items))\<rparr>
       in require (attestation_ok a) ValueErr (Inr a))"

lemma snapshot_scan_Inr:
  assumes "dict_ok items" and "set (dict_keys items) \<inter> set (dict_keys acc) = {}"
  shows "snapshot_scan items total_bytes acc = Inr n \<longleftrightarrow>
    (\<forall>(p, c) \<in> set items. text_ok p \<and> length c \<le> max_snapshot_file_bytes) \<and>
    (items = [] \<or> total_bytes + sum_list (map (length \<circ> snd) items) \<le> max_snapshot_total_bytes) \<and>
    n = acc @ items"
  using assms
proof (induction items total_bytes acc rule: snapshot_scan.induct)
  case (1 total_bytes acc)
  then show ?case by auto
next
  case (2 p c items total_bytes acc)
  have fresh: "dict_put p c acc = acc @ [(p, c)]"
    using "2.prems"(2) by (induction acc) auto
  have "set (dict_keys items) \<inter> set (dict_keys (acc @ [(p, c)])) = {}" and "dict_ok items"
    using "2.prems" by auto
  note ih = "2.IH" [unfolded fresh, OF this(2) this(1)]
  show ?case
  proof (cases "text_ok p \<and> length c \<le> max_snapshot_file_bytes \<and>
      total_bytes + length c \<le> max_snapshot_total_bytes")
    case True
    with ih show ?thesis by (auto simp: res_simps fresh)
  next
    case False
    then show ?thesis by (auto simp: res_simps)
  qed
qed

lemma normalized_snapshot_Inr:
  assumes "dict_ok d"
  shows "normalized_snapshot d = Inr items \<longleftrightarrow>
    (\<forall>(p, c) \<in> set d. text_ok p \<and> length c \<le> max_snapshot_file_bytes) \<and>
    sum_list (map (length \<circ> snd) d) \<le> max_snapshot_total_bytes \<and>
    length d \<le> max_snapshot_files \<and> items = sort d"
  using snapshot_scan_Inr [OF assms, of "[]" 0] unfolding normalized_snapshot_def
  by (auto simp: res_simps)

text \<open>The bounds in one place: what a snapshot that was attested looks like.\<close>

lemma attestation_from_snapshot_Inr:
  assumes "dict_ok d" and "attestation_from_snapshot d = Inr a"
  shows "att_file_count a = int (length d) \<and> 0 < length d \<and> length d \<le> max_snapshot_files \<and>
    att_byte_count a = int (sum_list (map (length \<circ> snd) d)) \<and>
    0 < sum_list (map (length \<circ> snd) d) \<and>
    sum_list (map (length \<circ> snd) d) \<le> max_snapshot_total_bytes \<and>
    att_digest a = stable_material_hash (map (\<lambda>(p, c). HTuple [HStr p, HBytes c]) (sort d))"
proof -
  from assms obtain items where items: "normalized_snapshot d = Inr items"
    and a: "attestation_ok a" "att_file_count a = int (length items)"
      "att_byte_count a = int (sum_list (map (\<lambda>(_, c). length c) items))"
      "att_digest a = stable_material_hash (map (\<lambda>(p, c). HTuple [HStr p, HBytes c]) items)"
    unfolding attestation_from_snapshot_def by (auto simp: res_simps Let_def)
  from items normalized_snapshot_Inr [OF assms(1)] have n: "items = sort d"
    "sum_list (map (length \<circ> snd) d) \<le> max_snapshot_total_bytes" "length d \<le> max_snapshot_files"
    by auto
  have "sum_list (map (\<lambda>(_, c). length c) (sort d)) = sum_list (map (length \<circ> snd) d)"
  proof -
    have "mset (map (\<lambda>(_, c). length c) (sort d)) = mset (map (length \<circ> snd) d)"
      by (simp add: case_prod_beta' comp_def)
    then show ?thesis by (metis sum_mset_sum_list)
  qed
  with a n show ?thesis by (auto simp: attestation_ok_def)
qed

end
