(* ===== verification/Models_Work.thy ===== *)
theory Models_Work
  imports Models_Identity
begin

text \<open>
  \<^verbatim>\<open>DeploymentPlan\<close>, \<^verbatim>\<open>Operation\<close> and \<^verbatim>\<open>Schedule\<close> of \<^verbatim>\<open>domain/models.py\<close>: the records a
  mutation goes through, with their validation and their transitions.
\<close>

definition summary_ok :: "(string \<times> string) list \<Rightarrow> bool" where
  "summary_ok items = list_all (\<lambda>(key, value). text_ok key \<and> text_ok value) items"

section \<open>DeploymentPlan\<close>

record deployment_plan =
  pln_id :: plan_id
  pln_actor_id :: user_id
  pln_workload_id :: "workload_id option"
  pln_action :: string
  pln_material_hash :: string
  pln_policy_version :: string
  pln_state :: plan_state
  pln_expires_at :: pytime
  pln_created_at :: pytime
  pln_updated_at :: pytime
  pln_sanitized_summary :: "(string \<times> string) list"
  pln_version :: int

definition plan_ok :: "deployment_plan \<Rightarrow> bool" where
  "plan_ok p \<longleftrightarrow>
     text_ok (pln_id p) \<and> text_ok (pln_actor_id p) \<and> opt_text_ok (pln_workload_id p) \<and>
     text_ok (pln_action p) \<and> text_ok (pln_material_hash p) \<and> text_ok (pln_policy_version p) \<and>
     summary_ok (pln_sanitized_summary p) \<and>
     is_utc (pln_expires_at p) \<and> is_utc (pln_created_at p) \<and> is_utc (pln_updated_at p) \<and>
     timestamp_order_ok (pln_created_at p) (pln_updated_at p) \<and>
     \<not> time_leq (pln_expires_at p) (pln_created_at p) \<and>
     version_ok (pln_version p)"

definition plan_post_init :: "deployment_plan \<Rightarrow> deployment_plan res" where
  "plan_post_init p = require (plan_ok p) ValueErr (Inr p)"

definition plan_transition_state ::
    "deployment_plan \<Rightarrow> plan_state \<Rightarrow> pytime \<Rightarrow> deployment_plan res" where
  "plan_transition_state p target at =
     require (transition_time_ok at (pln_updated_at p)) ValueErr
       (bind_res (require_plan_transition (pln_state p) target) (\<lambda>_.
          plan_post_init
            (p\<lparr>pln_state := target, pln_updated_at := at, pln_version := pln_version p + 1\<rparr>)))"

lemma plan_post_init_Inr [res_simps]: "plan_post_init p = Inr q \<longleftrightarrow> plan_ok p \<and> q = p"
  by (auto simp: plan_post_init_def res_simps)

lemma plan_transition_state_Inr:
  assumes "plan_ok p"
  shows "plan_transition_state p target at = Inr q \<longleftrightarrow>
    transition_time_ok at (pln_updated_at p) \<and> target \<in> plan_transitions (pln_state p) \<and>
    q = p\<lparr>pln_state := target, pln_updated_at := at, pln_version := pln_version p + 1\<rparr>"
  using assms
  by (auto simp: plan_transition_state_def res_simps require_transition_defs plan_ok_def
      version_ok_Suc transition_time_utc timestamp_order_trans)

text \<open>What a transition does whether or not its source was validated.\<close>

lemma plan_transition_state_fields:
  assumes "plan_transition_state p target at = Inr q"
  shows "q = p\<lparr>pln_state := target, pln_updated_at := at, pln_version := pln_version p + 1\<rparr> \<and>
    plan_ok q \<and> target \<in> plan_transitions (pln_state p)"
  using assms by (auto simp: plan_transition_state_def res_simps require_transition_defs)


section \<open>Operation\<close>

record operation =
  op_id :: operation_id
  op_actor_id :: user_id
  op_workload_id :: "workload_id option"
  op_action :: string
  op_idempotency_key :: string
  op_request_hash :: string
  op_state :: operation_state
  op_created_at :: pytime
  op_updated_at :: pytime
  op_sanitized_failure :: "string option"
  op_result_summary :: "(string \<times> string) list"
  op_version :: int

definition operation_ok :: "operation \<Rightarrow> bool" where
  "operation_ok p \<longleftrightarrow>
     text_ok (op_id p) \<and> text_ok (op_actor_id p) \<and> opt_text_ok (op_workload_id p) \<and>
     text_ok (op_action p) \<and> text_ok (op_idempotency_key p) \<and> text_ok (op_request_hash p) \<and>
     opt_text_ok (op_sanitized_failure p) \<and> summary_ok (op_result_summary p) \<and>
     is_utc (op_created_at p) \<and> is_utc (op_updated_at p) \<and>
     timestamp_order_ok (op_created_at p) (op_updated_at p) \<and> version_ok (op_version p)"

definition operation_post_init :: "operation \<Rightarrow> operation res" where
  "operation_post_init p = require (operation_ok p) ValueErr (Inr p)"

definition operation_transition ::
    "operation \<Rightarrow> operation_state \<Rightarrow> pytime \<Rightarrow> string option \<Rightarrow> operation res" where
  "operation_transition p target at sanitized_failure =
     require (transition_time_ok at (op_updated_at p)) ValueErr
       (bind_res (require_operation_transition (op_state p) target) (\<lambda>_.
          operation_post_init
            (p\<lparr>op_state := target, op_updated_at := at,
               op_sanitized_failure := sanitized_failure, op_version := op_version p + 1\<rparr>)))"

definition record_result ::
    "operation \<Rightarrow> (string \<times> string) list \<Rightarrow> pytime \<Rightarrow> operation res" where
  "record_result p result_summary at =
     require (transition_time_ok at (op_updated_at p)) ValueErr
    (require (op_state p = OpSucceeded) ValueErr
       (operation_post_init
          (p\<lparr>op_result_summary := result_summary, op_updated_at := at,
             op_version := op_version p + 1\<rparr>)))"

lemma operation_post_init_Inr [res_simps]:
  "operation_post_init p = Inr q \<longleftrightarrow> operation_ok p \<and> q = p"
  by (auto simp: operation_post_init_def res_simps)

lemma operation_transition_Inr:
  assumes "operation_ok p"
  shows "operation_transition p target at failure = Inr q \<longleftrightarrow>
    transition_time_ok at (op_updated_at p) \<and> target \<in> operation_transitions (op_state p) \<and>
    opt_text_ok failure \<and>
    q = p\<lparr>op_state := target, op_updated_at := at, op_sanitized_failure := failure,
          op_version := op_version p + 1\<rparr>"
  using assms
  by (auto simp: operation_transition_def res_simps require_transition_defs operation_ok_def
      version_ok_Suc transition_time_utc timestamp_order_trans)

lemma record_result_Inr:
  assumes "operation_ok p"
  shows "record_result p summary at = Inr q \<longleftrightarrow>
    transition_time_ok at (op_updated_at p) \<and> op_state p = OpSucceeded \<and> summary_ok summary \<and>
    q = p\<lparr>op_result_summary := summary, op_updated_at := at, op_version := op_version p + 1\<rparr>"
  using assms
  by (auto simp: record_result_def res_simps operation_ok_def
      version_ok_Suc transition_time_utc timestamp_order_trans)


section \<open>Schedule\<close>

record schedule =
  sch_id :: schedule_id
  sch_owner_id :: user_id
  sch_workload_id :: workload_id
  sch_cron :: string
  sch_timezone :: string
  sch_state :: schedule_state
  sch_created_at :: pytime
  sch_updated_at :: pytime
  sch_consecutive_failures :: int
  sch_lease_token :: "string option"
  sch_lease_expires_at :: "pytime option"
  sch_last_attempt_at :: "pytime option"
  sch_last_success_at :: "pytime option"
  sch_version :: int

definition schedule_ok :: "schedule \<Rightarrow> bool" where
  "schedule_ok s \<longleftrightarrow>
     text_ok (sch_id s) \<and> text_ok (sch_owner_id s) \<and> text_ok (sch_workload_id s) \<and>
     text_ok (sch_cron s) \<and> text_ok (sch_timezone s) \<and>
     non_negative_ok (sch_consecutive_failures s) \<and> opt_text_ok (sch_lease_token s) \<and>
     is_utc (sch_created_at s) \<and> is_utc (sch_updated_at s) \<and>
     utc_ok (sch_lease_expires_at s) \<and> utc_ok (sch_last_attempt_at s) \<and>
     utc_ok (sch_last_success_at s) \<and>
     timestamp_order_ok (sch_created_at s) (sch_updated_at s) \<and> version_ok (sch_version s)"

definition schedule_post_init :: "schedule \<Rightarrow> schedule res" where
  "schedule_post_init s = require (schedule_ok s) ValueErr (Inr s)"

definition schedule_transition_state :: "schedule \<Rightarrow> schedule_state \<Rightarrow> pytime \<Rightarrow> schedule res" where
  "schedule_transition_state s target at =
     require (transition_time_ok at (sch_updated_at s)) ValueErr
       (bind_res (require_schedule_transition (sch_state s) target) (\<lambda>_.
          schedule_post_init
            (s\<lparr>sch_state := target, sch_updated_at := at, sch_version := sch_version s + 1\<rparr>)))"

lemma schedule_post_init_Inr [res_simps]: "schedule_post_init s = Inr t \<longleftrightarrow> schedule_ok s \<and> t = s"
  by (auto simp: schedule_post_init_def res_simps)

lemma schedule_transition_state_Inr:
  assumes "schedule_ok s"
  shows "schedule_transition_state s target at = Inr t \<longleftrightarrow>
    transition_time_ok at (sch_updated_at s) \<and> target \<in> schedule_transitions (sch_state s) \<and>
    t = s\<lparr>sch_state := target, sch_updated_at := at, sch_version := sch_version s + 1\<rparr>"
  using assms
  by (auto simp: schedule_transition_state_def res_simps require_transition_defs schedule_ok_def
      version_ok_Suc transition_time_utc timestamp_order_trans)

end
