(* ===== verification/DeployTask.thy ===== *)
theory DeployTask
  imports Execution Models_Work
begin

text \<open>
  The queued deploy task of \<^verbatim>\<open>ports/execution.py\<close>, its material hash, and the build source a
  worker derives from a task and the admission it names.
\<close>

section \<open>Records\<close>

record secret_attachment_reference =
  sar_secret_id :: string
  sar_secret_version :: int
  sar_metadata_version :: int

definition attachment_reference_ok :: "secret_attachment_reference \<Rightarrow> bool" where
  "attachment_reference_ok a \<longleftrightarrow>
     text_ok (sar_secret_id a) \<and> 1 \<le> sar_secret_version a \<and> 1 \<le> sar_metadata_version a"

record deploy_task =
  tsk_operation_id :: operation_id
  tsk_operation_version :: int
  tsk_workload_id :: workload_id
  tsk_workload_version :: int
  tsk_admission_id :: admission_id
  tsk_admission_version :: int
  tsk_source_sha :: string
  tsk_idempotency_key :: string
  tsk_queued_at :: pytime
  tsk_secret_attachments :: "secret_attachment_reference list"
  tsk_snapshot_digest :: string
  tsk_snapshot_file_count :: int
  tsk_snapshot_byte_count :: int

definition deploy_task_ok :: "deploy_task \<Rightarrow> bool" where
  "deploy_task_ok t \<longleftrightarrow>
     text_ok (tsk_operation_id t) \<and> 1 \<le> tsk_operation_version t \<and>
     text_ok (tsk_workload_id t) \<and> 1 \<le> tsk_workload_version t \<and>
     text_ok (tsk_admission_id t) \<and> 1 \<le> tsk_admission_version t \<and>
     text_ok (tsk_source_sha t) \<and> text_ok (tsk_idempotency_key t) \<and>
     is_utc (tsk_queued_at t) \<and>
     list_all attachment_reference_ok (tsk_secret_attachments t) \<and>
     attestation_ok
       \<lparr>att_digest = tsk_snapshot_digest t, att_file_count = tsk_snapshot_file_count t,
        att_byte_count = tsk_snapshot_byte_count t\<rparr>"

definition deploy_task_post_init :: "deploy_task \<Rightarrow> deploy_task res" where
  "deploy_task_post_init t = require (deploy_task_ok t) ValueErr (Inr t)"

text \<open>\<^verbatim>\<open>from_snapshot\<close>: the last three fields come from the attested snapshot.\<close>

definition deploy_task_from_snapshot ::
    "deploy_task \<Rightarrow> (string, bytes) dict \<Rightarrow> deploy_task res" where
  "deploy_task_from_snapshot t snapshot =
     bind_res (attestation_from_snapshot snapshot) (\<lambda>a.
       deploy_task_post_init
         (t\<lparr>tsk_snapshot_digest := att_digest a, tsk_snapshot_file_count := att_file_count a,
            tsk_snapshot_byte_count := att_byte_count a\<rparr>))"


section \<open>Material hash\<close>

definition attachment_material :: "secret_attachment_reference \<Rightarrow> hash_value" where
  "attachment_material a =
     HData ''SecretAttachmentReference''
       [(''secret_id'', HStr (sar_secret_id a)),
        (''secret_version'', HInt (sar_secret_version a)),
        (''metadata_version'', HInt (sar_metadata_version a))]"

definition task_material :: "deploy_task \<Rightarrow> hash_value list" where
  "task_material t =
     [HStr (tsk_operation_id t), HInt (tsk_operation_version t),
      HStr (tsk_workload_id t), HInt (tsk_workload_version t),
      HStr (tsk_admission_id t), HInt (tsk_admission_version t),
      HStr (tsk_source_sha t), HStr (tsk_idempotency_key t),
      HTuple (map attachment_material (tsk_secret_attachments t)),
      HStr (tsk_snapshot_digest t), HInt (tsk_snapshot_file_count t),
      HInt (tsk_snapshot_byte_count t)]"

definition task_material_hash :: "deploy_task \<Rightarrow> string" where
  "task_material_hash t = stable_material_hash (task_material t)"

text \<open>What the hash does not cover: the time the task was queued.\<close>

definition same_task_material :: "deploy_task \<Rightarrow> deploy_task \<Rightarrow> bool" where
  "same_task_material t u \<longleftrightarrow> t\<lparr>tsk_queued_at := tsk_queued_at u\<rparr> = u"

lemma attachment_material_inject: "attachment_material a = attachment_material b \<longleftrightarrow> a = b"
  by (auto simp: attachment_material_def intro: secret_attachment_reference.equality)

lemma map_attachment_material_inject:
  "map attachment_material xs = map attachment_material ys \<longleftrightarrow> xs = ys"
  by (rule inj_map_eq_map) (simp add: inj_def attachment_material_inject)

lemma task_material_eq_iff: "task_material t = task_material u \<longleftrightarrow> same_task_material t u"
  by (cases t; cases u)
    (auto simp: task_material_def same_task_material_def map_attachment_material_inject)

lemma attachment_class_name:
  "utf8 ''SecretAttachmentReference'' = ''SecretAttachmentReference''"
  by (rule utf8_ascii) simp

lemma attachment_material_hashable: "hashable (attachment_material a)"
  by (simp add: attachment_material_def attachment_class_name)

lemma task_material_hashable: "list_all hashable (task_material t)"
  by (simp add: task_material_def list_all_iff attachment_material_hashable)

lemma task_material_hash_eq_iff:
  "task_material_hash t = task_material_hash u \<longleftrightarrow>
     same_task_material t u \<or>
     sha256_collides (canonical_hash_bytes (HTuple (task_material t)))
       (canonical_hash_bytes (HTuple (task_material u)))"
  unfolding task_material_hash_def
  by (simp add: stable_material_hash_eq_iff [OF task_material_hashable task_material_hashable]
      task_material_eq_iff)

lemma same_task_material_refl [simp]: "same_task_material t t"
  by (simp add: same_task_material_def)

lemma same_task_material_hash: "same_task_material t u \<Longrightarrow> task_material_hash t = task_material_hash u"
  by (simp add: task_material_hash_eq_iff)


section \<open>The admitted build source\<close>

record admitted_build_source =
  abs_admission_id :: admission_id
  abs_repository_numeric_id :: int
  abs_owner :: string
  abs_name :: string
  abs_installation_id :: int
  abs_sha :: string

definition build_source_ok :: "admitted_build_source \<Rightarrow> bool" where
  "build_source_ok s \<longleftrightarrow>
     text_ok (abs_admission_id s) \<and> 1 \<le> abs_repository_numeric_id s \<and>
     text_ok (abs_owner s) \<and> text_ok (abs_name s) \<and> 1 \<le> abs_installation_id s \<and>
     source_sha_ok (abs_sha s)"

definition build_source_from_admission ::
    "repository_admission \<Rightarrow> deploy_task \<Rightarrow> admitted_build_source res" where
  "build_source_from_admission admission task =
     require (adm_state admission = Admitted) ValueErr
    (require (adm_id admission = tsk_admission_id task) ValueErr
    (require (adm_version admission = tsk_admission_version task) ValueErr
    (require (adm_admitted_sha admission = tsk_source_sha task) ValueErr
    (let s = \<lparr>abs_admission_id = adm_id admission,
              abs_repository_numeric_id = adm_repository_numeric_id admission,
              abs_owner = adm_owner admission, abs_name = adm_name admission,
              abs_installation_id = adm_installation_id admission,
              abs_sha = adm_admitted_sha admission\<rparr>
     in require (build_source_ok s) ValueErr (Inr s)))))"

lemma build_source_from_admission_Inr:
  "build_source_from_admission adm task = Inr s \<longleftrightarrow>
     adm_state adm = Admitted \<and> adm_id adm = tsk_admission_id task \<and>
     adm_version adm = tsk_admission_version task \<and> adm_admitted_sha adm = tsk_source_sha task \<and>
     s = \<lparr>abs_admission_id = adm_id adm,
          abs_repository_numeric_id = adm_repository_numeric_id adm,
          abs_owner = adm_owner adm, abs_name = adm_name adm,
          abs_installation_id = adm_installation_id adm, abs_sha = adm_admitted_sha adm\<rparr> \<and>
     build_source_ok s"
  by (auto simp: build_source_from_admission_def Let_def res_simps)

end
