(* ===== verification/Models_Secret.thy ===== *)
theory Models_Secret
  imports Models_Identity
begin

text \<open>
  \<^verbatim>\<open>SecretMetadata\<close> of \<^verbatim>\<open>domain/models.py\<close>: the metadata of one managed secret. It runs two
  state machines (rotation and lifecycle) and a mutation protocol: a mutation is begun, makes
  progress, and is finalized back to idle; the pending fields are present exactly meanwhile.
\<close>

record secret_metadata =
  sec_id :: secret_id
  sec_owner_id :: user_id
  sec_name :: string
  sec_integration_type :: string
  sec_attached_workload_ids :: "workload_id list"
  sec_active_version :: int
  sec_rotation_state :: rotation_state
  sec_lifecycle_state :: secret_lifecycle
  sec_created_at :: pytime
  sec_updated_at :: pytime
  sec_retiring_version :: "int option"
  sec_retirement_not_before :: "pytime option"
  sec_mutation_state :: mutation_state
  sec_mutation_idempotency_key :: "string option"
  sec_pending_workload_ids :: "workload_id list option"
  sec_pending_payload_sha256 :: "string option"
  sec_version :: int

section \<open>Validation\<close>

text \<open>The retirement fields against the rotation state.\<close>

definition retirement_ok :: "secret_metadata \<Rightarrow> bool" where
  "retirement_ok s \<longleftrightarrow>
     (sec_retiring_version s = None) = (sec_retirement_not_before s = None) \<and>
     (case sec_retiring_version s of
        Some rv \<Rightarrow>
          1 \<le> rv \<and> rv \<noteq> sec_active_version s \<and> sec_rotation_state s = RetiringOldVersion
      | None \<Rightarrow> sec_rotation_state s \<noteq> RetiringOldVersion)"

text \<open>The pending fields against the mutation state.\<close>

definition mutation_ok :: "secret_metadata \<Rightarrow> bool" where
  "mutation_ok s \<longleftrightarrow>
     (if sec_mutation_state s = MutIdle then
        sec_mutation_idempotency_key s = None \<and> sec_pending_workload_ids s = None \<and>
        sec_pending_payload_sha256 s = None
      else
        (case sec_mutation_idempotency_key s of None \<Rightarrow> False | Some k \<Rightarrow> text_ok k) \<and>
        (case sec_pending_workload_ids s of None \<Rightarrow> False | Some ws \<Rightarrow> ws \<noteq> []) \<and>
        \<not> (sec_mutation_state s = MutCreating \<and> sec_attached_workload_ids s \<noteq> []) \<and>
        (sec_mutation_state s \<in> {MutAttaching, MutRotating} \<longrightarrow>
           set (sec_attached_workload_ids s) \<subseteq>
             (case sec_pending_workload_ids s of None \<Rightarrow> {} | Some ws \<Rightarrow> set ws)) \<and>
        (if sec_mutation_state s = MutAttaching then sec_pending_payload_sha256 s = None
         else (case sec_pending_payload_sha256 s of None \<Rightarrow> False | Some h \<Rightarrow> is_hex_text 64 h)))"

definition secret_ok :: "secret_metadata \<Rightarrow> bool" where
  "secret_ok s \<longleftrightarrow>
     text_ok (sec_id s) \<and> text_ok (sec_owner_id s) \<and> text_ok (sec_name s) \<and>
     text_ok (sec_integration_type s) \<and> list_all text_ok (sec_attached_workload_ids s) \<and>
     1 \<le> sec_active_version s \<and>
     is_utc (sec_created_at s) \<and> is_utc (sec_updated_at s) \<and>
     utc_ok (sec_retirement_not_before s) \<and>
     timestamp_order_ok (sec_created_at s) (sec_updated_at s) \<and>
     retirement_ok s \<and>
     (case sec_pending_workload_ids s of None \<Rightarrow> True | Some ws \<Rightarrow> list_all text_ok ws) \<and>
     mutation_ok s \<and> version_ok (sec_version s)"

definition secret_post_init :: "secret_metadata \<Rightarrow> secret_metadata res" where
  "secret_post_init s = require (secret_ok s) ValueErr (Inr s)"

lemma secret_post_init_Inr [res_simps]: "secret_post_init s = Inr t \<longleftrightarrow> secret_ok s \<and> t = s"
  by (auto simp: secret_post_init_def res_simps)

lemma secret_post_init_Inl [res_simps]: "secret_post_init s = Inl e \<longleftrightarrow> \<not> secret_ok s \<and> e = ValueErr"
  by (auto simp: secret_post_init_def res_simps)


section \<open>Methods\<close>

definition transition_lifecycle ::
    "secret_metadata \<Rightarrow> secret_lifecycle \<Rightarrow> pytime \<Rightarrow> secret_metadata res" where
  "transition_lifecycle s target at =
     require (transition_time_ok at (sec_updated_at s)) ValueErr
       (bind_res (require_secret_lifecycle_transition (sec_lifecycle_state s) target) (\<lambda>_.
          secret_post_init
            (s\<lparr>sec_lifecycle_state := target, sec_updated_at := at,
               sec_version := sec_version s + 1\<rparr>)))"

definition transition_rotation ::
    "secret_metadata \<Rightarrow> rotation_state \<Rightarrow> pytime \<Rightarrow> secret_metadata res" where
  "transition_rotation s target at =
     require (transition_time_ok at (sec_updated_at s)) ValueErr
       (bind_res (require_secret_rotation_transition (sec_rotation_state s) target) (\<lambda>_.
          secret_post_init
            (s\<lparr>sec_rotation_state := target, sec_updated_at := at,
               sec_version := sec_version s + 1\<rparr>)))"

definition bind_workloads ::
    "secret_metadata \<Rightarrow> workload_id list \<Rightarrow> pytime \<Rightarrow> secret_metadata res" where
  "bind_workloads s attached_workload_ids at =
     require (transition_time_ok at (sec_updated_at s)) ValueErr
    (require (list_all text_ok attached_workload_ids) ValueErr
       (secret_post_init
          (s\<lparr>sec_attached_workload_ids := attached_workload_ids, sec_updated_at := at,
             sec_version := sec_version s + 1\<rparr>)))"

definition begin_attachment ::
    "secret_metadata \<Rightarrow> workload_id list \<Rightarrow> string \<Rightarrow> pytime \<Rightarrow> secret_metadata res" where
  "begin_attachment s attached_workload_ids mutation_idempotency_key at =
     require (transition_time_ok at (sec_updated_at s)) ValueErr
    (require (list_all text_ok attached_workload_ids) ValueErr
    (require (text_ok mutation_idempotency_key) ValueErr
    (require (set (sec_attached_workload_ids s) \<subseteq> set attached_workload_ids) ValueErr
       (secret_post_init
          (s\<lparr>sec_mutation_state := MutAttaching,
             sec_mutation_idempotency_key := Some mutation_idempotency_key,
             sec_pending_workload_ids := Some attached_workload_ids,
             sec_pending_payload_sha256 := None, sec_updated_at := at,
             sec_version := sec_version s + 1\<rparr>)))))"

definition begin_rotation ::
    "secret_metadata \<Rightarrow> workload_id list \<Rightarrow> string \<Rightarrow> string \<Rightarrow> pytime \<Rightarrow> secret_metadata res" where
  "begin_rotation s attached_workload_ids mutation_idempotency_key pending_payload_sha256 at =
     bind_res (transition_rotation s Rotating at) (\<lambda>staged.
       require (set (sec_attached_workload_ids s) \<subseteq> set attached_workload_ids) ValueErr
      (require (text_ok mutation_idempotency_key) ValueErr
      (require (is_hex_text 64 pending_payload_sha256) ValueErr
         (secret_post_init
            (staged\<lparr>sec_mutation_state := MutRotating,
                    sec_mutation_idempotency_key := Some mutation_idempotency_key,
                    sec_pending_workload_ids := Some attached_workload_ids,
                    sec_pending_payload_sha256 := Some pending_payload_sha256\<rparr>)))))"

definition advance_mutation_progress :: "secret_metadata \<Rightarrow> pytime \<Rightarrow> secret_metadata res" where
  "advance_mutation_progress s at =
     require (transition_time_ok at (sec_updated_at s)) ValueErr
    (require (sec_mutation_state s \<noteq> MutIdle) ValueErr
       (secret_post_init (s\<lparr>sec_updated_at := at, sec_version := sec_version s + 1\<rparr>)))"

definition finalize_attachment :: "secret_metadata \<Rightarrow> pytime \<Rightarrow> secret_metadata res" where
  "finalize_attachment s at =
     require (transition_time_ok at (sec_updated_at s)) ValueErr
    (require (sec_mutation_state s = MutAttaching) ValueErr
       (case sec_pending_workload_ids s of
          None \<Rightarrow> Inl ValueErr
        | Some pending \<Rightarrow>
            secret_post_init
              (s\<lparr>sec_attached_workload_ids := pending, sec_mutation_state := MutIdle,
                 sec_mutation_idempotency_key := None, sec_pending_workload_ids := None,
                 sec_pending_payload_sha256 := None, sec_updated_at := at,
                 sec_version := sec_version s + 1\<rparr>)))"

definition record_rotation ::
    "secret_metadata \<Rightarrow> int \<Rightarrow> int \<Rightarrow> pytime \<Rightarrow> workload_id list option \<Rightarrow> pytime
       \<Rightarrow> secret_metadata res" where
  "record_rotation s active_version retiring_version retirement_not_before
       attached_workload_ids at =
     require (transition_time_ok at (sec_updated_at s)) ValueErr
    (require (is_utc retirement_not_before) ValueErr
    (require (\<not> time_less retirement_not_before at) ValueErr
    (require (case attached_workload_ids of None \<Rightarrow> True | Some ws \<Rightarrow> list_all text_ok ws) ValueErr
    (require (\<not> (active_version < 1 \<or> retiring_version < 1 \<or>
                 active_version \<le> sec_active_version s \<or>
                 retiring_version \<noteq> sec_active_version s)) ValueErr
    (bind_res (require_secret_rotation_transition (sec_rotation_state s) RetiringOldVersion) (\<lambda>_.
       secret_post_init
         (s\<lparr>sec_active_version := active_version,
            sec_attached_workload_ids :=
              (case attached_workload_ids of
                 None \<Rightarrow> sec_attached_workload_ids s | Some ws \<Rightarrow> ws),
            sec_rotation_state := RetiringOldVersion,
            sec_retiring_version := Some retiring_version,
            sec_retirement_not_before := Some retirement_not_before,
            sec_mutation_state := MutIdle, sec_mutation_idempotency_key := None,
            sec_pending_workload_ids := None, sec_pending_payload_sha256 := None,
            sec_updated_at := at, sec_version := sec_version s + 1\<rparr>)))))))"

definition complete_retirement :: "secret_metadata \<Rightarrow> pytime \<Rightarrow> secret_metadata res" where
  "complete_retirement s at =
     require (transition_time_ok at (sec_updated_at s)) ValueErr
    (require (sec_rotation_state s = RetiringOldVersion) ValueErr
       (secret_post_init
          (s\<lparr>sec_rotation_state := RotStable, sec_retiring_version := None,
             sec_retirement_not_before := None, sec_updated_at := at,
             sec_version := sec_version s + 1\<rparr>)))"

definition create_draft ::
    "secret_id \<Rightarrow> user_id \<Rightarrow> string \<Rightarrow> string \<Rightarrow> workload_id list \<Rightarrow> string \<Rightarrow> string \<Rightarrow> pytime
       \<Rightarrow> secret_metadata res" where
  "create_draft i owner_id name integration_type attached_workload_ids
       mutation_idempotency_key pending_payload_sha256 created_at =
     secret_post_init
       \<lparr>sec_id = i, sec_owner_id = owner_id, sec_name = name,
        sec_integration_type = integration_type, sec_attached_workload_ids = [],
        sec_active_version = 1, sec_rotation_state = RotStable,
        sec_lifecycle_state = SecActive, sec_created_at = created_at,
        sec_updated_at = created_at, sec_retiring_version = None,
        sec_retirement_not_before = None, sec_mutation_state = MutCreating,
        sec_mutation_idempotency_key = Some mutation_idempotency_key,
        sec_pending_workload_ids = Some attached_workload_ids,
        sec_pending_payload_sha256 = Some pending_payload_sha256, sec_version = 1\<rparr>"

definition finalize_creation :: "secret_metadata \<Rightarrow> int \<Rightarrow> pytime \<Rightarrow> secret_metadata res" where
  "finalize_creation s active_version at =
     require (transition_time_ok at (sec_updated_at s)) ValueErr
    (require (sec_mutation_state s = MutCreating) ValueErr
       (case sec_pending_workload_ids s of
          None \<Rightarrow> Inl ValueErr
        | Some pending \<Rightarrow>
            require (active_version = 1) ValueErr
              (secret_post_init
                 (s\<lparr>sec_attached_workload_ids := pending, sec_active_version := active_version,
                    sec_mutation_state := MutIdle, sec_mutation_idempotency_key := None,
                    sec_pending_workload_ids := None, sec_pending_payload_sha256 := None,
                    sec_updated_at := at, sec_version := sec_version s + 1\<rparr>))))"

lemmas secret_method_defs =
  transition_lifecycle_def transition_rotation_def bind_workloads_def begin_attachment_def
  begin_rotation_def advance_mutation_progress_def finalize_attachment_def record_rotation_def
  complete_retirement_def finalize_creation_def


section \<open>Facts about the methods\<close>

text \<open>What every validated record knows about its pending fields.\<close>

lemma secret_ok_idle:
  "secret_ok s \<Longrightarrow> sec_mutation_state s = MutIdle \<Longrightarrow>
     sec_mutation_idempotency_key s = None \<and> sec_pending_workload_ids s = None \<and>
     sec_pending_payload_sha256 s = None"
  by (auto simp: secret_ok_def mutation_ok_def)

lemma secret_ok_pending:
  "secret_ok s \<Longrightarrow> sec_mutation_state s \<noteq> MutIdle \<Longrightarrow>
     \<exists>ws. sec_pending_workload_ids s = Some ws \<and> ws \<noteq> [] \<and> list_all text_ok ws"
  by (auto simp: secret_ok_def mutation_ok_def split: option.splits)

lemma secret_ok_retiring:
  "secret_ok s \<Longrightarrow>
     (sec_rotation_state s = RetiringOldVersion) = (sec_retiring_version s \<noteq> None) \<and>
     (sec_retiring_version s = None) = (sec_retirement_not_before s = None)"
  by (auto simp: secret_ok_def retirement_ok_def split: option.splits)

text \<open>
  The generic rotation transition cannot enter or leave the retiring state: the record it
  would build lacks, or still carries, the retirement fields. Only \<^verbatim>\<open>record_rotation\<close> and
  \<^verbatim>\<open>complete_retirement\<close> can.
\<close>

lemma transition_rotation_retiring:
  assumes "secret_ok s"
    and "target = RetiringOldVersion \<or> sec_rotation_state s = RetiringOldVersion"
  shows "\<exists>e. transition_rotation s target at = Inl e"
proof (cases "transition_rotation s target at")
  case (Inr t)
  then have "target \<in> rotation_transitions (sec_rotation_state s)" and "retirement_ok t"
    and "t = s\<lparr>sec_rotation_state := target, sec_updated_at := at, sec_version := sec_version s + 1\<rparr>"
    by (auto simp: transition_rotation_def res_simps require_transition_defs secret_ok_def)
  with assms have False
    by (cases "sec_rotation_state s") (auto simp: secret_ok_def retirement_ok_def split: option.splits)
  then show ?thesis ..
qed simp

text \<open>Every method returns a validated record one version up and changes no identity field.\<close>

definition secret_successor :: "secret_metadata \<Rightarrow> secret_metadata \<Rightarrow> bool" where
  "secret_successor s t \<longleftrightarrow>
     secret_ok t \<and> sec_version t = sec_version s + 1 \<and> sec_id t = sec_id s \<and>
     sec_owner_id t = sec_owner_id s \<and> sec_name t = sec_name s \<and>
     sec_integration_type t = sec_integration_type s \<and> sec_created_at t = sec_created_at s \<and>
     \<not> time_less (sec_updated_at t) (sec_updated_at s)"

lemma secret_method_successor:
  "transition_lifecycle s lc at = Inr t \<Longrightarrow> secret_successor s t"
  "transition_rotation s rs at = Inr t \<Longrightarrow> secret_successor s t"
  "bind_workloads s ws at = Inr t \<Longrightarrow> secret_successor s t"
  "begin_attachment s ws k at = Inr t \<Longrightarrow> secret_successor s t"
  "begin_rotation s ws k h at = Inr t \<Longrightarrow> secret_successor s t"
  "advance_mutation_progress s at = Inr t \<Longrightarrow> secret_successor s t"
  "finalize_attachment s at = Inr t \<Longrightarrow> secret_successor s t"
  "record_rotation s av rv nb ows at = Inr t \<Longrightarrow> secret_successor s t"
  "complete_retirement s at = Inr t \<Longrightarrow> secret_successor s t"
  "finalize_creation s av at = Inr t \<Longrightarrow> secret_successor s t"
  by (auto simp: secret_method_defs secret_successor_def res_simps transition_time_ok_def
      split: option.splits)

text \<open>A validated record accepts the operations its state allows.\<close>

lemma begin_attachment_accepts:
  assumes "secret_ok s" and "transition_time_ok at (sec_updated_at s)"
    and "list_all text_ok ws" and "ws \<noteq> []" and "text_ok k"
    and "set (sec_attached_workload_ids s) \<subseteq> set ws"
  shows "begin_attachment s ws k at =
    Inr (s\<lparr>sec_mutation_state := MutAttaching, sec_mutation_idempotency_key := Some k,
           sec_pending_workload_ids := Some ws, sec_pending_payload_sha256 := None,
           sec_updated_at := at, sec_version := sec_version s + 1\<rparr>)"
  using assms
  by (auto simp: begin_attachment_def res_simps secret_ok_def mutation_ok_def retirement_ok_def
      version_ok_Suc transition_time_utc timestamp_order_trans)

lemma finalize_attachment_accepts:
  assumes "secret_ok s" and "transition_time_ok at (sec_updated_at s)"
    and "sec_mutation_state s = MutAttaching"
  obtains ws where "sec_pending_workload_ids s = Some ws" and
    "finalize_attachment s at =
      Inr (s\<lparr>sec_attached_workload_ids := ws, sec_mutation_state := MutIdle,
             sec_mutation_idempotency_key := None, sec_pending_workload_ids := None,
             sec_pending_payload_sha256 := None, sec_updated_at := at,
             sec_version := sec_version s + 1\<rparr>)"
proof -
  from secret_ok_pending [OF assms(1)] assms(3) obtain ws
    where ws: "sec_pending_workload_ids s = Some ws" "list_all text_ok ws" by auto
  moreover have "finalize_attachment s at =
      Inr (s\<lparr>sec_attached_workload_ids := ws, sec_mutation_state := MutIdle,
             sec_mutation_idempotency_key := None, sec_pending_workload_ids := None,
             sec_pending_payload_sha256 := None, sec_updated_at := at,
             sec_version := sec_version s + 1\<rparr>)"
    using assms ws
    by (auto simp: finalize_attachment_def res_simps secret_ok_def mutation_ok_def retirement_ok_def
        version_ok_Suc transition_time_utc timestamp_order_trans)
  ultimately show ?thesis using that by blast
qed

lemma begin_rotation_Inr:
  assumes "begin_rotation s ws k h at = Inr t"
  shows "sec_rotation_state s = RotStable \<and>
    set (sec_attached_workload_ids s) \<subseteq> set ws \<and> is_hex_text 64 h \<and>
    t = s\<lparr>sec_rotation_state := Rotating, sec_mutation_state := MutRotating,
          sec_mutation_idempotency_key := Some k, sec_pending_workload_ids := Some ws,
          sec_pending_payload_sha256 := Some h, sec_updated_at := at,
          sec_version := sec_version s + 1\<rparr>"
  using assms
  by (cases "sec_rotation_state s")
    (auto simp: begin_rotation_def transition_rotation_def res_simps require_transition_defs)

lemma record_rotation_Inr:
  assumes "record_rotation s av rv nb ows at = Inr t"
  shows "sec_rotation_state s = Rotating \<and> rv = sec_active_version s \<and> sec_active_version s < av \<and>
    \<not> time_less nb at \<and> sec_rotation_state t = RetiringOldVersion \<and> sec_active_version t = av \<and>
    sec_retiring_version t = Some (sec_active_version s) \<and> sec_retirement_not_before t = Some nb \<and>
    sec_mutation_state t = MutIdle \<and>
    sec_attached_workload_ids t =
      (case ows of None \<Rightarrow> sec_attached_workload_ids s | Some ws \<Rightarrow> ws)"
  using assms
  by (cases "sec_rotation_state s")
    (auto simp: record_rotation_def res_simps require_transition_defs)

lemma complete_retirement_Inr:
  assumes "complete_retirement s at = Inr t"
  shows "sec_rotation_state s = RetiringOldVersion \<and> sec_rotation_state t = RotStable \<and>
    sec_retiring_version t = None \<and> sec_retirement_not_before t = None \<and>
    sec_active_version t = sec_active_version s \<and>
    sec_attached_workload_ids t = sec_attached_workload_ids s"
  using assms by (auto simp: complete_retirement_def res_simps)

end
