(* ===== verification/Models_Ledger.thy ===== *)
theory Models_Ledger
  imports Models_Identity
begin

text \<open>
  The ledgers and logs of \<^verbatim>\<open>domain/models.py\<close>: usage and activity, the organization cost guard,
  maintenance job status, daily aggregates, audit events, lifecycle actions and origin claims.
  A calendar day is its ordinal.
\<close>

section \<open>UsageEntry and OrgCostGuard\<close>

record usage_entry =
  use_id :: string
  use_owner_id :: "user_id option"
  use_workload_id :: "workload_id option"
  use_service_category :: string
  use_estimated_cost_krw :: int
  use_finalized_cost_krw :: "int option"
  use_confidence :: usage_confidence
  use_collected_at :: pytime

definition usage_entry_ok :: "usage_entry \<Rightarrow> bool" where
  "usage_entry_ok e \<longleftrightarrow>
     text_ok (use_id e) \<and> opt_text_ok (use_owner_id e) \<and> opt_text_ok (use_workload_id e) \<and>
     text_ok (use_service_category e) \<and> non_negative_ok (use_estimated_cost_krw e) \<and>
     (case use_finalized_cost_krw e of None \<Rightarrow> True | Some c \<Rightarrow> non_negative_ok c) \<and>
     is_utc (use_collected_at e)"

record org_cost_guard =
  grd_evaluated_at :: pytime
  grd_latest_usage_collected_at :: "pytime option"
  grd_emergency_stop :: bool
  grd_org_policy_cost_krw :: int
  grd_version :: int

definition org_cost_guard_ok :: "org_cost_guard \<Rightarrow> bool" where
  "org_cost_guard_ok g \<longleftrightarrow>
     is_utc (grd_evaluated_at g) \<and> utc_ok (grd_latest_usage_collected_at g) \<and>
     (case grd_latest_usage_collected_at g of
        None \<Rightarrow> True | Some t \<Rightarrow> \<not> time_less (grd_evaluated_at g) t) \<and>
     non_negative_ok (grd_org_policy_cost_krw g) \<and> version_ok (grd_version g)"

definition org_cost_guard_post_init :: "org_cost_guard \<Rightarrow> org_cost_guard res" where
  "org_cost_guard_post_init g = require (org_cost_guard_ok g) ValueErr (Inr g)"


section \<open>ActivityEvent\<close>

record activity_event =
  act_id :: string
  act_user_id :: user_id
  act_surface :: activity_surface
  act_action :: string
  act_target_ref :: "string option"
  act_outcome :: activity_outcome
  act_latency_bucket :: string
  act_correlation_id :: string
  act_occurred_at :: pytime

definition activity_event_ok :: "activity_event \<Rightarrow> bool" where
  "activity_event_ok e \<longleftrightarrow>
     text_ok (act_id e) \<and> text_ok (act_user_id e) \<and> text_ok (act_action e) \<and>
     opt_text_ok (act_target_ref e) \<and> text_ok (act_latency_bucket e) \<and>
     text_ok (act_correlation_id e) \<and> is_utc (act_occurred_at e)"

definition activity_event_post_init :: "activity_event \<Rightarrow> activity_event res" where
  "activity_event_post_init e = require (activity_event_ok e) ValueErr (Inr e)"


section \<open>MaintenanceJobStatus\<close>

record maintenance_job_status =
  mjs_job_name :: string
  mjs_run_id :: string
  mjs_started_at :: pytime
  mjs_finished_at :: "pytime option"
  mjs_succeeded_at :: "pytime option"
  mjs_failed_at :: "pytime option"
  mjs_outcome :: string
  mjs_summary :: "(string \<times> int) list"
  mjs_failure_code :: "string option"
  mjs_failure_class :: "string option"
  mjs_version :: int

definition maintenance_job_names :: "string list" where
  "maintenance_job_names = [''identity-sync'', ''lifecycle'', ''usage-ingest'']"

definition maintenance_job_outcomes :: "string list" where
  "maintenance_job_outcomes = [''started'', ''completed'', ''failed'', ''skipped_overlap'']"

definition maintenance_char :: "char \<Rightarrow> bool" where
  "maintenance_char c = (is_ascii_alnum c \<or> c \<in> {CHR ''.'', CHR ''_'', CHR ''-''})"

text \<open>\<^verbatim>\<open>_require_exact_maintenance_field\<close>, with and without a list of allowed values.\<close>

definition maintenance_field_ok :: "string list option \<Rightarrow> string \<Rightarrow> bool" where
  "maintenance_field_ok allowed_values value \<longleftrightarrow>
     text_ok value \<and>
     (1 \<le> length value \<and> length value \<le> 64 \<and> list_all maintenance_char value) \<and>
     value = strip value \<and>
     (case allowed_values of None \<Rightarrow> True | Some vs \<Rightarrow> value \<in> set vs)"

text \<open>The timestamps and failure fields that go with each outcome.\<close>

definition maintenance_outcome_ok :: "maintenance_job_status \<Rightarrow> bool" where
  "maintenance_outcome_ok m \<longleftrightarrow>
     (if mjs_outcome m = ''started'' then
        mjs_finished_at m = None \<and> mjs_succeeded_at m = None \<and> mjs_failed_at m = None \<and>
        mjs_failure_code m = None \<and> mjs_failure_class m = None
      else mjs_finished_at m \<noteq> None \<and>
       (if mjs_outcome m = ''completed'' then
          mjs_succeeded_at m = mjs_finished_at m \<and> mjs_failed_at m = None \<and>
          mjs_failure_code m = None \<and> mjs_failure_class m = None
        else if mjs_outcome m = ''failed'' then
          mjs_failed_at m = mjs_finished_at m \<and> mjs_succeeded_at m = None \<and>
          mjs_failure_code m \<noteq> None \<and> mjs_failure_class m \<noteq> None
        else
          mjs_succeeded_at m = None \<and> mjs_failed_at m = None \<and>
          mjs_failure_code m = None \<and> mjs_failure_class m = None))"

definition maintenance_ok :: "maintenance_job_status \<Rightarrow> bool" where
  "maintenance_ok m \<longleftrightarrow>
     maintenance_field_ok (Some maintenance_job_names) (mjs_job_name m) \<and>
     maintenance_field_ok None (mjs_run_id m) \<and>
     is_utc (mjs_started_at m) \<and> utc_ok (mjs_finished_at m) \<and> utc_ok (mjs_succeeded_at m) \<and>
     utc_ok (mjs_failed_at m) \<and>
     maintenance_field_ok (Some maintenance_job_outcomes) (mjs_outcome m) \<and>
     length (mjs_summary m) \<le> 12 \<and>
     list_all (\<lambda>(key, value). maintenance_field_ok None key \<and> non_negative_ok value)
       (mjs_summary m) \<and>
     (case mjs_failure_code m of None \<Rightarrow> True | Some v \<Rightarrow> maintenance_field_ok None v) \<and>
     (case mjs_failure_class m of None \<Rightarrow> True | Some v \<Rightarrow> maintenance_field_ok None v) \<and>
     version_ok (mjs_version m) \<and>
     (case mjs_finished_at m of None \<Rightarrow> True | Some t \<Rightarrow> \<not> time_less t (mjs_started_at m)) \<and>
     maintenance_outcome_ok m"

definition maintenance_post_init :: "maintenance_job_status \<Rightarrow> maintenance_job_status res" where
  "maintenance_post_init m = require (maintenance_ok m) ValueErr (Inr m)"

lemma maintenance_post_init_Inr [res_simps]:
  "maintenance_post_init m = Inr n \<longleftrightarrow> maintenance_ok m \<and> n = m"
  by (auto simp: maintenance_post_init_def res_simps)


section \<open>DailyUsageAggregate and AuditEvent\<close>

record daily_usage_aggregate =
  agg_day :: int
  agg_user_id :: "user_id option"
  agg_active_users :: int
  agg_dashboard_visits :: int
  agg_mcp_actions :: int
  agg_deployments :: int
  agg_schedule_executions :: int
  agg_successes :: int
  agg_failures :: int
  agg_policy_denials :: int
  agg_version :: int
  agg_updated_at :: pytime

definition aggregate_ok :: "daily_usage_aggregate \<Rightarrow> bool" where
  "aggregate_ok a \<longleftrightarrow>
     opt_text_ok (agg_user_id a) \<and>
     list_all non_negative_ok
       [agg_active_users a, agg_dashboard_visits a, agg_mcp_actions a, agg_deployments a,
        agg_schedule_executions a, agg_successes a, agg_failures a, agg_policy_denials a] \<and>
     version_ok (agg_version a) \<and> is_utc (agg_updated_at a)"

definition aggregate_post_init :: "daily_usage_aggregate \<Rightarrow> daily_usage_aggregate res" where
  "aggregate_post_init a = require (aggregate_ok a) ValueErr (Inr a)"

record audit_event =
  aud_id :: string
  aud_actor_id :: "user_id option"
  aud_action :: string
  aud_target_ref :: string
  aud_policy_decision :: string
  aud_before_ref :: "string option"
  aud_after_ref :: "string option"
  aud_correlation_id :: string
  aud_outcome :: string
  aud_occurred_at :: pytime

definition audit_event_ok :: "audit_event \<Rightarrow> bool" where
  "audit_event_ok e \<longleftrightarrow>
     text_ok (aud_id e) \<and> opt_text_ok (aud_actor_id e) \<and> text_ok (aud_action e) \<and>
     text_ok (aud_target_ref e) \<and> text_ok (aud_policy_decision e) \<and>
     opt_text_ok (aud_before_ref e) \<and> opt_text_ok (aud_after_ref e) \<and>
     text_ok (aud_correlation_id e) \<and> text_ok (aud_outcome e) \<and> is_utc (aud_occurred_at e)"

definition audit_event_post_init :: "audit_event \<Rightarrow> audit_event res" where
  "audit_event_post_init e = require (audit_event_ok e) ValueErr (Inr e)"

lemma audit_event_post_init_Inr [res_simps]:
  "audit_event_post_init e = Inr f \<longleftrightarrow> audit_event_ok e \<and> f = e"
  by (auto simp: audit_event_post_init_def res_simps)


section \<open>LifecycleAction\<close>

record lifecycle_action =
  lca_id :: string
  lca_workload_id :: workload_id
  lca_kind :: lifecycle_kind
  lca_state :: lifecycle_state
  lca_reason :: string
  lca_eligible_at :: pytime
  lca_observed_workload_version :: int
  lca_created_at :: pytime
  lca_updated_at :: pytime
  lca_executed_at :: "pytime option"
  lca_version :: int

definition lifecycle_action_ok :: "lifecycle_action \<Rightarrow> bool" where
  "lifecycle_action_ok a \<longleftrightarrow>
     text_ok (lca_id a) \<and> text_ok (lca_workload_id a) \<and> text_ok (lca_reason a) \<and>
     is_utc (lca_eligible_at a) \<and> is_utc (lca_created_at a) \<and> is_utc (lca_updated_at a) \<and>
     utc_ok (lca_executed_at a) \<and>
     timestamp_order_ok (lca_created_at a) (lca_updated_at a) \<and>
     version_ok (lca_observed_workload_version a) \<and> version_ok (lca_version a) \<and>
     (lca_state a = LaExecuted) = (lca_executed_at a \<noteq> None)"

definition lifecycle_action_post_init :: "lifecycle_action \<Rightarrow> lifecycle_action res" where
  "lifecycle_action_post_init a = require (lifecycle_action_ok a) ValueErr (Inr a)"

definition lifecycle_action_transition_state ::
    "lifecycle_action \<Rightarrow> lifecycle_state \<Rightarrow> pytime \<Rightarrow> lifecycle_action res" where
  "lifecycle_action_transition_state a target at =
     require (transition_time_ok at (lca_updated_at a)) ValueErr
       (bind_res (require_lifecycle_action_transition (lca_state a) target) (\<lambda>_.
          lifecycle_action_post_init
            (a\<lparr>lca_state := target, lca_updated_at := at,
               lca_executed_at := (if target = LaExecuted then Some at else None),
               lca_version := lca_version a + 1\<rparr>)))"

lemma lifecycle_action_post_init_Inr [res_simps]:
  "lifecycle_action_post_init a = Inr b \<longleftrightarrow> lifecycle_action_ok a \<and> b = a"
  by (auto simp: lifecycle_action_post_init_def res_simps)

lemma lifecycle_action_transition_state_Inr:
  assumes "lifecycle_action_ok a"
  shows "lifecycle_action_transition_state a target at = Inr b \<longleftrightarrow>
    transition_time_ok at (lca_updated_at a) \<and>
    target \<in> lifecycle_action_transitions (lca_state a) \<and>
    b = a\<lparr>lca_state := target, lca_updated_at := at,
          lca_executed_at := (if target = LaExecuted then Some at else None),
          lca_version := lca_version a + 1\<rparr>"
  using assms
  by (auto simp: lifecycle_action_transition_state_def res_simps require_transition_defs
      lifecycle_action_ok_def version_ok_Suc transition_time_utc timestamp_order_trans)


section \<open>OriginRequestClaim\<close>

record origin_request_claim =
  ocl_request_id :: string
  ocl_body_hash :: string
  ocl_claimed_at :: pytime
  ocl_expires_at :: pytime

definition origin_claim_ok :: "origin_request_claim \<Rightarrow> bool" where
  "origin_claim_ok c \<longleftrightarrow>
     text_ok (ocl_request_id c) \<and> text_ok (ocl_body_hash c) \<and> is_utc (ocl_claimed_at c) \<and>
     is_utc (ocl_expires_at c) \<and> \<not> time_leq (ocl_expires_at c) (ocl_claimed_at c)"

end
