(* ===== verification/Schedules.thy ===== *)
theory Schedules
  imports Models_Work
begin

text \<open>
  The schedule policy helpers of \<^verbatim>\<open>services/schedules.py\<close>. The zone database entry for
  Asia/Seoul is data of the host, so its UTC offset is an argument: microseconds to add to a
  given instant.
\<close>

definition approved_schedule_cron :: string where
  "approved_schedule_cron = ''0 * * * *''"

definition approved_schedule_timezone :: string where
  "approved_schedule_timezone = ''Asia/Seoul''"

definition max_schedule_lease_token_length :: nat where
  "max_schedule_lease_token_length = 128"

definition lease_token_secret_markers :: "string list" where
  "lease_token_secret_markers =
     [''ghp_'', ''sk-'', ''api_key'', ''authorization'', ''cookie'', ''bearer'',
      ''access_token'', ''access-token'', ''refresh_token'', ''refresh-token'']"

definition normalize_schedule_policy :: "string \<Rightarrow> string \<Rightarrow> (string \<times> string) res" where
  "normalize_schedule_policy cron timezone =
     (let normalized_cron = (if cron = ''hourly'' then approved_schedule_cron else cron)
      in if normalized_cron \<noteq> approved_schedule_cron \<or> timezone \<noteq> approved_schedule_timezone
         then Inl ValueErr
         else Inr (approved_schedule_cron, approved_schedule_timezone))"

definition require_utc_datetime :: "pytime \<Rightarrow> pytime res" where
  "require_utc_datetime value = require (is_utc value) ValueErr (Inr value)"

definition lease_token_char :: "char \<Rightarrow> bool" where
  "lease_token_char c = (is_ascii_alnum c \<or> c \<in> {CHR ''_'', CHR ''-''})"

text \<open>\<^verbatim>\<open>^lease-[A-Za-z0-9_-]+$\<close>, bounded, and without any marker of a real credential.\<close>

definition lease_token_ok :: "string \<Rightarrow> bool" where
  "lease_token_ok token \<longleftrightarrow>
     \<not> (token = [] \<or> max_schedule_lease_token_length < length token \<or>
        \<not> (starts_with token ''lease-'' \<and> drop 6 token \<noteq> [] \<and>
            list_all lease_token_char (drop 6 token))) \<and>
     \<not> list_ex (\<lambda>marker. contains marker (lower token)) lease_token_secret_markers"

definition require_schedule_lease_token :: "string \<Rightarrow> string res" where
  "require_schedule_lease_token token = require (lease_token_ok token) ValueErr (Inr token)"

definition require_expected_version :: "int \<Rightarrow> int res" where
  "require_expected_version value = require (0 < value) ValueErr (Inr value)"

text \<open>Minute, second and microsecond of the local tick are zero: a multiple of one hour.\<close>

definition schedule_is_due :: "(int \<Rightarrow> timedelta) \<Rightarrow> schedule \<Rightarrow> pytime \<Rightarrow> bool res" where
  "schedule_is_due seoul_offset s tick_at =
     bind_res (normalize_schedule_policy (sch_cron s) (sch_timezone s)) (\<lambda>_.
     bind_res (require_utc_datetime tick_at) (\<lambda>tick.
     bind_res (add_delta (Naive (instant tick)) (seoul_offset (instant tick))) (\<lambda>local_tick.
       Inr (instant local_tick mod hours 1 = 0))))"

lemma require_utc_datetime_Inr [res_simps]:
  "require_utc_datetime t = Inr t' \<longleftrightarrow> is_utc t \<and> t' = t"
  by (auto simp: require_utc_datetime_def res_simps)

lemma require_schedule_lease_token_Inr [res_simps]:
  "require_schedule_lease_token t = Inr t' \<longleftrightarrow> lease_token_ok t \<and> t' = t"
  by (auto simp: require_schedule_lease_token_def res_simps)

lemma require_expected_version_Inr [res_simps]:
  "require_expected_version v = Inr v' \<longleftrightarrow> 0 < v \<and> v' = v"
  by (auto simp: require_expected_version_def res_simps)

lemma normalize_schedule_policy_Inr [res_simps]:
  "normalize_schedule_policy cron timezone = Inr p \<longleftrightarrow>
     cron \<in> {''hourly'', approved_schedule_cron} \<and> timezone = approved_schedule_timezone \<and>
     p = (approved_schedule_cron, approved_schedule_timezone)"
  by (auto simp: normalize_schedule_policy_def Let_def)

lemma lease_token_ok_nonblank: "lease_token_ok t \<Longrightarrow> nonblank t"
proof -
  assume ok: "lease_token_ok t"
  then have "starts_with t ''lease-''" by (simp add: lease_token_ok_def)
  then obtain u where "t = ''lease-'' @ u" by (auto simp: starts_with_append)
  then show "nonblank t" by (simp add: nonblank_Cons is_space_def)
qed

end
