(* ===== verification/Directory.thy ===== *)
theory Directory
  imports Models_Ledger Models_Identity Sha256
begin

text \<open>
  Google Directory reconciliation: the snapshot and reconciliation records of
  \<^verbatim>\<open>domain/directory_sync.py\<close>, the repository result of \<^verbatim>\<open>ports/directory.py\<close>, and the shared
  write validation of \<^verbatim>\<open>services/directory_repository.py\<close>. The lemmas say what a batch that
  passed validation is: each user moves by exactly what the domain method computes from the
  stored record, and each move has the one audit event that describes it.
\<close>

section \<open>Snapshots\<close>

definition max_directory_snapshot_users :: nat where
  "max_directory_snapshot_users = 10000"

definition redaction_prefix :: bytes where
  "redaction_prefix = ''mim:directory-sync:redaction:v1'' @ [char_of (0 :: nat)]"

definition directory_policy_decisions :: "string list" where
  "directory_policy_decisions =
     [''directory_active_member'', ''directory_group_missing'', ''directory_inactive'',
      ''directory_missing'', ''directory_terminal_offboarded'']"

definition redact :: "string \<Rightarrow> string" where
  "redact v = take 12 (sha256_hex (redaction_prefix @ utf8 v))"

text \<open>\<^verbatim>\<open>_require_text\<close> followed by the comparison of its stripped result with the value.\<close>

definition stripped_text_ok :: "string \<Rightarrow> bool" where
  "stripped_text_ok v \<longleftrightarrow> nonblank v \<and> strip v = v"

record directory_snapshot_user =
  dsu_directory_user_id :: string
  dsu_email :: string
  dsu_active :: bool
  dsu_in_required_group :: bool

definition directory_snapshot_user_post_init ::
    "directory_snapshot_user \<Rightarrow> directory_snapshot_user res" where
  "directory_snapshot_user_post_init u =
     require (stripped_text_ok (dsu_directory_user_id u)) ValueErr
    (require (stripped_text_ok (dsu_email u)) ValueErr
       (Inr (u\<lparr>dsu_email := casefold (dsu_email u)\<rparr>)))"

record directory_snapshot =
  dss_snapshot_id :: string
  dss_required_group :: string
  dss_started_at :: pytime
  dss_completed_at :: pytime
  dss_users :: "directory_snapshot_user list"

text \<open>The loop over the users, with the sets of folded ids and of emails seen so far.\<close>

fun snapshot_users_unique :: "directory_snapshot_user list \<Rightarrow> string set \<Rightarrow> string set \<Rightarrow> bool" where
  "snapshot_users_unique [] seen_ids seen_emails = True"
| "snapshot_users_unique (u # us) seen_ids seen_emails =
     (casefold (dsu_directory_user_id u) \<notin> seen_ids \<and> dsu_email u \<notin> seen_emails \<and>
      snapshot_users_unique us (insert (casefold (dsu_directory_user_id u)) seen_ids)
        (insert (dsu_email u) seen_emails))"

definition directory_snapshot_ok :: "directory_snapshot \<Rightarrow> bool" where
  "directory_snapshot_ok s \<longleftrightarrow>
     text_ok (dss_snapshot_id s) \<and> stripped_text_ok (dss_required_group s) \<and>
     is_utc (dss_started_at s) \<and> is_utc (dss_completed_at s) \<and>
     \<not> time_less (dss_completed_at s) (dss_started_at s) \<and>
     length (dss_users s) \<le> max_directory_snapshot_users \<and>
     snapshot_users_unique (dss_users s) {} {}"

definition validate_directory_snapshot :: "directory_snapshot \<Rightarrow> directory_snapshot res" where
  "validate_directory_snapshot s = require (directory_snapshot_ok s) ValueErr (Inr s)"

lemma snapshot_users_unique_iff:
  "snapshot_users_unique us ids emails \<longleftrightarrow>
     distinct (map (\<lambda>u. casefold (dsu_directory_user_id u)) us) \<and> distinct (map dsu_email us) \<and>
     (\<forall>u \<in> set us. casefold (dsu_directory_user_id u) \<notin> ids \<and> dsu_email u \<notin> emails)"
  by (induction us arbitrary: ids emails) (auto simp: image_iff eq_commute)


section \<open>Reconciliations and their audit events\<close>

record user_reconciliation =
  rec_user :: user
  rec_expected_version :: int
  rec_required_group :: string
  rec_policy_decision :: string

definition reconciliation_ok :: "user_reconciliation \<Rightarrow> bool" where
  "reconciliation_ok r \<longleftrightarrow>
     1 \<le> rec_expected_version r \<and> usr_version (rec_user r) = rec_expected_version r + 1 \<and>
     stripped_text_ok (rec_required_group r) \<and>
     rec_policy_decision r \<in> set directory_policy_decisions"

definition projected_target_state :: "user_state \<Rightarrow> bool \<Rightarrow> bool \<Rightarrow> bool \<Rightarrow> user_state" where
  "projected_target_state current_state present active in_required_group =
     (if current_state = UserOffboarded then UserOffboarded
      else if \<not> present then UserOffboarded
      else if active \<and> in_required_group then UserActive
      else UserSuspended)"

definition flag_text :: "bool \<Rightarrow> string" where
  "flag_text b = (if b then ''1'' else ''0'')"

definition user_ref :: "user \<Rightarrow> string \<Rightarrow> string" where
  "user_ref u required_group =
     user_state_value (usr_state u) @ '':'' @ flag_text (required_group \<in> usr_groups u) @
     '':v'' @ show_int (usr_version u)"

definition is_locked_state :: "user_state \<Rightarrow> bool" where
  "is_locked_state s = (s \<in> {UserSuspended, UserOffboarded})"

definition directory_audit_id :: "string \<Rightarrow> string \<Rightarrow> user \<Rightarrow> user \<Rightarrow> string" where
  "directory_audit_id snapshot_id policy_decision user_before user_after =
     take 32 (sha256_hex (utf8
       (''dirsync-audit:'' @ snapshot_id @ '':'' @ usr_id user_before @ '':'' @
        show_int (usr_version user_before) @ '':'' @ show_int (usr_version user_after) @ '':'' @
        user_state_value (usr_state user_after) @ '':'' @ policy_decision)))"

definition build_directory_audit_event ::
    "string \<Rightarrow> string \<Rightarrow> string \<Rightarrow> user \<Rightarrow> user \<Rightarrow> pytime \<Rightarrow> audit_event res" where
  "build_directory_audit_event snapshot_id required_group policy_decision user_before user_after
     synced_at =
     require (text_ok snapshot_id) ValueErr
    (require (stripped_text_ok required_group) ValueErr
    (require (policy_decision \<in> set directory_policy_decisions) ValueErr
    (require (is_utc synced_at) ValueErr
       (audit_event_post_init
          \<lparr>aud_id = directory_audit_id snapshot_id policy_decision user_before user_after,
           aud_actor_id = None,
           aud_action = ''directory_identity_sync'',
           aud_target_ref = ''user:'' @ redact (usr_id user_before),
           aud_policy_decision = policy_decision,
           aud_before_ref = Some (user_ref user_before required_group),
           aud_after_ref = Some (user_ref user_after required_group),
           aud_correlation_id =
             take 24 (sha256_hex (utf8 (''dirsync-correlation:'' @ snapshot_id))),
           aud_outcome = (if is_locked_state (usr_state user_after) then ''locked'' else ''active''),
           aud_occurred_at = synced_at\<rparr>))))"


section \<open>The repository result\<close>

record directory_result =
  dir_snapshot_id :: string
  dir_material_hash :: string
  dir_replayed :: bool
  dir_applied_user_ids :: "user_id list"
  dir_locked_user_ids :: "user_id list"
  dir_audit_event_ids :: "string list"

definition id_tuple_ok :: "string list \<Rightarrow> bool" where
  "id_tuple_ok ids \<longleftrightarrow> list_all stripped_text_ok ids \<and> distinct ids"

definition directory_result_ok :: "directory_result \<Rightarrow> bool" where
  "directory_result_ok r \<longleftrightarrow>
     text_ok (dir_snapshot_id r) \<and> is_hex_text 64 (dir_material_hash r) \<and>
     length (dir_applied_user_ids r) \<le> max_directory_snapshot_users \<and>
     id_tuple_ok (dir_applied_user_ids r) \<and> id_tuple_ok (dir_locked_user_ids r) \<and>
     id_tuple_ok (dir_audit_event_ids r) \<and>
     set (dir_locked_user_ids r) \<subseteq> set (dir_applied_user_ids r) \<and>
     dir_locked_user_ids r =
       filter (\<lambda>u. u \<in> set (dir_locked_user_ids r)) (dir_applied_user_ids r) \<and>
     length (dir_audit_event_ids r) = length (dir_applied_user_ids r)"

definition directory_result_post_init :: "directory_result \<Rightarrow> directory_result res" where
  "directory_result_post_init r = require (directory_result_ok r) ValueErr (Inr r)"


section \<open>Write validation\<close>

definition require_directory_snapshot_id :: "string \<Rightarrow> 'a res \<Rightarrow> 'a res" where
  "require_directory_snapshot_id snapshot_id =
     require (stripped_text_ok snapshot_id) (StoreErr InvariantViolation)"

definition require_directory_material_hash :: "string \<Rightarrow> 'a res \<Rightarrow> 'a res" where
  "require_directory_material_hash material_hash =
     require (is_hex_text 64 material_hash) (StoreErr InvariantViolation)"

text \<open>\<^verbatim>\<open>try: ... except ValueError: raise InvariantViolation\<close>\<close>

definition value_error_as_violation :: "'a res \<Rightarrow> 'a res" where
  "value_error_as_violation r =
     (case r of Inl e \<Rightarrow> Inl (if is_value_error e then StoreErr InvariantViolation else e)
      | Inr x \<Rightarrow> Inr x)"

text \<open>The checks of one reconciliation; the result is the stored user it applies to.\<close>

definition check_reconciliation :: "(user_id, user) dict \<Rightarrow> user_reconciliation \<Rightarrow> user res" where
  "check_reconciliation current_users r =
     (let u = rec_user r in
      case dict_get current_users (usr_id u) of
        None \<Rightarrow> Inl (StoreErr NotFound)
      | Some current \<Rightarrow>
          require (usr_version current = rec_expected_version r) (StoreErr VersionConflict)
         (require (usr_version u = rec_expected_version r + 1) (StoreErr VersionConflict)
         (require (usr_created_at current = usr_created_at u) (StoreErr InvariantViolation)
         (require (\<not> time_less (usr_updated_at u) (usr_updated_at current))
            (StoreErr InvariantViolation)
         (require
            (usr_id current = usr_id u \<and> usr_email current = usr_email u \<and>
             usr_role current = usr_role u \<and> usr_created_at current = usr_created_at u)
            (StoreErr InvariantViolation)
         (bind_res
            (if usr_state u \<noteq> usr_state current
             then require_user_transition (usr_state current) (usr_state u) else Inr ()) (\<lambda>_.
          bind_res
            (value_error_as_violation
              (reconcile_identity current (usr_state u) (rec_required_group r)
                 (rec_required_group r \<in> usr_groups u) (usr_identity_synced_at u))) (\<lambda>expected_user.
          require (expected_user = u) (StoreErr InvariantViolation) (Inr current)))))))))"

text \<open>
  The first loop: the stored users in order, and the ids of the users that end up locked.
\<close>

fun scan_reconciliations ::
    "(user_id, user) dict \<Rightarrow> user_id set \<Rightarrow> user_reconciliation list
       \<Rightarrow> (user list \<times> user_id list) res" where
  "scan_reconciliations current_users user_ids [] = Inr ([], [])"
| "scan_reconciliations current_users user_ids (r # rs) =
     require (usr_id (rec_user r) \<notin> user_ids) (StoreErr InvariantViolation)
    (bind_res (check_reconciliation current_users r) (\<lambda>current.
     bind_res (scan_reconciliations current_users (insert (usr_id (rec_user r)) user_ids) rs)
       (\<lambda>(currents, locked).
         Inr (current # currents,
              if is_locked_state (usr_state (rec_user r)) then usr_id (rec_user r) # locked
              else locked))))"

definition expected_audit_event ::
    "string \<Rightarrow> user_reconciliation \<Rightarrow> user \<Rightarrow> audit_event res" where
  "expected_audit_event snapshot_id r current =
     build_directory_audit_event snapshot_id (rec_required_group r) (rec_policy_decision r)
       current (rec_user r) (usr_identity_synced_at (rec_user r))"

text \<open>The second loop, over reconciliations, stored users and audit events in step.\<close>

fun scan_audit_events ::
    "string \<Rightarrow> string set \<Rightarrow> string set \<Rightarrow> (user_reconciliation \<times> user \<times> audit_event) list
       \<Rightarrow> unit res" where
  "scan_audit_events snapshot_id existing audit_ids [] = Inr ()"
| "scan_audit_events snapshot_id existing audit_ids ((r, current, event) # rest) =
     require (\<not> (aud_id event \<in> audit_ids \<or> aud_id event \<in> existing)) (StoreErr AlreadyExists)
    (bind_res (value_error_as_violation (expected_audit_event snapshot_id r current))
       (\<lambda>expected_event.
     require (event = expected_event) (StoreErr InvariantViolation)
       (scan_audit_events snapshot_id existing (insert (aud_id event) audit_ids) rest)))"

definition validate_directory_snapshot_write ::
    "string \<Rightarrow> string \<Rightarrow> user_reconciliation list \<Rightarrow> audit_event list \<Rightarrow> (user_id, user) dict
       \<Rightarrow> string set \<Rightarrow> int \<Rightarrow> directory_result res" where
  "validate_directory_snapshot_write snapshot_id material_hash reconciliations audit_events
     current_users existing_audit_event_ids max_identities =
     require_directory_snapshot_id snapshot_id
    (require_directory_material_hash material_hash
    (require (1 \<le> max_identities) (StoreErr InvariantViolation)
    (require (int (length reconciliations) \<le> max_identities) (StoreErr InvariantViolation)
    (require (int (length audit_events) \<le> max_identities) (StoreErr InvariantViolation)
    (bind_res (scan_reconciliations current_users {} reconciliations) (\<lambda>(currents, locked).
     require (length audit_events = length reconciliations) (StoreErr InvariantViolation)
    (bind_res
       (scan_audit_events snapshot_id existing_audit_event_ids {}
          (zip reconciliations (zip currents audit_events))) (\<lambda>_.
     directory_result_post_init
       \<lparr>dir_snapshot_id = snapshot_id, dir_material_hash = material_hash, dir_replayed = False,
        dir_applied_user_ids = map (\<lambda>r. usr_id (rec_user r)) reconciliations,
        dir_locked_user_ids = locked,
        dir_audit_event_ids = map aud_id audit_events\<rparr>))))))))"


section \<open>What an accepted batch is\<close>

lemma value_error_as_violation_Inr [res_simps, simp]: "value_error_as_violation r = Inr x \<longleftrightarrow> r = Inr x"
  by (cases r) (auto simp: value_error_as_violation_def)

lemma audit_event_built:
  "build_directory_audit_event sid g d b a t = Inr e \<Longrightarrow>
     audit_event_ok e \<and> aud_id e = directory_audit_id sid d b a \<and> aud_actor_id e = None \<and>
     aud_occurred_at e = t \<and> aud_policy_decision e = d"
  by (auto simp: build_directory_audit_event_def res_simps)

definition reconciles :: "(user_id, user) dict \<Rightarrow> user_reconciliation \<Rightarrow> user \<Rightarrow> bool" where
  "reconciles current_users r current \<longleftrightarrow>
     dict_get current_users (usr_id (rec_user r)) = Some current \<and>
     usr_version current = rec_expected_version r \<and>
     usr_version (rec_user r) = rec_expected_version r + 1 \<and>
     state_step user_transitions (usr_state current) (usr_state (rec_user r)) \<and>
     time_leq (usr_updated_at current) (usr_updated_at (rec_user r)) \<and>
     usr_id current = usr_id (rec_user r) \<and> usr_email current = usr_email (rec_user r) \<and>
     usr_role current = usr_role (rec_user r) \<and>
     usr_created_at current = usr_created_at (rec_user r) \<and>
     reconcile_identity current (usr_state (rec_user r)) (rec_required_group r)
       (rec_required_group r \<in> usr_groups (rec_user r)) (usr_identity_synced_at (rec_user r)) =
       Inr (rec_user r)"

lemma check_reconciliation_Inr:
  "check_reconciliation current_users r = Inr current \<longleftrightarrow> reconciles current_users r current"
  by (auto simp: check_reconciliation_def reconciles_def Let_def res_simps require_transition_defs
      state_step_def split: option.splits if_splits)

lemma scan_reconciliations_Inr:
  "scan_reconciliations current_users ids rs = Inr (currents, locked) \<longleftrightarrow>
     list_all2 (reconciles current_users) rs currents \<and>
     distinct (map (\<lambda>r. usr_id (rec_user r)) rs) \<and> (\<forall>r \<in> set rs. usr_id (rec_user r) \<notin> ids) \<and>
     locked = map (\<lambda>r. usr_id (rec_user r)) (filter (\<lambda>r. is_locked_state (usr_state (rec_user r))) rs)"
proof (induction rs arbitrary: ids currents locked)
  case Nil
  then show ?case by auto
next
  case (Cons r rs)
  show ?case
  proof
    assume "scan_reconciliations current_users ids (r # rs) = Inr (currents, locked)"
    then show "list_all2 (reconciles current_users) (r # rs) currents \<and>
     distinct (map (\<lambda>r. usr_id (rec_user r)) (r # rs)) \<and>
     (\<forall>r \<in> set (r # rs). usr_id (rec_user r) \<notin> ids) \<and>
     locked = map (\<lambda>r. usr_id (rec_user r))
       (filter (\<lambda>r. is_locked_state (usr_state (rec_user r))) (r # rs))"
      by (auto simp: res_simps check_reconciliation_Inr Cons.IH)
  next
    assume "list_all2 (reconciles current_users) (r # rs) currents \<and>
     distinct (map (\<lambda>r. usr_id (rec_user r)) (r # rs)) \<and>
     (\<forall>r \<in> set (r # rs). usr_id (rec_user r) \<notin> ids) \<and>
     locked = map (\<lambda>r. usr_id (rec_user r))
       (filter (\<lambda>r. is_locked_state (usr_state (rec_user r))) (r # rs))"
    then obtain c cs where cs: "currents = c # cs" "reconciles current_users r c"
        "list_all2 (reconciles current_users) rs cs" "distinct (map (\<lambda>r. usr_id (rec_user r)) rs)"
        "\<forall>q \<in> set rs. usr_id (rec_user q) \<noteq> usr_id (rec_user r) \<and> usr_id (rec_user q) \<notin> ids"
        "usr_id (rec_user r) \<notin> ids"
        "locked = map (\<lambda>r. usr_id (rec_user r))
          (filter (\<lambda>r. is_locked_state (usr_state (rec_user r))) (r # rs))"
      by (auto simp: list_all2_Cons1 image_iff eq_commute)
    have "scan_reconciliations current_users (insert (usr_id (rec_user r)) ids) rs =
        Inr (cs, map (\<lambda>r. usr_id (rec_user r)) (filter (\<lambda>r. is_locked_state (usr_state (rec_user r))) rs))"
      using cs by (simp add: Cons.IH)
    then show "scan_reconciliations current_users ids (r # rs) = Inr (currents, locked)"
      using cs by (simp add: iffD2 [OF check_reconciliation_Inr cs(2)])
  qed
qed

lemma scan_audit_events_Inr:
  "scan_audit_events sid existing ids ts = Inr u \<longleftrightarrow>
     (\<forall>(r, c, e) \<in> set ts. expected_audit_event sid r c = Inr e \<and> aud_id e \<notin> ids \<union> existing) \<and>
     distinct (map (\<lambda>(_, _, e). aud_id e) ts)"
proof (induction ts arbitrary: ids)
  case Nil
  then show ?case by simp
next
  case (Cons t ts)
  obtain r c e where t: "t = (r, c, e)" by (cases t) auto
  have "scan_audit_events sid existing ids (t # ts) = Inr u \<longleftrightarrow>
      aud_id e \<notin> ids \<union> existing \<and> expected_audit_event sid r c = Inr e \<and>
      scan_audit_events sid existing (insert (aud_id e) ids) ts = Inr u"
    by (auto simp: t res_simps)
  also have "\<dots> \<longleftrightarrow>
     (\<forall>(r, c, e) \<in> set (t # ts). expected_audit_event sid r c = Inr e \<and> aud_id e \<notin> ids \<union> existing) \<and>
     distinct (map (\<lambda>(_, _, e). aud_id e) (t # ts))"
    unfolding Cons.IH t by (auto simp: image_iff case_prod_unfold)
  finally show ?case .
qed

lemma validate_directory_snapshot_write_Inr:
  assumes "validate_directory_snapshot_write sid h rs es users existing limit = Inr res"
  obtains currents where
    "list_all2 (reconciles users) rs currents"
    "distinct (map (\<lambda>r. usr_id (rec_user r)) rs)"
    "length es = length rs"
    "\<forall>(r, c, e) \<in> set (zip rs (zip currents es)).
       expected_audit_event sid r c = Inr e \<and> aud_id e \<notin> existing"
    "distinct (map aud_id es)"
    "int (length rs) \<le> limit" "stripped_text_ok sid" "is_hex_text 64 h"
    "res = \<lparr>dir_snapshot_id = sid, dir_material_hash = h, dir_replayed = False,
        dir_applied_user_ids = map (\<lambda>r. usr_id (rec_user r)) rs,
        dir_locked_user_ids = map (\<lambda>r. usr_id (rec_user r))
          (filter (\<lambda>r. is_locked_state (usr_state (rec_user r))) rs),
        dir_audit_event_ids = map aud_id es\<rparr>"
    "directory_result_ok res"
proof -
  from assms obtain currents locked where
    scan: "scan_reconciliations users {} rs = Inr (currents, locked)" and
    len: "length es = length rs" and
    audit: "scan_audit_events sid existing {} (zip rs (zip currents es)) = Inr ()" and
    rest: "int (length rs) \<le> limit" "stripped_text_ok sid" "is_hex_text 64 h" and
    res: "directory_result_post_init
       \<lparr>dir_snapshot_id = sid, dir_material_hash = h, dir_replayed = False,
        dir_applied_user_ids = map (\<lambda>r. usr_id (rec_user r)) rs,
        dir_locked_user_ids = locked, dir_audit_event_ids = map aud_id es\<rparr> = Inr res"
    unfolding validate_directory_snapshot_write_def require_directory_snapshot_id_def
      require_directory_material_hash_def
    by (auto simp: res_simps)
  from scan have sc: "list_all2 (reconciles users) rs currents"
    "distinct (map (\<lambda>r. usr_id (rec_user r)) rs)"
    "locked = map (\<lambda>r. usr_id (rec_user r))
      (filter (\<lambda>r. is_locked_state (usr_state (rec_user r))) rs)"
    by (auto simp: scan_reconciliations_Inr)
  have "length currents = length rs" using sc(1) by (simp add: list_all2_lengthD)
  then have "map (\<lambda>(_, _, e). aud_id e) (zip rs (zip currents es)) = map aud_id es"
    using len by (intro nth_equalityI) auto
  with audit have "distinct (map aud_id es)" by (simp add: scan_audit_events_Inr)
  with that [OF sc(1,2) len _ _ rest] audit res sc(3) show thesis
    by (auto simp: scan_audit_events_Inr directory_result_post_init_def res_simps)
qed

end
