(* ===== verification/Store_Base.thy ===== *)
theory Store_Base
  imports Versioned DeployTask Models_Secret Models_Ledger Schedules Directory
begin

text \<open>
  The state of \<^verbatim>\<open>MemoryStore\<close>: one dictionary per collection and the claim tables beside them.
  The lock of the class makes every method one atomic step, so a method is a function from the
  state to its result or exception and the state it leaves. Copies (\<^verbatim>\<open>_copy\<close>) have no counterpart,
  since the values of the model are immutable.

  The second half holds the collections of identity records: users, repository admissions,
  workloads and host name bindings.
\<close>

section \<open>State\<close>

text \<open>
  The attribute \<^verbatim>\<open>directory_result_override\<close> lets a caller force the result of a snapshot.
\<close>

datatype directory_override =
    NoOverride
  | OverrideResult directory_result
  | OverrideOther

type_synonym operation_claim = "string \<times> string \<times> workload_id option \<times> operation_id"

text \<open>Delivery hash, ref, admission, workload, plan, operation, task material hash.\<close>

type_synonym delivery_claim =
  "string \<times> string \<times> admission_id \<times> workload_id \<times> plan_id \<times> operation_id \<times> string"

record store =
  st_users :: "(user_id, user) dict"
  st_admissions :: "(admission_id, repository_admission) dict"
  st_workloads :: "(workload_id, workload) dict"
  st_bindings :: "(string, app_hostname_binding) dict"
  st_plans :: "(plan_id, deployment_plan) dict"
  st_operations :: "(operation_id, operation) dict"
  st_op_claims :: "(user_id \<times> string, operation_claim) dict"
  st_schedules :: "(schedule_id, schedule) dict"
  st_secrets :: "(secret_id, secret_metadata) dict"
  st_usage :: "(string, usage_entry) dict"
  st_guards :: "(string, org_cost_guard) dict"
  st_activity :: "(string, activity_event) dict"
  st_aggregates :: "(int \<times> user_id option, daily_usage_aggregate) dict"
  st_audit :: "(string, audit_event) dict"
  st_actions :: "(string, lifecycle_action) dict"
  st_jobs :: "(string, maintenance_job_status) dict"
  st_origin_claims :: "(string, origin_request_claim) dict"
  st_deliveries :: "(string, delivery_claim) dict"
  st_tasks :: "(operation_id, deploy_task) dict"
  st_task_claims :: "(string, operation_id) dict"
  st_ledger :: "(string, string \<times> directory_result) dict"
  st_override :: directory_override

definition empty_store :: store where
  "empty_store =
     \<lparr>st_users = [], st_admissions = [], st_workloads = [], st_bindings = [], st_plans = [],
      st_operations = [], st_op_claims = [], st_schedules = [], st_secrets = [], st_usage = [],
      st_guards = [], st_activity = [], st_aggregates = [], st_audit = [], st_actions = [],
      st_jobs = [], st_origin_claims = [], st_deliveries = [], st_tasks = [],
      st_task_claims = [], st_ledger = [], st_override = NoOverride\<rparr>"

text \<open>
  Listings are sorted by time and then by id. Stored times are aware, and compare by instant.
\<close>

definition time_id_key :: "pytime \<Rightarrow> string \<Rightarrow> int \<times> string" where
  "time_id_key at ident = (instant at, ident)"


section \<open>Users\<close>

definition user_attrs :: "user attrs" where
  "user_attrs =
     \<lparr>version_of = usr_version, created_of = (\<lambda>u. Some (usr_created_at u)),
      updated_of = (\<lambda>u. Some (usr_updated_at u))\<rparr>"

definition user_same :: "user \<Rightarrow> user \<Rightarrow> bool" where
  "user_same a b \<longleftrightarrow>
     usr_id a = usr_id b \<and> usr_email a = usr_email b \<and> usr_role a = usr_role b \<and>
     usr_groups a = usr_groups b \<and> usr_identity_synced_at a = usr_identity_synced_at b \<and>
     usr_created_at a = usr_created_at b"

definition create_user :: "store \<Rightarrow> user \<Rightarrow> (store, user) outcome" where
  "create_user s u =
     commit s u (coll_create (\<lambda>u. Some (usr_version u)) (st_users s) (usr_id u) u)
       (\<lambda>d. s\<lparr>st_users := d\<rparr>)"

definition get_user :: "store \<Rightarrow> user_id \<Rightarrow> user res" where
  "get_user s user_id = coll_get (st_users s) user_id"

definition put_user :: "(user_id, user) dict \<Rightarrow> user \<Rightarrow> int \<Rightarrow> (user_id, user) dict res" where
  "put_user d u = save_stateful user_attrs usr_state require_user_transition user_same d (usr_id u) u"

definition save_user :: "store \<Rightarrow> user \<Rightarrow> int \<Rightarrow> (store, user) outcome" where
  "save_user s u expected_version =
     commit s u (put_user (st_users s) u expected_version) (\<lambda>d. s\<lparr>st_users := d\<rparr>)"

definition list_users :: "store \<Rightarrow> user list" where
  "list_users s = sort_key usr_id (dict_values (st_users s))"

interpretation users: record_collection put_user usr_id "version_of user_attrs"
  "stateful_step user_attrs usr_state user_transitions user_same" usr_state user_transitions
  unfolding put_user_def by (rule save_stateful_collection) (simp add: require_user_transition_def)


section \<open>Repository admissions\<close>

definition admission_attrs :: "repository_admission attrs" where
  "admission_attrs =
     \<lparr>version_of = adm_version, created_of = (\<lambda>a. Some (adm_created_at a)),
      updated_of = (\<lambda>a. Some (adm_updated_at a))\<rparr>"

definition admission_same :: "repository_admission \<Rightarrow> repository_admission \<Rightarrow> bool" where
  "admission_same a b \<longleftrightarrow>
     adm_id a = adm_id b \<and> adm_repository_numeric_id a = adm_repository_numeric_id b \<and>
     adm_owner a = adm_owner b \<and> adm_name a = adm_name b \<and>
     adm_installation_id a = adm_installation_id b \<and>
     adm_admitted_sha a = adm_admitted_sha b \<and> adm_created_at a = adm_created_at b"

definition create_repository_admission ::
    "store \<Rightarrow> repository_admission \<Rightarrow> (store, repository_admission) outcome" where
  "create_repository_admission s a =
     commit s a (coll_create (\<lambda>a. Some (adm_version a)) (st_admissions s) (adm_id a) a)
       (\<lambda>d. s\<lparr>st_admissions := d\<rparr>)"

definition get_repository_admission :: "store \<Rightarrow> admission_id \<Rightarrow> repository_admission res" where
  "get_repository_admission s admission_id = coll_get (st_admissions s) admission_id"

definition put_admission ::
    "(admission_id, repository_admission) dict \<Rightarrow> repository_admission \<Rightarrow> int
       \<Rightarrow> (admission_id, repository_admission) dict res" where
  "put_admission d a =
     save_stateful admission_attrs adm_state require_repository_admission_transition admission_same
       d (adm_id a) a"

definition save_repository_admission ::
    "store \<Rightarrow> repository_admission \<Rightarrow> int \<Rightarrow> (store, repository_admission) outcome" where
  "save_repository_admission s a expected_version =
     commit s a (put_admission (st_admissions s) a expected_version) (\<lambda>d. s\<lparr>st_admissions := d\<rparr>)"

interpretation admissions: record_collection put_admission adm_id "version_of admission_attrs"
  "stateful_step admission_attrs adm_state admission_transitions admission_same" adm_state
  admission_transitions
  unfolding put_admission_def
  by (rule save_stateful_collection) (simp add: require_repository_admission_transition_def)


section \<open>Workloads\<close>

definition workload_attrs :: "workload attrs" where
  "workload_attrs =
     \<lparr>version_of = wl_version, created_of = (\<lambda>w. Some (wl_created_at w)),
      updated_of = (\<lambda>w. Some (wl_updated_at w))\<rparr>"

definition workload_same :: "workload \<Rightarrow> workload \<Rightarrow> bool" where
  "workload_same a b \<longleftrightarrow>
     wl_id a = wl_id b \<and> wl_owner_id a = wl_owner_id b \<and>
     wl_repository_admission_id a = wl_repository_admission_id b \<and> wl_name a = wl_name b \<and>
     wl_kind a = wl_kind b \<and> wl_source_sha a = wl_source_sha b \<and>
     wl_desired_manifest_hash a = wl_desired_manifest_hash b \<and>
     wl_auto_deploy_enabled a = wl_auto_deploy_enabled b \<and>
     wl_auto_deploy_ref a = wl_auto_deploy_ref b \<and> wl_created_at a = wl_created_at b"

definition create_workload :: "store \<Rightarrow> workload \<Rightarrow> (store, workload) outcome" where
  "create_workload s w =
     commit s w (coll_create (\<lambda>w. Some (wl_version w)) (st_workloads s) (wl_id w) w)
       (\<lambda>d. s\<lparr>st_workloads := d\<rparr>)"

definition get_workload :: "store \<Rightarrow> workload_id \<Rightarrow> workload res" where
  "get_workload s workload_id = coll_get (st_workloads s) workload_id"

definition put_workload ::
    "(workload_id, workload) dict \<Rightarrow> workload \<Rightarrow> int \<Rightarrow> (workload_id, workload) dict res" where
  "put_workload d w =
     save_stateful workload_attrs wl_state require_workload_transition workload_same d (wl_id w) w"

definition save_workload :: "store \<Rightarrow> workload \<Rightarrow> int \<Rightarrow> (store, workload) outcome" where
  "save_workload s w expected_version =
     commit s w (put_workload (st_workloads s) w expected_version) (\<lambda>d. s\<lparr>st_workloads := d\<rparr>)"

definition list_workloads :: "store \<Rightarrow> user_id option \<Rightarrow> workload list" where
  "list_workloads s owner_id =
     sort_key (\<lambda>w. time_id_key (wl_created_at w) (wl_id w))
       (filter (\<lambda>w. owner_id = None \<or> Some (wl_owner_id w) = owner_id)
          (dict_values (st_workloads s)))"

interpretation workloads: record_collection put_workload wl_id "version_of workload_attrs"
  "stateful_step workload_attrs wl_state workload_transitions workload_same" wl_state
  workload_transitions
  unfolding put_workload_def
  by (rule save_stateful_collection) (simp add: require_workload_transition_def)


section \<open>Host name bindings\<close>

definition binding_attrs :: "app_hostname_binding attrs" where
  "binding_attrs =
     \<lparr>version_of = bnd_version, created_of = (\<lambda>b. Some (bnd_created_at b)),
      updated_of = (\<lambda>b. Some (bnd_updated_at b))\<rparr>"

definition binding_same :: "app_hostname_binding \<Rightarrow> app_hostname_binding \<Rightarrow> bool" where
  "binding_same a b \<longleftrightarrow>
     bnd_public_host a = bnd_public_host b \<and> bnd_workload_id a = bnd_workload_id b \<and>
     bnd_owner_id a = bnd_owner_id b \<and> bnd_workload_kind a = bnd_workload_kind b \<and>
     bnd_service_resource a = bnd_service_resource b \<and>
     bnd_upstream_url a = bnd_upstream_url b \<and>
     bnd_upstream_audience a = bnd_upstream_audience b \<and> bnd_created_at a = bnd_created_at b"

definition create_app_hostname_binding ::
    "store \<Rightarrow> app_hostname_binding \<Rightarrow> (store, app_hostname_binding) outcome" where
  "create_app_hostname_binding s b =
     (case dict_get (st_bindings s) (bnd_public_host b) of
        Some existing \<Rightarrow>
          if existing = b then (Inr existing, s) else (Inl (StoreErr IdempotencyConflict), s)
      | None \<Rightarrow>
          if bnd_version b \<noteq> 1 then (Inl (StoreErr VersionConflict), s)
          else (Inr b, s\<lparr>st_bindings := dict_put (bnd_public_host b) b (st_bindings s)\<rparr>))"

definition get_app_hostname_binding :: "store \<Rightarrow> string \<Rightarrow> app_hostname_binding res" where
  "get_app_hostname_binding s public_host = coll_get (st_bindings s) public_host"

definition put_binding ::
    "(string, app_hostname_binding) dict \<Rightarrow> app_hostname_binding \<Rightarrow> int
       \<Rightarrow> (string, app_hostname_binding) dict res" where
  "put_binding d b =
     save_stateful binding_attrs bnd_state require_app_hostname_binding_transition binding_same
       d (bnd_public_host b) b"

definition save_app_hostname_binding ::
    "store \<Rightarrow> app_hostname_binding \<Rightarrow> int \<Rightarrow> (store, app_hostname_binding) outcome" where
  "save_app_hostname_binding s b expected_version =
     commit s b (put_binding (st_bindings s) b expected_version) (\<lambda>d. s\<lparr>st_bindings := d\<rparr>)"

interpretation bindings: record_collection put_binding bnd_public_host "version_of binding_attrs"
  "stateful_step binding_attrs bnd_state app_host_binding_transitions binding_same" bnd_state
  app_host_binding_transitions
  unfolding put_binding_def by (rule save_stateful_collection) simp

end
