(* ===== verification/Store_Work.thy ===== *)
theory Store_Work
  imports Store_Base
begin

text \<open>
  Plans, operations, deploy tasks and schedules of \<^verbatim>\<open>MemoryStore\<close>, with the methods that
  commit several of them at once: consuming a reviewed plan together with its operation, creating
  a schedule from a plan, and applying one verified GitHub delivery.
\<close>

section \<open>Deployment plans\<close>

definition plan_attrs :: "deployment_plan attrs" where
  "plan_attrs =
     \<lparr>version_of = pln_version, created_of = (\<lambda>p. Some (pln_created_at p)),
      updated_of = (\<lambda>p. Some (pln_updated_at p))\<rparr>"

definition plan_same :: "deployment_plan \<Rightarrow> deployment_plan \<Rightarrow> bool" where
  "plan_same a b \<longleftrightarrow>
     pln_id a = pln_id b \<and> pln_actor_id a = pln_actor_id b \<and>
     pln_workload_id a = pln_workload_id b \<and> pln_action a = pln_action b \<and>
     pln_material_hash a = pln_material_hash b \<and> pln_policy_version a = pln_policy_version b \<and>
     pln_expires_at a = pln_expires_at b \<and>
     pln_sanitized_summary a = pln_sanitized_summary b \<and> pln_created_at a = pln_created_at b"

definition create_deployment_plan ::
    "store \<Rightarrow> deployment_plan \<Rightarrow> (store, deployment_plan) outcome" where
  "create_deployment_plan s p =
     commit s p (coll_create (\<lambda>p. Some (pln_version p)) (st_plans s) (pln_id p) p)
       (\<lambda>d. s\<lparr>st_plans := d\<rparr>)"

definition get_deployment_plan :: "store \<Rightarrow> plan_id \<Rightarrow> deployment_plan res" where
  "get_deployment_plan s plan_id = coll_get (st_plans s) plan_id"

definition put_plan ::
    "(plan_id, deployment_plan) dict \<Rightarrow> deployment_plan \<Rightarrow> int
       \<Rightarrow> (plan_id, deployment_plan) dict res" where
  "put_plan d p =
     save_stateful plan_attrs pln_state require_plan_transition plan_same d (pln_id p) p"

definition save_deployment_plan ::
    "store \<Rightarrow> deployment_plan \<Rightarrow> int \<Rightarrow> (store, deployment_plan) outcome" where
  "save_deployment_plan s p expected_version =
     commit s p (put_plan (st_plans s) p expected_version) (\<lambda>d. s\<lparr>st_plans := d\<rparr>)"

interpretation plans: record_collection put_plan pln_id "version_of plan_attrs"
  "stateful_step plan_attrs pln_state plan_transitions plan_same" pln_state plan_transitions
  unfolding put_plan_def by (rule save_stateful_collection) (simp add: require_plan_transition_def)


section \<open>Operations\<close>

definition operation_attrs :: "operation attrs" where
  "operation_attrs =
     \<lparr>version_of = op_version, created_of = (\<lambda>p. Some (op_created_at p)),
      updated_of = (\<lambda>p. Some (op_updated_at p))\<rparr>"

definition operation_same :: "operation \<Rightarrow> operation \<Rightarrow> bool" where
  "operation_same a b \<longleftrightarrow>
     op_actor_id a = op_actor_id b \<and> op_workload_id a = op_workload_id b \<and>
     op_action a = op_action b \<and> op_idempotency_key a = op_idempotency_key b \<and>
     op_request_hash a = op_request_hash b \<and> op_created_at a = op_created_at b"

definition operation_claim_key :: "operation \<Rightarrow> user_id \<times> string" where
  "operation_claim_key p = (op_actor_id p, op_idempotency_key p)"

definition operation_material :: "operation \<Rightarrow> string \<times> string \<times> workload_id option" where
  "operation_material p = (op_request_hash p, op_action p, op_workload_id p)"

definition claim_of :: "operation \<Rightarrow> operation_claim" where
  "claim_of p = (op_request_hash p, op_action p, op_workload_id p, op_id p)"

fun claim_material :: "operation_claim \<Rightarrow> string \<times> string \<times> workload_id option" where
  "claim_material (h, a, w, _) = (h, a, w)"

fun claim_operation :: "operation_claim \<Rightarrow> operation_id" where
  "claim_operation (_, _, _, i) = i"

definition create_operation_once :: "store \<Rightarrow> operation \<Rightarrow> (store, operation) outcome" where
  "create_operation_once s p =
     (case dict_get (st_op_claims s) (operation_claim_key p) of
        Some existing_claim \<Rightarrow>
          ensure s (claim_material existing_claim = operation_material p) (StoreErr IdempotencyConflict)
            (case dict_get (st_operations s) (claim_operation existing_claim) of
               None \<Rightarrow> (Inl KeyErr, s)
             | Some original \<Rightarrow> (Inr original, s))
      | None \<Rightarrow>
          ensure s (dict_get (st_operations s) (op_id p) = None) (StoreErr AlreadyExists)
         (ensure s (op_version p = 1) (StoreErr VersionConflict)
            (Inr p,
             s\<lparr>st_operations := dict_put (op_id p) p (st_operations s),
               st_op_claims := dict_put (operation_claim_key p) (claim_of p) (st_op_claims s)\<rparr>)))"

definition get_operation :: "store \<Rightarrow> operation_id \<Rightarrow> operation res" where
  "get_operation s operation_id = coll_get (st_operations s) operation_id"

text \<open>Python's \<^verbatim>\<open>max\<close> returns the first of several greatest elements.\<close>

fun max_by :: "('a \<Rightarrow> 'k::linorder) \<Rightarrow> 'a \<Rightarrow> 'a list \<Rightarrow> 'a" where
  "max_by k best [] = best"
| "max_by k best (x # xs) = max_by k (if k best < k x then x else best) xs"

definition operation_recency :: "operation \<Rightarrow> int \<times> int \<times> string" where
  "operation_recency p = (instant (op_updated_at p), instant (op_created_at p), op_id p)"

definition get_latest_workload_operation ::
    "store \<Rightarrow> user_id \<Rightarrow> workload_id \<Rightarrow> operation option" where
  "get_latest_workload_operation s owner_id workload_id =
     (case dict_get (st_workloads s) workload_id of
        None \<Rightarrow> None
      | Some w \<Rightarrow>
          if wl_owner_id w \<noteq> owner_id then None
          else
            (case filter (\<lambda>p. op_workload_id p = Some workload_id) (dict_values (st_operations s)) of
               [] \<Rightarrow> None
             | p # ps \<Rightarrow> Some (max_by operation_recency p ps)))"

text \<open>\<^verbatim>\<open>save_operation\<close>, which checks the immutable fields before the version.\<close>

definition put_operation ::
    "(operation_id, operation) dict \<Rightarrow> operation \<Rightarrow> int \<Rightarrow> (operation_id, operation) dict res" where
  "put_operation d p expected_version =
     (case dict_get d (op_id p) of
        None \<Rightarrow> Inl (StoreErr NotFound)
      | Some current \<Rightarrow>
          require (operation_same current p) (StoreErr InvariantViolation)
         (bind_res (validate_next_version operation_attrs current p expected_version) (\<lambda>_.
          require
            (\<not> (op_result_summary current \<noteq> [] \<and> op_result_summary p \<noteq> op_result_summary current))
            (StoreErr InvariantViolation)
         (bind_res
            (if op_state current \<noteq> op_state p
             then require_operation_transition (op_state current) (op_state p) else Inr ()) (\<lambda>_.
          save_versioned operation_attrs d (op_id p) p expected_version)))))"

definition save_operation :: "store \<Rightarrow> operation \<Rightarrow> int \<Rightarrow> (store, operation) outcome" where
  "save_operation s p expected_version =
     commit s p (put_operation (st_operations s) p expected_version) (\<lambda>d. s\<lparr>st_operations := d\<rparr>)"

definition operation_step :: "operation \<Rightarrow> operation \<Rightarrow> bool" where
  "operation_step current p \<longleftrightarrow>
     next_version operation_attrs current p \<and> operation_same current p \<and>
     (op_result_summary current \<noteq> [] \<longrightarrow> op_result_summary p = op_result_summary current) \<and>
     state_step operation_transitions (op_state current) (op_state p)"

interpretation operations: stateful_collection put_operation op_id "version_of operation_attrs"
  operation_step op_state operation_transitions
proof unfold_locales
  show "put_operation d r v = Inr d' \<longleftrightarrow>
    (\<exists>cur. dict_get d (op_id r) = Some cur \<and> version_of operation_attrs cur = v \<and>
       version_of operation_attrs r = v + 1 \<and> operation_step cur r) \<and> d' = dict_put (op_id r) r d"
    for d r v d'
    by (auto simp: put_operation_def operation_step_def res_simps state_step_def
        require_transition_defs split: option.splits if_splits)
qed (simp add: operation_step_def)


section \<open>Consuming a reviewed plan\<close>

definition consume_deployment_plan_with_operation ::
    "store \<Rightarrow> plan_id \<Rightarrow> user_id \<Rightarrow> string \<Rightarrow> string \<Rightarrow> string \<Rightarrow> pytime \<Rightarrow> operation
       \<Rightarrow> (store, deployment_plan \<times> operation) outcome" where
  "consume_deployment_plan_with_operation s plan_id actor_id expected_material_hash expected_action
     policy_version consumed_at p =
     (case dict_get (st_plans s) plan_id of
        None \<Rightarrow> (Inl (StoreErr NotFound), s)
      | Some plan \<Rightarrow>
          ensure s (pln_actor_id plan = actor_id) (StoreErr InvariantViolation)
         (ensure s (op_actor_id p = actor_id) (StoreErr InvariantViolation)
         (ensure s (pln_policy_version plan = policy_version) (StoreErr InvariantViolation)
         (ensure s (pln_action plan = expected_action) (StoreErr InvariantViolation)
         (ensure s (op_action p = expected_action) (StoreErr InvariantViolation)
         (ensure s (pln_material_hash plan = expected_material_hash) (StoreErr InvariantViolation)
         (ensure s (op_workload_id p = pln_workload_id plan) (StoreErr InvariantViolation)
         (case dict_get (st_op_claims s) (operation_claim_key p) of
            Some existing_claim \<Rightarrow>
              ensure s (claim_material existing_claim = operation_material p)
                (StoreErr IdempotencyConflict)
             (ensure s (pln_state plan = PlanConsumed) (StoreErr InvariantViolation)
             (case dict_get (st_operations s) (claim_operation existing_claim) of
                None \<Rightarrow> (Inl KeyErr, s)
              | Some original \<Rightarrow> (Inr (plan, original), s)))
          | None \<Rightarrow>
              ensure s (pln_state plan = PlanIssued) (StoreErr VersionConflict)
             (ensure s (comparable consumed_at (pln_expires_at plan)) TypeErr
             (ensure s (\<not> time_leq (pln_expires_at plan) consumed_at) (StoreErr InvariantViolation)
             (ensure s (dict_get (st_operations s) (op_id p) = None) (StoreErr AlreadyExists)
             (ensure s (op_version p = 1) (StoreErr VersionConflict)
             (attempt s (plan_transition_state plan PlanConsumed consumed_at) (\<lambda>consumed_plan.
                (Inr (consumed_plan, p),
                 s\<lparr>st_plans := dict_put plan_id consumed_plan (st_plans s),
                   st_operations := dict_put (op_id p) p (st_operations s),
                   st_op_claims :=
                     dict_put (operation_claim_key p) (claim_of p) (st_op_claims s)\<rparr>)))))))))))))))"


section \<open>Schedules\<close>

definition schedule_attrs :: "schedule attrs" where
  "schedule_attrs =
     \<lparr>version_of = sch_version, created_of = (\<lambda>c. Some (sch_created_at c)),
      updated_of = (\<lambda>c. Some (sch_updated_at c))\<rparr>"

definition schedule_same :: "schedule \<Rightarrow> schedule \<Rightarrow> bool" where
  "schedule_same a b \<longleftrightarrow>
     sch_id a = sch_id b \<and> sch_owner_id a = sch_owner_id b \<and>
     sch_workload_id a = sch_workload_id b \<and> sch_cron a = sch_cron b \<and>
     sch_timezone a = sch_timezone b \<and> sch_created_at a = sch_created_at b \<and>
     sch_consecutive_failures a = sch_consecutive_failures b \<and>
     sch_lease_token a = sch_lease_token b \<and> sch_lease_expires_at a = sch_lease_expires_at b \<and>
     sch_last_attempt_at a = sch_last_attempt_at b \<and>
     sch_last_success_at a = sch_last_success_at b"

definition require_schedule_lease_state :: "schedule \<Rightarrow> pytime \<Rightarrow> bool \<Rightarrow> unit res" where
  "require_schedule_lease_state c now allow_expired =
     (case (sch_lease_token c, sch_lease_expires_at c) of
        (None, None) \<Rightarrow> Inr ()
      | (Some token, Some expires_at) \<Rightarrow>
          bind_res (require_schedule_lease_token token) (\<lambda>_.
          bind_res (require_utc_datetime expires_at) (\<lambda>_.
          require (allow_expired \<or> \<not> time_leq expires_at now) (StoreErr InvariantViolation)
            (Inr ())))
      | _ \<Rightarrow> Inl (StoreErr InvariantViolation))"

definition create_schedule :: "store \<Rightarrow> schedule \<Rightarrow> (store, schedule) outcome" where
  "create_schedule s c =
     attempt s (require_schedule_lease_state c (sch_updated_at c) True) (\<lambda>_.
       commit s c (coll_create (\<lambda>c. Some (sch_version c)) (st_schedules s) (sch_id c) c)
         (\<lambda>d. s\<lparr>st_schedules := d\<rparr>))"

definition get_schedule :: "store \<Rightarrow> schedule_id \<Rightarrow> schedule res" where
  "get_schedule s schedule_id = coll_get (st_schedules s) schedule_id"

definition put_schedule ::
    "(schedule_id, schedule) dict \<Rightarrow> schedule \<Rightarrow> int \<Rightarrow> (schedule_id, schedule) dict res" where
  "put_schedule d c =
     save_stateful schedule_attrs sch_state require_schedule_transition schedule_same d (sch_id c) c"

definition save_schedule :: "store \<Rightarrow> schedule \<Rightarrow> int \<Rightarrow> (store, schedule) outcome" where
  "save_schedule s c expected_version =
     commit s c (put_schedule (st_schedules s) c expected_version) (\<lambda>d. s\<lparr>st_schedules := d\<rparr>)"

definition list_schedules :: "store \<Rightarrow> user_id option \<Rightarrow> schedule list" where
  "list_schedules s owner_id =
     sort_key (\<lambda>c. time_id_key (sch_created_at c) (sch_id c))
       (filter (\<lambda>c. owner_id = None \<or> Some (sch_owner_id c) = owner_id)
          (dict_values (st_schedules s)))"

interpretation schedules: record_collection put_schedule sch_id "version_of schedule_attrs"
  "stateful_step schedule_attrs sch_state schedule_transitions schedule_same" sch_state
  schedule_transitions
  unfolding put_schedule_def
  by (rule save_stateful_collection) (simp add: require_schedule_transition_def)

definition acquire_schedule_lease ::
    "store \<Rightarrow> schedule_id \<Rightarrow> int \<Rightarrow> string \<Rightarrow> pytime \<Rightarrow> pytime \<Rightarrow> (store, schedule) outcome" where
  "acquire_schedule_lease s schedule_id expected_version lease_token lease_expires_at now =
     attempt s (require_expected_version expected_version) (\<lambda>_.
     attempt s (require_schedule_lease_token lease_token) (\<lambda>_.
     attempt s (require_utc_datetime lease_expires_at) (\<lambda>_.
     attempt s (require_utc_datetime now) (\<lambda>_.
     ensure s (\<not> time_leq lease_expires_at now) ValueErr
    (case dict_get (st_schedules s) schedule_id of
       None \<Rightarrow> (Inl (StoreErr NotFound), s)
     | Some current \<Rightarrow>
         ensure s (sch_version current = expected_version) (StoreErr VersionConflict)
        (ensure s (sch_state current = ScEnabled) (StoreErr InvariantViolation)
        (ensure s (\<not> time_less now (sch_updated_at current)) (StoreErr InvariantViolation)
        (attempt s (require_schedule_lease_state current now True) (\<lambda>_.
         ensure s
           (\<not> (case (sch_lease_token current, sch_lease_expires_at current) of
                 (Some _, Some expires_at) \<Rightarrow> time_less now expires_at
               | _ \<Rightarrow> False))
           (StoreErr InvariantViolation)
        (ensure s
           (\<not> (case (sch_lease_token current, sch_lease_expires_at current) of
                 (Some token, Some _) \<Rightarrow> token = lease_token
               | _ \<Rightarrow> False))
           (StoreErr InvariantViolation)
        (attempt s
           (schedule_post_init
              (current\<lparr>sch_lease_token := Some lease_token,
                 sch_lease_expires_at := Some lease_expires_at, sch_updated_at := now,
                 sch_version := sch_version current + 1\<rparr>)) (\<lambda>leased.
           (Inr leased, s\<lparr>st_schedules := dict_put schedule_id leased (st_schedules s)\<rparr>)))))))))))))"

definition complete_schedule_run ::
    "store \<Rightarrow> schedule_id \<Rightarrow> int \<Rightarrow> string \<Rightarrow> bool \<Rightarrow> pytime \<Rightarrow> (store, schedule) outcome" where
  "complete_schedule_run s schedule_id expected_version lease_token succeeded completed_at =
     attempt s (require_expected_version expected_version) (\<lambda>_.
     attempt s (require_schedule_lease_token lease_token) (\<lambda>_.
     attempt s (require_utc_datetime completed_at) (\<lambda>_.
    (case dict_get (st_schedules s) schedule_id of
       None \<Rightarrow> (Inl (StoreErr NotFound), s)
     | Some current \<Rightarrow>
         ensure s (sch_version current = expected_version) (StoreErr VersionConflict)
        (ensure s (sch_state current = ScEnabled) (StoreErr InvariantViolation)
        (ensure s (\<not> time_less completed_at (sch_updated_at current)) (StoreErr InvariantViolation)
        (attempt s (require_schedule_lease_state current completed_at False) (\<lambda>_.
         ensure s (sch_lease_token current = Some lease_token) (StoreErr InvariantViolation)
        (ensure s
           (\<not> (case sch_lease_expires_at current of
                 None \<Rightarrow> True | Some expires_at \<Rightarrow> time_leq expires_at completed_at))
           (StoreErr InvariantViolation)
        (let next_failures = (if succeeded then 0 else sch_consecutive_failures current + 1);
             disable = (\<not> succeeded \<and> 3 \<le> next_failures)
         in attempt s
              (if disable then require_schedule_transition (sch_state current) ScDisabled
               else Inr ()) (\<lambda>_.
            attempt s
              (schedule_post_init
                 (current\<lparr>sch_state := (if disable then ScDisabled else sch_state current),
                    sch_consecutive_failures := next_failures,
                    sch_lease_token := None, sch_lease_expires_at := None,
                    sch_last_attempt_at := Some completed_at,
                    sch_last_success_at :=
                      (if succeeded then Some completed_at else sch_last_success_at current),
                    sch_updated_at := completed_at, sch_version := sch_version current + 1\<rparr>))
              (\<lambda>completed.
                (Inr completed,
                 s\<lparr>st_schedules := dict_put schedule_id completed (st_schedules s)\<rparr>)))))))))))))"


section \<open>What a lease call does\<close>

text \<open>A lease may be taken when none is active, and not with the token of the expired one.\<close>

definition lease_available :: "schedule \<Rightarrow> string \<Rightarrow> pytime \<Rightarrow> bool" where
  "lease_available c token now \<longleftrightarrow>
     sch_state c = ScEnabled \<and> \<not> time_less now (sch_updated_at c) \<and>
     (case (sch_lease_token c, sch_lease_expires_at c) of
        (None, None) \<Rightarrow> True
      | (Some held, Some expires_at) \<Rightarrow> time_leq expires_at now \<and> held \<noteq> token
      | _ \<Rightarrow> False)"

definition leased_schedule :: "schedule \<Rightarrow> string \<Rightarrow> pytime \<Rightarrow> pytime \<Rightarrow> schedule" where
  "leased_schedule c token expires_at now =
     c\<lparr>sch_lease_token := Some token, sch_lease_expires_at := Some expires_at,
       sch_updated_at := now, sch_version := sch_version c + 1\<rparr>"

definition lease_held :: "schedule \<Rightarrow> string \<Rightarrow> pytime \<Rightarrow> bool" where
  "lease_held c token at \<longleftrightarrow>
     sch_state c = ScEnabled \<and> \<not> time_less at (sch_updated_at c) \<and>
     sch_lease_token c = Some token \<and>
     (case sch_lease_expires_at c of None \<Rightarrow> False | Some expires_at \<Rightarrow> time_less at expires_at)"

definition completed_schedule :: "schedule \<Rightarrow> bool \<Rightarrow> pytime \<Rightarrow> schedule" where
  "completed_schedule c succeeded at =
     (let failures = (if succeeded then 0 else sch_consecutive_failures c + 1) in
      c\<lparr>sch_state := (if 3 \<le> failures then ScDisabled else sch_state c),
        sch_consecutive_failures := failures, sch_lease_token := None,
        sch_lease_expires_at := None, sch_last_attempt_at := Some at,
        sch_last_success_at := (if succeeded then Some at else sch_last_success_at c),
        sch_updated_at := at, sch_version := sch_version c + 1\<rparr>)"

lemma require_schedule_lease_state_Inr:
  "require_schedule_lease_state c now allow = Inr u \<longleftrightarrow>
     (case (sch_lease_token c, sch_lease_expires_at c) of
        (None, None) \<Rightarrow> True
      | (Some token, Some expires_at) \<Rightarrow>
          lease_token_ok token \<and> is_utc expires_at \<and> (allow \<or> \<not> time_leq expires_at now)
      | _ \<Rightarrow> False)"
  by (auto simp: require_schedule_lease_state_def res_simps split: option.splits)

lemma acquire_schedule_lease_Inr:
  "acquire_schedule_lease s i v token expires_at now = (Inr leased, s') \<longleftrightarrow>
     0 < v \<and> lease_token_ok token \<and> is_utc expires_at \<and> is_utc now \<and> time_less now expires_at \<and>
     (\<exists>c. dict_get (st_schedules s) i = Some c \<and> sch_version c = v \<and>
        lease_available c token now \<and> require_schedule_lease_state c now True = Inr () \<and>
        leased = leased_schedule c token expires_at now \<and> schedule_ok leased \<and>
        s' = s\<lparr>st_schedules := dict_put i leased (st_schedules s)\<rparr>)"
proof (cases "dict_get (st_schedules s) i")
  case None
  then show ?thesis by (auto simp: acquire_schedule_lease_def res_simps)
next
  case (Some c)
  show ?thesis
  proof (cases "sch_lease_token c"; cases "sch_lease_expires_at c")
  qed (use Some in \<open>auto simp: acquire_schedule_lease_def res_simps lease_available_def
      leased_schedule_def require_schedule_lease_state_def time_less_not_leq\<close>)
qed

lemma complete_schedule_run_Inr:
  "complete_schedule_run s i v token succeeded at = (Inr completed, s') \<longleftrightarrow>
     0 < v \<and> lease_token_ok token \<and> is_utc at \<and>
     (\<exists>c. dict_get (st_schedules s) i = Some c \<and> sch_version c = v \<and> lease_held c token at \<and>
        require_schedule_lease_state c at False = Inr () \<and>
        completed = completed_schedule c succeeded at \<and> schedule_ok completed \<and>
        s' = s\<lparr>st_schedules := dict_put i completed (st_schedules s)\<rparr>)"
proof (cases "dict_get (st_schedules s) i")
  case None
  then show ?thesis by (auto simp: complete_schedule_run_def res_simps)
next
  case (Some c)
  show ?thesis
  proof (cases "sch_lease_token c"; cases "sch_lease_expires_at c"; cases succeeded;
      cases "sch_consecutive_failures c + 1 \<ge> 3")
  qed (use Some in \<open>auto simp: complete_schedule_run_def res_simps lease_held_def
      completed_schedule_def require_schedule_lease_state_def time_less_not_leq Let_def
      require_schedule_transition_def\<close>)
qed

end
