(* ===== verification/Store_Deploy.thy ===== *)
theory Store_Deploy
  imports Store_Work
begin

text \<open>
  The methods of \<^verbatim>\<open>MemoryStore\<close> that touch deploy tasks: the create-once queue entry, the
  creation of a schedule from a reviewed plan, and the atomic outcome of one GitHub delivery
  (source advance, admission, plan, operation, task and delivery claim together).
\<close>

section \<open>Deploy tasks\<close>

definition create_deploy_task_once :: "store \<Rightarrow> deploy_task \<Rightarrow> (store, deploy_task \<times> bool) outcome" where
  "create_deploy_task_once s t =
     (case dict_get (st_task_claims s) (tsk_idempotency_key t) of
        Some claimed_operation \<Rightarrow>
          (case dict_get (st_tasks s) claimed_operation of
             None \<Rightarrow> (Inl (StoreErr InvariantViolation), s)
           | Some existing \<Rightarrow>
               ensure s (task_material_hash existing = task_material_hash t)
                 (ExecErr TaskConflictError)
                 (Inr (existing, False), s))
      | None \<Rightarrow>
          (case dict_get (st_tasks s) (tsk_operation_id t) of
             Some existing \<Rightarrow>
               ensure s (task_material_hash existing = task_material_hash t)
                 (ExecErr TaskConflictError)
                 (Inr (existing, False), s)
           | None \<Rightarrow>
               (Inr (t, True),
                s\<lparr>st_tasks := dict_put (tsk_operation_id t) t (st_tasks s),
                  st_task_claims :=
                    dict_put (tsk_idempotency_key t) (tsk_operation_id t) (st_task_claims s)\<rparr>)))"

definition get_deploy_task :: "store \<Rightarrow> operation_id \<Rightarrow> deploy_task res" where
  "get_deploy_task s operation_id =
     (case dict_get (st_tasks s) operation_id of
        None \<Rightarrow> Inl (ExecErr TaskNotFoundError) | Some t \<Rightarrow> Inr t)"


section \<open>A schedule from a reviewed plan\<close>

definition new_schedule_ok :: "schedule \<Rightarrow> bool" where
  "new_schedule_ok c \<longleftrightarrow>
     sch_version c = 1 \<and> sch_state c = ScEnabled \<and> sch_consecutive_failures c = 0 \<and>
     sch_lease_token c = None \<and> sch_lease_expires_at c = None \<and>
     sch_last_attempt_at c = None \<and> sch_last_success_at c = None"

definition schedule_replay_same :: "schedule \<Rightarrow> schedule \<Rightarrow> bool" where
  "schedule_replay_same a b \<longleftrightarrow>
     sch_id a = sch_id b \<and> sch_owner_id a = sch_owner_id b \<and>
     sch_workload_id a = sch_workload_id b \<and> sch_cron a = sch_cron b \<and>
     sch_timezone a = sch_timezone b"

definition consume_schedule_plan_with_operation ::
    "store \<Rightarrow> plan_id \<Rightarrow> user_id \<Rightarrow> string \<Rightarrow> string \<Rightarrow> string \<Rightarrow> pytime \<Rightarrow> schedule
       \<Rightarrow> operation \<Rightarrow> (store, deployment_plan \<times> schedule \<times> operation) outcome" where
  "consume_schedule_plan_with_operation s plan_id actor_id expected_material_hash expected_action
     policy_version consumed_at c p =
     (case dict_get (st_plans s) plan_id of
        None \<Rightarrow> (Inl (StoreErr NotFound), s)
      | Some plan \<Rightarrow>
          ensure s
            (pln_actor_id plan = actor_id \<and> pln_action plan = expected_action \<and>
             pln_policy_version plan = policy_version \<and>
             pln_material_hash plan = expected_material_hash)
            (StoreErr InvariantViolation)
         (ensure s (Some (sch_workload_id c) = pln_workload_id plan) (StoreErr InvariantViolation)
         (case dict_get (st_op_claims s) (operation_claim_key p) of
            Some existing_claim \<Rightarrow>
              ensure s (claim_material existing_claim = operation_material p)
                (StoreErr IdempotencyConflict)
             (ensure s (pln_state plan = PlanConsumed) (StoreErr InvariantViolation)
             (case (dict_get (st_schedules s) (sch_id c),
                    dict_get (st_operations s) (claim_operation existing_claim)) of
                (Some persisted_schedule, Some persisted_operation) \<Rightarrow>
                  ensure s (schedule_replay_same persisted_schedule c) (StoreErr InvariantViolation)
                    (Inr (plan, persisted_schedule, persisted_operation), s)
              | _ \<Rightarrow> (Inl (StoreErr InvariantViolation), s)))
          | None \<Rightarrow>
              ensure s (pln_state plan = PlanIssued) (StoreErr VersionConflict)
             (ensure s (comparable consumed_at (pln_expires_at plan)) TypeErr
             (ensure s (\<not> time_leq (pln_expires_at plan) consumed_at) (StoreErr InvariantViolation)
             (ensure s (dict_get (st_schedules s) (sch_id c) = None) (StoreErr AlreadyExists)
             (ensure s (new_schedule_ok c) (StoreErr InvariantViolation)
             (ensure s (dict_get (st_operations s) (op_id p) = None) (StoreErr AlreadyExists)
             (ensure s
                (op_version p = 1 \<and> op_actor_id p = actor_id \<and> op_action p = expected_action \<and>
                 op_request_hash p = expected_material_hash \<and> op_state p = OpQueued)
                (StoreErr InvariantViolation)
             (attempt s (plan_transition_state plan PlanConsumed consumed_at) (\<lambda>consumed_plan.
                (Inr (consumed_plan, c, p),
                 s\<lparr>st_plans := dict_put plan_id consumed_plan (st_plans s),
                   st_schedules := dict_put (sch_id c) c (st_schedules s),
                   st_operations := dict_put (op_id p) p (st_operations s),
                   st_op_claims :=
                     dict_put (operation_claim_key p) (claim_of p) (st_op_claims s)\<rparr>))))))))))))"


section \<open>One GitHub delivery\<close>

definition auto_deploy_actor_id :: user_id where
  "auto_deploy_actor_id = ''system:github-auto-deploy''"

text \<open>The five hexadecimal groups of a UUID.\<close>

definition delivery_id_ok :: "string \<Rightarrow> bool" where
  "delivery_id_ok d =
     (case split_on (CHR ''-'') d of
        [a, b, c, e, f] \<Rightarrow>
          is_hex_text 8 a \<and> is_hex_text 4 b \<and> is_hex_text 4 c \<and> is_hex_text 4 e \<and> is_hex_text 12 f
      | _ \<Rightarrow> False)"

definition github_delivery_material_ok :: "string \<Rightarrow> string \<Rightarrow> string \<Rightarrow> bool" where
  "github_delivery_material_ok delivery_id delivery_hash source_ref \<longleftrightarrow>
     delivery_id_ok delivery_id \<and> is_hex_text 64 delivery_hash \<and>
     starts_with source_ref ''refs/heads/'' \<and> \<not> contains ''..'' source_ref"

definition task_matches_auto_deploy ::
    "deploy_task \<Rightarrow> workload \<Rightarrow> repository_admission \<Rightarrow> operation \<Rightarrow> bool" where
  "task_matches_auto_deploy t w a p \<longleftrightarrow>
     tsk_operation_id t = op_id p \<and> tsk_operation_version t = op_version p \<and>
     tsk_workload_id t = wl_id w \<and> tsk_workload_version t = wl_version w \<and>
     tsk_admission_id t = adm_id a \<and> tsk_admission_version t = adm_version a \<and>
     tsk_source_sha t = adm_admitted_sha a \<and> tsk_source_sha t = wl_source_sha w \<and>
     tsk_idempotency_key t = op_idempotency_key p \<and> tsk_queued_at t = op_created_at p"

definition source_advance_ok :: "repository_admission \<Rightarrow> repository_admission \<Rightarrow> bool" where
  "source_advance_ok old a \<longleftrightarrow>
     adm_version a = 1 \<and> adm_state a = Admitted \<and>
     adm_repository_numeric_id a = adm_repository_numeric_id old \<and> adm_owner a = adm_owner old \<and>
     adm_name a = adm_name old \<and> adm_installation_id a = adm_installation_id old \<and>
     adm_admitted_sha a \<noteq> adm_admitted_sha old"

record github_result =
  gar_admission :: repository_admission
  gar_workload :: workload
  gar_plan :: deployment_plan
  gar_operation :: operation
  gar_task :: deploy_task
  gar_replayed :: bool

text \<open>The replay branch: everything the claim names must still be there.\<close>

definition github_replay ::
    "store \<Rightarrow> admission_id \<Rightarrow> workload_id \<Rightarrow> plan_id \<Rightarrow> operation_id \<Rightarrow> (store, github_result) outcome" where
  "github_replay s admission_id workload_id plan_id operation_id =
     (case (dict_get (st_admissions s) admission_id, dict_get (st_workloads s) workload_id,
            dict_get (st_plans s) plan_id, dict_get (st_operations s) operation_id,
            dict_get (st_tasks s) operation_id) of
        (Some a, Some w, Some plan, Some p, Some t) \<Rightarrow>
          (Inr \<lparr>gar_admission = a, gar_workload = w, gar_plan = plan, gar_operation = p,
                gar_task = t, gar_replayed = True\<rparr>, s)
      | _ \<Rightarrow> (Inl (StoreErr InvariantViolation), s))"

definition delivery_claim_of ::
    "string \<Rightarrow> string \<Rightarrow> repository_admission \<Rightarrow> workload \<Rightarrow> deployment_plan \<Rightarrow> operation
       \<Rightarrow> deploy_task \<Rightarrow> delivery_claim" where
  "delivery_claim_of delivery_hash source_ref a w plan p t =
     (delivery_hash, source_ref, adm_id a, wl_id w, pln_id plan, op_id p, task_material_hash t)"

definition apply_github_auto_deploy_once ::
    "store \<Rightarrow> string \<Rightarrow> string \<Rightarrow> string \<Rightarrow> int \<Rightarrow> repository_admission \<Rightarrow> workload
       \<Rightarrow> deployment_plan \<Rightarrow> operation \<Rightarrow> deploy_task \<Rightarrow> pytime \<Rightarrow> (store, github_result) outcome" where
  "apply_github_auto_deploy_once s delivery_id delivery_hash source_ref expected_workload_version
     a w plan p t consumed_at =
     ensure s (github_delivery_material_ok delivery_id delivery_hash source_ref)
       (StoreErr InvariantViolation)
    (case dict_get (st_deliveries s) delivery_id of
       Some existing \<Rightarrow>
         ensure s (existing = delivery_claim_of delivery_hash source_ref a w plan p t)
           (StoreErr ReplayDetected)
           (github_replay s (adm_id a) (wl_id w) (pln_id plan) (op_id p))
     | None \<Rightarrow>
    (case dict_get (st_workloads s) (wl_id w) of
       None \<Rightarrow> (Inl (StoreErr NotFound), s)
     | Some current \<Rightarrow>
         ensure s (wl_version current = expected_workload_version) (StoreErr VersionConflict)
        (ensure s
           (case dict_get (st_users s) (wl_owner_id current) of
              None \<Rightarrow> False | Some owner \<Rightarrow> usr_state owner = UserActive)
           (StoreErr InvariantViolation)
        (ensure s (wl_state current \<in> {WlActive, WlFailed}) (StoreErr InvariantViolation)
        (ensure s (wl_auto_deploy_enabled current \<and> wl_auto_deploy_ref current = Some source_ref)
           (StoreErr InvariantViolation)
        (case dict_get (st_admissions s) (wl_repository_admission_id current) of
           None \<Rightarrow> (Inl (StoreErr NotFound), s)
         | Some old_admission \<Rightarrow>
             ensure s (adm_state old_admission = Admitted) (StoreErr InvariantViolation)
            (ensure s (dict_get (st_admissions s) (adm_id a) = None) (StoreErr AlreadyExists)
            (ensure s (source_advance_ok old_admission a) (StoreErr InvariantViolation)
            (attempt s
               (advance_source current (adm_id a) (adm_admitted_sha a)
                  (wl_desired_manifest_hash w) (wl_updated_at w)) (\<lambda>expected_workload.
             ensure s (w = expected_workload) (StoreErr InvariantViolation)
            (ensure s
               (dict_get (st_plans s) (pln_id plan) = None \<and>
                dict_get (st_operations s) (op_id p) = None \<and>
                dict_get (st_tasks s) (op_id p) = None)
               (StoreErr AlreadyExists)
            (ensure s
               (pln_version plan = 1 \<and> pln_state plan = PlanIssued \<and>
                pln_actor_id plan = auto_deploy_actor_id \<and>
                pln_workload_id plan = Some (wl_id w) \<and> pln_action plan = ''deploy'')
               (StoreErr InvariantViolation)
            (ensure s (comparable consumed_at (pln_expires_at plan)) TypeErr
            (ensure s (\<not> time_leq (pln_expires_at plan) consumed_at) (StoreErr InvariantViolation)
            (ensure s
               (op_version p = 1 \<and> op_state p = OpQueued \<and> op_actor_id p = auto_deploy_actor_id \<and>
                op_workload_id p = Some (wl_id w) \<and> op_action p = ''deploy'' \<and>
                op_idempotency_key p = ''github:'' @ delivery_id \<and>
                op_request_hash p = pln_material_hash plan)
               (StoreErr InvariantViolation)
            (ensure s (dict_get (st_op_claims s) (operation_claim_key p) = None)
               (StoreErr IdempotencyConflict)
            (ensure s (task_matches_auto_deploy t w a p) (StoreErr InvariantViolation)
            (ensure s (dict_get (st_task_claims s) (tsk_idempotency_key t) = None)
               (ExecErr TaskConflictError)
            (attempt s (plan_transition_state plan PlanConsumed consumed_at) (\<lambda>consumed_plan.
               (Inr \<lparr>gar_admission = a, gar_workload = w, gar_plan = consumed_plan,
                     gar_operation = p, gar_task = t, gar_replayed = False\<rparr>,
                s\<lparr>st_admissions := dict_put (adm_id a) a (st_admissions s),
                  st_workloads := dict_put (wl_id w) w (st_workloads s),
                  st_plans := dict_put (pln_id plan) consumed_plan (st_plans s),
                  st_operations := dict_put (op_id p) p (st_operations s),
                  st_op_claims := dict_put (operation_claim_key p) (claim_of p) (st_op_claims s),
                  st_tasks := dict_put (op_id p) t (st_tasks s),
                  st_task_claims := dict_put (tsk_idempotency_key t) (op_id p) (st_task_claims s),
                  st_deliveries :=
                    dict_put delivery_id (delivery_claim_of delivery_hash source_ref a w plan p t)
                      (st_deliveries s)\<rparr>)))))))))))))))))))))"

end
