(* ===== verification/Store_Secrets.thy ===== *)
theory Store_Secrets
  imports Store_Base
begin

text \<open>
  Secret metadata of \<^verbatim>\<open>MemoryStore\<close>. A save must be a step of the mutation protocol: a draft is
  opened from idle, progresses without changing anything but its clock, and is finalized by
  exactly what the draft announced.
\<close>

definition secret_attrs :: "secret_metadata attrs" where
  "secret_attrs =
     \<lparr>version_of = sec_version, created_of = (\<lambda>x. Some (sec_created_at x)),
      updated_of = (\<lambda>x. Some (sec_updated_at x))\<rparr>"

definition secret_same :: "secret_metadata \<Rightarrow> secret_metadata \<Rightarrow> bool" where
  "secret_same a b \<longleftrightarrow>
     sec_id a = sec_id b \<and> sec_owner_id a = sec_owner_id b \<and> sec_name a = sec_name b \<and>
     sec_integration_type a = sec_integration_type b \<and> sec_created_at a = sec_created_at b"

text \<open>\<^verbatim>\<open>pending is None or not set(attached).issubset(set(pending))\<close>, negated.\<close>

definition keeps_attachments :: "secret_metadata \<Rightarrow> secret_metadata \<Rightarrow> bool" where
  "keeps_attachments current x =
     (case sec_pending_workload_ids x of
        None \<Rightarrow> False
      | Some pending \<Rightarrow> set (sec_attached_workload_ids current) \<subseteq> set pending)"

definition require_idle_secret_update :: "secret_metadata \<Rightarrow> secret_metadata \<Rightarrow> bool" where
  "require_idle_secret_update current x =
     (case sec_mutation_state x of
        MutIdle \<Rightarrow>
          sec_attached_workload_ids current = sec_attached_workload_ids x \<and>
          sec_active_version current = sec_active_version x
      | MutAttaching \<Rightarrow>
          sec_rotation_state current = sec_rotation_state x \<and>
          sec_active_version current = sec_active_version x \<and>
          sec_attached_workload_ids current = sec_attached_workload_ids x \<and>
          keeps_attachments current x
      | MutRotating \<Rightarrow>
          sec_active_version current = sec_active_version x \<and>
          sec_attached_workload_ids current = sec_attached_workload_ids x \<and>
          sec_rotation_state x = Rotating \<and>
          keeps_attachments current x
      | MutCreating \<Rightarrow> False)"

text \<open>What every draft keeps while it progresses.\<close>

definition draft_progress_same :: "secret_metadata \<Rightarrow> secret_metadata \<Rightarrow> bool" where
  "draft_progress_same current x \<longleftrightarrow>
     sec_attached_workload_ids x = sec_attached_workload_ids current \<and>
     sec_active_version x = sec_active_version current \<and>
     sec_pending_workload_ids x = sec_pending_workload_ids current \<and>
     sec_mutation_idempotency_key x = sec_mutation_idempotency_key current \<and>
     sec_rotation_state x = sec_rotation_state current \<and>
     sec_lifecycle_state x = sec_lifecycle_state current"

definition require_create_secret_update :: "secret_metadata \<Rightarrow> secret_metadata \<Rightarrow> bool" where
  "require_create_secret_update current x =
     (if sec_mutation_state x = MutCreating then
        draft_progress_same current x \<and>
        sec_pending_payload_sha256 x = sec_pending_payload_sha256 current
      else
        sec_mutation_state x = MutIdle \<and>
        Some (sec_attached_workload_ids x) = sec_pending_workload_ids current \<and>
        sec_active_version x = sec_active_version current \<and>
        sec_rotation_state x = RotStable \<and>
        sec_lifecycle_state x = sec_lifecycle_state current)"

definition require_attach_secret_update :: "secret_metadata \<Rightarrow> secret_metadata \<Rightarrow> bool" where
  "require_attach_secret_update current x =
     (if sec_mutation_state x = MutAttaching then
        draft_progress_same current x \<and> sec_pending_payload_sha256 x = None
      else
        sec_mutation_state x = MutIdle \<and>
        Some (sec_attached_workload_ids x) = sec_pending_workload_ids current \<and>
        sec_active_version x = sec_active_version current \<and>
        sec_rotation_state x = sec_rotation_state current \<and>
        sec_lifecycle_state x = sec_lifecycle_state current)"

definition require_rotate_secret_update :: "secret_metadata \<Rightarrow> secret_metadata \<Rightarrow> bool" where
  "require_rotate_secret_update current x =
     (if sec_mutation_state x = MutRotating then
        draft_progress_same current x \<and>
        sec_pending_payload_sha256 x = sec_pending_payload_sha256 current
      else
        sec_mutation_state x = MutIdle \<and>
        Some (sec_attached_workload_ids x) = sec_pending_workload_ids current \<and>
        sec_rotation_state x = RetiringOldVersion \<and>
        sec_rotation_state current = Rotating \<and>
        sec_retiring_version x = Some (sec_active_version current) \<and>
        sec_active_version current < sec_active_version x \<and>
        sec_lifecycle_state x = sec_lifecycle_state current)"

definition legal_secret_update :: "secret_metadata \<Rightarrow> secret_metadata \<Rightarrow> bool" where
  "legal_secret_update current x \<longleftrightarrow>
     sec_active_version current \<le> sec_active_version x \<and>
     (case sec_retiring_version x of None \<Rightarrow> True | Some v \<Rightarrow> v < sec_active_version x) \<and>
     (case sec_mutation_state current of
        MutIdle \<Rightarrow> require_idle_secret_update current x
      | MutCreating \<Rightarrow> require_create_secret_update current x
      | MutAttaching \<Rightarrow> require_attach_secret_update current x
      | MutRotating \<Rightarrow> require_rotate_secret_update current x)"

definition create_secret_metadata :: "store \<Rightarrow> secret_metadata \<Rightarrow> (store, secret_metadata) outcome" where
  "create_secret_metadata s x =
     commit s x (coll_create (\<lambda>x. Some (sec_version x)) (st_secrets s) (sec_id x) x)
       (\<lambda>d. s\<lparr>st_secrets := d\<rparr>)"

definition get_secret_metadata :: "store \<Rightarrow> secret_id \<Rightarrow> secret_metadata res" where
  "get_secret_metadata s secret_id = coll_get (st_secrets s) secret_id"

definition put_secret ::
    "(secret_id, secret_metadata) dict \<Rightarrow> secret_metadata \<Rightarrow> int
       \<Rightarrow> (secret_id, secret_metadata) dict res" where
  "put_secret d x expected_version =
     (case dict_get d (sec_id x) of
        None \<Rightarrow> Inl (StoreErr NotFound)
      | Some current \<Rightarrow>
          bind_res (validate_next_version secret_attrs current x expected_version) (\<lambda>_.
          require (secret_same current x) (StoreErr InvariantViolation)
         (bind_res
            (if sec_lifecycle_state current \<noteq> sec_lifecycle_state x
             then require_secret_lifecycle_transition (sec_lifecycle_state current)
                    (sec_lifecycle_state x)
             else Inr ()) (\<lambda>_.
          bind_res
            (if sec_rotation_state current \<noteq> sec_rotation_state x
             then require_secret_rotation_transition (sec_rotation_state current)
                    (sec_rotation_state x)
             else Inr ()) (\<lambda>_.
          require (legal_secret_update current x) (StoreErr InvariantViolation)
            (save_versioned secret_attrs d (sec_id x) x expected_version)))))) "

definition save_secret_metadata ::
    "store \<Rightarrow> secret_metadata \<Rightarrow> int \<Rightarrow> (store, secret_metadata) outcome" where
  "save_secret_metadata s x expected_version =
     commit s x (put_secret (st_secrets s) x expected_version) (\<lambda>d. s\<lparr>st_secrets := d\<rparr>)"

definition list_secret_metadata :: "store \<Rightarrow> user_id option \<Rightarrow> secret_metadata list" where
  "list_secret_metadata s owner_id =
     sort_key (\<lambda>x. time_id_key (sec_created_at x) (sec_id x))
       (filter (\<lambda>x. owner_id = None \<or> Some (sec_owner_id x) = owner_id)
          (dict_values (st_secrets s)))"


section \<open>The collection\<close>

definition secret_step :: "secret_metadata \<Rightarrow> secret_metadata \<Rightarrow> bool" where
  "secret_step current x \<longleftrightarrow>
     next_version secret_attrs current x \<and> secret_same current x \<and>
     state_step secret_lifecycle_transitions (sec_lifecycle_state current) (sec_lifecycle_state x) \<and>
     state_step rotation_transitions (sec_rotation_state current) (sec_rotation_state x) \<and>
     legal_secret_update current x"

interpretation secrets: record_collection put_secret sec_id "version_of secret_attrs"
  secret_step sec_lifecycle_state secret_lifecycle_transitions
proof unfold_locales
  show "put_secret d r v = Inr d' \<longleftrightarrow>
    (\<exists>cur. dict_get d (sec_id r) = Some cur \<and> version_of secret_attrs cur = v \<and>
       version_of secret_attrs r = v + 1 \<and> secret_step cur r) \<and> d' = dict_put (sec_id r) r d"
    for d r v d'
    by (auto simp: put_secret_def secret_step_def res_simps state_step_def
        require_transition_defs split: option.splits if_splits)
qed (auto simp: secret_step_def put_secret_def validate_next_version_stale)

lemma idle_update_cases:
  "require_idle_secret_update cur x \<longleftrightarrow>
     sec_attached_workload_ids cur = sec_attached_workload_ids x \<and>
     sec_active_version cur = sec_active_version x \<and> sec_mutation_state x \<noteq> MutCreating \<and>
     (sec_mutation_state x = MutAttaching \<longrightarrow>
        sec_rotation_state cur = sec_rotation_state x \<and> keeps_attachments cur x) \<and>
     (sec_mutation_state x = MutRotating \<longrightarrow>
        sec_rotation_state x = Rotating \<and> keeps_attachments cur x)"
  by (cases "sec_mutation_state x") (auto simp: require_idle_secret_update_def)

lemmas secret_update_defs =
  legal_secret_update_def idle_update_cases require_create_secret_update_def
  require_attach_secret_update_def require_rotate_secret_update_def draft_progress_same_def

end
