(* ===== verification/Store_Ledger.thy ===== *)
theory Store_Ledger
  imports Store_Base
begin

text \<open>
  The ledgers of \<^verbatim>\<open>MemoryStore\<close>: usage entries, the organization cost guard, activity and audit
  events, daily aggregates, lifecycle actions, maintenance jobs, origin request claims, and the
  Directory snapshot ledger with its atomic user reconciliation.
\<close>

section \<open>Usage entries\<close>

definition append_usage_entry :: "store \<Rightarrow> usage_entry \<Rightarrow> (store, usage_entry) outcome" where
  "append_usage_entry s e =
     commit s e (coll_create (\<lambda>_. None) (st_usage s) (use_id e) e) (\<lambda>d. s\<lparr>st_usage := d\<rparr>)"

fun confidence_rank :: "usage_confidence \<Rightarrow> nat" where
  "confidence_rank Estimated = 1"
| "confidence_rank Measured = 2"
| "confidence_rank Finalized = 3"

definition monotonic_usage_update :: "usage_entry \<Rightarrow> usage_entry \<Rightarrow> bool" where
  "monotonic_usage_update current updated \<longleftrightarrow>
     (use_id current = use_id updated \<and> use_owner_id current = use_owner_id updated \<and>
      use_workload_id current = use_workload_id updated \<and>
      use_service_category current = use_service_category updated) \<and>
     \<not> use_estimated_cost_krw updated < use_estimated_cost_krw current \<and>
     (case use_finalized_cost_krw current of
        None \<Rightarrow> True
      | Some before \<Rightarrow>
          (case use_finalized_cost_krw updated of None \<Rightarrow> False | Some after \<Rightarrow> \<not> after < before)) \<and>
     \<not> confidence_rank (use_confidence updated) < confidence_rank (use_confidence current) \<and>
     \<not> time_less (use_collected_at updated) (use_collected_at current)"

definition upsert_usage_entry_monotonic ::
    "store \<Rightarrow> usage_entry \<Rightarrow> usage_entry \<Rightarrow> (store, usage_entry) outcome" where
  "upsert_usage_entry_monotonic s current updated =
     (case dict_get (st_usage s) (use_id current) of
        None \<Rightarrow> (Inl (StoreErr NotFound), s)
      | Some persisted \<Rightarrow>
          if persisted = updated then (Inr persisted, s)
          else
            ensure s (persisted = current) (StoreErr VersionConflict)
           (ensure s (monotonic_usage_update current updated) (StoreErr InvariantViolation)
              (Inr updated, s\<lparr>st_usage := dict_put (use_id current) updated (st_usage s)\<rparr>)))"

definition list_usage_entries :: "store \<Rightarrow> user_id option \<Rightarrow> usage_entry list" where
  "list_usage_entries s owner_id =
     sort_key (\<lambda>e. time_id_key (use_collected_at e) (use_id e))
       (filter (\<lambda>e. owner_id = None \<or> use_owner_id e = owner_id) (dict_values (st_usage s)))"


section \<open>The organization cost guard\<close>

text \<open>One record under a fixed key; it has neither \<^verbatim>\<open>created_at\<close> nor \<^verbatim>\<open>updated_at\<close>.\<close>

definition guard_key :: string where
  "guard_key = ''organization''"

definition guard_attrs :: "org_cost_guard attrs" where
  "guard_attrs =
     \<lparr>version_of = grd_version, created_of = (\<lambda>_. None), updated_of = (\<lambda>_. None)\<rparr>"

definition create_org_cost_guard :: "store \<Rightarrow> org_cost_guard \<Rightarrow> (store, org_cost_guard) outcome" where
  "create_org_cost_guard s g =
     commit s g (coll_create (\<lambda>g. Some (grd_version g)) (st_guards s) guard_key g)
       (\<lambda>d. s\<lparr>st_guards := d\<rparr>)"

definition get_org_cost_guard :: "store \<Rightarrow> org_cost_guard res" where
  "get_org_cost_guard s = coll_get (st_guards s) guard_key"

definition put_guard ::
    "(string, org_cost_guard) dict \<Rightarrow> org_cost_guard \<Rightarrow> int \<Rightarrow> (string, org_cost_guard) dict res" where
  "put_guard d g = save_versioned guard_attrs d guard_key g"

definition save_org_cost_guard ::
    "store \<Rightarrow> org_cost_guard \<Rightarrow> int \<Rightarrow> (store, org_cost_guard) outcome" where
  "save_org_cost_guard s g expected_version =
     commit s g (put_guard (st_guards s) g expected_version) (\<lambda>d. s\<lparr>st_guards := d\<rparr>)"

interpretation guards: versioned_collection put_guard "\<lambda>_. guard_key" "version_of guard_attrs"
  "next_version guard_attrs"
  unfolding put_guard_def by (rule save_versioned_collection [of guard_attrs "\<lambda>_. guard_key"])


section \<open>Activity events\<close>

definition append_activity_event :: "store \<Rightarrow> activity_event \<Rightarrow> (store, activity_event) outcome" where
  "append_activity_event s e =
     commit s e (coll_create (\<lambda>_. None) (st_activity s) (act_id e) e) (\<lambda>d. s\<lparr>st_activity := d\<rparr>)"

definition list_activity_events :: "store \<Rightarrow> user_id option \<Rightarrow> activity_event list" where
  "list_activity_events s user_id =
     sort_key (\<lambda>e. time_id_key (act_occurred_at e) (act_id e))
       (filter (\<lambda>e. user_id = None \<or> Some (act_user_id e) = user_id) (dict_values (st_activity s)))"

text \<open>
  \<^verbatim>\<open>expire_activity_events\<close> deletes while it validates: an id that is blank, padded or repeated
  raises after the events before it are gone.
\<close>

fun expire_scan ::
    "store \<Rightarrow> string set \<Rightarrow> string list \<Rightarrow> string list \<Rightarrow> (store, string list) outcome" where
  "expire_scan s seen removed [] = (Inr removed, s)"
| "expire_scan s seen removed (event_id # rest) =
     ensure s (stripped_text_ok event_id) (StoreErr InvariantViolation)
    (ensure s (event_id \<notin> seen) (StoreErr InvariantViolation)
    (if dict_get (st_activity s) event_id \<noteq> None then
       expire_scan (s\<lparr>st_activity := dict_del event_id (st_activity s)\<rparr>) (insert event_id seen)
         (removed @ [event_id]) rest
     else expire_scan s (insert event_id seen) removed rest))"

definition expire_activity_events :: "store \<Rightarrow> string list \<Rightarrow> (store, string list) outcome" where
  "expire_activity_events s event_ids = expire_scan s {} [] event_ids"


section \<open>Daily aggregates\<close>

definition aggregate_attrs :: "daily_usage_aggregate attrs" where
  "aggregate_attrs =
     \<lparr>version_of = agg_version, created_of = (\<lambda>_. None),
      updated_of = (\<lambda>a. Some (agg_updated_at a))\<rparr>"

definition aggregate_key :: "daily_usage_aggregate \<Rightarrow> int \<times> user_id option" where
  "aggregate_key a = (agg_day a, agg_user_id a)"

definition create_daily_usage_aggregate ::
    "store \<Rightarrow> daily_usage_aggregate \<Rightarrow> (store, daily_usage_aggregate) outcome" where
  "create_daily_usage_aggregate s a =
     commit s a (coll_create (\<lambda>a. Some (agg_version a)) (st_aggregates s) (aggregate_key a) a)
       (\<lambda>d. s\<lparr>st_aggregates := d\<rparr>)"

definition get_daily_usage_aggregate ::
    "store \<Rightarrow> int \<Rightarrow> user_id option \<Rightarrow> daily_usage_aggregate res" where
  "get_daily_usage_aggregate s day user_id = coll_get (st_aggregates s) (day, user_id)"

definition put_aggregate ::
    "(int \<times> user_id option, daily_usage_aggregate) dict \<Rightarrow> daily_usage_aggregate \<Rightarrow> int
       \<Rightarrow> (int \<times> user_id option, daily_usage_aggregate) dict res" where
  "put_aggregate d a = save_versioned aggregate_attrs d (aggregate_key a) a"

definition save_daily_usage_aggregate ::
    "store \<Rightarrow> daily_usage_aggregate \<Rightarrow> int \<Rightarrow> (store, daily_usage_aggregate) outcome" where
  "save_daily_usage_aggregate s a expected_version =
     commit s a (put_aggregate (st_aggregates s) a expected_version) (\<lambda>d. s\<lparr>st_aggregates := d\<rparr>)"

interpretation aggregates: versioned_collection put_aggregate aggregate_key
  "version_of aggregate_attrs" "next_version aggregate_attrs"
  unfolding put_aggregate_def by (rule save_versioned_collection)


section \<open>Audit events\<close>

definition append_audit_event :: "store \<Rightarrow> audit_event \<Rightarrow> (store, audit_event) outcome" where
  "append_audit_event s e =
     commit s e (coll_create (\<lambda>_. None) (st_audit s) (aud_id e) e) (\<lambda>d. s\<lparr>st_audit := d\<rparr>)"

definition list_audit_events :: "store \<Rightarrow> audit_event list" where
  "list_audit_events s =
     sort_key (\<lambda>e. time_id_key (aud_occurred_at e) (aud_id e)) (dict_values (st_audit s))"


section \<open>Lifecycle actions\<close>

definition action_attrs :: "lifecycle_action attrs" where
  "action_attrs =
     \<lparr>version_of = lca_version, created_of = (\<lambda>a. Some (lca_created_at a)),
      updated_of = (\<lambda>a. Some (lca_updated_at a))\<rparr>"

definition action_same :: "lifecycle_action \<Rightarrow> lifecycle_action \<Rightarrow> bool" where
  "action_same a b \<longleftrightarrow>
     lca_id a = lca_id b \<and> lca_workload_id a = lca_workload_id b \<and> lca_kind a = lca_kind b \<and>
     lca_reason a = lca_reason b \<and> lca_eligible_at a = lca_eligible_at b \<and>
     lca_observed_workload_version a = lca_observed_workload_version b \<and>
     lca_created_at a = lca_created_at b"

definition lifecycle_execution_consistent :: "lifecycle_action \<Rightarrow> bool" where
  "lifecycle_execution_consistent a \<longleftrightarrow> (lca_state a = LaExecuted) = (lca_executed_at a \<noteq> None)"

definition create_lifecycle_action ::
    "store \<Rightarrow> lifecycle_action \<Rightarrow> (store, lifecycle_action) outcome" where
  "create_lifecycle_action s a =
     ensure s (lifecycle_execution_consistent a) (StoreErr InvariantViolation)
       (commit s a (coll_create (\<lambda>a. Some (lca_version a)) (st_actions s) (lca_id a) a)
          (\<lambda>d. s\<lparr>st_actions := d\<rparr>))"

definition get_lifecycle_action :: "store \<Rightarrow> string \<Rightarrow> lifecycle_action res" where
  "get_lifecycle_action s action_id = coll_get (st_actions s) action_id"

definition put_action ::
    "(string, lifecycle_action) dict \<Rightarrow> lifecycle_action \<Rightarrow> int
       \<Rightarrow> (string, lifecycle_action) dict res" where
  "put_action d a =
     save_stateful action_attrs lca_state require_lifecycle_action_transition action_same d (lca_id a) a"

definition save_lifecycle_action ::
    "store \<Rightarrow> lifecycle_action \<Rightarrow> int \<Rightarrow> (store, lifecycle_action) outcome" where
  "save_lifecycle_action s a expected_version =
     ensure s (lifecycle_execution_consistent a) (StoreErr InvariantViolation)
       (commit s a (put_action (st_actions s) a expected_version) (\<lambda>d. s\<lparr>st_actions := d\<rparr>))"

interpretation actions: record_collection put_action lca_id "version_of action_attrs"
  "stateful_step action_attrs lca_state lifecycle_action_transitions action_same" lca_state
  lifecycle_action_transitions
  unfolding put_action_def
  by (rule save_stateful_collection) (simp add: require_lifecycle_action_transition_def)


section \<open>Maintenance jobs\<close>

definition get_maintenance_job_status :: "store \<Rightarrow> string \<Rightarrow> maintenance_job_status res" where
  "get_maintenance_job_status s job_name = coll_get (st_jobs s) job_name"

definition list_maintenance_job_statuses :: "store \<Rightarrow> maintenance_job_status list" where
  "list_maintenance_job_statuses s = sort_key mjs_job_name (dict_values (st_jobs s))"

definition record_maintenance_job_started ::
    "store \<Rightarrow> string \<Rightarrow> string \<Rightarrow> pytime \<Rightarrow> (store, maintenance_job_status) outcome" where
  "record_maintenance_job_started s job_name run_id started_at =
     attempt s
       (maintenance_post_init
          \<lparr>mjs_job_name = job_name, mjs_run_id = run_id, mjs_started_at = started_at,
           mjs_finished_at = None, mjs_succeeded_at = None, mjs_failed_at = None,
           mjs_outcome = ''started'', mjs_summary = [], mjs_failure_code = None,
           mjs_failure_class = None,
           mjs_version =
             (case dict_get (st_jobs s) job_name of
                None \<Rightarrow> 1 | Some current \<Rightarrow> mjs_version current + 1)\<rparr>)
       (\<lambda>status. (Inr status, s\<lparr>st_jobs := dict_put job_name status (st_jobs s)\<rparr>))"

definition record_maintenance_job_terminal ::
    "store \<Rightarrow> string \<Rightarrow> string \<Rightarrow> int \<Rightarrow> pytime \<Rightarrow> string \<Rightarrow> (string \<times> int) list \<Rightarrow> string option
       \<Rightarrow> string option \<Rightarrow> (store, maintenance_job_status) outcome" where
  "record_maintenance_job_terminal s job_name run_id expected_version finished_at outcome summary
     failure_code failure_class =
     (case dict_get (st_jobs s) job_name of
        None \<Rightarrow> (Inl (StoreErr NotFound), s)
      | Some current \<Rightarrow>
          ensure s (mjs_version current = expected_version) (StoreErr VersionConflict)
         (ensure s (mjs_run_id current = run_id) (StoreErr VersionConflict)
         (attempt s
            (maintenance_post_init
               \<lparr>mjs_job_name = job_name, mjs_run_id = run_id,
                mjs_started_at = mjs_started_at current, mjs_finished_at = Some finished_at,
                mjs_succeeded_at = (if outcome = ''completed'' then Some finished_at else None),
                mjs_failed_at = (if outcome = ''failed'' then Some finished_at else None),
                mjs_outcome = outcome, mjs_summary = summary, mjs_failure_code = failure_code,
                mjs_failure_class = failure_class, mjs_version = mjs_version current + 1\<rparr>)
            (\<lambda>status. (Inr status, s\<lparr>st_jobs := dict_put job_name status (st_jobs s)\<rparr>)))))"


section \<open>Origin request claims\<close>

definition claim_origin_request :: "store \<Rightarrow> origin_request_claim \<Rightarrow> (store, unit) outcome" where
  "claim_origin_request s c =
     ensure s (dict_get (st_origin_claims s) (ocl_request_id c) = None) (StoreErr ReplayDetected)
       (Inr (), s\<lparr>st_origin_claims := dict_put (ocl_request_id c) c (st_origin_claims s)\<rparr>)"


section \<open>Directory snapshots\<close>

definition pilot_max_identities :: int where
  "pilot_max_identities = 50"

definition replayed_result :: "string \<Rightarrow> string \<Rightarrow> directory_result" where
  "replayed_result snapshot_id material_hash =
     \<lparr>dir_snapshot_id = snapshot_id, dir_material_hash = material_hash, dir_replayed = True,
      dir_applied_user_ids = [], dir_locked_user_ids = [], dir_audit_event_ids = []\<rparr>"

definition apply_reconciled_users ::
    "user_reconciliation list \<Rightarrow> (user_id, user) dict \<Rightarrow> (user_id, user) dict" where
  "apply_reconciled_users rs d = fold (\<lambda>r d. dict_put (usr_id (rec_user r)) (rec_user r) d) rs d"

definition append_audit_events :: "audit_event list \<Rightarrow> (string, audit_event) dict \<Rightarrow> (string, audit_event) dict" where
  "append_audit_events es d = fold (\<lambda>e d. dict_put (aud_id e) e d) es d"

definition apply_snapshot_once ::
    "store \<Rightarrow> string \<Rightarrow> string \<Rightarrow> user_reconciliation list \<Rightarrow> audit_event list
       \<Rightarrow> (store, directory_result) outcome" where
  "apply_snapshot_once s snapshot_id material_hash reconciliations audit_events =
     ensure s (stripped_text_ok snapshot_id) (StoreErr InvariantViolation)
    (ensure s (is_hex_text 64 material_hash) (StoreErr InvariantViolation)
    (case dict_get (st_ledger s) snapshot_id of
       Some (recorded_hash, _) \<Rightarrow>
         ensure s (recorded_hash = material_hash) (StoreErr IdempotencyConflict)
        (attempt s (directory_result_post_init (replayed_result snapshot_id material_hash))
           (\<lambda>replayed. (Inr replayed, s)))
     | None \<Rightarrow>
         ensure s (st_override s \<noteq> OverrideOther) (StoreErr InvariantViolation)
        (attempt s
           (validate_directory_snapshot_write snapshot_id material_hash reconciliations audit_events
              (st_users s) (set (dict_keys (st_audit s))) pilot_max_identities) (\<lambda>expected_result.
         ensure s
           (case st_override s of OverrideResult r \<Rightarrow> r = expected_result | _ \<Rightarrow> True)
           (StoreErr InvariantViolation)
           (Inr expected_result,
            s\<lparr>st_users := apply_reconciled_users reconciliations (st_users s),
              st_audit := append_audit_events audit_events (st_audit s),
              st_ledger := dict_put snapshot_id (material_hash, expected_result) (st_ledger s)\<rparr>)))))"

end
