(* ===== verification/Store_System.thy ===== *)
theory Store_System
  imports Store_Deploy Store_Secrets Store_Ledger
begin

text \<open>
  The store as a state machine. \<open>run\<close> executes one method call of \<^verbatim>\<open>MemoryStore\<close>; \<open>effect\<close> is the
  abstract specification, a step relation that lists what a call may change and under which
  condition. The refinement lemma says that each call either changes nothing or is one of these
  effects, and that only \<^verbatim>\<open>expire_activity_events\<close> can raise and still have changed something.
  The invariants of the store are proved over the step relation.
\<close>

section \<open>Calls\<close>

datatype call =
    CreateUser user
  | SaveUser user int
  | ApplySnapshotOnce string string "user_reconciliation list" "audit_event list"
  | CreateAdmission repository_admission
  | SaveAdmission repository_admission int
  | CreateWorkload workload
  | SaveWorkload workload int
  | CreateBinding app_hostname_binding
  | SaveBinding app_hostname_binding int
  | CreatePlan deployment_plan
  | SavePlan deployment_plan int
  | ConsumePlan plan_id user_id string string string pytime operation
  | GithubAutoDeploy string string string int repository_admission workload deployment_plan
      operation deploy_task pytime
  | CreateOperationOnce operation
  | ConsumeSchedulePlan plan_id user_id string string string pytime schedule operation
  | SaveOperation operation int
  | CreateSchedule schedule
  | SaveSchedule schedule int
  | AcquireLease schedule_id int string pytime pytime
  | CompleteRun schedule_id int string bool pytime
  | CreateSecret secret_metadata
  | SaveSecret secret_metadata int
  | AppendUsage usage_entry
  | UpsertUsage usage_entry usage_entry
  | CreateGuard org_cost_guard
  | SaveGuard org_cost_guard int
  | AppendActivity activity_event
  | ExpireActivity "string list"
  | CreateAggregate daily_usage_aggregate
  | SaveAggregate daily_usage_aggregate int
  | AppendAudit audit_event
  | CreateAction lifecycle_action
  | SaveAction lifecycle_action int
  | JobStarted string string pytime
  | JobTerminal string string int pytime string "(string \<times> int) list" "string option" "string option"
  | ClaimOrigin origin_request_claim
  | CreateTaskOnce deploy_task

definition forget :: "('s, 'a) outcome \<Rightarrow> ('s, unit) outcome" where
  "forget out = ((case fst out of Inl e \<Rightarrow> Inl e | Inr _ \<Rightarrow> Inr ()), snd out)"

lemma forget_simps [simp]:
  "snd (forget out) = snd out"
  "fst (forget out) = Inl e \<longleftrightarrow> fst out = Inl e"
  by (auto simp: forget_def split: sum.splits)

lemma forget_Inr [res_simps]: "forget out = (Inr u, s') \<longleftrightarrow> (\<exists>x. out = (Inr x, s'))"
  by (cases out; cases "fst out") (auto simp: forget_def)

lemma atomic_forget [atomic_intros]: "atomic_call s out \<Longrightarrow> atomic_call s (forget out)"
  by (simp add: atomic_call_def)

fun run :: "store \<Rightarrow> call \<Rightarrow> (store, unit) outcome" where
  "run s (CreateUser u) = forget (create_user s u)"
| "run s (SaveUser u v) = forget (save_user s u v)"
| "run s (ApplySnapshotOnce sid h rs es) = forget (apply_snapshot_once s sid h rs es)"
| "run s (CreateAdmission a) = forget (create_repository_admission s a)"
| "run s (SaveAdmission a v) = forget (save_repository_admission s a v)"
| "run s (CreateWorkload w) = forget (create_workload s w)"
| "run s (SaveWorkload w v) = forget (save_workload s w v)"
| "run s (CreateBinding b) = forget (create_app_hostname_binding s b)"
| "run s (SaveBinding b v) = forget (save_app_hostname_binding s b v)"
| "run s (CreatePlan p) = forget (create_deployment_plan s p)"
| "run s (SavePlan p v) = forget (save_deployment_plan s p v)"
| "run s (ConsumePlan pid actor h act pol at p) =
     forget (consume_deployment_plan_with_operation s pid actor h act pol at p)"
| "run s (GithubAutoDeploy d h ref v a w plan p t at) =
     forget (apply_github_auto_deploy_once s d h ref v a w plan p t at)"
| "run s (CreateOperationOnce p) = forget (create_operation_once s p)"
| "run s (ConsumeSchedulePlan pid actor h act pol at c p) =
     forget (consume_schedule_plan_with_operation s pid actor h act pol at c p)"
| "run s (SaveOperation p v) = forget (save_operation s p v)"
| "run s (CreateSchedule c) = forget (create_schedule s c)"
| "run s (SaveSchedule c v) = forget (save_schedule s c v)"
| "run s (AcquireLease i v tok ex now) = forget (acquire_schedule_lease s i v tok ex now)"
| "run s (CompleteRun i v tok ok at) = forget (complete_schedule_run s i v tok ok at)"
| "run s (CreateSecret x) = forget (create_secret_metadata s x)"
| "run s (SaveSecret x v) = forget (save_secret_metadata s x v)"
| "run s (AppendUsage e) = forget (append_usage_entry s e)"
| "run s (UpsertUsage e e') = forget (upsert_usage_entry_monotonic s e e')"
| "run s (CreateGuard g) = forget (create_org_cost_guard s g)"
| "run s (SaveGuard g v) = forget (save_org_cost_guard s g v)"
| "run s (AppendActivity e) = forget (append_activity_event s e)"
| "run s (ExpireActivity ids) = forget (expire_activity_events s ids)"
| "run s (CreateAggregate a) = forget (create_daily_usage_aggregate s a)"
| "run s (SaveAggregate a v) = forget (save_daily_usage_aggregate s a v)"
| "run s (AppendAudit e) = forget (append_audit_event s e)"
| "run s (CreateAction a) = forget (create_lifecycle_action s a)"
| "run s (SaveAction a v) = forget (save_lifecycle_action s a v)"
| "run s (JobStarted n r at) = forget (record_maintenance_job_started s n r at)"
| "run s (JobTerminal n r v at out sm fc fl) =
     forget (record_maintenance_job_terminal s n r v at out sm fc fl)"
| "run s (ClaimOrigin c) = forget (claim_origin_request s c)"
| "run s (CreateTaskOnce t) = forget (create_deploy_task_once s t)"

text \<open>Records passed to the store are instances of their classes, so they have been validated.\<close>

fun call_ok :: "call \<Rightarrow> bool" where
  "call_ok (CreateUser u) = user_ok u"
| "call_ok (SaveUser u _) = user_ok u"
| "call_ok (ApplySnapshotOnce _ _ rs es) =
     (list_all (\<lambda>r. user_ok (rec_user r) \<and> reconciliation_ok r) rs \<and> list_all audit_event_ok es)"
| "call_ok (CreateAdmission a) = admission_ok a"
| "call_ok (SaveAdmission a _) = admission_ok a"
| "call_ok (CreateWorkload w) = workload_ok w"
| "call_ok (SaveWorkload w _) = workload_ok w"
| "call_ok (CreateBinding b) = binding_ok b"
| "call_ok (SaveBinding b _) = binding_ok b"
| "call_ok (CreatePlan p) = plan_ok p"
| "call_ok (SavePlan p _) = plan_ok p"
| "call_ok (ConsumePlan _ _ _ _ _ _ p) = operation_ok p"
| "call_ok (GithubAutoDeploy _ _ _ _ a w plan p t _) =
     (admission_ok a \<and> workload_ok w \<and> plan_ok plan \<and> operation_ok p \<and> deploy_task_ok t)"
| "call_ok (CreateOperationOnce p) = operation_ok p"
| "call_ok (ConsumeSchedulePlan _ _ _ _ _ _ c p) = (schedule_ok c \<and> operation_ok p)"
| "call_ok (SaveOperation p _) = operation_ok p"
| "call_ok (CreateSchedule c) = schedule_ok c"
| "call_ok (SaveSchedule c _) = schedule_ok c"
| "call_ok (CreateSecret x) = secret_ok x"
| "call_ok (SaveSecret x _) = secret_ok x"
| "call_ok (AppendUsage e) = usage_entry_ok e"
| "call_ok (UpsertUsage e e') = (usage_entry_ok e \<and> usage_entry_ok e')"
| "call_ok (CreateGuard g) = org_cost_guard_ok g"
| "call_ok (SaveGuard g _) = org_cost_guard_ok g"
| "call_ok (AppendActivity e) = activity_event_ok e"
| "call_ok (CreateAggregate a) = aggregate_ok a"
| "call_ok (SaveAggregate a _) = aggregate_ok a"
| "call_ok (AppendAudit e) = audit_event_ok e"
| "call_ok (CreateAction a) = lifecycle_action_ok a"
| "call_ok (SaveAction a _) = lifecycle_action_ok a"
| "call_ok (ClaimOrigin c) = origin_claim_ok c"
| "call_ok (CreateTaskOnce t) = deploy_task_ok t"
| "call_ok _ = True"

lemmas store_call_defs =
  create_user_def save_user_def apply_snapshot_once_def create_repository_admission_def
  save_repository_admission_def create_workload_def save_workload_def
  create_app_hostname_binding_def save_app_hostname_binding_def create_deployment_plan_def
  save_deployment_plan_def consume_deployment_plan_with_operation_def
  apply_github_auto_deploy_once_def create_operation_once_def
  consume_schedule_plan_with_operation_def save_operation_def create_schedule_def
  save_schedule_def acquire_schedule_lease_def complete_schedule_run_def
  create_secret_metadata_def save_secret_metadata_def append_usage_entry_def
  upsert_usage_entry_monotonic_def create_org_cost_guard_def save_org_cost_guard_def
  append_activity_event_def create_daily_usage_aggregate_def save_daily_usage_aggregate_def
  append_audit_event_def create_lifecycle_action_def save_lifecycle_action_def
  record_maintenance_job_started_def record_maintenance_job_terminal_def
  claim_origin_request_def create_deploy_task_once_def github_replay_def Let_def


section \<open>Atomicity\<close>

lemma run_atomic:
  assumes "\<And>ids. c \<noteq> ExpireActivity ids"
  shows "atomic_call s (run s c)"
  using assms
  by (cases c) (simp_all only: run.simps store_call_defs, (intro atomic_intros | blast)+)


section \<open>The abstract step relation\<close>

inductive effect :: "store \<Rightarrow> store \<Rightarrow> bool" where
  users_new:
    "dict_get (st_users s) (usr_id u) = None \<Longrightarrow> usr_version u = 1 \<Longrightarrow> user_ok u \<Longrightarrow>
     effect s (s\<lparr>st_users := dict_put (usr_id u) u (st_users s)\<rparr>)"
| users_save: "put_user (st_users s) u v = Inr d \<Longrightarrow> user_ok u \<Longrightarrow> effect s (s\<lparr>st_users := d\<rparr>)"
| admissions_new:
    "dict_get (st_admissions s) (adm_id a) = None \<Longrightarrow> adm_version a = 1 \<Longrightarrow> admission_ok a \<Longrightarrow>
     effect s (s\<lparr>st_admissions := dict_put (adm_id a) a (st_admissions s)\<rparr>)"
| admissions_save:
    "put_admission (st_admissions s) a v = Inr d \<Longrightarrow> admission_ok a \<Longrightarrow>
     effect s (s\<lparr>st_admissions := d\<rparr>)"
| workloads_new:
    "dict_get (st_workloads s) (wl_id w) = None \<Longrightarrow> wl_version w = 1 \<Longrightarrow> workload_ok w \<Longrightarrow>
     effect s (s\<lparr>st_workloads := dict_put (wl_id w) w (st_workloads s)\<rparr>)"
| workloads_save:
    "put_workload (st_workloads s) w v = Inr d \<Longrightarrow> workload_ok w \<Longrightarrow>
     effect s (s\<lparr>st_workloads := d\<rparr>)"
| bindings_new:
    "dict_get (st_bindings s) (bnd_public_host b) = None \<Longrightarrow> bnd_version b = 1 \<Longrightarrow> binding_ok b \<Longrightarrow>
     effect s (s\<lparr>st_bindings := dict_put (bnd_public_host b) b (st_bindings s)\<rparr>)"
| bindings_save:
    "put_binding (st_bindings s) b v = Inr d \<Longrightarrow> binding_ok b \<Longrightarrow> effect s (s\<lparr>st_bindings := d\<rparr>)"
| plans_new:
    "dict_get (st_plans s) (pln_id p) = None \<Longrightarrow> pln_version p = 1 \<Longrightarrow> plan_ok p \<Longrightarrow>
     effect s (s\<lparr>st_plans := dict_put (pln_id p) p (st_plans s)\<rparr>)"
| plans_save: "put_plan (st_plans s) p v = Inr d \<Longrightarrow> plan_ok p \<Longrightarrow> effect s (s\<lparr>st_plans := d\<rparr>)"
| operations_new:
    "dict_get (st_op_claims s) (operation_claim_key p) = None \<Longrightarrow>
     dict_get (st_operations s) (op_id p) = None \<Longrightarrow> op_version p = 1 \<Longrightarrow> operation_ok p \<Longrightarrow>
     effect s
       (s\<lparr>st_operations := dict_put (op_id p) p (st_operations s),
          st_op_claims := dict_put (operation_claim_key p) (claim_of p) (st_op_claims s)\<rparr>)"
| operations_save:
    "put_operation (st_operations s) p v = Inr d \<Longrightarrow> operation_ok p \<Longrightarrow>
     effect s (s\<lparr>st_operations := d\<rparr>)"
| plan_consumed:
    "dict_get (st_plans s) pid = Some plan \<Longrightarrow> pln_state plan = PlanIssued \<Longrightarrow>
     \<not> time_leq (pln_expires_at plan) at \<Longrightarrow>
     plan_transition_state plan PlanConsumed at = Inr consumed \<Longrightarrow>
     op_actor_id p = pln_actor_id plan \<Longrightarrow> op_action p = pln_action plan \<Longrightarrow>
     op_workload_id p = pln_workload_id plan \<Longrightarrow>
     dict_get (st_op_claims s) (operation_claim_key p) = None \<Longrightarrow>
     dict_get (st_operations s) (op_id p) = None \<Longrightarrow> op_version p = 1 \<Longrightarrow> operation_ok p \<Longrightarrow>
     effect s
       (s\<lparr>st_plans := dict_put pid consumed (st_plans s),
          st_operations := dict_put (op_id p) p (st_operations s),
          st_op_claims := dict_put (operation_claim_key p) (claim_of p) (st_op_claims s)\<rparr>)"
| schedule_planned:
    "dict_get (st_plans s) pid = Some plan \<Longrightarrow> pln_state plan = PlanIssued \<Longrightarrow>
     \<not> time_leq (pln_expires_at plan) at \<Longrightarrow>
     plan_transition_state plan PlanConsumed at = Inr consumed \<Longrightarrow>
     op_actor_id p = pln_actor_id plan \<Longrightarrow> op_action p = pln_action plan \<Longrightarrow>
     op_request_hash p = pln_material_hash plan \<Longrightarrow>
     Some (sch_workload_id c) = pln_workload_id plan \<Longrightarrow>
     dict_get (st_schedules s) (sch_id c) = None \<Longrightarrow> new_schedule_ok c \<Longrightarrow> schedule_ok c \<Longrightarrow>
     dict_get (st_op_claims s) (operation_claim_key p) = None \<Longrightarrow>
     dict_get (st_operations s) (op_id p) = None \<Longrightarrow> op_version p = 1 \<Longrightarrow> operation_ok p \<Longrightarrow>
     effect s
       (s\<lparr>st_plans := dict_put pid consumed (st_plans s),
          st_schedules := dict_put (sch_id c) c (st_schedules s),
          st_operations := dict_put (op_id p) p (st_operations s),
          st_op_claims := dict_put (operation_claim_key p) (claim_of p) (st_op_claims s)\<rparr>)"
| github_delivered:
    "dict_get (st_deliveries s) delivery = None \<Longrightarrow>
     dict_get (st_workloads s) (wl_id w) = Some current \<Longrightarrow>
     wl_state current \<in> {WlActive, WlFailed} \<Longrightarrow>
     wl_auto_deploy_enabled current \<Longrightarrow> wl_auto_deploy_ref current = Some ref \<Longrightarrow>
     dict_get (st_admissions s) (wl_repository_admission_id current) = Some old \<Longrightarrow>
     adm_state old = Admitted \<Longrightarrow> dict_get (st_admissions s) (adm_id a) = None \<Longrightarrow>
     source_advance_ok old a \<Longrightarrow> admission_ok a \<Longrightarrow>
     advance_source current (adm_id a) (adm_admitted_sha a) (wl_desired_manifest_hash w)
       (wl_updated_at w) = Inr w \<Longrightarrow>
     dict_get (st_plans s) (pln_id plan) = None \<Longrightarrow>
     dict_get (st_operations s) (op_id p) = None \<Longrightarrow> dict_get (st_tasks s) (op_id p) = None \<Longrightarrow>
     plan_transition_state plan PlanConsumed at = Inr consumed \<Longrightarrow>
     pln_actor_id plan = auto_deploy_actor_id \<Longrightarrow> pln_workload_id plan = Some (wl_id w) \<Longrightarrow>
     op_version p = 1 \<Longrightarrow> operation_ok p \<Longrightarrow> op_actor_id p = auto_deploy_actor_id \<Longrightarrow>
     op_idempotency_key p = ''github:'' @ delivery \<Longrightarrow> op_workload_id p = Some (wl_id w) \<Longrightarrow>
     op_request_hash p = pln_material_hash plan \<Longrightarrow>
     dict_get (st_op_claims s) (operation_claim_key p) = None \<Longrightarrow>
     tsk_operation_id t = op_id p \<Longrightarrow> deploy_task_ok t \<Longrightarrow>
     dict_get (st_task_claims s) (tsk_idempotency_key t) = None \<Longrightarrow>
     effect s
       (s\<lparr>st_admissions := dict_put (adm_id a) a (st_admissions s),
          st_workloads := dict_put (wl_id w) w (st_workloads s),
          st_plans := dict_put (pln_id plan) consumed (st_plans s),
          st_operations := dict_put (op_id p) p (st_operations s),
          st_op_claims := dict_put (operation_claim_key p) (claim_of p) (st_op_claims s),
          st_tasks := dict_put (op_id p) t (st_tasks s),
          st_task_claims := dict_put (tsk_idempotency_key t) (op_id p) (st_task_claims s),
          st_deliveries :=
            dict_put delivery (delivery_claim_of h ref a w plan p t) (st_deliveries s)\<rparr>)"
| schedules_new:
    "dict_get (st_schedules s) (sch_id c) = None \<Longrightarrow> sch_version c = 1 \<Longrightarrow> schedule_ok c \<Longrightarrow>
     require_schedule_lease_state c (sch_updated_at c) True = Inr () \<Longrightarrow>
     effect s (s\<lparr>st_schedules := dict_put (sch_id c) c (st_schedules s)\<rparr>)"
| schedules_save:
    "put_schedule (st_schedules s) c v = Inr d \<Longrightarrow> schedule_ok c \<Longrightarrow>
     effect s (s\<lparr>st_schedules := d\<rparr>)"
| lease_acquired:
    "dict_get (st_schedules s) i = Some c \<Longrightarrow> lease_available c token now \<Longrightarrow> lease_token_ok token \<Longrightarrow>
     time_less now expires_at \<Longrightarrow> schedule_ok (leased_schedule c token expires_at now) \<Longrightarrow>
     effect s (s\<lparr>st_schedules := dict_put i (leased_schedule c token expires_at now) (st_schedules s)\<rparr>)"
| run_completed:
    "dict_get (st_schedules s) i = Some c \<Longrightarrow> lease_held c token at \<Longrightarrow>
     schedule_ok (completed_schedule c succeeded at) \<Longrightarrow>
     effect s (s\<lparr>st_schedules := dict_put i (completed_schedule c succeeded at) (st_schedules s)\<rparr>)"
| secrets_new:
    "dict_get (st_secrets s) (sec_id x) = None \<Longrightarrow> sec_version x = 1 \<Longrightarrow> secret_ok x \<Longrightarrow>
     effect s (s\<lparr>st_secrets := dict_put (sec_id x) x (st_secrets s)\<rparr>)"
| secrets_save:
    "put_secret (st_secrets s) x v = Inr d \<Longrightarrow> secret_ok x \<Longrightarrow> effect s (s\<lparr>st_secrets := d\<rparr>)"
| usage_new:
    "dict_get (st_usage s) (use_id e) = None \<Longrightarrow> usage_entry_ok e \<Longrightarrow>
     effect s (s\<lparr>st_usage := dict_put (use_id e) e (st_usage s)\<rparr>)"
| usage_raised:
    "dict_get (st_usage s) (use_id e) = Some e \<Longrightarrow> monotonic_usage_update e e' \<Longrightarrow>
     usage_entry_ok e' \<Longrightarrow> effect s (s\<lparr>st_usage := dict_put (use_id e) e' (st_usage s)\<rparr>)"
| guard_new:
    "dict_get (st_guards s) guard_key = None \<Longrightarrow> grd_version g = 1 \<Longrightarrow> org_cost_guard_ok g \<Longrightarrow>
     effect s (s\<lparr>st_guards := dict_put guard_key g (st_guards s)\<rparr>)"
| guard_save:
    "put_guard (st_guards s) g v = Inr d \<Longrightarrow> org_cost_guard_ok g \<Longrightarrow> effect s (s\<lparr>st_guards := d\<rparr>)"
| activity_new:
    "dict_get (st_activity s) (act_id e) = None \<Longrightarrow> activity_event_ok e \<Longrightarrow>
     effect s (s\<lparr>st_activity := dict_put (act_id e) e (st_activity s)\<rparr>)"
| activity_expired: "effect s (s\<lparr>st_activity := fold dict_del ids (st_activity s)\<rparr>)"
| aggregate_new:
    "dict_get (st_aggregates s) (aggregate_key a) = None \<Longrightarrow> agg_version a = 1 \<Longrightarrow> aggregate_ok a \<Longrightarrow>
     effect s (s\<lparr>st_aggregates := dict_put (aggregate_key a) a (st_aggregates s)\<rparr>)"
| aggregate_save:
    "put_aggregate (st_aggregates s) a v = Inr d \<Longrightarrow> aggregate_ok a \<Longrightarrow>
     effect s (s\<lparr>st_aggregates := d\<rparr>)"
| audit_new:
    "dict_get (st_audit s) (aud_id e) = None \<Longrightarrow> audit_event_ok e \<Longrightarrow>
     effect s (s\<lparr>st_audit := dict_put (aud_id e) e (st_audit s)\<rparr>)"
| actions_new:
    "dict_get (st_actions s) (lca_id a) = None \<Longrightarrow> lca_version a = 1 \<Longrightarrow> lifecycle_action_ok a \<Longrightarrow>
     effect s (s\<lparr>st_actions := dict_put (lca_id a) a (st_actions s)\<rparr>)"
| actions_save:
    "put_action (st_actions s) a v = Inr d \<Longrightarrow> lifecycle_action_ok a \<Longrightarrow>
     effect s (s\<lparr>st_actions := d\<rparr>)"
| job_recorded:
    "maintenance_ok m \<Longrightarrow>
     mjs_version m =
       (case dict_get (st_jobs s) (mjs_job_name m) of None \<Rightarrow> 1 | Some cur \<Rightarrow> mjs_version cur + 1) \<Longrightarrow>
     effect s (s\<lparr>st_jobs := dict_put (mjs_job_name m) m (st_jobs s)\<rparr>)"
| origin_claimed:
    "dict_get (st_origin_claims s) (ocl_request_id c) = None \<Longrightarrow> origin_claim_ok c \<Longrightarrow>
     effect s (s\<lparr>st_origin_claims := dict_put (ocl_request_id c) c (st_origin_claims s)\<rparr>)"
| task_queued:
    "dict_get (st_task_claims s) (tsk_idempotency_key t) = None \<Longrightarrow>
     dict_get (st_tasks s) (tsk_operation_id t) = None \<Longrightarrow> deploy_task_ok t \<Longrightarrow>
     effect s
       (s\<lparr>st_tasks := dict_put (tsk_operation_id t) t (st_tasks s),
          st_task_claims :=
            dict_put (tsk_idempotency_key t) (tsk_operation_id t) (st_task_claims s)\<rparr>)"
| snapshot_applied:
    "dict_get (st_ledger s) sid = None \<Longrightarrow>
     validate_directory_snapshot_write sid h rs es (st_users s) (set (dict_keys (st_audit s)))
       pilot_max_identities = Inr r \<Longrightarrow>
     list_all (\<lambda>q. user_ok (rec_user q)) rs \<Longrightarrow> list_all audit_event_ok es \<Longrightarrow>
     effect s
       (s\<lparr>st_users := apply_reconciled_users rs (st_users s),
          st_audit := append_audit_events es (st_audit s),
          st_ledger := dict_put sid (h, r) (st_ledger s)\<rparr>)"

definition effect_or_nothing :: "store \<Rightarrow> store \<Rightarrow> bool" where
  "effect_or_nothing s s' \<longleftrightarrow> s' = s \<or> effect s s'"


section \<open>Every call refines the step relation\<close>

lemma create_effects:
  "create_user s u = (Inr q1, s') \<Longrightarrow> user_ok u \<Longrightarrow> effect s s'"
  "create_repository_admission s a = (Inr q2, s') \<Longrightarrow> admission_ok a \<Longrightarrow> effect s s'"
  "create_workload s w = (Inr q3, s') \<Longrightarrow> workload_ok w \<Longrightarrow> effect s s'"
  "create_deployment_plan s p = (Inr q4, s') \<Longrightarrow> plan_ok p \<Longrightarrow> effect s s'"
  "create_schedule s c = (Inr q5, s') \<Longrightarrow> schedule_ok c \<Longrightarrow> effect s s'"
  "create_secret_metadata s x = (Inr q6, s') \<Longrightarrow> secret_ok x \<Longrightarrow> effect s s'"
  "append_usage_entry s e = (Inr q7, s') \<Longrightarrow> usage_entry_ok e \<Longrightarrow> effect s s'"
  "create_org_cost_guard s g = (Inr q8, s') \<Longrightarrow> org_cost_guard_ok g \<Longrightarrow> effect s s'"
  "append_activity_event s v = (Inr q9, s') \<Longrightarrow> activity_event_ok v \<Longrightarrow> effect s s'"
  "create_daily_usage_aggregate s d = (Inr q10, s') \<Longrightarrow> aggregate_ok d \<Longrightarrow> effect s s'"
  "append_audit_event s t = (Inr q11, s') \<Longrightarrow> audit_event_ok t \<Longrightarrow> effect s s'"
  "create_lifecycle_action s l = (Inr q12, s') \<Longrightarrow> lifecycle_action_ok l \<Longrightarrow> effect s s'"
  "claim_origin_request s o1 = (Inr q13, s') \<Longrightarrow> origin_claim_ok o1 \<Longrightarrow> effect s s'"
  by (auto simp: store_call_defs res_simps intro: effect.intros)

lemma save_effects:
  "save_user s u v = (Inr q1, s') \<Longrightarrow> user_ok u \<Longrightarrow> effect s s'"
  "save_repository_admission s a v = (Inr q2, s') \<Longrightarrow> admission_ok a \<Longrightarrow> effect s s'"
  "save_workload s w v = (Inr q3, s') \<Longrightarrow> workload_ok w \<Longrightarrow> effect s s'"
  "save_app_hostname_binding s b v = (Inr q14, s') \<Longrightarrow> binding_ok b \<Longrightarrow> effect s s'"
  "save_deployment_plan s p v = (Inr q4, s') \<Longrightarrow> plan_ok p \<Longrightarrow> effect s s'"
  "save_operation s r v = (Inr q15, s') \<Longrightarrow> operation_ok r \<Longrightarrow> effect s s'"
  "save_schedule s c v = (Inr q5, s') \<Longrightarrow> schedule_ok c \<Longrightarrow> effect s s'"
  "save_secret_metadata s x v = (Inr q6, s') \<Longrightarrow> secret_ok x \<Longrightarrow> effect s s'"
  "save_org_cost_guard s g v = (Inr q8, s') \<Longrightarrow> org_cost_guard_ok g \<Longrightarrow> effect s s'"
  "save_daily_usage_aggregate s d v = (Inr q10, s') \<Longrightarrow> aggregate_ok d \<Longrightarrow> effect s s'"
  "save_lifecycle_action s l v = (Inr q12, s') \<Longrightarrow> lifecycle_action_ok l \<Longrightarrow> effect s s'"
  by (auto simp: store_call_defs commit_Inr ensure_Inr intro: effect.intros)

lemma create_binding_effect:
  "create_app_hostname_binding s b = (Inr q, s') \<Longrightarrow> binding_ok b \<Longrightarrow> effect_or_nothing s s'"
  by (auto simp: create_app_hostname_binding_def effect_or_nothing_def
      split: option.splits if_splits intro: effect.intros)

lemma create_operation_effect:
  "create_operation_once s p = (Inr q, s') \<Longrightarrow> operation_ok p \<Longrightarrow> effect_or_nothing s s'"
  by (auto simp: create_operation_once_def effect_or_nothing_def res_simps
      split: option.splits intro: effect.intros)

lemma consume_plan_effect:
  "consume_deployment_plan_with_operation s pid actor h act pol at p = (Inr q, s') \<Longrightarrow>
     operation_ok p \<Longrightarrow> effect_or_nothing s s'"
  by (auto simp: store_call_defs effect_or_nothing_def res_simps
      split: option.splits intro: effect.intros)

lemma consume_schedule_plan_effect:
  assumes "consume_schedule_plan_with_operation s pid actor h act pol at c p = (Inr q, s')"
    and "schedule_ok c" and "operation_ok p"
  shows "effect_or_nothing s s'"
  using assms
  by (auto simp: store_call_defs effect_or_nothing_def res_simps
      split: option.splits intro: effect.intros)

lemma github_effect:
  assumes "apply_github_auto_deploy_once s d h ref v a w plan p t at = (Inr q, s')"
    and "admission_ok a" and "operation_ok p" and "deploy_task_ok t"
  shows "effect_or_nothing s s'"
proof (cases "dict_get (st_deliveries s) d")
  case None
  then show ?thesis
    using assms unfolding effect_or_nothing_def
    by (intro disjI2)
      (auto simp: apply_github_auto_deploy_once_def res_simps task_matches_auto_deploy_def
        split: option.splits intro!: github_delivered)
next
  case (Some claim)
  then show ?thesis
    using assms
    by (auto simp: apply_github_auto_deploy_once_def github_replay_def res_simps
        effect_or_nothing_def split: option.splits)
qed

lemma lease_effects:
  "acquire_schedule_lease s i v tok ex now = (Inr q, s') \<Longrightarrow> effect s s'"
  "complete_schedule_run s i v tok ok at = (Inr q, s') \<Longrightarrow> effect s s'"
  by (auto simp: acquire_schedule_lease_Inr complete_schedule_run_Inr intro: effect.intros)

lemma upsert_usage_effect:
  "upsert_usage_entry_monotonic s e e' = (Inr q, s') \<Longrightarrow> usage_entry_ok e' \<Longrightarrow>
     effect_or_nothing s s'"
  by (auto simp: upsert_usage_entry_monotonic_def effect_or_nothing_def res_simps
      split: option.splits if_splits intro: effect.intros)

lemma maintenance_ok_name: "maintenance_ok m \<Longrightarrow> mjs_job_name m = n \<Longrightarrow> maintenance_ok m"
  by simp

lemma job_effects:
  "record_maintenance_job_started s n r at = (Inr q, s') \<Longrightarrow> effect s s'"
  "record_maintenance_job_terminal s n r v at out sm fc fl = (Inr q, s') \<Longrightarrow> effect s s'"
proof -
  assume "record_maintenance_job_started s n r at = (Inr q, s')"
  then have "maintenance_ok q" "mjs_job_name q = n"
    "mjs_version q = (case dict_get (st_jobs s) n of None \<Rightarrow> 1 | Some cur \<Rightarrow> mjs_version cur + 1)"
    "s' = s\<lparr>st_jobs := dict_put n q (st_jobs s)\<rparr>"
    by (auto simp: record_maintenance_job_started_def res_simps)
  then show "effect s s'" using job_recorded [of q s] by simp
next
  assume "record_maintenance_job_terminal s n r v at out sm fc fl = (Inr q, s')"
  then have "maintenance_ok q" "mjs_job_name q = n"
    "mjs_version q = (case dict_get (st_jobs s) n of None \<Rightarrow> 1 | Some cur \<Rightarrow> mjs_version cur + 1)"
    "s' = s\<lparr>st_jobs := dict_put n q (st_jobs s)\<rparr>"
    by (auto simp: record_maintenance_job_terminal_def res_simps split: option.splits)
  then show "effect s s'" using job_recorded [of q s] by simp
qed

lemma task_effect:
  "create_deploy_task_once s t = (Inr q, s') \<Longrightarrow> deploy_task_ok t \<Longrightarrow> effect_or_nothing s s'"
  by (auto simp: create_deploy_task_once_def effect_or_nothing_def res_simps
      split: option.splits intro: effect.intros)

lemma snapshot_effect:
  assumes "apply_snapshot_once s sid h rs es = (Inr q, s')"
    and "list_all (\<lambda>r. user_ok (rec_user r) \<and> reconciliation_ok r) rs" and "list_all audit_event_ok es"
  shows "effect_or_nothing s s'"
  using assms
  by (auto simp: apply_snapshot_once_def effect_or_nothing_def res_simps list_all_iff
      split: option.splits intro!: snapshot_applied)

text \<open>Expiring events deletes those named before the first bad id, and nothing else.\<close>

lemma expire_scan_state:
  "\<exists>ids. snd (expire_scan s seen removed event_ids) =
     s\<lparr>st_activity := fold dict_del ids (st_activity s)\<rparr>"
proof (induction s seen removed event_ids rule: expire_scan.induct)
  case (1 s seen removed)
  show ?case by (rule exI [of _ "[]"]) simp
next
  case (2 s seen removed e rest)
  show ?case
  proof (cases "stripped_text_ok e \<and> e \<notin> seen")
    case False
    then show ?thesis by (intro exI [of _ "[]"]) (auto simp: ensure_def)
  next
    case True
    show ?thesis
    proof (cases "dict_get (st_activity s) e = None")
      case False
      with 2 True obtain ids where
        "snd (expire_scan (s\<lparr>st_activity := dict_del e (st_activity s)\<rparr>) (insert e seen)
           (removed @ [e]) rest) = s\<lparr>st_activity := fold dict_del ids (dict_del e (st_activity s))\<rparr>"
        by auto
      with True False show ?thesis by (intro exI [of _ "e # ids"]) auto
    next
      case absent: True
      with 2 True show ?thesis by auto
    qed
  qed
qed

lemma expire_effect: "effect s (snd (expire_activity_events s ids))"
  using expire_scan_state [of s "{}" "[]" ids] activity_expired
  unfolding expire_activity_events_def by metis

lemma effect_something: "effect s s' \<Longrightarrow> effect_or_nothing s s'"
  by (simp add: effect_or_nothing_def)

lemmas call_effects =
  create_effects [THEN effect_something] save_effects [THEN effect_something]
  lease_effects [THEN effect_something] job_effects [THEN effect_something]
  create_binding_effect create_operation_effect consume_plan_effect consume_schedule_plan_effect
  github_effect upsert_usage_effect task_effect snapshot_effect

lemma run_success_effect:
  assumes "run s c = (Inr (), s')" and "call_ok c"
  shows "effect_or_nothing s s'"
proof (cases "\<exists>ids. c = ExpireActivity ids")
  case True
  then show ?thesis using assms(1) expire_effect
    by (auto simp: forget_Inr effect_or_nothing_def) (metis snd_conv)
next
  case False
  then show ?thesis
    using assms by (cases c) (auto simp only: run.simps call_ok.simps forget_Inr dest: call_effects)
qed

lemma run_effect:
  assumes "call_ok c"
  shows "effect_or_nothing s (snd (run s c))"
proof (cases "\<exists>ids. c = ExpireActivity ids")
  case True
  then show ?thesis using expire_effect by (auto simp: effect_or_nothing_def)
next
  case False
  then have "atomic_call s (run s c)" using run_atomic by blast
  then consider "snd (run s c) = s" | "run s c = (Inr (), snd (run s c))"
    by (cases "fst (run s c)") (auto simp: atomic_call_def prod_eq_iff)
  then show ?thesis
    by cases (auto simp: effect_or_nothing_def dest: run_success_effect [OF _ assms])
qed

end
