(* ===== verification/Store_Invariants.thy ===== *)
theory Store_Invariants
  imports Store_System
begin

text \<open>
  What holds in every store that calls can produce, and what a record of such a store can still
  become. \<open>step\<close> is one call with validated records, or an assignment to the override attribute;
  \<open>later\<close> is its reflexive transitive closure.
\<close>

definition step :: "store \<Rightarrow> store \<Rightarrow> bool" where
  "step s s' \<longleftrightarrow>
     (\<exists>c. call_ok c \<and> s' = snd (run s c)) \<or> (\<exists>forced. s' = s\<lparr>st_override := forced\<rparr>)"

definition later :: "store \<Rightarrow> store \<Rightarrow> bool" where
  "later = step\<^sup>*\<^sup>*"

definition reachable :: "store \<Rightarrow> bool" where
  "reachable s \<longleftrightarrow> later empty_store s"

lemma later_refl [simp]: "later s s"
  by (simp add: later_def)

lemma later_trans: "later s t \<Longrightarrow> later t u \<Longrightarrow> later s u"
  by (simp add: later_def)

lemma reachable_later: "reachable s \<Longrightarrow> later s t \<Longrightarrow> reachable t"
  unfolding reachable_def by (rule later_trans)

lemma step_cases:
  assumes "step s s'"
  obtains "s' = s" | "effect s s'" | forced where "s' = s\<lparr>st_override := forced\<rparr>"
  using assms run_effect unfolding step_def effect_or_nothing_def by blast

text \<open>An invariant that no effect and no override breaks holds in every reachable store.\<close>

lemma reachable_invariant:
  assumes "reachable s" and "holds empty_store"
    and "\<And>t t'. effect t t' \<Longrightarrow> holds t \<Longrightarrow> holds t'"
    and "\<And>t forced. holds t \<Longrightarrow> holds (t\<lparr>st_override := forced\<rparr>)"
  shows "holds s"
  using assms(1) unfolding reachable_def later_def
proof (induction rule: rtranclp_induct)
  case base
  show ?case by (rule assms(2))
next
  case (step t t')
  from step.hyps(2) show ?case
    by (cases rule: step_cases) (use step.IH assms(3,4) in auto)
qed


section \<open>Keys and validity\<close>

definition store_keyed :: "store \<Rightarrow> bool" where
  "store_keyed s \<longleftrightarrow>
     keyed_by usr_id (st_users s) \<and> keyed_by adm_id (st_admissions s) \<and>
     keyed_by wl_id (st_workloads s) \<and> keyed_by bnd_public_host (st_bindings s) \<and>
     keyed_by pln_id (st_plans s) \<and> keyed_by op_id (st_operations s) \<and>
     keyed_by sch_id (st_schedules s) \<and> keyed_by sec_id (st_secrets s) \<and>
     keyed_by use_id (st_usage s) \<and> keyed_by act_id (st_activity s) \<and>
     keyed_by aggregate_key (st_aggregates s) \<and> keyed_by aud_id (st_audit s) \<and>
     keyed_by lca_id (st_actions s) \<and> keyed_by mjs_job_name (st_jobs s) \<and>
     keyed_by ocl_request_id (st_origin_claims s) \<and> keyed_by tsk_operation_id (st_tasks s)"

lemma keyed_by_fold_del: "keyed_by key d \<Longrightarrow> keyed_by key (fold dict_del ids d)"
  by (induction ids arbitrary: d) (auto intro: keyed_by_del)

lemma apply_reconciled_users_get:
  assumes "distinct (map (\<lambda>r. usr_id (rec_user r)) rs)"
  shows "dict_get (apply_reconciled_users rs d) k =
    (case find (\<lambda>r. usr_id (rec_user r) = k) rs of None \<Rightarrow> dict_get d k | Some r \<Rightarrow> Some (rec_user r))"
  using assms unfolding apply_reconciled_users_def
proof (induction rs arbitrary: d)
  case Nil
  then show ?case by simp
next
  case (Cons r rs)
  have absent: "usr_id (rec_user r) = k \<Longrightarrow> find (\<lambda>q. usr_id (rec_user q) = k) rs = None"
    using Cons.prems by (auto simp: find_None_iff image_iff)
  show ?case using Cons absent by (auto split: option.splits)
qed

lemma append_audit_events_get:
  assumes "distinct (map aud_id es)"
  shows "dict_get (append_audit_events es d) k =
    (case find (\<lambda>e. aud_id e = k) es of None \<Rightarrow> dict_get d k | Some e \<Rightarrow> Some e)"
  using assms unfolding append_audit_events_def
proof (induction es arbitrary: d)
  case Nil
  then show ?case by simp
next
  case (Cons e es)
  have absent: "aud_id e = k \<Longrightarrow> find (\<lambda>q. aud_id q = k) es = None"
    using Cons.prems by (auto simp: find_None_iff image_iff)
  show ?case using Cons absent by (auto split: option.splits)
qed

lemma keyed_reconciled: "keyed_by usr_id d \<Longrightarrow> keyed_by usr_id (apply_reconciled_users rs d)"
  unfolding apply_reconciled_users_def
  by (induction rs arbitrary: d) (auto intro: keyed_by_put)

lemma keyed_audit: "keyed_by aud_id d \<Longrightarrow> keyed_by aud_id (append_audit_events es d)"
  unfolding append_audit_events_def
  by (induction es arbitrary: d) (auto intro: keyed_by_put)

lemma keyed_put_get:
  "keyed_by key d \<Longrightarrow> dict_get d k = Some r \<Longrightarrow> key r' = key r \<Longrightarrow> keyed_by key (dict_put k r' d)"
  by (auto intro: keyed_by_put dest: keyed_by_get)

lemma leased_schedule_id [simp]: "sch_id (leased_schedule c tok ex now) = sch_id c"
  by (simp add: leased_schedule_def)

lemma completed_schedule_id [simp]: "sch_id (completed_schedule c ok at) = sch_id c"
  by (simp add: completed_schedule_def Let_def)

lemma consumed_plan_id: "plan_transition_state p st at = Inr q \<Longrightarrow> pln_id q = pln_id p"
  by (auto dest: plan_transition_state_fields)

lemma advance_source_id: "advance_source w a sha m at = Inr v \<Longrightarrow> wl_id v = wl_id w"
  by (auto simp: advance_source_def res_simps)

lemma monotonic_usage_id: "monotonic_usage_update e e' \<Longrightarrow> use_id e' = use_id e"
  by (simp add: monotonic_usage_update_def)

lemma effect_keyed: "effect s s' \<Longrightarrow> store_keyed s \<Longrightarrow> store_keyed s'"
  unfolding store_keyed_def
  by (cases rule: effect.cases, assumption)
    (simp_all add: keyed_by_put keyed_put_get keyed_by_fold_del keyed_reconciled keyed_audit
      consumed_plan_id monotonic_usage_id users.save_keyed admissions.save_keyed
      workloads.save_keyed bindings.save_keyed plans.save_keyed operations.save_keyed
      schedules.save_keyed secrets.save_keyed aggregates.save_keyed actions.save_keyed)

lemma reachable_keyed: "reachable s \<Longrightarrow> store_keyed s"
  by (rule reachable_invariant [where holds = store_keyed])
    (auto simp: effect_keyed, auto simp: store_keyed_def empty_store_def)

text \<open>Every stored record satisfies its class invariant.\<close>

definition store_valid :: "store \<Rightarrow> bool" where
  "store_valid s \<longleftrightarrow>
     dict_all user_ok (st_users s) \<and> dict_all admission_ok (st_admissions s) \<and>
     dict_all workload_ok (st_workloads s) \<and> dict_all binding_ok (st_bindings s) \<and>
     dict_all plan_ok (st_plans s) \<and> dict_all operation_ok (st_operations s) \<and>
     dict_all schedule_ok (st_schedules s) \<and> dict_all secret_ok (st_secrets s) \<and>
     dict_all usage_entry_ok (st_usage s) \<and> dict_all org_cost_guard_ok (st_guards s) \<and>
     dict_all activity_event_ok (st_activity s) \<and> dict_all aggregate_ok (st_aggregates s) \<and>
     dict_all audit_event_ok (st_audit s) \<and> dict_all lifecycle_action_ok (st_actions s) \<and>
     dict_all maintenance_ok (st_jobs s) \<and> dict_all origin_claim_ok (st_origin_claims s) \<and>
     dict_all deploy_task_ok (st_tasks s)"

lemma dict_all_fold_del: "dict_all P d \<Longrightarrow> dict_all P (fold dict_del ids d)"
  by (induction ids arbitrary: d) (auto intro: dict_all_del)

lemma dict_all_reconciled:
  "dict_all P d \<Longrightarrow> list_all (\<lambda>r. P (rec_user r)) rs \<Longrightarrow> dict_all P (apply_reconciled_users rs d)"
  unfolding apply_reconciled_users_def
  by (induction rs arbitrary: d) (auto intro: dict_all_put)

lemma dict_all_audit:
  "dict_all P d \<Longrightarrow> list_all P es \<Longrightarrow> dict_all P (append_audit_events es d)"
  unfolding append_audit_events_def
  by (induction es arbitrary: d) (auto intro: dict_all_put)

lemma consumed_plan_ok: "plan_transition_state p st at = Inr q \<Longrightarrow> plan_ok q"
  by (auto dest: plan_transition_state_fields)

lemma advance_source_ok: "advance_source w a sha m at = Inr v \<Longrightarrow> workload_ok v"
  by (auto simp: advance_source_def res_simps)

lemma effect_valid: "effect s s' \<Longrightarrow> store_valid s \<Longrightarrow> store_valid s'"
  unfolding store_valid_def
  by (cases rule: effect.cases, assumption)
    (simp_all add: dict_all_put dict_all_fold_del dict_all_reconciled dict_all_audit
      consumed_plan_ok advance_source_ok users.save_all admissions.save_all
      workloads.save_all bindings.save_all plans.save_all operations.save_all
      schedules.save_all secrets.save_all guards.save_all aggregates.save_all actions.save_all)

lemma reachable_valid: "reachable s \<Longrightarrow> store_valid s"
  by (rule reachable_invariant [where holds = store_valid])
    (auto simp: effect_valid, auto simp: store_valid_def empty_store_def)


section \<open>Claims\<close>

text \<open>
  An idempotency claim and the operation it names describe each other, so that a replay always
  finds its original; the same for the claims of deploy tasks.
\<close>

definition claims_match :: "store \<Rightarrow> bool" where
  "claims_match s \<longleftrightarrow>
     claims_index operation_claim_key claim_of claim_operation (st_op_claims s) (st_operations s)"

definition tasks_match :: "store \<Rightarrow> bool" where
  "tasks_match s \<longleftrightarrow>
     claims_index tsk_idempotency_key tsk_operation_id id (st_task_claims s) (st_tasks s)"

lemma operation_same_claim:
  "operation_same a b \<Longrightarrow> op_id a = op_id b \<Longrightarrow>
     operation_claim_key b = operation_claim_key a \<and> claim_of b = claim_of a"
  by (simp add: operation_same_def operation_claim_key_def claim_of_def)

lemma claim_operation_of [simp]: "claim_operation (claim_of p) = op_id p"
  by (simp add: claim_of_def)

lemma claim_material_of [simp]: "claim_material (claim_of p) = operation_material p"
  by (simp add: claim_of_def operation_material_def)

lemma claims_match_save:
  assumes "claims_match s" and "keyed_by op_id (st_operations s)"
    and "put_operation (st_operations s) p v = Inr d"
  shows "claims_match (s\<lparr>st_operations := d\<rparr>)"
proof -
  from assms(3) obtain cur where cur: "dict_get (st_operations s) (op_id p) = Some cur"
      "operation_step cur p" "d = dict_put (op_id p) p (st_operations s)"
    by (auto simp: operations.save_iff)
  then have "operation_claim_key p = operation_claim_key cur \<and> claim_of p = claim_of cur"
    using operation_same_claim [of cur p] keyed_by_get [OF assms(2) cur(1)]
    by (auto simp: operation_step_def)
  with assms(1) cur show ?thesis
    unfolding claims_match_def by (auto intro: claims_index_update)
qed

lemma effect_claims_match:
  assumes "effect s s'" and "store_keyed s \<and> claims_match s"
  shows "store_keyed s' \<and> claims_match s'"
proof
  show "store_keyed s'" using effect_keyed [OF assms(1)] assms(2) by simp
  from assms show "claims_match s'"
  proof (cases rule: effect.cases)
    case (operations_save p v d)
    then show ?thesis using assms(2) claims_match_save by (auto simp: store_keyed_def)
  qed (simp_all add: claims_match_def claims_index_insert)
qed

lemma reachable_claims_match: "reachable s \<Longrightarrow> claims_match s"
  using reachable_invariant [where holds = "\<lambda>s. store_keyed s \<and> claims_match s" and s = s]
    effect_claims_match
  by (auto simp: store_keyed_def empty_store_def claims_match_def)

lemma effect_tasks_match:
  assumes "effect s s'" and "tasks_match s"
  shows "tasks_match s'"
  using assms
proof (cases rule: effect.cases)
  case (github_delivered delivery w current ref old a plan p at consumed t h)
  then have "claims_index tsk_idempotency_key tsk_operation_id id
      (dict_put (tsk_idempotency_key t) (tsk_operation_id t) (st_task_claims s))
      (dict_put (op_id p) t (st_tasks s))"
    using assms(2) by (intro claims_index_insert) (simp_all add: tasks_match_def)
  with github_delivered show ?thesis by (simp add: tasks_match_def)
next
  case (task_queued t)
  then have "claims_index tsk_idempotency_key tsk_operation_id id
      (dict_put (tsk_idempotency_key t) (tsk_operation_id t) (st_task_claims s))
      (dict_put (tsk_operation_id t) t (st_tasks s))"
    using assms(2) by (intro claims_index_insert) (simp_all add: tasks_match_def)
  with task_queued show ?thesis by (simp add: tasks_match_def)
qed (simp_all add: tasks_match_def)

lemma reachable_tasks_match: "reachable s \<Longrightarrow> tasks_match s"
  by (rule reachable_invariant [where holds = tasks_match])
    (auto simp: effect_tasks_match, auto simp: tasks_match_def empty_store_def)

end
