(* ===== verification/Store_History.thy ===== *)
theory Store_History
  imports Store_Invariants
begin

text \<open>
  How records evolve. For every collection but the activity log (whose events expire), a record
  that is stored stays stored under its key, and each effect leaves it alone or moves it by one
  step of a relation; the locale extends that to any number of calls. Ledgers and claim tables
  are interpreted with the empty relation: what they hold never changes.
\<close>

locale tracked_collection =
  fixes get :: "store \<Rightarrow> 'k \<Rightarrow> 'r option"
    and evolves :: "'r \<Rightarrow> 'r \<Rightarrow> bool"
  assumes get_override: "get (s\<lparr>st_override := forced\<rparr>) k = get s k"
    and get_effect:
      "effect s s' \<Longrightarrow> store_keyed s \<Longrightarrow> get s k = Some r \<Longrightarrow>
         get s' k = Some r \<or> (\<exists>r'. get s' k = Some r' \<and> evolves r r')"
begin

lemma history:
  assumes "later s s'" and "store_keyed s" and "get s k = Some r"
  shows "\<exists>r'. get s' k = Some r' \<and> evolves\<^sup>*\<^sup>* r r'"
proof -
  have "store_keyed s' \<and> (\<exists>r'. get s' k = Some r' \<and> evolves\<^sup>*\<^sup>* r r')"
    using assms(1) unfolding later_def
  proof (induction rule: rtranclp_induct)
    case base
    then show ?case using assms(2,3) by auto
  next
    case (step t t')
    then obtain q where q: "get t k = Some q" "evolves\<^sup>*\<^sup>* r q" and keyed: "store_keyed t" by auto
    from step.hyps(2) show ?case
    proof (cases rule: step_cases)
      case 1
      with q keyed show ?thesis by auto
    next
      case 2
      from get_effect [OF 2 keyed q(1)] q(2) effect_keyed [OF 2 keyed] show ?thesis
        by (auto intro: rtranclp.rtrancl_into_rtrancl)
    next
      case (3 forced)
      with q keyed show ?thesis by (auto simp: get_override store_keyed_def)
    qed
  qed
  then show ?thesis by blast
qed

lemma history_closed:
  assumes "later s s'" and "store_keyed s" and "get s k = Some r"
    and "\<And>x y. evolves x y \<Longrightarrow> P r x \<Longrightarrow> P r y" and "P r r"
  shows "\<exists>r'. get s' k = Some r' \<and> P r r'"
proof -
  from history [OF assms(1-3)] obtain r' where r': "get s' k = Some r'" "evolves\<^sup>*\<^sup>* r r'" by blast
  from r'(2) have "P r r'"
    by (induction rule: rtranclp_induct) (use assms(4,5) in auto)
  with r'(1) show ?thesis by blast
qed

end

text \<open>A table that only ever grows.\<close>

locale frozen_collection = tracked_collection get "\<lambda>_ _. False"
  for get :: "store \<Rightarrow> 'k \<Rightarrow> 'r option"
begin

lemma frozen: "later s s' \<Longrightarrow> store_keyed s \<Longrightarrow> get s k = Some r \<Longrightarrow> get s' k = Some r"
  using history_closed [of s s' k r "\<lambda>x y. x = y"] by auto

end


section \<open>Step relations of the records\<close>

definition user_evolves :: "user \<Rightarrow> user \<Rightarrow> bool" where
  "user_evolves u v \<longleftrightarrow>
     usr_id v = usr_id u \<and> usr_email v = usr_email u \<and> usr_role v = usr_role u \<and>
     usr_created_at v = usr_created_at u \<and> usr_version v = usr_version u + 1 \<and>
     time_leq (usr_updated_at u) (usr_updated_at v) \<and>
     state_step user_transitions (usr_state u) (usr_state v)"

definition workload_evolves :: "workload \<Rightarrow> workload \<Rightarrow> bool" where
  "workload_evolves w v \<longleftrightarrow>
     wl_id v = wl_id w \<and> wl_owner_id v = wl_owner_id w \<and> wl_name v = wl_name w \<and>
     wl_kind v = wl_kind w \<and> wl_created_at v = wl_created_at w \<and>
     wl_auto_deploy_enabled v = wl_auto_deploy_enabled w \<and>
     wl_auto_deploy_ref v = wl_auto_deploy_ref w \<and> wl_version v = wl_version w + 1 \<and>
     time_leq (wl_updated_at w) (wl_updated_at v) \<and>
     state_step workload_transitions (wl_state w) (wl_state v)"

definition schedule_evolves :: "schedule \<Rightarrow> schedule \<Rightarrow> bool" where
  "schedule_evolves c d \<longleftrightarrow>
     sch_id d = sch_id c \<and> sch_owner_id d = sch_owner_id c \<and>
     sch_workload_id d = sch_workload_id c \<and> sch_cron d = sch_cron c \<and>
     sch_timezone d = sch_timezone c \<and> sch_created_at d = sch_created_at c \<and>
     sch_version d = sch_version c + 1 \<and>
     time_leq (sch_updated_at c) (sch_updated_at d) \<and>
     state_step schedule_transitions (sch_state c) (sch_state d)"

abbreviation plan_evolves :: "deployment_plan \<Rightarrow> deployment_plan \<Rightarrow> bool" where
  "plan_evolves \<equiv> stateful_step plan_attrs pln_state plan_transitions plan_same"

abbreviation action_evolves :: "lifecycle_action \<Rightarrow> lifecycle_action \<Rightarrow> bool" where
  "action_evolves \<equiv> stateful_step action_attrs lca_state lifecycle_action_transitions action_same"

lemmas attrs_defs =
  user_attrs_def admission_attrs_def workload_attrs_def binding_attrs_def plan_attrs_def
  operation_attrs_def schedule_attrs_def secret_attrs_def guard_attrs_def aggregate_attrs_def
  action_attrs_def

lemma put_user_evolves:
  assumes "put_user d u v = Inr d'" and "dict_get d k = Some r"
  shows "dict_get d' k = Some r \<or> (\<exists>r'. dict_get d' k = Some r' \<and> user_evolves r r')"
  using assms
  by (cases "k = usr_id u")
    (auto simp: users.save_iff stateful_step_def next_version_def attrs_defs user_same_def
      user_evolves_def time_not_back_def)

lemma reconciles_evolves: "reconciles d q r \<Longrightarrow> user_evolves r (rec_user q)"
  by (simp add: reconciles_def user_evolves_def)

lemma snapshot_evolves:
  assumes "validate_directory_snapshot_write sid h rs es d existing limit = Inr res"
    and "dict_get d k = Some r"
  shows "dict_get (apply_reconciled_users rs d) k = Some r \<or>
    (\<exists>r'. dict_get (apply_reconciled_users rs d) k = Some r' \<and> user_evolves r r')"
proof -
  from validate_directory_snapshot_write_Inr [OF assms(1)] obtain currents where
    cs: "list_all2 (reconciles d) rs currents" "distinct (map (\<lambda>r. usr_id (rec_user r)) rs)"
    by blast
  show ?thesis
  proof (cases "find (\<lambda>r. usr_id (rec_user r) = k) rs")
    case None
    then show ?thesis using assms(2) by (simp add: apply_reconciled_users_get [OF cs(2)])
  next
    case (Some q)
    then have q: "q \<in> set rs" "usr_id (rec_user q) = k" by (auto simp: find_Some_iff)
    with cs(1) obtain c where "reconciles d q c"
      by (auto simp: list_all2_conv_all_nth in_set_conv_nth)
    with q assms(2) have "user_evolves r (rec_user q)"
      using reconciles_evolves [of d q r] by (auto simp: reconciles_def)
    with Some show ?thesis by (simp add: apply_reconciled_users_get [OF cs(2)])
  qed
qed

lemma put_workload_evolves:
  assumes "put_workload d w v = Inr d'" and "dict_get d k = Some r"
  shows "dict_get d' k = Some r \<or> (\<exists>r'. dict_get d' k = Some r' \<and> workload_evolves r r')"
  using assms
  by (cases "k = wl_id w")
    (auto simp: workloads.save_iff stateful_step_def next_version_def attrs_defs workload_same_def
      workload_evolves_def time_not_back_def)

lemma advance_source_evolves:
  "advance_source w a sha m at = Inr v \<Longrightarrow> workload_evolves w v"
  by (auto simp: advance_source_def res_simps workload_evolves_def state_step_def
      transition_time_ok_def)

lemma put_plan_evolves:
  assumes "put_plan d p v = Inr d'" and "dict_get d k = Some r"
  shows "dict_get d' k = Some r \<or> (\<exists>r'. dict_get d' k = Some r' \<and> plan_evolves r r')"
  using plans.save_step [OF assms] by auto

lemma plan_transition_evolves:
  assumes "plan_transition_state p target at = Inr q"
  shows "plan_evolves p q"
proof -
  have "transition_time_ok at (pln_updated_at p)"
    using assms by (simp add: plan_transition_state_def res_simps)
  with plan_transition_state_fields [OF assms] show ?thesis
    by (auto simp: stateful_step_def next_version_def attrs_defs plan_same_def time_not_back_def
        state_step_def transition_time_ok_def)
qed

lemma put_operation_evolves:
  assumes "put_operation d p v = Inr d'" and "dict_get d k = Some r"
  shows "dict_get d' k = Some r \<or> (\<exists>r'. dict_get d' k = Some r' \<and> operation_step r r')"
  using operations.save_step [OF assms] by auto

lemma put_schedule_evolves:
  assumes "put_schedule d c v = Inr d'" and "dict_get d k = Some r"
  shows "dict_get d' k = Some r \<or> (\<exists>r'. dict_get d' k = Some r' \<and> schedule_evolves r r')"
  using assms
  by (cases "k = sch_id c")
    (auto simp: schedules.save_iff stateful_step_def next_version_def attrs_defs schedule_same_def
      schedule_evolves_def time_not_back_def)

lemma leased_evolves:
  "lease_available c tok now \<Longrightarrow> schedule_evolves c (leased_schedule c tok ex now)"
  by (simp add: lease_available_def schedule_evolves_def leased_schedule_def state_step_def)

lemma completed_evolves:
  "lease_held c tok at \<Longrightarrow> schedule_evolves c (completed_schedule c ok at)"
  by (simp add: lease_held_def schedule_evolves_def completed_schedule_def state_step_def Let_def)

lemma put_action_evolves:
  assumes "put_action d a v = Inr d'" and "dict_get d k = Some r"
  shows "dict_get d' k = Some r \<or> (\<exists>r'. dict_get d' k = Some r' \<and> action_evolves r r')"
  using actions.save_step [OF assms] by auto


section \<open>Histories\<close>

interpretation hist_users: tracked_collection "\<lambda>s. dict_get (st_users s)" user_evolves
proof unfold_locales
  fix s s' k r
  assume "effect s s'" and "dict_get (st_users s) k = Some r"
  then show "dict_get (st_users s') k = Some r \<or>
      (\<exists>r'. dict_get (st_users s') k = Some r' \<and> user_evolves r r')"
    by (cases rule: effect.cases) (auto simp: snapshot_evolves dest: put_user_evolves)
qed simp

interpretation hist_workloads: tracked_collection "\<lambda>s. dict_get (st_workloads s)" workload_evolves
proof unfold_locales
  fix s s' k r
  assume "effect s s'" and "dict_get (st_workloads s) k = Some r"
  then show "dict_get (st_workloads s') k = Some r \<or>
      (\<exists>r'. dict_get (st_workloads s') k = Some r' \<and> workload_evolves r r')"
    by (cases rule: effect.cases) (auto dest: put_workload_evolves advance_source_evolves)
qed simp

interpretation hist_admissions: tracked_collection "\<lambda>s. dict_get (st_admissions s)"
  "stateful_step admission_attrs adm_state admission_transitions admission_same"
proof unfold_locales
  fix s s' k r
  assume "effect s s'" and "dict_get (st_admissions s) k = Some r"
  then show "dict_get (st_admissions s') k = Some r \<or> (\<exists>r'. dict_get (st_admissions s') k = Some r' \<and>
      stateful_step admission_attrs adm_state admission_transitions admission_same r r')"
    by (cases rule: effect.cases) (auto dest: admissions.save_step)
qed simp

interpretation hist_plans: tracked_collection "\<lambda>s. dict_get (st_plans s)" plan_evolves
proof unfold_locales
  fix s s' k r
  assume "effect s s'" and "dict_get (st_plans s) k = Some r"
  then show "dict_get (st_plans s') k = Some r \<or>
      (\<exists>r'. dict_get (st_plans s') k = Some r' \<and> plan_evolves r r')"
    by (cases rule: effect.cases) (auto dest: put_plan_evolves plan_transition_evolves)
qed simp

interpretation hist_operations: tracked_collection "\<lambda>s. dict_get (st_operations s)" operation_step
proof unfold_locales
  fix s s' k r
  assume "effect s s'" and "dict_get (st_operations s) k = Some r"
  then show "dict_get (st_operations s') k = Some r \<or>
      (\<exists>r'. dict_get (st_operations s') k = Some r' \<and> operation_step r r')"
    by (cases rule: effect.cases) (auto dest: put_operation_evolves)
qed simp

interpretation hist_schedules: tracked_collection "\<lambda>s. dict_get (st_schedules s)" schedule_evolves
proof unfold_locales
  fix s s' k r
  assume "effect s s'" and "dict_get (st_schedules s) k = Some r"
  then show "dict_get (st_schedules s') k = Some r \<or>
      (\<exists>r'. dict_get (st_schedules s') k = Some r' \<and> schedule_evolves r r')"
    by (cases rule: effect.cases)
      (auto dest: put_schedule_evolves leased_evolves completed_evolves)
qed simp

abbreviation secret_evolves :: "secret_metadata \<Rightarrow> secret_metadata \<Rightarrow> bool" where
  "secret_evolves x y \<equiv> secret_step x y \<and> secret_ok y"

interpretation hist_secrets: tracked_collection "\<lambda>s. dict_get (st_secrets s)" secret_evolves
proof unfold_locales
  fix s s' k r
  assume "effect s s'" and "dict_get (st_secrets s) k = Some r"
  then show "dict_get (st_secrets s') k = Some r \<or>
      (\<exists>r'. dict_get (st_secrets s') k = Some r' \<and> secret_evolves r r')"
    by (cases rule: effect.cases) (auto simp: secrets.save_iff)
qed simp

interpretation hist_actions: tracked_collection "\<lambda>s. dict_get (st_actions s)" action_evolves
proof unfold_locales
  fix s s' k r
  assume "effect s s'" and "dict_get (st_actions s) k = Some r"
  then show "dict_get (st_actions s') k = Some r \<or>
      (\<exists>r'. dict_get (st_actions s') k = Some r' \<and> action_evolves r r')"
    by (cases rule: effect.cases) (auto dest: put_action_evolves)
qed simp

interpretation hist_usage: tracked_collection "\<lambda>s. dict_get (st_usage s)" monotonic_usage_update
proof unfold_locales
  fix s s' k r
  assume "effect s s'" and "dict_get (st_usage s) k = Some r"
  then show "dict_get (st_usage s') k = Some r \<or>
      (\<exists>r'. dict_get (st_usage s') k = Some r' \<and> monotonic_usage_update r r')"
    by (cases rule: effect.cases) auto
qed simp

lemma audit_append_keeps:
  assumes "validate_directory_snapshot_write sid h rs es d (set (dict_keys a)) limit = Inr res"
    and "dict_get a k = Some e"
  shows "dict_get (append_audit_events es a) k = Some e"
proof -
  from validate_directory_snapshot_write_Inr [OF assms(1)] obtain currents where
    cs: "list_all2 (reconciles d) rs currents" "length es = length rs"
      "\<forall>(r, c, e) \<in> set (zip rs (zip currents es)).
         expected_audit_event sid r c = Inr e \<and> aud_id e \<notin> set (dict_keys a)"
      "distinct (map aud_id es)"
    by blast
  have fresh: "aud_id x \<notin> set (dict_keys a)" if "x \<in> set es" for x
  proof -
    from that obtain i where i: "i < length es" "x = es ! i" by (auto simp: in_set_conv_nth)
    then have "(rs ! i, currents ! i, es ! i) \<in> set (zip rs (zip currents es))"
      using cs(1,2) list_all2_lengthD [OF cs(1)] by (auto simp: set_zip)
    with cs(3) i show ?thesis by auto
  qed
  have "find (\<lambda>x. aud_id x = k) es = None"
    using fresh dict_keys_get [of k a] assms(2) by (fastforce simp: find_None_iff)
  with assms(2) show ?thesis by (simp add: append_audit_events_get [OF cs(4)])
qed

interpretation hist_audit: frozen_collection "\<lambda>s. dict_get (st_audit s)"
proof unfold_locales
  fix s s' k r
  assume "effect s s'" and "dict_get (st_audit s) k = Some r"
  then show "dict_get (st_audit s') k = Some r \<or> (\<exists>r'. dict_get (st_audit s') k = Some r' \<and> False)"
    by (cases rule: effect.cases) (auto simp: audit_append_keeps)
qed simp

interpretation hist_op_claims: frozen_collection "\<lambda>s. dict_get (st_op_claims s)"
proof unfold_locales
  fix s s' k r
  assume "effect s s'" and "dict_get (st_op_claims s) k = Some r"
  then show "dict_get (st_op_claims s') k = Some r \<or> (\<exists>r'. dict_get (st_op_claims s') k = Some r' \<and> False)"
    by (cases rule: effect.cases) auto
qed simp

interpretation hist_tasks: frozen_collection "\<lambda>s. dict_get (st_tasks s)"
proof unfold_locales
  fix s s' k r
  assume "effect s s'" and "dict_get (st_tasks s) k = Some r"
  then show "dict_get (st_tasks s') k = Some r \<or> (\<exists>r'. dict_get (st_tasks s') k = Some r' \<and> False)"
    by (cases rule: effect.cases) auto
qed simp

interpretation hist_task_claims: frozen_collection "\<lambda>s. dict_get (st_task_claims s)"
proof unfold_locales
  fix s s' k r
  assume "effect s s'" and "dict_get (st_task_claims s) k = Some r"
  then show "dict_get (st_task_claims s') k = Some r \<or> (\<exists>r'. dict_get (st_task_claims s') k = Some r' \<and> False)"
    by (cases rule: effect.cases) auto
qed simp

interpretation hist_deliveries: frozen_collection "\<lambda>s. dict_get (st_deliveries s)"
proof unfold_locales
  fix s s' k r
  assume "effect s s'" and "dict_get (st_deliveries s) k = Some r"
  then show "dict_get (st_deliveries s') k = Some r \<or> (\<exists>r'. dict_get (st_deliveries s') k = Some r' \<and> False)"
    by (cases rule: effect.cases) auto
qed simp

interpretation hist_origin: frozen_collection "\<lambda>s. dict_get (st_origin_claims s)"
proof unfold_locales
  fix s s' k r
  assume "effect s s'" and "dict_get (st_origin_claims s) k = Some r"
  then show "dict_get (st_origin_claims s') k = Some r \<or> (\<exists>r'. dict_get (st_origin_claims s') k = Some r' \<and> False)"
    by (cases rule: effect.cases) auto
qed simp

interpretation hist_ledger: frozen_collection "\<lambda>s. dict_get (st_ledger s)"
proof unfold_locales
  fix s s' k r
  assume "effect s s'" and "dict_get (st_ledger s) k = Some r"
  then show "dict_get (st_ledger s') k = Some r \<or> (\<exists>r'. dict_get (st_ledger s') k = Some r' \<and> False)"
    by (cases rule: effect.cases) auto
qed simp


section \<open>Facts every history shares\<close>

lemma user_history:
  assumes "later s s'" and "store_keyed s" and "dict_get (st_users s) i = Some u"
  shows "\<exists>v. dict_get (st_users s') i = Some v \<and>
    usr_id v = usr_id u \<and> usr_email v = usr_email u \<and> usr_role v = usr_role u \<and>
    usr_created_at v = usr_created_at u \<and> usr_version u \<le> usr_version v \<and>
    time_leq (usr_updated_at u) (usr_updated_at v) \<and>
    (state_step user_transitions)\<^sup>*\<^sup>* (usr_state u) (usr_state v)"
  by (rule hist_users.history_closed [OF assms, where P = "\<lambda>u v.
      usr_id v = usr_id u \<and> usr_email v = usr_email u \<and> usr_role v = usr_role u \<and>
      usr_created_at v = usr_created_at u \<and> usr_version u \<le> usr_version v \<and>
      time_leq (usr_updated_at u) (usr_updated_at v) \<and>
      (state_step user_transitions)\<^sup>*\<^sup>* (usr_state u) (usr_state v)"])
    (auto simp: user_evolves_def intro: time_leq_trans rtranclp.rtrancl_into_rtrancl)

lemma plan_history:
  assumes "later s s'" and "store_keyed s" and "dict_get (st_plans s) i = Some p"
  shows "\<exists>q. dict_get (st_plans s') i = Some q \<and> plan_same p q \<and>
    (state_step plan_transitions)\<^sup>*\<^sup>* (pln_state p) (pln_state q)"
  by (rule hist_plans.history_closed [OF assms, where P = "\<lambda>p q. plan_same p q \<and>
      (state_step plan_transitions)\<^sup>*\<^sup>* (pln_state p) (pln_state q)"])
    (auto simp: stateful_step_def plan_same_def intro: rtranclp.rtrancl_into_rtrancl)

lemma operation_history:
  assumes "later s s'" and "store_keyed s" and "dict_get (st_operations s) i = Some p"
  shows "\<exists>q. dict_get (st_operations s') i = Some q \<and> operation_same p q \<and>
    (op_result_summary p \<noteq> [] \<longrightarrow> op_result_summary q = op_result_summary p) \<and>
    (state_step operation_transitions)\<^sup>*\<^sup>* (op_state p) (op_state q)"
  by (rule hist_operations.history_closed [OF assms, where P = "\<lambda>p q. operation_same p q \<and>
      (op_result_summary p \<noteq> [] \<longrightarrow> op_result_summary q = op_result_summary p) \<and>
      (state_step operation_transitions)\<^sup>*\<^sup>* (op_state p) (op_state q)"])
    (auto simp: operation_step_def operation_same_def intro: rtranclp.rtrancl_into_rtrancl)

lemma usage_monotone_trans:
  "monotonic_usage_update a b \<Longrightarrow> monotonic_usage_update b c \<Longrightarrow> monotonic_usage_update a c"
  by (auto simp: monotonic_usage_update_def time_leq_def split: option.splits)

lemma usage_monotone_refl: "monotonic_usage_update a a"
  by (auto simp: monotonic_usage_update_def split: option.splits)

lemma usage_history:
  assumes "later s s'" and "store_keyed s" and "dict_get (st_usage s) i = Some e"
  shows "\<exists>f. dict_get (st_usage s') i = Some f \<and> monotonic_usage_update e f"
  by (rule hist_usage.history_closed [OF assms, where P = monotonic_usage_update])
    (auto intro: usage_monotone_trans usage_monotone_refl)

text \<open>Attached workloads are never detached, and the active version never goes back.\<close>

definition secret_grows :: "secret_metadata \<Rightarrow> secret_metadata \<Rightarrow> bool" where
  "secret_grows x y \<longleftrightarrow>
     sec_owner_id y = sec_owner_id x \<and> sec_name y = sec_name x \<and>
     sec_active_version x \<le> sec_active_version y \<and>
     set (sec_attached_workload_ids x) \<subseteq> set (sec_attached_workload_ids y) \<and>
     (state_step secret_lifecycle_transitions)\<^sup>*\<^sup>* (sec_lifecycle_state x) (sec_lifecycle_state y)"

lemma secret_step_grows:
  assumes "secret_ok x" and "secret_step x y"
  shows "secret_grows x y"
  using assms
  by (cases "sec_mutation_state x")
    (auto simp: secret_grows_def secret_step_def secret_same_def secret_update_defs secret_ok_def
      mutation_ok_def split: option.splits if_splits)


lemma secret_grows_trans: "secret_grows x y \<Longrightarrow> secret_grows y z \<Longrightarrow> secret_grows x z"
  by (auto simp: secret_grows_def intro: rtranclp_trans)

lemma secret_history:
  assumes "later s s'" and "store_keyed s" and "dict_get (st_secrets s) i = Some x" and "secret_ok x"
  shows "\<exists>y. dict_get (st_secrets s') i = Some y \<and> secret_grows x y \<and> secret_ok y"
proof (rule hist_secrets.history_closed [OF assms(1-3), where P = "\<lambda>x y. secret_grows x y \<and> secret_ok y"])
  show "secret_grows x x \<and> secret_ok x" using assms(4) by (simp add: secret_grows_def)
  show "secret_grows x z \<and> secret_ok z" if "secret_evolves y z" "secret_grows x y \<and> secret_ok y" for y z
    using that secret_step_grows secret_grows_trans by blast
qed


section \<open>Deliveries are complete\<close>

fun delivery_complete :: "store \<Rightarrow> string \<Rightarrow> delivery_claim \<Rightarrow> bool" where
  "delivery_complete s d (h, ref, a, w, plan, p, th) \<longleftrightarrow>
     dict_get (st_admissions s) a \<noteq> None \<and> dict_get (st_workloads s) w \<noteq> None \<and>
     (\<exists>pl. dict_get (st_plans s) plan = Some pl \<and> pln_state pl = PlanConsumed \<and>
           pln_actor_id pl = auto_deploy_actor_id) \<and>
     (\<exists>q. dict_get (st_operations s) p = Some q \<and> op_actor_id q = auto_deploy_actor_id \<and>
          op_idempotency_key q = ''github:'' @ d \<and> op_workload_id q = Some w) \<and>
     (\<exists>t. dict_get (st_tasks s) p = Some t \<and> task_material_hash t = th)"

definition deliveries_complete :: "store \<Rightarrow> bool" where
  "deliveries_complete s \<longleftrightarrow>
     (\<forall>d cl. dict_get (st_deliveries s) d = Some cl \<longrightarrow> delivery_complete s d cl)"

lemma effect_later: "step s s' \<Longrightarrow> later s s'"
  by (simp add: later_def)

lemma delivery_complete_later:
  assumes "later s s'" and "store_keyed s" and "delivery_complete s d cl"
  shows "delivery_complete s' d cl"
proof -
  obtain h ref a w plan p th where cl: "cl = (h, ref, a, w, plan, p, th)"
    by (cases cl) auto
  have adm: "dict_get (st_admissions s') a \<noteq> None"
    using assms(3) cl hist_admissions.history [OF assms(1,2), of a] by fastforce
  have wl: "dict_get (st_workloads s') w \<noteq> None"
    using assms(3) cl hist_workloads.history [OF assms(1,2), of w] by fastforce
  from assms(3) cl obtain pl q t where
    pl: "dict_get (st_plans s) plan = Some pl" "pln_state pl = PlanConsumed"
      "pln_actor_id pl = auto_deploy_actor_id" and
    q: "dict_get (st_operations s) p = Some q" "op_actor_id q = auto_deploy_actor_id"
      "op_idempotency_key q = ''github:'' @ d" "op_workload_id q = Some w" and
    t: "dict_get (st_tasks s) p = Some t" "task_material_hash t = th" by auto
  obtain pl' where "dict_get (st_plans s') plan = Some pl'" "pln_state pl' = PlanConsumed"
      "pln_actor_id pl' = auto_deploy_actor_id"
    using plan_history [OF assms(1,2) pl(1)] pl(2,3) state_step_final [of plan_transitions]
    by (auto simp: plan_same_def)
  moreover obtain q' where "dict_get (st_operations s') p = Some q'"
      "op_actor_id q' = auto_deploy_actor_id" "op_idempotency_key q' = ''github:'' @ d"
      "op_workload_id q' = Some w"
    using operation_history [OF assms(1,2) q(1)] q(2-4) by (auto simp: operation_same_def)
  moreover have "dict_get (st_tasks s') p = Some t"
    by (rule hist_tasks.frozen [OF assms(1,2) t(1)])
  ultimately show ?thesis using adm wl t(2) cl by auto
qed

lemma effect_new_delivery:
  assumes "effect s s'" and "dict_get (st_deliveries s) d = None"
    and "dict_get (st_deliveries s') d = Some cl"
  shows "delivery_complete s' d cl"
  using assms
proof (cases rule: effect.cases)
  case (github_delivered delivery w current ref old a plan p at consumed t h)
  then have "d = delivery" and "cl = delivery_claim_of h ref a w plan p t"
    using assms(2,3) by (auto split: if_splits)
  then show ?thesis using github_delivered
    by (auto simp: delivery_claim_of_def dest: plan_transition_state_fields)
qed auto

lemma reachable_deliveries_complete:
  assumes "reachable s"
  shows "deliveries_complete s"
proof -
  have "store_keyed s \<and> deliveries_complete s"
    using assms unfolding reachable_def later_def
  proof (induction rule: rtranclp_induct)
    case base
    show ?case by (simp add: store_keyed_def deliveries_complete_def empty_store_def)
  next
    case (step t t')
    then have pre: "store_keyed t" "deliveries_complete t" by auto
    have post: "store_keyed t'"
      using step.hyps(2) pre(1)
      by (cases rule: step_cases) (auto simp: effect_keyed, auto simp: store_keyed_def)
    have "delivery_complete t' d cl" if "dict_get (st_deliveries t') d = Some cl" for d cl
    proof (cases "dict_get (st_deliveries t) d")
      case (Some cl')
      with that have "cl' = cl"
        using hist_deliveries.frozen [OF effect_later [OF step.hyps(2)] pre(1) Some] by simp
      with Some pre(2) have "delivery_complete t d cl" unfolding deliveries_complete_def by blast
      then show ?thesis by (rule delivery_complete_later [OF effect_later [OF step.hyps(2)] pre(1)])
    next
      case None
      from step.hyps(2) show ?thesis
        by (cases rule: step_cases) (use that None effect_new_delivery in auto)
    qed
    with post show ?case by (simp add: deliveries_complete_def)
  qed
  then show ?thesis ..
qed

end
