(* ===== verification/Samples.thy ===== *)
theory Samples
  imports Store_History
begin

text \<open>
  Concrete records on which the properties are applied, and the facts that make them legal
  arguments of the store. Times are small numbers of seconds after the epoch.
\<close>

definition t0 :: pytime where "t0 = utc 0"
definition t1 :: pytime where "t1 = utc 1000000"
definition t2 :: pytime where "t2 = utc 2000000"
definition t3 :: pytime where "t3 = utc 3000000"
definition t9 :: pytime where "t9 = utc 9000000"

definition sample_sha :: string where
  "sample_sha = replicate 40 (CHR ''a'')"

definition sample_sha2 :: string where
  "sample_sha2 = replicate 40 (CHR ''b'')"

definition sample_digest :: string where
  "sample_digest = replicate 64 (CHR ''c'')"

definition sample_delivery :: string where
  "sample_delivery = ''01234567-89ab-cdef-0123-456789abcdef''"

definition sample_user :: user where
  "sample_user =
     \<lparr>usr_id = ''u1'', usr_email = ''u1@example.com'', usr_role = RoleUser, usr_state = UserActive,
      usr_groups = {''pilot''}, usr_identity_synced_at = t0, usr_created_at = t0,
      usr_updated_at = t0, usr_version = 1\<rparr>"

definition sample_admission :: repository_admission where
  "sample_admission =
     \<lparr>adm_id = ''a1'', adm_repository_numeric_id = 7, adm_owner = ''madup'', adm_name = ''app'',
      adm_installation_id = 9, adm_state = Admitted, adm_admitted_sha = sample_sha,
      adm_created_at = t0, adm_updated_at = t0, adm_version = 1\<rparr>"

definition sample_workload :: workload where
  "sample_workload =
     \<lparr>wl_id = ''w1'', wl_owner_id = ''u1'', wl_repository_admission_id = ''a1'', wl_name = ''app'',
      wl_kind = Streamlit, wl_state = WlActive, wl_source_sha = sample_sha,
      wl_desired_manifest_hash = ''m1'', wl_created_at = t0, wl_updated_at = t0,
      wl_last_activity_at = None, wl_last_healthy_image_digest = None,
      wl_auto_deploy_enabled = True, wl_auto_deploy_ref = Some ''refs/heads/main'', wl_version = 1\<rparr>"

definition sample_plan :: deployment_plan where
  "sample_plan =
     \<lparr>pln_id = ''p1'', pln_actor_id = ''u1'', pln_workload_id = Some ''w1'', pln_action = ''deploy'',
      pln_material_hash = ''h1'', pln_policy_version = ''v1'', pln_state = PlanIssued,
      pln_expires_at = t9, pln_created_at = t0, pln_updated_at = t0,
      pln_sanitized_summary = [], pln_version = 1\<rparr>"

definition sample_operation :: operation where
  "sample_operation =
     \<lparr>op_id = ''o1'', op_actor_id = ''u1'', op_workload_id = Some ''w1'', op_action = ''deploy'',
      op_idempotency_key = ''k1'', op_request_hash = ''h1'', op_state = OpQueued,
      op_created_at = t0, op_updated_at = t0, op_sanitized_failure = None,
      op_result_summary = [], op_version = 1\<rparr>"

definition sample_schedule :: schedule where
  "sample_schedule =
     \<lparr>sch_id = ''s1'', sch_owner_id = ''u1'', sch_workload_id = ''w1'',
      sch_cron = approved_schedule_cron, sch_timezone = approved_schedule_timezone,
      sch_state = ScEnabled, sch_created_at = t0, sch_updated_at = t0,
      sch_consecutive_failures = 2, sch_lease_token = None, sch_lease_expires_at = None,
      sch_last_attempt_at = None, sch_last_success_at = None, sch_version = 1\<rparr>"

definition sample_task :: deploy_task where
  "sample_task =
     \<lparr>tsk_operation_id = ''o1'', tsk_operation_version = 1, tsk_workload_id = ''w1'',
      tsk_workload_version = 1, tsk_admission_id = ''a1'', tsk_admission_version = 1,
      tsk_source_sha = sample_sha, tsk_idempotency_key = ''k1'', tsk_queued_at = t0,
      tsk_secret_attachments = [], tsk_snapshot_digest = sample_digest,
      tsk_snapshot_file_count = 1, tsk_snapshot_byte_count = 1\<rparr>"

definition sample_usage :: usage_entry where
  "sample_usage =
     \<lparr>use_id = ''e1'', use_owner_id = Some ''u1'', use_workload_id = Some ''w1'',
      use_service_category = ''run'', use_estimated_cost_krw = 5, use_finalized_cost_krw = None,
      use_confidence = Estimated, use_collected_at = t0\<rparr>"

definition sample_audit :: audit_event where
  "sample_audit =
     \<lparr>aud_id = ''x1'', aud_actor_id = None, aud_action = ''deploy'', aud_target_ref = ''w1'',
      aud_policy_decision = ''allow'', aud_before_ref = None, aud_after_ref = None,
      aud_correlation_id = ''c1'', aud_outcome = ''ok'', aud_occurred_at = t0\<rparr>"

definition sample_origin :: origin_request_claim where
  "sample_origin =
     \<lparr>ocl_request_id = ''r1'', ocl_body_hash = ''b1'', ocl_claimed_at = t0, ocl_expires_at = t9\<rparr>"

definition sample_activity :: activity_event where
  "sample_activity =
     \<lparr>act_id = ''v1'', act_user_id = ''u1'', act_surface = SurfMcp, act_action = ''deploy'',
      act_target_ref = None, act_outcome = ActSucceeded, act_latency_bucket = ''lt_1s'',
      act_correlation_id = ''c1'', act_occurred_at = t0\<rparr>"

definition sample_secret :: secret_metadata where
  "sample_secret =
     \<lparr>sec_id = ''z1'', sec_owner_id = ''u1'', sec_name = ''token'', sec_integration_type = ''api'',
      sec_attached_workload_ids = [''w1''], sec_active_version = 1, sec_rotation_state = RotStable,
      sec_lifecycle_state = SecActive, sec_created_at = t0, sec_updated_at = t0,
      sec_retiring_version = None, sec_retirement_not_before = None, sec_mutation_state = MutIdle,
      sec_mutation_idempotency_key = None, sec_pending_workload_ids = None,
      sec_pending_payload_sha256 = None, sec_version = 1\<rparr>"

lemmas time_samples = t0_def t1_def t2_def t3_def t9_def

lemmas record_samples =
  sample_user_def sample_admission_def sample_workload_def sample_plan_def sample_operation_def
  sample_schedule_def sample_task_def sample_usage_def sample_audit_def sample_origin_def
  sample_activity_def sample_secret_def

lemma sample_hex [simp]:
  "is_hex_text 40 sample_sha" "is_hex_text 40 sample_sha2" "is_hex_text 64 sample_digest"
  by code_simp+

lemma sample_shas [simp]: "source_sha_ok sample_sha" "source_sha_ok sample_sha2" "sample_sha2 \<noteq> sample_sha"
  by code_simp+

lemma sample_sha_text [simp]: "text_ok sample_sha" "text_ok sample_sha2"
  by (simp_all add: source_sha_text_ok)

lemma samples_ok [simp]:
  "user_ok sample_user" "admission_ok sample_admission" "workload_ok sample_workload"
  "plan_ok sample_plan" "operation_ok sample_operation" "schedule_ok sample_schedule"
  "deploy_task_ok sample_task" "usage_entry_ok sample_usage" "audit_event_ok sample_audit"
  "origin_claim_ok sample_origin" "activity_event_ok sample_activity" "secret_ok sample_secret"
  by code_simp+

lemma empty_reachable [simp]: "reachable empty_store"
  by (simp add: reachable_def)

lemma later_run: "call_ok c \<Longrightarrow> later s (snd (run s c))"
  unfolding later_def step_def by blast

lemma reachable_run: "reachable s \<Longrightarrow> call_ok c \<Longrightarrow> reachable (snd (run s c))"
  using reachable_later later_run by blast


text \<open>A store with one record of most kinds, built by calls.\<close>

definition sample_calls :: "call list" where
  "sample_calls =
     [CreateUser sample_user, CreateAdmission sample_admission, CreateWorkload sample_workload,
      CreatePlan sample_plan, CreateOperationOnce sample_operation, CreateSchedule sample_schedule,
      CreateSecret sample_secret, AppendUsage sample_usage, AppendAudit sample_audit,
      AppendActivity sample_activity, CreateTaskOnce sample_task]"

definition sample_store :: store where
  "sample_store = foldl (\<lambda>s c. snd (run s c)) empty_store sample_calls"

lemma reachable_runs: "reachable s \<Longrightarrow> list_all call_ok cs \<Longrightarrow> reachable (foldl (\<lambda>s c. snd (run s c)) s cs)"
  by (induction cs arbitrary: s) (auto intro: reachable_run)

lemma sample_reachable [simp]: "reachable sample_store"
  unfolding sample_store_def by (rule reachable_runs) (simp_all add: sample_calls_def)

lemma sample_store_eq:
  "sample_store = empty_store
     \<lparr>st_users := [(''u1'', sample_user)], st_admissions := [(''a1'', sample_admission)],
      st_workloads := [(''w1'', sample_workload)], st_plans := [(''p1'', sample_plan)],
      st_operations := [(''o1'', sample_operation)],
      st_op_claims := [((''u1'', ''k1''), (''h1'', ''deploy'', Some ''w1'', ''o1''))],
      st_schedules := [(''s1'', sample_schedule)], st_secrets := [(''z1'', sample_secret)],
      st_usage := [(''e1'', sample_usage)], st_audit := [(''x1'', sample_audit)],
      st_activity := [(''v1'', sample_activity)], st_tasks := [(''o1'', sample_task)],
      st_task_claims := [(''k1'', ''o1'')]\<rparr>"
  by code_simp


text \<open>The same store after its plan was consumed by a second operation.\<close>

definition consumed_plan :: deployment_plan where
  "consumed_plan = sample_plan\<lparr>pln_state := PlanConsumed, pln_updated_at := t1, pln_version := 2\<rparr>"

definition consumed_store :: store where
  "consumed_store = snd (run sample_store
     (ConsumePlan ''p1'' ''u1'' ''h1'' ''deploy'' ''v1'' t1
        (sample_operation\<lparr>op_id := ''o2'', op_idempotency_key := ''k2''\<rparr>)))"

lemma consumed_reachable [simp]: "reachable consumed_store"
proof -
  have "call_ok (ConsumePlan ''p1'' ''u1'' ''h1'' ''deploy'' ''v1'' t1
      (sample_operation\<lparr>op_id := ''o2'', op_idempotency_key := ''k2''\<rparr>))" by code_simp
  then show ?thesis unfolding consumed_store_def by (rule reachable_run [OF sample_reachable])
qed

lemma consumed_store_eq:
  "consumed_store = sample_store
     \<lparr>st_plans := [(''p1'', consumed_plan)],
      st_operations := [(''o1'', sample_operation),
        (''o2'', sample_operation\<lparr>op_id := ''o2'', op_idempotency_key := ''k2''\<rparr>)],
      st_op_claims := [((''u1'', ''k1''), (''h1'', ''deploy'', Some ''w1'', ''o1'')),
        ((''u1'', ''k2''), (''h1'', ''deploy'', Some ''w1'', ''o2''))]\<rparr>"
  unfolding consumed_store_def sample_store_eq by code_simp

lemma consumed_store_plan: "dict_get (st_plans consumed_store) ''p1'' = Some consumed_plan"
  by (simp add: consumed_store_eq)


text \<open>A push to the watched branch of the sample workload.\<close>

definition pushed_admission :: repository_admission where
  "pushed_admission = sample_admission\<lparr>adm_id := ''a2'', adm_admitted_sha := sample_sha2\<rparr>"

definition pushed_workload :: workload where
  "pushed_workload = sample_workload
     \<lparr>wl_repository_admission_id := ''a2'', wl_source_sha := sample_sha2,
      wl_desired_manifest_hash := ''m2'', wl_updated_at := t1, wl_last_activity_at := Some t1,
      wl_version := 2\<rparr>"

definition pushed_plan :: deployment_plan where
  "pushed_plan = sample_plan\<lparr>pln_id := ''p2'', pln_actor_id := auto_deploy_actor_id\<rparr>"

definition pushed_operation :: operation where
  "pushed_operation = sample_operation
     \<lparr>op_id := ''o2'', op_actor_id := auto_deploy_actor_id,
      op_idempotency_key := ''github:'' @ sample_delivery\<rparr>"

definition pushed_task :: deploy_task where
  "pushed_task = sample_task
     \<lparr>tsk_operation_id := ''o2'', tsk_workload_version := 2, tsk_admission_id := ''a2'',
      tsk_source_sha := sample_sha2, tsk_idempotency_key := ''github:'' @ sample_delivery\<rparr>"

definition pushed_consumed :: deployment_plan where
  "pushed_consumed = pushed_plan\<lparr>pln_state := PlanConsumed, pln_updated_at := t1, pln_version := 2\<rparr>"

definition pushed_result :: github_result where
  "pushed_result = \<lparr>gar_admission = pushed_admission, gar_workload = pushed_workload,
     gar_plan = pushed_consumed, gar_operation = pushed_operation, gar_task = pushed_task,
     gar_replayed = False\<rparr>"

definition sample_delivery_call :: call where
  "sample_delivery_call =
     GithubAutoDeploy sample_delivery sample_digest ''refs/heads/main'' 1 pushed_admission
       pushed_workload pushed_plan pushed_operation pushed_task t1"

definition delivered_store :: store where
  "delivered_store = snd (run sample_store sample_delivery_call)"

lemma pushed_ok [simp]: "call_ok sample_delivery_call"
  by code_simp

lemma delivered_reachable [simp]: "reachable delivered_store"
  unfolding delivered_store_def by (rule reachable_run) simp_all

lemma sample_delivery_ok [simp]:
  "github_delivery_material_ok sample_delivery sample_digest ''refs/heads/main''"
  by code_simp

lemma pushed_guards:
  "advance_source sample_workload (adm_id pushed_admission) (adm_admitted_sha pushed_admission)
     (wl_desired_manifest_hash pushed_workload) (wl_updated_at pushed_workload) = Inr pushed_workload"
  "source_advance_ok sample_admission pushed_admission"
  "task_matches_auto_deploy pushed_task pushed_workload pushed_admission pushed_operation"
  "plan_transition_state pushed_plan PlanConsumed t1 = Inr pushed_consumed"
  "comparable t1 (pln_expires_at pushed_plan)" "\<not> time_leq (pln_expires_at pushed_plan) t1"
  "operation_claim_key pushed_operation = (auto_deploy_actor_id, ''github:'' @ sample_delivery)"
  by code_simp+

lemma pushed_fields [simp]:
  "wl_id pushed_workload = ''w1''" "adm_id pushed_admission = ''a2''" "pln_id pushed_plan = ''p2''"
  "op_id pushed_operation = ''o2''" "tsk_idempotency_key pushed_task = ''github:'' @ sample_delivery"
  by code_simp+

lemma sample_delivery_runs:
  "apply_github_auto_deploy_once sample_store sample_delivery sample_digest ''refs/heads/main'' 1
     pushed_admission pushed_workload pushed_plan pushed_operation pushed_task t1 =
   (Inr pushed_result, delivered_store)"
proof -
  have "fst (apply_github_auto_deploy_once sample_store sample_delivery sample_digest
      ''refs/heads/main'' 1 pushed_admission pushed_workload pushed_plan pushed_operation
      pushed_task t1) = Inr pushed_result"
    using pushed_guards
    by (simp add: apply_github_auto_deploy_once_def sample_store_eq empty_store_def pushed_result_def)
      (simp add: pushed_plan_def pushed_operation_def record_samples auto_deploy_actor_id_def)
  then show ?thesis
    by (simp add: delivered_store_def sample_delivery_call_def prod_eq_iff)
qed

lemma delivered_claim:
  "dict_get (st_deliveries delivered_store) sample_delivery =
     Some (delivery_claim_of sample_digest ''refs/heads/main'' pushed_admission pushed_workload
       pushed_plan pushed_operation pushed_task)"
  using pushed_guards
  by (simp add: delivered_store_def sample_delivery_call_def apply_github_auto_deploy_once_def
      sample_store_eq empty_store_def pushed_result_def)
    (simp add: pushed_plan_def pushed_operation_def record_samples auto_deploy_actor_id_def)

text \<open>A snapshot that suspends the sample user, who left the required group.\<close>

definition suspended_user :: user where
  "suspended_user = sample_user
     \<lparr>usr_state := UserSuspended, usr_groups := {}, usr_identity_synced_at := t1,
      usr_updated_at := t1, usr_version := 2\<rparr>"

definition sample_reconciliation :: user_reconciliation where
  "sample_reconciliation = \<lparr>rec_user = suspended_user, rec_expected_version = 1,
     rec_required_group = ''pilot'', rec_policy_decision = ''directory_group_missing''\<rparr>"

definition suspension_event :: audit_event where
  "suspension_event =
     \<lparr>aud_id = directory_audit_id ''snap1'' ''directory_group_missing'' sample_user suspended_user,
      aud_actor_id = None, aud_action = ''directory_identity_sync'',
      aud_target_ref = ''user:'' @ redact ''u1'',
      aud_policy_decision = ''directory_group_missing'',
      aud_before_ref = Some (user_ref sample_user ''pilot''),
      aud_after_ref = Some (user_ref suspended_user ''pilot''),
      aud_correlation_id = take 24 (sha256_hex (utf8 (''dirsync-correlation:'' @ ''snap1''))),
      aud_outcome = ''locked'', aud_occurred_at = t1\<rparr>"

lemma hex_stripped: "list_all is_lower_hex s \<Longrightarrow> s \<noteq> [] \<Longrightarrow> stripped_text_ok s"
proof -
  assume hex: "list_all is_lower_hex s" and "s \<noteq> []"
  have visible: "\<not> is_space c" if "is_lower_hex c" for c
    using that by (auto simp: is_lower_hex_def is_digit_def is_space_def less_eq_char_def)
  have keep: "dropWhile is_space t = t" if "list_all is_lower_hex t" for t
    using that visible by (cases t) auto
  have "strip s = s"
    using keep [OF hex] keep [of "rev s"] hex by (simp add: strip_def list_all_iff)
  with \<open>s \<noteq> []\<close> show ?thesis by (simp add: stripped_text_ok_def nonblank_def)
qed

lemma hex_prefix:
  assumes "0 < n"
  shows "list_all is_lower_hex (take n (sha256_hex b)) \<and> take n (sha256_hex b) \<noteq> []"
  using sha256_hex_text [of b] assms
  by (auto simp: is_hex_text_def list_all_iff dest: in_set_takeD)

lemma suspension_stripped: "stripped_text_ok (aud_id suspension_event)"
  using hex_prefix [of 32] by (auto simp: suspension_event_def directory_audit_id_def intro: hex_stripped)

lemma suspension_event_ok [simp]: "audit_event_ok suspension_event"
proof -
  have "nonblank (take 24 (sha256_hex b))" and "nonblank (take 32 (sha256_hex b))" for b
    using hex_prefix [of 24 b] hex_prefix [of 32 b] hex_stripped by (auto simp: stripped_text_ok_def)
  then show ?thesis
    by (simp add: suspension_event_def audit_event_ok_def directory_audit_id_def field_check_defs
        user_ref_def nonblank_Cons is_space_def t1_def sample_user_def suspended_user_def)
qed

lemma suspension_expected:
  "expected_audit_event ''snap1'' sample_reconciliation sample_user = Inr suspension_event"
proof -
  have "text_ok ''snap1''" "stripped_text_ok ''pilot''" "is_utc t1"
    "''directory_group_missing'' \<in> set directory_policy_decisions"
    "is_locked_state (usr_state suspended_user)"
    by code_simp+
  then show ?thesis
    using suspension_event_ok
    by (simp add: expected_audit_event_def build_directory_audit_event_def
        sample_reconciliation_def suspension_event_def audit_event_post_init_def)
      (simp add: suspended_user_def sample_user_def)
qed

lemma suspension_reconciles:
  "scan_reconciliations [(''u1'', sample_user)] {} [sample_reconciliation] =
     Inr ([sample_user], [''u1''])"
  by code_simp

definition suspension_result :: directory_result where
  "suspension_result = \<lparr>dir_snapshot_id = ''snap1'', dir_material_hash = sample_digest,
     dir_replayed = False, dir_applied_user_ids = [''u1''], dir_locked_user_ids = [''u1''],
     dir_audit_event_ids = [aud_id suspension_event]\<rparr>"

definition suspended_store :: store where
  "suspended_store = snd (run sample_store
     (ApplySnapshotOnce ''snap1'' sample_digest [sample_reconciliation] [suspension_event]))"

lemma suspended_reachable [simp]: "reachable suspended_store"
proof -
  have "user_ok (rec_user sample_reconciliation)" "reconciliation_ok sample_reconciliation"
    by code_simp+
  then show ?thesis unfolding suspended_store_def by (intro reachable_run) simp_all
qed

lemma suspension_fresh: "aud_id suspension_event \<noteq> ''x1''"
proof -
  have "length (aud_id suspension_event) = 32"
    using sha256_hex_text by (simp add: suspension_event_def directory_audit_id_def is_hex_text_def)
  then show ?thesis by auto
qed

lemma suspension_runs:
  "apply_snapshot_once sample_store ''snap1'' sample_digest [sample_reconciliation] [suspension_event] =
     (Inr suspension_result, suspended_store)"
proof -
  have ids: "stripped_text_ok ''snap1''" "stripped_text_ok ''u1''" "text_ok ''snap1''"
    "usr_id (rec_user sample_reconciliation) = ''u1''"
    by code_simp+
  have "directory_result_ok suspension_result"
    using ids suspension_stripped
    by (simp add: directory_result_ok_def suspension_result_def id_tuple_ok_def
        max_directory_snapshot_users_def)
  then have "validate_directory_snapshot_write ''snap1'' sample_digest [sample_reconciliation]
      [suspension_event] [(''u1'', sample_user)] {''x1''} pilot_max_identities = Inr suspension_result"
    using ids suspension_fresh
    by (simp add: validate_directory_snapshot_write_def require_directory_snapshot_id_def
        require_directory_material_hash_def pilot_max_identities_def suspension_reconciles
        value_error_as_violation_def suspension_expected directory_result_post_init_def
        del: scan_reconciliations.simps)
      (simp add: suspension_result_def)
  with ids have "fst (apply_snapshot_once sample_store ''snap1'' sample_digest
      [sample_reconciliation] [suspension_event]) = Inr suspension_result"
    by (simp add: apply_snapshot_once_def sample_store_eq empty_store_def)
  then show ?thesis by (simp add: suspended_store_def prod_eq_iff)
qed

lemma suspended_ledger: "dict_get (st_ledger suspended_store) ''snap1'' = Some (sample_digest, suspension_result)"
proof -
  have "dict_get (st_ledger sample_store) ''snap1'' = None"
    by (simp add: sample_store_eq empty_store_def)
  with suspension_runs have eq: "suspended_store = sample_store
      \<lparr>st_users := apply_reconciled_users [sample_reconciliation] (st_users sample_store),
       st_audit := append_audit_events [suspension_event] (st_audit sample_store),
       st_ledger := dict_put ''snap1'' (sample_digest, suspension_result) (st_ledger sample_store)\<rparr>"
    by (auto simp: apply_snapshot_once_def res_simps)
  show ?thesis by (subst eq) simp
qed

end
