(* ===== verification/Store_Expiry.thy ===== *)
theory Store_Expiry
  imports Store_Ledger
begin

text \<open>
  Expiring activity events: the method of the Firestore adapter, and what the scan of the
  in-memory store does on a prefix of valid ids.
\<close>

text \<open>
  \<^verbatim>\<open>FirestoreStore.expire_activity_events\<close>, the transactional adapter of the same port: all ids are
  validated first, then the existing ones are deleted.
\<close>

definition firestore_expire_activity_events :: "store \<Rightarrow> string list \<Rightarrow> (store, string list) outcome" where
  "firestore_expire_activity_events s event_ids =
     ensure s (list_all stripped_text_ok event_ids \<and> distinct event_ids) (StoreErr InvariantViolation)
       (Inr (filter (\<lambda>i. dict_get (st_activity s) i \<noteq> None) event_ids),
        s\<lparr>st_activity :=
            fold dict_del (filter (\<lambda>i. dict_get (st_activity s) i \<noteq> None) event_ids) (st_activity s)\<rparr>)"

lemma expire_scan_append:
  assumes "list_all stripped_text_ok ids" and "distinct ids" and "set ids \<inter> seen = {}"
  shows "expire_scan s seen removed (ids @ rest) =
    expire_scan
      (s\<lparr>st_activity :=
           fold dict_del (filter (\<lambda>i. dict_get (st_activity s) i \<noteq> None) ids) (st_activity s)\<rparr>)
      (seen \<union> set ids) (removed @ filter (\<lambda>i. dict_get (st_activity s) i \<noteq> None) ids) rest"
  using assms
proof (induction ids arbitrary: s seen removed)
  case Nil
  then show ?case by simp
next
  case (Cons i ids)
  let ?t = "s\<lparr>st_activity := dict_del i (st_activity s)\<rparr>"
  have keep: "filter (\<lambda>j. dict_get (st_activity ?t) j \<noteq> None) ids =
      filter (\<lambda>j. dict_get (st_activity s) j \<noteq> None) ids"
    using Cons.prems(2) by (intro filter_cong) auto
  show ?case
  proof (cases "dict_get (st_activity s) i")
    case None
    then show ?thesis using Cons.prems Cons.IH [of "insert i seen" s removed] by simp
  next
    case (Some e)
    then show ?thesis
      using Cons.prems Cons.IH [of "insert i seen" ?t "removed @ [i]"] unfolding keep by auto
  qed
qed

lemma expire_scan_valid:
  assumes "list_all stripped_text_ok ids" and "distinct ids" and "set ids \<inter> seen = {}"
  shows "expire_scan s seen removed ids =
    (Inr (removed @ filter (\<lambda>i. dict_get (st_activity s) i \<noteq> None) ids),
     s\<lparr>st_activity :=
         fold dict_del (filter (\<lambda>i. dict_get (st_activity s) i \<noteq> None) ids) (st_activity s)\<rparr>)"
  using expire_scan_append [OF assms, of s removed "[]"] by simp

lemma fold_dict_del: "fold dict_del ids d = filter (\<lambda>(k, _). k \<notin> set ids) d"
  by (induction ids arbitrary: d) (auto simp: dict_del_def case_prod_unfold intro!: filter_cong)

end
