(* ===== verification/Store_Guarantees.thy ===== *)
theory Store_Guarantees
  imports Samples Store_Expiry
begin

text \<open>
  The guarantees of the store, each stated over the methods of the model and over everything that
  other callers may have done in between (\<^const>\<open>later\<close>).
\<close>

section \<open>Atomicity and consistency\<close>

text \<open>
  C1: A method that raises leaves the whole store as it was, for every method but
  \<^verbatim>\<open>expire_activity_events\<close>.
\<close>

theorem failed_calls_change_nothing:
  assumes "\<And>ids. c \<noteq> ExpireActivity ids" and "fst (run s c) = Inl e"
  shows "snd (run s c) = s"
  using run_atomic [OF assms(1), of s] assms(2) by (simp add: atomic_call_def)

theorem failed_calls_change_nothing_witness:
  "fst (run empty_store (SaveUser sample_user 1)) = Inl (StoreErr NotFound) \<and>
   snd (run empty_store (SaveUser sample_user 1)) = empty_store"
proof
  show err: "fst (run empty_store (SaveUser sample_user 1)) = Inl (StoreErr NotFound)"
    by (simp add: save_user_def put_user_def empty_store_def save_stateful_absent)
  show "snd (run empty_store (SaveUser sample_user 1)) = empty_store"
    by (rule failed_calls_change_nothing [OF _ err]) simp
qed

text \<open>
  C2: In every store that calls can produce, each collection is keyed by its records' own ids,
  each record satisfies its class invariant, operations and idempotency claims describe each
  other, so do deploy tasks and their claims, and every GitHub delivery that was claimed has its
  admission, workload, consumed plan, operation and task.
\<close>

theorem reachable_stores_are_consistent:
  assumes "reachable s"
  shows "store_keyed s \<and> store_valid s \<and> claims_match s \<and> tasks_match s \<and> deliveries_complete s"
  using assms reachable_keyed reachable_valid reachable_claims_match reachable_tasks_match
    reachable_deliveries_complete by blast

theorem reachable_stores_are_consistent_witness:
  "claims_match (snd (run empty_store (CreateOperationOnce sample_operation)))"
  using reachable_stores_are_consistent
      [OF reachable_run [OF empty_reachable, of "CreateOperationOnce sample_operation"]]
  by simp

text \<open>
  The branches that report an incomplete outcome are dead: in a reachable store no replay of
  an operation runs into a missing record, and no task claim is without its task.
\<close>

theorem no_incomplete_outcome:
  assumes "reachable s"
  shows "fst (create_operation_once s p) \<noteq> Inl KeyErr \<and>
    fst (consume_deployment_plan_with_operation s pid actor h act pol at p) \<noteq> Inl KeyErr \<and>
    fst (create_deploy_task_once s t) \<noteq> Inl (StoreErr InvariantViolation)"
proof -
  have claim: "dict_get (st_operations s) (claim_operation cl) \<noteq> None"
    if "dict_get (st_op_claims s) k = Some cl" for k cl
    using claims_index_item that reachable_claims_match [OF assms] unfolding claims_match_def
    by (metis option.distinct(1))
  have task: "dict_get (st_tasks s) i \<noteq> None" if "dict_get (st_task_claims s) k = Some i" for k i
    using claims_index_item that reachable_tasks_match [OF assms] unfolding tasks_match_def
    by (metis id_apply option.distinct(1))
  have moved: "plan_transition_state plan target at \<noteq> Inl KeyErr" for plan target
    by (auto simp: plan_transition_state_def res_simps require_transition_defs plan_post_init_def)
  have "fst (create_operation_once s p) \<noteq> Inl KeyErr"
    using claim [of "operation_claim_key p"]
    by (cases "dict_get (st_op_claims s) (operation_claim_key p)")
      (auto simp: create_operation_once_def ensure_def)
  moreover have "fst (consume_deployment_plan_with_operation s pid actor h act pol at p) \<noteq> Inl KeyErr"
  proof (cases "dict_get (st_op_claims s) (operation_claim_key p)")
    case None
    then show ?thesis using moved
      by (cases "dict_get (st_plans s) pid")
        (auto simp: consume_deployment_plan_with_operation_def ensure_def attempt_def split: sum.splits)
  next
    case (Some cl)
    with claim [OF Some] show ?thesis
      by (cases "dict_get (st_plans s) pid")
        (auto simp: consume_deployment_plan_with_operation_def ensure_def)
  qed
  moreover have "fst (create_deploy_task_once s t) \<noteq> Inl (StoreErr InvariantViolation)"
  proof (cases "dict_get (st_task_claims s) (tsk_idempotency_key t)")
    case None
    then show ?thesis
      by (cases "dict_get (st_tasks s) (tsk_operation_id t)")
        (auto simp: create_deploy_task_once_def ensure_def)
  next
    case (Some i)
    with task [OF Some] show ?thesis
      by (auto simp: create_deploy_task_once_def ensure_def split: if_splits)
  qed
  ultimately show ?thesis by blast
qed

theorem no_incomplete_outcome_witness:
  "fst (create_operation_once empty_store sample_operation) \<noteq> Inl KeyErr"
  using no_incomplete_outcome [OF empty_reachable] by blast


section \<open>Idempotency and replay\<close>

text \<open>
  C3: Once an operation was created under an (actor, key) pair, every later call with that pair
  returns that operation and changes nothing when its request hash, action and workload are the
  same, and is refused as a conflict otherwise, whatever happened in between.
\<close>

theorem operation_replay:
  assumes "reachable s" and "operation_ok p" and "create_operation_once s p = (Inr created, s1)"
    and "later s1 s2" and "operation_claim_key q = operation_claim_key p"
  shows "if operation_material q = operation_material p
    then \<exists>r. create_operation_once s2 q = (Inr r, s2) \<and> op_id r = op_id created \<and>
           operation_same created r
    else create_operation_once s2 q = (Inl (StoreErr IdempotencyConflict), s2)"
proof -
  have s1: "reachable s1"
    using reachable_run [OF assms(1), of "CreateOperationOnce p"] assms(2,3) by simp
  have keyed: "store_keyed s1" and match: "claims_match s1"
    using reachable_keyed [OF s1] reachable_claims_match [OF s1] by auto
  have made: "dict_get (st_op_claims s1) (operation_claim_key p) = Some (claim_of created) \<and>
      dict_get (st_operations s1) (op_id created) = Some created \<and>
      operation_material created = operation_material p"
  proof (cases "dict_get (st_op_claims s) (operation_claim_key p)")
    case None
    with assms(3) show ?thesis by (auto simp: create_operation_once_def res_simps)
  next
    case (Some cl)
    from claims_index_item [OF reachable_claims_match [OF assms(1), unfolded claims_match_def] this]
    obtain x where x: "dict_get (st_operations s) (claim_operation cl) = Some x"
        "operation_claim_key x = operation_claim_key p" "claim_of x = cl" by blast
    with assms(3) Some have "created = x" "s1 = s" "operation_material x = operation_material p"
      by (auto simp: create_operation_once_def res_simps)
    with Some x show ?thesis by auto
  qed
  have claim2: "dict_get (st_op_claims s2) (operation_claim_key q) = Some (claim_of created)"
    using hist_op_claims.frozen [OF assms(4) keyed] made assms(5) by simp
  obtain r where r: "dict_get (st_operations s2) (op_id created) = Some r" "operation_same created r"
    using operation_history [OF assms(4) keyed] made by blast
  have "op_id r = op_id created"
    using r(1) reachable_keyed [OF reachable_later [OF s1 assms(4)]]
    by (auto simp: store_keyed_def dest: keyed_by_get)
  with r claim2 made show ?thesis by (simp add: create_operation_once_def)
qed

theorem operation_replay_witness:
  "create_operation_once (snd (create_operation_once empty_store sample_operation))
     (sample_operation\<lparr>op_request_hash := ''h2''\<rparr>) =
   (Inl (StoreErr IdempotencyConflict), snd (create_operation_once empty_store sample_operation))"
proof -
  obtain s1 where made: "create_operation_once empty_store sample_operation = (Inr sample_operation, s1)"
    by (simp add: create_operation_once_def empty_store_def sample_operation_def)
  show ?thesis
    using operation_replay [OF empty_reachable _ made later_refl,
        of "sample_operation\<lparr>op_request_hash := ''h2''\<rparr>"] made
    by (simp add: operation_claim_key_def operation_material_def) (simp add: sample_operation_def)
qed

text \<open>
  C4: A plan is used once. If a plan is consumed in some store, then in no later store does
  \<^verbatim>\<open>consume_deployment_plan_with_operation\<close> write anything for it: a call that returns is a replay
  that found its claim and its existing operation.
\<close>

theorem plan_is_consumed_once:
  assumes "reachable s" and "dict_get (st_plans s) pid = Some plan" and "pln_state plan = PlanConsumed"
    and "later s s2"
    and "consume_deployment_plan_with_operation s2 pid actor h act pol at q = (Inr (used, p), s3)"
  shows "s3 = s2 \<and> pln_state used = PlanConsumed \<and>
    dict_get (st_op_claims s2) (operation_claim_key q) = Some (claim_of p) \<and>
    dict_get (st_operations s2) (op_id p) = Some p"
proof -
  obtain plan2 where plan2: "dict_get (st_plans s2) pid = Some plan2" "pln_state plan2 = PlanConsumed"
    using plan_history [OF assms(4) reachable_keyed [OF assms(1)] assms(2)] assms(3)
      state_step_final [of plan_transitions] by auto
  with assms(5) obtain cl where cl: "dict_get (st_op_claims s2) (operation_claim_key q) = Some cl"
      "dict_get (st_operations s2) (claim_operation cl) = Some p" "s3 = s2" "used = plan2"
    by (auto simp: consume_deployment_plan_with_operation_def res_simps split: option.splits)
  from claims_index_item
      [OF reachable_claims_match [OF reachable_later [OF assms(1,4)], unfolded claims_match_def] cl(1)]
    cl(2) have "claim_of p = cl" by auto
  with cl plan2 show ?thesis by auto
qed

theorem plan_is_consumed_once_witness:
  "snd (consume_deployment_plan_with_operation consumed_store ''p1'' ''u1'' ''h1'' ''deploy'' ''v1'' t2
      (sample_operation\<lparr>op_id := ''o2'', op_idempotency_key := ''k2''\<rparr>)) = consumed_store"
proof -
  let ?q = "sample_operation\<lparr>op_id := ''o2'', op_idempotency_key := ''k2''\<rparr>"
  have run: "consume_deployment_plan_with_operation consumed_store ''p1'' ''u1'' ''h1'' ''deploy'' ''v1''
      t2 ?q = (Inr (consumed_plan, ?q), consumed_store)"
    unfolding consumed_store_eq by code_simp
  show ?thesis
    using plan_is_consumed_once [OF consumed_reachable consumed_store_plan _ later_refl run] run
    by (simp add: consumed_plan_def)
qed

text \<open>
  C5: The first consumption of a plan commits the consumed plan, the operation and its claim
  together, for an issued, unexpired plan of the acting user with the reviewed action, material
  and policy, and an operation of the same actor, action and workload.
\<close>

theorem first_consumption_commits:
  assumes "consume_deployment_plan_with_operation s pid actor h act pol at p = (Inr (used, q), s')"
    and "dict_get (st_op_claims s) (operation_claim_key p) = None"
  shows "\<exists>plan. dict_get (st_plans s) pid = Some plan \<and> pln_state plan = PlanIssued \<and>
    pln_actor_id plan = actor \<and> pln_action plan = act \<and> pln_material_hash plan = h \<and>
    pln_policy_version plan = pol \<and> time_less at (pln_expires_at plan) \<and>
    op_actor_id p = actor \<and> op_action p = act \<and> op_workload_id p = pln_workload_id plan \<and>
    dict_get (st_operations s) (op_id p) = None \<and>
    q = p \<and> pln_state used = PlanConsumed \<and> pln_version used = pln_version plan + 1 \<and>
    s' = s\<lparr>st_plans := dict_put pid used (st_plans s),
           st_operations := dict_put (op_id p) p (st_operations s),
           st_op_claims := dict_put (operation_claim_key p) (claim_of p) (st_op_claims s)\<rparr>"
  using assms
  by (auto simp: consume_deployment_plan_with_operation_def res_simps time_less_not_leq
      split: option.splits dest: plan_transition_state_fields)

theorem first_consumption_commits_witness:
  "pln_state consumed_plan = PlanConsumed \<and> pln_version consumed_plan = pln_version sample_plan + 1"
proof -
  let ?q = "sample_operation\<lparr>op_id := ''o2'', op_idempotency_key := ''k2''\<rparr>"
  have run: "consume_deployment_plan_with_operation sample_store ''p1'' ''u1'' ''h1'' ''deploy'' ''v1''
      t1 ?q = (Inr (consumed_plan, ?q), consumed_store)"
    unfolding consumed_store_eq sample_store_eq by code_simp
  have fresh: "dict_get (st_op_claims sample_store) (operation_claim_key ?q) = None"
    unfolding sample_store_eq by code_simp
  have plan: "dict_get (st_plans sample_store) ''p1'' = Some sample_plan"
    by (simp add: sample_store_eq)
  from first_consumption_commits [OF run fresh] show ?thesis unfolding plan by blast
qed

text \<open>
  C8: A deploy task is queued once per idempotency key: after a task was accepted, every later
  call with its key returns the stored task without writing when the material hashes agree, which
  is when all fields but the queueing time agree (or SHA-256 collides on the two), and is refused
  as a conflict otherwise.
\<close>

theorem deploy_task_replay:
  assumes "reachable s" and "deploy_task_ok t" and "create_deploy_task_once s t = (Inr (stored, fresh), s1)"
    and "later s1 s2" and "tsk_idempotency_key u = tsk_idempotency_key stored"
  shows "create_deploy_task_once s2 u =
    (if same_task_material stored u \<or>
        sha256_collides (canonical_hash_bytes (HTuple (task_material stored)))
          (canonical_hash_bytes (HTuple (task_material u)))
     then (Inr (stored, False), s2) else (Inl (ExecErr TaskConflictError), s2))"
proof -
  have s1: "reachable s1"
    using reachable_run [OF assms(1), of "CreateTaskOnce t"] assms(2,3) by simp
  have "\<exists>i. dict_get (st_tasks s1) i = Some stored"
    using assms(3)
    by (auto simp: create_deploy_task_once_def res_simps split: option.splits
        intro: exI [of _ "tsk_operation_id stored"])
  then obtain i where i: "dict_get (st_tasks s1) i = Some stored" ..
  then have "dict_get (st_task_claims s1) (tsk_idempotency_key stored) = Some (tsk_operation_id stored)"
    and "i = tsk_operation_id stored"
    using reachable_tasks_match [OF s1] reachable_keyed [OF s1]
    by (auto simp: tasks_match_def claims_index_def store_keyed_def dest: keyed_by_get)
  with i have "dict_get (st_task_claims s2) (tsk_idempotency_key u) = Some i"
    and "dict_get (st_tasks s2) i = Some stored"
    using hist_task_claims.frozen [OF assms(4) reachable_keyed [OF s1]]
      hist_tasks.frozen [OF assms(4) reachable_keyed [OF s1]] assms(5) by auto
  then show ?thesis
    by (simp add: create_deploy_task_once_def task_material_hash_eq_iff ensure_def)
qed

theorem deploy_task_replay_witness:
  "create_deploy_task_once (snd (create_deploy_task_once empty_store sample_task))
     (sample_task\<lparr>tsk_queued_at := t1\<rparr>) =
   (Inr (sample_task, False), snd (create_deploy_task_once empty_store sample_task))"
proof -
  obtain s1 where made: "create_deploy_task_once empty_store sample_task = (Inr (sample_task, True), s1)"
    by (simp add: create_deploy_task_once_def empty_store_def sample_task_def)
  show ?thesis
    using deploy_task_replay [OF empty_reachable _ made later_refl, of "sample_task\<lparr>tsk_queued_at := t1\<rparr>"]
      made by (simp add: same_task_material_def)
qed

text \<open>
  An origin request id is accepted once: after a claim succeeded, every later claim of the
  same id is reported as a replay and changes nothing.
\<close>

theorem origin_request_accepted_once:
  assumes "reachable s" and "origin_claim_ok c" and "claim_origin_request s c = (Inr (), s1)"
    and "later s1 s2" and "ocl_request_id d = ocl_request_id c"
  shows "claim_origin_request s2 d = (Inl (StoreErr ReplayDetected), s2)"
proof -
  have s1: "reachable s1"
    using reachable_run [OF assms(1), of "ClaimOrigin c"] assms(2,3) by simp
  have "dict_get (st_origin_claims s1) (ocl_request_id d) = Some c"
    using assms(3,5) by (auto simp: claim_origin_request_def res_simps)
  then have "dict_get (st_origin_claims s2) (ocl_request_id d) = Some c"
    by (rule hist_origin.frozen [OF assms(4) reachable_keyed [OF s1]])
  then show ?thesis by (simp add: claim_origin_request_def)
qed

theorem origin_request_accepted_once_witness:
  "claim_origin_request (snd (claim_origin_request empty_store sample_origin)) sample_origin =
   (Inl (StoreErr ReplayDetected), snd (claim_origin_request empty_store sample_origin))"
proof -
  obtain s1 where made: "claim_origin_request empty_store sample_origin = (Inr (), s1)"
    by (simp add: claim_origin_request_def empty_store_def)
  show ?thesis
    using origin_request_accepted_once [OF empty_reachable _ made later_refl, of sample_origin] made
    by simp
qed


section \<open>GitHub deliveries\<close>

text \<open>
  C6: The first application of a delivery commits its whole outcome or nothing: the new admission
  of the same repository, the workload one version up on the admitted commit with its state kept,
  the consumed plan, the queued operation, its task and the three claims; the workload's owner is
  active and the workload has opted in to the delivered ref. No other record changes.
\<close>

theorem github_delivery_commits:
  assumes "apply_github_auto_deploy_once s d h ref v a w plan p t at = (Inr r, s')"
    and "dict_get (st_deliveries s) d = None"
  shows "\<exists>current owner old consumed. dict_get (st_workloads s) (wl_id w) = Some current \<and>
    wl_version current = v \<and> wl_version w = v + 1 \<and> wl_state w = wl_state current \<and>
    wl_owner_id w = wl_owner_id current \<and> wl_source_sha w = adm_admitted_sha a \<and>
    wl_repository_admission_id w = adm_id a \<and>
    wl_auto_deploy_ref current = Some ref \<and>
    dict_get (st_users s) (wl_owner_id current) = Some owner \<and> usr_state owner = UserActive \<and>
    dict_get (st_admissions s) (wl_repository_admission_id current) = Some old \<and>
    adm_state old = Admitted \<and>
    adm_repository_numeric_id a = adm_repository_numeric_id old \<and>
    adm_admitted_sha a \<noteq> adm_admitted_sha old \<and>
    pln_state consumed = PlanConsumed \<and> op_request_hash p = pln_material_hash plan \<and>
    tsk_operation_id t = op_id p \<and> tsk_source_sha t = wl_source_sha w \<and>
    r = \<lparr>gar_admission = a, gar_workload = w, gar_plan = consumed, gar_operation = p,
         gar_task = t, gar_replayed = False\<rparr> \<and>
    s' = s\<lparr>st_admissions := dict_put (adm_id a) a (st_admissions s),
           st_workloads := dict_put (wl_id w) w (st_workloads s),
           st_plans := dict_put (pln_id plan) consumed (st_plans s),
           st_operations := dict_put (op_id p) p (st_operations s),
           st_op_claims := dict_put (operation_claim_key p) (claim_of p) (st_op_claims s),
           st_tasks := dict_put (op_id p) t (st_tasks s),
           st_task_claims := dict_put (tsk_idempotency_key t) (op_id p) (st_task_claims s),
           st_deliveries :=
             dict_put d (delivery_claim_of h ref a w plan p t) (st_deliveries s)\<rparr>"
  using assms
  by (auto simp: apply_github_auto_deploy_once_def res_simps
      source_advance_ok_def task_matches_auto_deploy_def
      split: option.splits dest!: plan_transition_state_fields advance_source_fields)

theorem github_delivery_commits_witness:
  "dict_get (st_workloads sample_store) ''w1'' = Some sample_workload \<and>
   wl_version pushed_workload = wl_version sample_workload + 1 \<and>
   wl_source_sha pushed_workload = sample_sha2 \<and> usr_state sample_user = UserActive"
proof -
  have fresh: "dict_get (st_deliveries sample_store) sample_delivery = None"
    by (simp add: sample_store_eq empty_store_def)
  have "dict_get (st_workloads sample_store) ''w1'' = Some sample_workload"
    "dict_get (st_users sample_store) (wl_owner_id sample_workload) = Some sample_user"
    "adm_admitted_sha pushed_admission = sample_sha2"
    by (simp_all add: sample_store_eq sample_workload_def pushed_admission_def)
  with github_delivery_commits [OF sample_delivery_runs fresh] show ?thesis by auto
qed

text \<open>
  C7: A delivery that was applied is replayed, never applied again: in every later store the same
  material returns the persisted outcome and writes nothing, and any other material under that
  delivery id is reported as a replay.
\<close>

theorem github_delivery_replay:
  assumes "reachable s" and "dict_get (st_deliveries s) d = Some claim" and "later s s2"
    and "github_delivery_material_ok d h ref"
  shows "if delivery_claim_of h ref a w plan p t = claim
    then \<exists>r. apply_github_auto_deploy_once s2 d h ref v a w plan p t at = (Inr r, s2) \<and>
           gar_replayed r \<and> task_material_hash (gar_task r) = task_material_hash t \<and>
           pln_state (gar_plan r) = PlanConsumed \<and>
           op_idempotency_key (gar_operation r) = ''github:'' @ d
    else apply_github_auto_deploy_once s2 d h ref v a w plan p t at =
           (Inl (StoreErr ReplayDetected), s2)"
proof -
  have d2: "dict_get (st_deliveries s2) d = Some claim"
    by (rule hist_deliveries.frozen [OF assms(3) reachable_keyed [OF assms(1)] assms(2)])
  have "delivery_complete s2 d claim"
    using reachable_deliveries_complete [OF reachable_later [OF assms(1,3)]] d2
    by (auto simp only: deliveries_complete_def)
  then show ?thesis using d2 assms(4)
    by (auto simp: apply_github_auto_deploy_once_def delivery_claim_of_def github_replay_def)
qed

theorem github_delivery_replay_witness:
  "apply_github_auto_deploy_once delivered_store sample_delivery sample_digest ''refs/heads/other'' 1
     pushed_admission pushed_workload pushed_plan pushed_operation pushed_task t1 =
   (Inl (StoreErr ReplayDetected), delivered_store)"
proof -
  have "github_delivery_material_ok sample_delivery sample_digest ''refs/heads/other''" by code_simp
  from github_delivery_replay [OF delivered_reachable delivered_claim later_refl this,
      of pushed_admission pushed_workload pushed_plan pushed_operation pushed_task 1 t1]
  show ?thesis by (simp add: delivery_claim_of_def)
qed


section \<open>Histories\<close>

text \<open>
  The audit log is append-only: whatever calls run, an audit event that is stored stays, under
  its id and unchanged.
\<close>

theorem audit_log_is_append_only:
  assumes "reachable s" and "later s s'" and "dict_get (st_audit s) i = Some e"
  shows "dict_get (st_audit s') i = Some e"
  by (rule hist_audit.frozen [OF assms(2) reachable_keyed [OF assms(1)] assms(3)])

theorem audit_log_is_append_only_witness:
  "dict_get (st_audit (snd (run sample_store (AppendAudit (sample_audit\<lparr>aud_action := ''x''\<rparr>)))))
     ''x1'' = Some sample_audit"
  by (rule audit_log_is_append_only [OF sample_reachable later_run])
    (simp_all add: sample_store_eq sample_audit_def audit_event_ok_def field_check_defs nonblank_iff
      is_space_def t0_def)

text \<open>
  C12: A usage entry only grows: its owner, workload and category are fixed, its estimate, its
  finalized cost, its confidence and its collection time never go down, and a finalized cost is
  never taken back.
\<close>

theorem usage_entries_only_grow:
  assumes "reachable s" and "later s s'" and "dict_get (st_usage s) i = Some e"
  shows "\<exists>f. dict_get (st_usage s') i = Some f \<and> use_owner_id f = use_owner_id e \<and>
    use_workload_id f = use_workload_id e \<and> use_service_category f = use_service_category e \<and>
    use_estimated_cost_krw e \<le> use_estimated_cost_krw f \<and>
    (\<forall>c. use_finalized_cost_krw e = Some c \<longrightarrow>
       (\<exists>c'. use_finalized_cost_krw f = Some c' \<and> c \<le> c')) \<and>
    confidence_rank (use_confidence e) \<le> confidence_rank (use_confidence f) \<and>
    time_leq (use_collected_at e) (use_collected_at f)"
  using usage_history [OF assms(2) reachable_keyed [OF assms(1)] assms(3)]
  by (cases "use_finalized_cost_krw e") (auto simp: monotonic_usage_update_def split: option.splits)

theorem usage_entries_only_grow_witness:
  "\<exists>f. dict_get (st_usage (snd (run sample_store
       (UpsertUsage sample_usage (sample_usage\<lparr>use_estimated_cost_krw := 8\<rparr>))))) ''e1'' = Some f \<and>
     5 \<le> use_estimated_cost_krw f"
proof -
  have ok: "call_ok (UpsertUsage sample_usage (sample_usage\<lparr>use_estimated_cost_krw := 8\<rparr>))"
    by code_simp
  have "dict_get (st_usage sample_store) ''e1'' = Some sample_usage" by (simp add: sample_store_eq)
  from usage_entries_only_grow [OF sample_reachable later_run [OF ok] this] show ?thesis
    by (auto simp: sample_usage_def)
qed



text \<open>
  Once a user is offboarded it stays offboarded: neither a save nor a Directory snapshot
  brings it back, and no call changes a user's email or role.
\<close>

theorem offboarded_users_stay_offboarded:
  assumes "reachable s" and "later s s'" and "dict_get (st_users s) i = Some u"
  shows "\<exists>v. dict_get (st_users s') i = Some v \<and> usr_email v = usr_email u \<and> usr_role v = usr_role u \<and>
    usr_version u \<le> usr_version v \<and> (usr_state u = UserOffboarded \<longrightarrow> usr_state v = UserOffboarded)"
  using user_history [OF assms(2) reachable_keyed [OF assms(1)] assms(3)]
    state_step_final [of user_transitions] by fastforce

theorem offboarded_users_stay_offboarded_witness:
  "\<exists>v. dict_get (st_users (snd (run sample_store (SaveUser
       (sample_user\<lparr>usr_state := UserOffboarded, usr_updated_at := t1, usr_version := 2\<rparr>) 1)))) ''u1'' =
     Some v \<and> usr_email v = ''u1@example.com''"
proof -
  have ok: "call_ok (SaveUser
      (sample_user\<lparr>usr_state := UserOffboarded, usr_updated_at := t1, usr_version := 2\<rparr>) 1)"
    by code_simp
  have "dict_get (st_users sample_store) ''u1'' = Some sample_user" by (simp add: sample_store_eq)
  from offboarded_users_stay_offboarded [OF sample_reachable later_run [OF ok] this] show ?thesis
    by (auto simp: sample_user_def)
qed

text \<open>
  C14: Whatever mutations run on a secret, a workload it is attached to is never detached, its
  active version never goes back, its owner and name are fixed, and a destroyed secret stays
  destroyed.
\<close>

theorem secrets_never_detach:
  assumes "reachable s" and "later s s'" and "dict_get (st_secrets s) i = Some x"
  shows "\<exists>y. dict_get (st_secrets s') i = Some y \<and> sec_owner_id y = sec_owner_id x \<and>
    sec_name y = sec_name x \<and> sec_active_version x \<le> sec_active_version y \<and>
    set (sec_attached_workload_ids x) \<subseteq> set (sec_attached_workload_ids y) \<and>
    (sec_lifecycle_state x = SecDestroyed \<longrightarrow> sec_lifecycle_state y = SecDestroyed)"
proof -
  have "secret_ok x"
    using reachable_valid [OF assms(1)] assms(3) by (auto simp: store_valid_def dict_all_def)
  from secret_history [OF assms(2) reachable_keyed [OF assms(1)] assms(3) this]
  obtain y where y: "dict_get (st_secrets s') i = Some y" "secret_grows x y" by blast
  moreover have "sec_lifecycle_state x = SecDestroyed \<longrightarrow> sec_lifecycle_state y = SecDestroyed"
    using y(2) state_step_final [of secret_lifecycle_transitions] by (fastforce simp: secret_grows_def)
  ultimately show ?thesis by (auto simp: secret_grows_def)
qed

theorem secrets_never_detach_witness:
  "\<exists>y. dict_get (st_secrets (snd (run sample_store (SaveSecret
       (sample_secret\<lparr>sec_attached_workload_ids := [], sec_updated_at := t1, sec_version := 2\<rparr>) 1)))) ''z1'' =
     Some y \<and> ''w1'' \<in> set (sec_attached_workload_ids y)"
proof -
  have ok: "call_ok (SaveSecret
      (sample_secret\<lparr>sec_attached_workload_ids := [], sec_updated_at := t1, sec_version := 2\<rparr>) 1)"
    by code_simp
  have "dict_get (st_secrets sample_store) ''z1'' = Some sample_secret" by (simp add: sample_store_eq)
  from secrets_never_detach [OF sample_reachable later_run [OF ok] this] show ?thesis
    by (auto simp: sample_secret_def)
qed

text \<open>
  No update is lost: of two writers that read the same version of a record, only the first can
  save; the second is told of the version conflict. This holds for users, admissions, workloads,
  host name bindings, plans, schedules, secrets, lifecycle actions, aggregates and the cost guard.
\<close>

theorem second_writer_conflicts:
  "(put_user du u v = Inr du' \<and> usr_id u' = usr_id u \<longrightarrow>
      put_user du' u' v = Inl (StoreErr VersionConflict)) \<and>
   (put_admission da a v = Inr da' \<and> adm_id a' = adm_id a \<longrightarrow>
      put_admission da' a' v = Inl (StoreErr VersionConflict)) \<and>
   (put_workload dw w v = Inr dw' \<and> wl_id w' = wl_id w \<longrightarrow>
      put_workload dw' w' v = Inl (StoreErr VersionConflict)) \<and>
   (put_binding db b v = Inr db' \<and> bnd_public_host b' = bnd_public_host b \<longrightarrow>
      put_binding db' b' v = Inl (StoreErr VersionConflict)) \<and>
   (put_plan dp p v = Inr dp' \<and> pln_id p' = pln_id p \<longrightarrow>
      put_plan dp' p' v = Inl (StoreErr VersionConflict)) \<and>
   (put_schedule dc c v = Inr dc' \<and> sch_id c' = sch_id c \<longrightarrow>
      put_schedule dc' c' v = Inl (StoreErr VersionConflict)) \<and>
   (put_secret dx x v = Inr dx' \<and> sec_id x' = sec_id x \<longrightarrow>
      put_secret dx' x' v = Inl (StoreErr VersionConflict)) \<and>
   (put_action dl l v = Inr dl' \<and> lca_id l' = lca_id l \<longrightarrow>
      put_action dl' l' v = Inl (StoreErr VersionConflict)) \<and>
   (put_aggregate dg g v = Inr dg' \<and> aggregate_key g' = aggregate_key g \<longrightarrow>
      put_aggregate dg' g' v = Inl (StoreErr VersionConflict)) \<and>
   (put_guard dk k v = Inr dk' \<longrightarrow> put_guard dk' k' v = Inl (StoreErr VersionConflict))"
  by (intro conjI impI)
    (auto dest: users.no_lost_update admissions.no_lost_update workloads.no_lost_update
      bindings.no_lost_update plans.no_lost_update schedules.no_lost_update secrets.no_lost_update
      actions.no_lost_update aggregates.no_lost_update guards.no_lost_update)

theorem second_writer_conflicts_witness:
  "put_workload [(''w1'', sample_workload\<lparr>wl_state := WlPaused, wl_version := 2\<rparr>)]
     (sample_workload\<lparr>wl_state := WlFailed, wl_version := 2\<rparr>) 1 = Inl (StoreErr VersionConflict)"
proof -
  have "put_workload [(''w1'', sample_workload)] (sample_workload\<lparr>wl_state := WlPaused, wl_version := 2\<rparr>) 1 =
      Inr [(''w1'', sample_workload\<lparr>wl_state := WlPaused, wl_version := 2\<rparr>)]"
    by code_simp
  then show ?thesis
    using second_writer_conflicts
      [of _ _ _ _ _ _ _ _ _ "[(''w1'', sample_workload)]"
        "sample_workload\<lparr>wl_state := WlPaused, wl_version := 2\<rparr>"]
    by simp
qed


section \<open>Schedules\<close>

text \<open>
  C9: A lease excludes: while it runs, nobody else can take the schedule and nobody without its
  token can complete the run; once it expired its holder cannot complete the run either, and it
  cannot be taken again with the same token.
\<close>

theorem schedule_lease_excludes:
  assumes "acquire_schedule_lease s i v token expires_at now = (Inr c, s1)"
  shows "(time_less now2 expires_at \<longrightarrow>
      (\<exists>e. acquire_schedule_lease s1 i v2 token2 expires_at2 now2 = (Inl e, s1))) \<and>
    (token2 \<noteq> token \<longrightarrow> (\<exists>e. complete_schedule_run s1 i v2 token2 succeeded at = (Inl e, s1))) \<and>
    (\<not> time_less at expires_at \<longrightarrow>
      (\<exists>e. complete_schedule_run s1 i v2 token2 succeeded at = (Inl e, s1))) \<and>
    (\<exists>e. acquire_schedule_lease s1 i v2 token expires_at2 now2 = (Inl e, s1))"
proof -
  have c: "dict_get (st_schedules s1) i = Some c" "sch_lease_token c = Some token"
      "sch_lease_expires_at c = Some expires_at"
    using assms by (auto simp: acquire_schedule_lease_Inr leased_schedule_def)
  have raised: "\<exists>e. acquire_schedule_lease s1 i v2 tok ex n = (Inl e, s1)"
    if "\<not> lease_available c tok n" for tok ex n
    using that c(1) run_atomic [of "AcquireLease i v2 tok ex n" s1]
      acquire_schedule_lease_Inr [of s1 i v2 tok ex n]
    by (cases "acquire_schedule_lease s1 i v2 tok ex n";
        cases "fst (acquire_schedule_lease s1 i v2 tok ex n)") (auto simp: atomic_call_def)
  have refused: "\<exists>e. complete_schedule_run s1 i v2 token2 succeeded at = (Inl e, s1)"
    if "\<not> lease_held c token2 at"
    using that c(1) run_atomic [of "CompleteRun i v2 token2 succeeded at" s1]
      complete_schedule_run_Inr [of s1 i v2 token2 succeeded at]
    by (cases "complete_schedule_run s1 i v2 token2 succeeded at";
        cases "fst (complete_schedule_run s1 i v2 token2 succeeded at)") (auto simp: atomic_call_def)
  show ?thesis
    using raised [of token2 now2 expires_at2] raised [of token now2 expires_at2] refused c
    by (auto simp: lease_available_def lease_held_def time_less_not_leq)
qed

theorem schedule_lease_excludes_witness:
  "\<exists>e. fst (acquire_schedule_lease (snd (acquire_schedule_lease sample_store ''s1'' 1 ''lease-a'' t9 t1))
      ''s1'' 2 ''lease-b'' t9 t2) = Inl e"
proof -
  have "fst (acquire_schedule_lease sample_store ''s1'' 1 ''lease-a'' t9 t1) =
      Inr (leased_schedule sample_schedule ''lease-a'' t9 t1)"
    unfolding sample_store_eq by code_simp
  then have run: "acquire_schedule_lease sample_store ''s1'' 1 ''lease-a'' t9 t1 =
      (Inr (leased_schedule sample_schedule ''lease-a'' t9 t1),
       snd (acquire_schedule_lease sample_store ''s1'' 1 ''lease-a'' t9 t1))"
    by (simp add: prod_eq_iff)
  have "time_less t2 t9" by code_simp
  with schedule_lease_excludes [OF run, of t2 2 "''lease-b''" t9] show ?thesis by fastforce
qed

text \<open>
  Completing a run releases the lease and counts failures: a success resets the count, a
  failure adds one, and the third failure in a row disables the schedule, after which it can
  neither be leased nor completed until it is enabled again.
\<close>

theorem third_failure_disables:
  assumes "complete_schedule_run s i v token succeeded at = (Inr c', s')"
  shows "\<exists>c. dict_get (st_schedules s) i = Some c \<and> dict_get (st_schedules s') i = Some c' \<and>
    sch_lease_token c' = None \<and> sch_lease_expires_at c' = None \<and>
    sch_last_attempt_at c' = Some at \<and>
    sch_consecutive_failures c' = (if succeeded then 0 else sch_consecutive_failures c + 1) \<and>
    (sch_state c' = ScDisabled \<longleftrightarrow> \<not> succeeded \<and> 2 \<le> sch_consecutive_failures c) \<and>
    (sch_state c' = ScDisabled \<longrightarrow>
       (\<exists>e. acquire_schedule_lease s' i v2 token2 expires2 now2 = (Inl e, s')))"
proof -
  from assms obtain c where c: "dict_get (st_schedules s) i = Some c" "sch_state c = ScEnabled"
      "c' = completed_schedule c succeeded at" "dict_get (st_schedules s') i = Some c'"
    by (auto simp: complete_schedule_run_Inr lease_held_def)
  have "\<exists>e. acquire_schedule_lease s' i v2 token2 expires2 now2 = (Inl e, s')"
    if "sch_state c' = ScDisabled"
    using that c(4) run_atomic [of "AcquireLease i v2 token2 expires2 now2" s']
      acquire_schedule_lease_Inr [of s' i v2 token2 expires2 now2]
    by (cases "acquire_schedule_lease s' i v2 token2 expires2 now2";
        cases "fst (acquire_schedule_lease s' i v2 token2 expires2 now2)")
      (auto simp: atomic_call_def lease_available_def)
  with c show ?thesis by (auto simp: completed_schedule_def Let_def)
qed

theorem third_failure_disables_witness:
  "\<exists>c. fst (complete_schedule_run (snd (acquire_schedule_lease sample_store ''s1'' 1 ''lease-a'' t9 t1))
      ''s1'' 2 ''lease-a'' False t2) = Inr c \<and> sch_state c = ScDisabled"
proof -
  let ?s = "snd (acquire_schedule_lease sample_store ''s1'' 1 ''lease-a'' t9 t1)"
  let ?c = "completed_schedule (leased_schedule sample_schedule ''lease-a'' t9 t1) False t2"
  have "fst (complete_schedule_run ?s ''s1'' 2 ''lease-a'' False t2) = Inr ?c"
    unfolding sample_store_eq by code_simp
  then have run: "complete_schedule_run ?s ''s1'' 2 ''lease-a'' False t2 =
      (Inr ?c, snd (complete_schedule_run ?s ''s1'' 2 ''lease-a'' False t2))"
    by (simp add: prod_eq_iff)
  have "dict_get (st_schedules ?s) ''s1'' = Some (leased_schedule sample_schedule ''lease-a'' t9 t1)"
    unfolding sample_store_eq by code_simp
  then have "sch_state ?c = ScDisabled \<longleftrightarrow>
      2 \<le> sch_consecutive_failures (leased_schedule sample_schedule ''lease-a'' t9 t1)"
    using third_failure_disables [OF run, of 0 "[]" t0 t0] by auto
  then have "sch_state ?c = ScDisabled" by (simp add: leased_schedule_def sample_schedule_def)
  with arg_cong [OF run, of fst] show ?thesis by auto
qed


section \<open>Directory snapshots\<close>



text \<open>
  A snapshot id is applied once: after it was applied with some material, every later call with
  the same id and material reports a replay with nothing applied, and one with other material is
  refused; neither changes anything.
\<close>

theorem directory_snapshot_replay:
  assumes "reachable s" and "dict_get (st_ledger s) sid = Some (h, r)" and "later s s2"
    and "stripped_text_ok sid" and "is_hex_text 64 h'"
  shows "apply_snapshot_once s2 sid h' rs es =
    (if h' = h then (Inr (replayed_result sid h), s2) else (Inl (StoreErr IdempotencyConflict), s2))"
proof -
  have "dict_get (st_ledger s2) sid = Some (h, r)"
    by (rule hist_ledger.frozen [OF assms(3) reachable_keyed [OF assms(1)] assms(2)])
  moreover have "directory_result_ok (replayed_result sid h')"
    using assms(4,5)
    by (simp add: directory_result_ok_def replayed_result_def id_tuple_ok_def stripped_text_ok_def text_ok_def)
  ultimately show ?thesis
    using assms(4,5) by (auto simp: apply_snapshot_once_def directory_result_post_init_def ensure_def)
qed

theorem directory_snapshot_replay_witness:
  "apply_snapshot_once suspended_store ''snap1'' sample_digest [] [] =
     (Inr (replayed_result ''snap1'' sample_digest), suspended_store)"
proof -
  have "stripped_text_ok ''snap1''" by code_simp
  from directory_snapshot_replay [OF suspended_reachable suspended_ledger later_refl this,
      of sample_digest] show ?thesis by simp
qed


section \<open>Expiring activity events\<close>

text \<open>
  C15: The in-memory and the Firestore expiry agree on every list of valid, distinct ids. On a list
  with a bad or repeated id both raise the same error, but the in-memory one has by then deleted
  the events named before the bad id, and the Firestore one has deleted nothing.
\<close>

theorem expiry_agrees_until_a_bad_id:
  "(list_all stripped_text_ok ids \<and> distinct ids \<longrightarrow>
      expire_activity_events s ids = firestore_expire_activity_events s ids) \<and>
   (list_all stripped_text_ok ids \<and> distinct ids \<and> (\<not> stripped_text_ok bad \<or> bad \<in> set ids) \<longrightarrow>
      firestore_expire_activity_events s (ids @ bad # rest) = (Inl (StoreErr InvariantViolation), s) \<and>
      expire_activity_events s (ids @ bad # rest) =
        (Inl (StoreErr InvariantViolation), snd (firestore_expire_activity_events s ids)))"
proof (intro conjI impI)
  assume "list_all stripped_text_ok ids \<and> distinct ids"
  then show "expire_activity_events s ids = firestore_expire_activity_events s ids"
    by (simp add: expire_activity_events_def firestore_expire_activity_events_def expire_scan_valid)
next
  assume "list_all stripped_text_ok ids \<and> distinct ids \<and> (\<not> stripped_text_ok bad \<or> bad \<in> set ids)"
  then show "firestore_expire_activity_events s (ids @ bad # rest) = (Inl (StoreErr InvariantViolation), s)"
    by (auto simp: firestore_expire_activity_events_def ensure_def)
next
  assume "list_all stripped_text_ok ids \<and> distinct ids \<and> (\<not> stripped_text_ok bad \<or> bad \<in> set ids)"
  then show "expire_activity_events s (ids @ bad # rest) =
      (Inl (StoreErr InvariantViolation), snd (firestore_expire_activity_events s ids))"
    by (auto simp: expire_activity_events_def firestore_expire_activity_events_def
        expire_scan_append ensure_def)
qed

theorem expiry_agrees_until_a_bad_id_witness:
  "expire_activity_events sample_store [''v1'', '' ''] =
     (Inl (StoreErr InvariantViolation), sample_store\<lparr>st_activity := []\<rparr>) \<and>
   firestore_expire_activity_events sample_store [''v1'', '' ''] =
     (Inl (StoreErr InvariantViolation), sample_store)"
proof -
  have "list_all stripped_text_ok [''v1''] \<and> distinct [''v1''] \<and> (\<not> stripped_text_ok '' '' \<or> '' '' \<in> set [''v1''])"
    by code_simp
  moreover have "snd (firestore_expire_activity_events sample_store [''v1'']) = sample_store\<lparr>st_activity := []\<rparr>"
    unfolding sample_store_eq by code_simp
  ultimately show ?thesis
    using expiry_agrees_until_a_bad_id [of "[''v1'']" sample_store "'' ''" "[]"] by simp
qed


section \<open>Maintenance jobs\<close>




section \<open>The latest operation of a workload\<close>

lemma max_by_in: "max_by k best xs \<in> set (best # xs)"
  by (induction xs arbitrary: best) auto

lemma max_by_ge: "x \<in> set (best # xs) \<Longrightarrow> k x \<le> k (max_by k best xs)"
proof (induction xs arbitrary: best x)
  case Nil
  then show ?case by simp
next
  case (Cons y ys)
  have "k z \<le> k (max_by k (if k best < k y then y else best) ys)"
    if "z \<in> {best, y} \<union> set ys" for z
  proof (cases "z \<in> set ys")
    case True
    then show ?thesis by (intro Cons.IH) simp
  next
    case False
    have "k z \<le> k (if k best < k y then y else best)" using that False by auto
    also have "\<dots> \<le> k (max_by k (if k best < k y then y else best) ys)" by (rule Cons.IH) simp
    finally show ?thesis .
  qed
  with Cons.prems show ?case by auto
qed

text \<open>
  \<^verbatim>\<open>get_latest_workload_operation\<close> shows an owner the most recently updated operation of its
  workload, and shows nothing to anybody else.
\<close>

theorem latest_operation_is_latest:
  assumes "reachable s"
  shows "(case get_latest_workload_operation s owner w of
      None \<Rightarrow> (\<nexists>wl. dict_get (st_workloads s) w = Some wl \<and> wl_owner_id wl = owner) \<or>
        (\<nexists>i p. dict_get (st_operations s) i = Some p \<and> op_workload_id p = Some w)
    | Some p \<Rightarrow> (\<exists>wl. dict_get (st_workloads s) w = Some wl \<and> wl_owner_id wl = owner) \<and>
        dict_get (st_operations s) (op_id p) = Some p \<and> op_workload_id p = Some w \<and>
        (\<forall>i q. dict_get (st_operations s) i = Some q \<and> op_workload_id q = Some w \<longrightarrow>
           operation_recency q \<le> operation_recency p))"
proof -
  have keyed: "keyed_by op_id (st_operations s)"
    using reachable_keyed [OF assms] by (simp add: store_keyed_def)
  let ?ms = "filter (\<lambda>p. op_workload_id p = Some w) (dict_values (st_operations s))"
  have mem: "p \<in> set ?ms \<longleftrightarrow> op_workload_id p = Some w \<and> dict_get (st_operations s) (op_id p) = Some p" for p
    using dict_values_get [OF keyed_by_ok [OF keyed], of p] keyed_by_get [OF keyed] by auto
  show ?thesis
  proof (cases "\<exists>wl. dict_get (st_workloads s) w = Some wl \<and> wl_owner_id wl = owner")
    case False
    then have "get_latest_workload_operation s owner w = None"
      by (auto simp: get_latest_workload_operation_def split: option.splits)
    with False show ?thesis by simp
  next
    case True
    show ?thesis
    proof (cases ?ms)
      case Nil
      with True have none: "get_latest_workload_operation s owner w = None"
        by (auto simp: get_latest_workload_operation_def)
      have "\<nexists>i p. dict_get (st_operations s) i = Some p \<and> op_workload_id p = Some w"
        using mem Nil keyed_by_get [OF keyed] by (metis empty_iff list.set(1))
      with none show ?thesis by simp
    next
      case (Cons x xs)
      with True have some: "get_latest_workload_operation s owner w = Some (max_by operation_recency x xs)"
        by (auto simp: get_latest_workload_operation_def)
      have in_ms: "max_by operation_recency x xs \<in> set ?ms"
        unfolding Cons by (rule max_by_in)
      have "operation_recency q \<le> operation_recency (max_by operation_recency x xs)"
        if "dict_get (st_operations s) i = Some q" "op_workload_id q = Some w" for i q
      proof -
        have "q \<in> set ?ms" using that mem keyed_by_get [OF keyed that(1)] by simp
        then show ?thesis unfolding Cons by (rule max_by_ge)
      qed
      then have bound: "\<forall>i q. dict_get (st_operations s) i = Some q \<and> op_workload_id q = Some w \<longrightarrow>
          operation_recency q \<le> operation_recency (max_by operation_recency x xs)"
        by blast
      from in_ms [unfolded mem] True bound show ?thesis unfolding some option.case(2) by blast
    qed
  qed
qed

theorem latest_operation_is_latest_witness:
  "get_latest_workload_operation sample_store ''u1'' ''w1'' = Some sample_operation \<and>
   operation_recency sample_operation \<le> operation_recency sample_operation"
proof -
  have some: "get_latest_workload_operation sample_store ''u1'' ''w1'' = Some sample_operation"
    unfolding sample_store_eq by code_simp
  have "dict_get (st_operations sample_store) ''o1'' = Some sample_operation"
    by (simp add: sample_store_eq)
  moreover have "op_workload_id sample_operation = Some ''w1''" by (simp add: sample_operation_def)
  ultimately show ?thesis
    using latest_operation_is_latest [OF sample_reachable, of "''u1''" "''w1''"] some by simp
qed

end
