(* ===== verification/PyJson.thy ===== *)
theory PyJson
  imports Sha256 PyText
begin

text \<open>
  The JSON texts of the control plane: Python values as callers pass them, the JSON values they
  normalize to, and \<^verbatim>\<open>json.dumps(..., sort_keys=True, separators=(",", ":"), ensure_ascii=True)\<close>.
  A float is given by its \<^verbatim>\<open>repr\<close>, which is what \<^verbatim>\<open>json.dumps\<close> prints. The lemmas show that the
  text determines the value up to the order of object keys.
\<close>

section \<open>Values\<close>

text \<open>A key of a mapping is \<^const>\<open>None\<close> when it is not a string.\<close>

datatype py_value =
    PyNone
  | PyBool bool
  | PyInt int
  | PyFloat string
  | PyStr string
  | PySeq "py_value list"
  | PyMap "(string option \<times> py_value) list"
  | PyOther

datatype json =
    JNull
  | JBool bool
  | JInt int
  | JFloat string
  | JStr string
  | JArr "json list"
  | JObj "(string \<times> json) list"

text \<open>\<^verbatim>\<open>d[k] = v\<close> for each pair, from an empty dictionary.\<close>

definition dict_of :: "('k \<times> 'v) list \<Rightarrow> ('k, 'v) dict" where
  "dict_of ps = fold (\<lambda>(k, v). dict_put k v) ps []"

text \<open>A list comprehension whose element expression may raise.\<close>

fun map_res :: "('a \<Rightarrow> 'b res) \<Rightarrow> 'a list \<Rightarrow> 'b list res" where
  "map_res f [] = Inr []"
| "map_res f (x # xs) = bind_res (f x) (\<lambda>y. bind_res (map_res f xs) (\<lambda>ys. Inr (y # ys)))"

lemma map_res_cong [fundef_cong]:
  "xs = ys \<Longrightarrow> (\<And>x. x \<in> set ys \<Longrightarrow> f x = g x) \<Longrightarrow> map_res f xs = map_res g ys"
  by (induction xs arbitrary: ys) auto

lemma map_res_Inr [res_simps]:
  "map_res f xs = Inr ys \<longleftrightarrow> list_all2 (\<lambda>x y. f x = Inr y) xs ys"
  by (induction xs arbitrary: ys) (auto simp: res_simps list_all2_Cons1)


lemma map_res_set: "map_res f xs = Inr ys \<Longrightarrow> y \<in> set ys \<Longrightarrow> \<exists>x \<in> set xs. f x = Inr y"
  by (induction xs arbitrary: ys) (auto simp: bind_res_Inr)


section \<open>The text\<close>

abbreviation backslash :: char where
  "backslash \<equiv> CHR 0x5C"

definition escape_char :: "char \<Rightarrow> string" where
  "escape_char c =
     (let n = code_point c :: nat in
        if n = 34 then [backslash, CHR 0x22]
        else if n = 92 then [backslash, backslash]
        else if n = 8 then [backslash, CHR ''b'']
        else if n = 9 then [backslash, CHR ''t'']
        else if n = 10 then [backslash, CHR ''n'']
        else if n = 12 then [backslash, CHR ''f'']
        else if n = 13 then [backslash, CHR ''r'']
        else if 32 \<le> n \<and> n \<le> 126 then [c]
        else [backslash, CHR ''u''] @ hex_digits 4 n)"

text \<open>\<^verbatim>\<open>ensure_ascii=False\<close> prints every character from U+0020 on as it is.\<close>

definition raw_escape :: "char \<Rightarrow> string" where
  "raw_escape c =
     (if 127 \<le> (code_point c :: nat) then [c] else escape_char c)"

definition json_quote_by :: "(char \<Rightarrow> string) \<Rightarrow> string \<Rightarrow> string" where
  "json_quote_by esc s = CHR 0x22 # concat (map esc s) @ [CHR 0x22]"

fun sep_by :: "string \<Rightarrow> string list \<Rightarrow> string" where
  "sep_by sep [] = []"
| "sep_by sep [x] = x"
| "sep_by sep (x # y # zs) = x @ sep @ sep_by sep (y # zs)"

text \<open>The printer, for the escapes that \<^verbatim>\<open>ensure_ascii\<close> selects.\<close>

fun json_text_by :: "(char \<Rightarrow> string) \<Rightarrow> json \<Rightarrow> string" where
  "json_text_by esc JNull = ''null''"
| "json_text_by esc (JBool b) = (if b then ''true'' else ''false'')"
| "json_text_by esc (JInt i) = show_int i"
| "json_text_by esc (JFloat r) = r"
| "json_text_by esc (JStr s) = json_quote_by esc s"
| "json_text_by esc (JArr vs) = ''['' @ sep_by '','' (map (json_text_by esc) vs) @ '']''"
| "json_text_by esc (JObj ps) =
     ''{'' @ sep_by '','' (map (\<lambda>(k, v). json_quote_by esc k @ '':'' @ json_text_by esc v) ps) @ ''}''"

text \<open>\<^verbatim>\<open>sort_keys=True\<close>: every object prints its items in the order of their keys.\<close>

fun sort_json :: "json \<Rightarrow> json" where
  "sort_json (JArr vs) = JArr (map sort_json vs)"
| "sort_json (JObj ps) = JObj (sort_key fst (map (\<lambda>(k, v). (k, sort_json v)) ps))"
| "sort_json j = j"

definition json_dumps :: "json \<Rightarrow> string" where
  "json_dumps j = json_text_by escape_char (sort_json j)"


section \<open>The text is unambiguous\<close>

text \<open>Characters that can follow a complete value, and characters of a number.\<close>

definition closes :: "string \<Rightarrow> bool" where
  "closes r \<longleftrightarrow> r = [] \<or> hd r \<in> {CHR '','', CHR '']'', CHR ''}''}"

definition number_char :: "char \<Rightarrow> bool" where
  "number_char c \<longleftrightarrow> is_digit c \<or> c \<in> {CHR ''-'', CHR ''+'', CHR ''.'', CHR ''e''}"

text \<open>
  How Python prints a finite float: only number characters, starting with a digit or a sign, and
  with a point or an exponent, which no integer has.
\<close>

definition float_repr :: "string \<Rightarrow> bool" where
  "float_repr r \<longleftrightarrow>
     r \<noteq> [] \<and> (is_digit (hd r) \<or> hd r = CHR ''-'') \<and> list_all number_char r \<and>
     (CHR ''.'' \<in> set r \<or> CHR ''e'' \<in> set r)"

fun floats_ok :: "json \<Rightarrow> bool" where
  "floats_ok (JFloat r) = float_repr r"
| "floats_ok (JArr vs) = list_all floats_ok vs"
| "floats_ok (JObj ps) = list_all (\<lambda>(_, v). floats_ok v) ps"
| "floats_ok _ = True"

definition unhex_char :: "char \<Rightarrow> nat" where
  "unhex_char c = (if is_digit c then code_point c - 48 else code_point c - 87)"

definition unhex :: "string \<Rightarrow> nat" where
  "unhex s = foldl (\<lambda>n c. 16 * n + unhex_char c) 0 s"

lemma unhex_hex_char: "d < 16 \<Longrightarrow> unhex_char (hex_char d) = d"
  by (auto simp: unhex_char_def hex_char_def is_digit_code_point)

lemma unhex_hex_digits: "unhex (hex_digits k n) = n mod 16 ^ k"
proof (induction k n rule: hex_digits.induct)
  case (1 n)
  then show ?case by (simp add: unhex_def)
next
  case (2 k n)
  have "unhex (hex_digits (Suc k) n) = 16 * unhex (hex_digits k (n div 16)) + n mod 16"
    by (simp add: unhex_def unhex_hex_char)
  also have "\<dots> = 16 * (n div 16 mod 16 ^ k) + n mod 16"
    by (simp only: 2)
  also have "\<dots> = n mod 16 ^ Suc k"
    by (simp add: mod_mult2_eq)
  finally show ?case .
qed

text \<open>The reader of one escaped character: the character and the text after it.\<close>

definition unescape_char :: "string \<Rightarrow> char \<times> string" where
  "unescape_char s =
     (if hd s \<noteq> backslash then (hd s, tl s)
      else let c = s ! 1; r = drop 2 s in
        if c = CHR ''b'' then (char_of (8 :: nat), r)
        else if c = CHR ''t'' then (char_of (9 :: nat), r)
        else if c = CHR ''n'' then (char_of (10 :: nat), r)
        else if c = CHR ''f'' then (char_of (12 :: nat), r)
        else if c = CHR ''r'' then (char_of (13 :: nat), r)
        else if c = CHR ''u'' then (char_of (unhex (take 4 r)), drop 4 r)
        else (c, r))"

lemma unescape_escape: "unescape_char (escape_char c @ r) = (c, r)"
proof -
  define n where "n = (code_point c :: nat)"
  have c: "c = char_of n" and bound: "n < 256"
    by (simp_all add: n_def code_point_bound)
  have u: "unhex (hex_digits 4 n) = n"
    using bound by (simp add: unhex_hex_digits)
  consider (special) "n \<in> {34, 92, 8, 9, 10, 12, 13}"
    | (plain) "n \<notin> {34, 92, 8, 9, 10, 12, 13}" "32 \<le> n \<and> n \<le> 126"
    | (unicode) "n \<notin> {34, 92, 8, 9, 10, 12, 13}" "\<not> (32 \<le> n \<and> n \<le> 126)"
    by blast
  then show ?thesis
  proof cases
    case special
    then have "c \<in> {char_of (34 :: nat), char_of (92 :: nat), char_of (8 :: nat),
        char_of (9 :: nat), char_of (10 :: nat), char_of (12 :: nat), char_of (13 :: nat)}"
      unfolding c by auto
    moreover have "char_of (34 :: nat) = CHR 0x22" and "char_of (92 :: nat) = CHR 0x5C"
      by (simp_all add: char_of_eq_iff)
    ultimately show ?thesis by (auto simp: escape_char_def unescape_char_def)
  next
    case plain
    then have "escape_char c = [c]"
      by (simp add: escape_char_def n_def [symmetric])
    moreover have "c \<noteq> CHR 0x5C"
      using plain(1) by (auto simp: n_def)
    ultimately show ?thesis by (simp add: unescape_char_def)
  next
    case unicode
    then have "escape_char c = [backslash, CHR ''u''] @ hex_digits 4 n"
      unfolding escape_char_def n_def [symmetric] Let_def by simp
    then show ?thesis by (simp add: unescape_char_def Let_def u c [symmetric])
  qed
qed

lemma escape_char_head: "escape_char c \<noteq> [] \<and> hd (escape_char c) \<noteq> CHR 0x22"
  by (auto simp: escape_char_def Let_def)

lemma number_inject:
  assumes "s @ r = t @ q" and "list_all number_char s" and "list_all number_char t"
    and "closes r" and "closes q"
  shows "s = t \<and> r = q"
proof -
  have number: "takeWhile number_char (u @ v) = u" if "list_all number_char u" and "closes v" for u v
    using that by (cases v)
      (auto simp: list_all_iff takeWhile_append2 closes_def number_char_def is_digit_code_point)
  from number [OF assms(2,4)] number [OF assms(3,5)] assms(1) have "s = t" by simp
  with assms(1) show ?thesis by simp
qed

lemma sep_by_Cons: "sep_by sep (x # xs) = x @ concat (map (\<lambda>y. sep @ y) xs)"
  by (induction xs arbitrary: x) auto

lemma comma_tail_closes: "closes (concat (map (\<lambda>y. '','' @ y) ws) @ c # r)"
  if "c = CHR '']'' \<or> c = CHR ''}''"
  using that by (cases ws) (auto simp: closes_def)

text \<open>Elements that can be told apart before a closing character, separated by commas.\<close>

lemma comma_tail_inject:
  assumes "\<And>x y r s. x \<in> set xs \<Longrightarrow> y \<in> set ys \<Longrightarrow> closes r \<Longrightarrow> closes s \<Longrightarrow>
      enc x @ r = enc y @ s \<Longrightarrow> x = y \<and> r = s"
    and c: "c = CHR '']'' \<or> c = CHR ''}''"
    and "concat (map (\<lambda>y. '','' @ y) (map enc xs)) @ c # r =
         concat (map (\<lambda>y. '','' @ y) (map enc ys)) @ c # s"
  shows "xs = ys \<and> r = s"
  using assms(1,3)
proof (induction xs arbitrary: ys)
  case Nil
  then show ?case using c by (cases ys) auto
next
  case (Cons x xs)
  show ?case
  proof (cases ys)
    case Nil
    with Cons.prems(2) c show ?thesis by auto
  next
    case ys: (Cons y ys')
    with Cons.prems(2)
    have "enc x @ (concat (map (\<lambda>y. '','' @ y) (map enc xs)) @ c # r) =
          enc y @ (concat (map (\<lambda>y. '','' @ y) (map enc ys')) @ c # s)" by simp
    from Cons.prems(1) [OF _ _ comma_tail_closes [OF c] comma_tail_closes [OF c] this] ys
    have "x = y" and tails: "concat (map (\<lambda>y. '','' @ y) (map enc xs)) @ c # r =
        concat (map (\<lambda>y. '','' @ y) (map enc ys')) @ c # s" by auto
    moreover have "xs = ys' \<and> r = s"
      by (rule Cons.IH [OF Cons.prems(1) tails]) (simp_all add: ys)
    ultimately show ?thesis using ys by simp
  qed
qed

lemma sep_by_inject:
  assumes enc: "\<And>x y r s. x \<in> set xs \<Longrightarrow> y \<in> set ys \<Longrightarrow> closes r \<Longrightarrow> closes s \<Longrightarrow>
      enc x @ r = enc y @ s \<Longrightarrow> x = y \<and> r = s"
    and starts: "\<And>x. x \<in> set xs \<union> set ys \<Longrightarrow> enc x \<noteq> [] \<and> hd (enc x) \<noteq> c"
    and c: "c = CHR '']'' \<or> c = CHR ''}''"
    and eq: "sep_by '','' (map enc xs) @ c # r = sep_by '','' (map enc ys) @ c # s"
  shows "xs = ys \<and> r = s"
proof (cases xs)
  case Nil
  show ?thesis
  proof (cases ys)
    case (Cons y ys')
    with Nil eq starts [of y] show ?thesis
      by (cases "enc y") (simp_all add: sep_by_Cons)
  qed (use Nil eq in simp)
next
  case xs: (Cons x xs')
  show ?thesis
  proof (cases ys)
    case Nil
    with eq xs starts [of x] show ?thesis by (cases "enc x") (simp_all add: sep_by_Cons)
  next
    case ys: (Cons y ys')
    with xs eq
    have "enc x @ (concat (map (\<lambda>y. '','' @ y) (map enc xs')) @ c # r) =
          enc y @ (concat (map (\<lambda>y. '','' @ y) (map enc ys')) @ c # s)"
      by (simp add: sep_by_Cons)
    from enc [OF _ _ comma_tail_closes [OF c] comma_tail_closes [OF c] this] xs ys
    have "x = y" and tails: "concat (map (\<lambda>y. '','' @ y) (map enc xs')) @ c # r =
        concat (map (\<lambda>y. '','' @ y) (map enc ys')) @ c # s" by auto
    moreover have "xs' = ys' \<and> r = s"
      by (rule comma_tail_inject [OF enc c tails]) (simp_all add: xs ys)
    ultimately show ?thesis using xs ys by simp
  qed
qed

lemma show_int_number:
  "show_int i \<noteq> []" "list_all number_char (show_int i)"
  "is_digit (hd (show_int i)) \<or> hd (show_int i) = CHR ''-''"
  "CHR ''.'' \<notin> set (show_int i)" "CHR ''e'' \<notin> set (show_int i)"
proof -
  have digits: "c \<in> set (show_nat n) \<Longrightarrow> is_digit c" for c n by (rule show_nat_digits)
  then have head: "is_digit (hd (show_nat n))" for n
    by (metis hd_in_set show_nat_not_Nil)
  show "show_int i \<noteq> []" "list_all number_char (show_int i)"
    "is_digit (hd (show_int i)) \<or> hd (show_int i) = CHR ''-''"
    by (auto simp: show_int_def list_all_iff number_char_def head dest: digits)
  have "\<not> is_digit (CHR ''.'')" "\<not> is_digit (CHR ''e'')"
    by (simp_all add: is_digit_code_point)
  with digits show "CHR ''.'' \<notin> set (show_int i)" "CHR ''e'' \<notin> set (show_int i)"
    by (auto simp: show_int_def)
qed

text \<open>The first character of a text tells the kind of the value.\<close>

fun head_ok :: "json \<Rightarrow> char \<Rightarrow> bool" where
  "head_ok JNull c = (c = CHR ''n'')"
| "head_ok (JBool b) c = (c = (if b then CHR ''t'' else CHR ''f''))"
| "head_ok (JInt i) c = (is_digit c \<or> c = CHR ''-'')"
| "head_ok (JFloat r) c = (is_digit c \<or> c = CHR ''-'')"
| "head_ok (JStr s) c = (c = CHR 0x22)"
| "head_ok (JArr vs) c = (c = CHR ''['')"
| "head_ok (JObj ps) c = (c = CHR ''{'')"

fun json_kind :: "json \<Rightarrow> nat" where
  "json_kind JNull = 0"
| "json_kind (JBool b) = (if b then 1 else 2)"
| "json_kind (JInt i) = 3"
| "json_kind (JFloat r) = 3"
| "json_kind (JStr s) = 4"
| "json_kind (JArr vs) = 5"
| "json_kind (JObj ps) = 6"

text \<open>
  An escape that can be read back: one reader takes any escaped character off a text, and no
  escaped character begins with the quote that ends a string.
\<close>

locale string_escape =
  fixes esc :: "char \<Rightarrow> string" and reader :: "string \<Rightarrow> char \<times> string"
  assumes read_esc: "reader (esc c @ r) = (c, r)"
    and esc_head: "esc c \<noteq> [] \<and> hd (esc c) \<noteq> CHR 0x22"
begin

abbreviation quote :: "string \<Rightarrow> string" where
  "quote \<equiv> json_quote_by esc"

abbreviation text_of :: "json \<Rightarrow> string" where
  "text_of \<equiv> json_text_by esc"

lemma esc_not_quote: "esc c \<noteq> []" "esc c \<noteq> CHR 0x22 # u" "CHR 0x22 # u \<noteq> esc c"
  using esc_head [of c] by (auto dest: sym)

lemma escaped_inject:
  "concat (map esc s) @ CHR 0x22 # r = concat (map esc t) @ CHR 0x22 # q \<Longrightarrow>
     s = t \<and> r = q"
proof (induction s arbitrary: t)
  case Nil
  then show ?case by (cases t) (auto simp: Cons_eq_append_conv esc_not_quote)
next
  case (Cons c s)
  show ?case
  proof (cases t)
    case Nil
    then show ?thesis using Cons.prems by (auto simp: append_eq_Cons_conv esc_not_quote)
  next
    case (Cons d t')
    have "reader (esc c @ concat (map esc s) @ CHR 0x22 # r) =
          reader (esc d @ concat (map esc t') @ CHR 0x22 # q)"
      using Cons.prems Cons by simp
    then have "c = d" and "concat (map esc s) @ CHR 0x22 # r =
        concat (map esc t') @ CHR 0x22 # q"
      by (auto simp: read_esc)
    with Cons.IH Cons show ?thesis by blast
  qed
qed

lemma json_quote_inject: "quote s @ r = quote t @ q \<Longrightarrow> s = t \<and> r = q"
  using escaped_inject [of s r t q] by (simp add: json_quote_by_def)

lemma json_text_head: "floats_ok j \<Longrightarrow> text_of j \<noteq> [] \<and> head_ok j (hd (text_of j))"
  by (cases j) (auto simp: show_int_number float_repr_def json_quote_by_def)

lemma json_text_not_closing:
  "floats_ok j \<Longrightarrow> hd (text_of j) \<noteq> CHR '']'' \<and> hd (text_of j) \<noteq> CHR ''}''"
  using json_text_head [of j] by (cases j) (auto simp: is_digit_code_point)

lemma json_text_kind:
  assumes "text_of a @ r = text_of b @ s" and "floats_ok a" and "floats_ok b"
  shows "json_kind a = json_kind b"
proof -
  have "hd (text_of a) = hd (text_of b)"
    using assms json_text_head by (metis hd_append2)
  moreover have "head_ok a c \<Longrightarrow> head_ok b c \<Longrightarrow> json_kind a = json_kind b" for c
    by (cases a; cases b) (auto simp: is_digit_code_point split: if_splits)
  ultimately show ?thesis using json_text_head assms(2,3) by metis
qed

lemma json_number_inject:
  assumes "text_of a @ r = text_of b @ s" and "floats_ok a" "floats_ok b" "closes r" "closes s"
    and "json_kind a = 3" "json_kind b = 3"
  shows "a = b \<and> r = s"
proof -
  have number: "list_all number_char (text_of j)" if "floats_ok j" "json_kind j = 3" for j
    using that by (cases j) (auto simp: show_int_number float_repr_def split: if_splits)
  have eq: "text_of a = text_of b" and "r = s"
    using number_inject [OF assms(1) number number assms(4,5)] assms(2,3,6,7) by auto
  moreover have "a = b"
    using eq assms(2,3,6,7) show_int_number
    by (cases a; cases b) (auto simp: show_int_inject float_repr_def split: if_splits)
  ultimately show ?thesis by simp
qed

text \<open>Two values with the same text, each followed by something that closes it, are equal.\<close>

lemma json_text_inject:
  "text_of a @ r = text_of b @ s \<Longrightarrow> floats_ok a \<Longrightarrow> floats_ok b \<Longrightarrow> closes r \<Longrightarrow> closes s \<Longrightarrow>
     a = b \<and> r = s"
proof (induction a arbitrary: b r s)
  case JNull
  with json_text_kind [OF JNull(1)] show ?case by (cases b) (auto split: if_splits)
next
  case (JBool x)
  with json_text_kind [OF JBool(1)] show ?case by (cases b) (auto split: if_splits)
next
  case (JInt i)
  with json_text_kind [OF JInt(1)] show ?case by (intro json_number_inject) simp_all
next
  case (JFloat x)
  with json_text_kind [OF JFloat(1)] show ?case by (intro json_number_inject) simp_all
next
  case (JStr x)
  with json_text_kind [OF JStr(1)] show ?case
    by (cases b) (auto split: if_splits dest: json_quote_inject)
next
  case (JArr vs)
  from JArr.prems json_text_kind [OF JArr.prems(1)] obtain ws where b: "b = JArr ws"
    by (cases b) (auto split: if_splits)
  have "vs = ws \<and> r = s"
  proof (rule sep_by_inject)
    show "sep_by '','' (map text_of vs) @ CHR '']'' # r = sep_by '','' (map text_of ws) @ CHR '']'' # s"
      using JArr.prems(1) b by simp
    show "text_of x \<noteq> [] \<and> hd (text_of x) \<noteq> CHR '']''" if "x \<in> set vs \<union> set ws" for x
      using that JArr.prems b json_text_head json_text_not_closing by (auto simp: list_all_iff)
    show "x = y \<and> q = p" if "x \<in> set vs" "y \<in> set ws" "closes q" "closes p"
      "text_of x @ q = text_of y @ p" for x y q p
      using JArr.IH [OF that(1,5)] that JArr.prems b by (auto simp: list_all_iff)
  qed simp
  with b show ?case by simp
next
  case (JObj ps)
  let ?item = "\<lambda>(k, v). quote k @ '':'' @ text_of v"
  from JObj.prems json_text_kind [OF JObj.prems(1)] obtain qs where b: "b = JObj qs"
    by (cases b) (auto split: if_splits)
  have "ps = qs \<and> r = s"
  proof (rule sep_by_inject)
    show "sep_by '','' (map ?item ps) @ CHR ''}'' # r = sep_by '','' (map ?item qs) @ CHR ''}'' # s"
      using JObj.prems(1) b by simp
    show "?item x \<noteq> [] \<and> hd (?item x) \<noteq> CHR ''}''" if "x \<in> set ps \<union> set qs" for x
      by (cases x) (simp add: json_quote_by_def)
    show "x = y \<and> q = p" if "x \<in> set ps" "y \<in> set qs" "closes q" "closes p"
      "?item x @ q = ?item y @ p" for x y q p
    proof -
      obtain k v l w where x: "x = (k, v)" and y: "y = (l, w)" by (metis surj_pair)
      have "quote k @ '':'' @ text_of v @ q = quote l @ '':'' @ text_of w @ p"
        using that(5) x y by simp
      from json_quote_inject [OF this] have "k = l" and eq: "text_of v @ q = text_of w @ p"
        by auto
      with JObj.IH [OF that(1) _ eq] that JObj.prems b x y show ?thesis
        by (auto simp: list_all_iff)
    qed
  qed simp
  with b show ?case by simp
qed

end

lemma unescape_raw: "unescape_char (raw_escape c @ r) = (c, r)"
proof (cases "127 \<le> (code_point c :: nat)")
  case True
  then have "c \<noteq> CHR 0x5C" by auto
  with True show ?thesis by (simp add: raw_escape_def unescape_char_def)
qed (simp add: raw_escape_def unescape_escape)

lemma raw_escape_head: "raw_escape c \<noteq> [] \<and> hd (raw_escape c) \<noteq> CHR 0x22"
  by (auto simp: raw_escape_def escape_char_head)

interpretation ascii: string_escape escape_char unescape_char
  by unfold_locales (rule unescape_escape, rule escape_char_head)

interpretation raw: string_escape raw_escape unescape_char
  by unfold_locales (rule unescape_raw, rule raw_escape_head)

lemma sort_json_floats_ok: "floats_ok (sort_json j) = floats_ok j"
  by (induction j) (auto simp: list_all_iff)

lemma json_dumps_inject:
  assumes "floats_ok a" and "floats_ok b"
  shows "json_dumps a = json_dumps b \<longleftrightarrow> sort_json a = sort_json b"
  using ascii.json_text_inject [of "sort_json a" "[]" "sort_json b" "[]"] assms
  by (auto simp: json_dumps_def sort_json_floats_ok closes_def)

end
