(* ===== verification/Plans.thy ===== *)
theory Plans
  imports Store_Work Execution PyJson
begin

text \<open>
  \<^verbatim>\<open>domain/plans.py\<close>: the canonical text of deployment-plan material, its hash, the checks of a
  request against a reviewed plan, and the single-use consumption of a plan through the store.
\<close>

section \<open>Canonical material\<close>

fun normalize_json_value :: "py_value \<Rightarrow> json res" where
  "normalize_json_value (PyMap items) =
     bind_res
       (map_res (\<lambda>(key, inner_value).
          case key of
            None \<Rightarrow> Inl TypeErr
          | Some k \<Rightarrow> bind_res (normalize_json_value inner_value) (\<lambda>v. Inr (k, v))) items)
       (\<lambda>normalized. Inr (JObj (dict_of normalized)))"
| "normalize_json_value (PySeq values) =
     bind_res (map_res normalize_json_value values) (\<lambda>vs. Inr (JArr vs))"
| "normalize_json_value PyNone = Inr JNull"
| "normalize_json_value (PyStr s) = Inr (JStr s)"
| "normalize_json_value (PyInt i) = Inr (JInt i)"
| "normalize_json_value (PyBool b) = Inr (JBool b)"
| "normalize_json_value (PyFloat r) =
     require (r \<notin> {''nan'', ''inf'', ''-inf''}) (PlanErr PlanNormalizationError) (Inr (JFloat r))"
| "normalize_json_value PyOther = Inl (PlanErr PlanNormalizationError)"

definition plan_document :: "json \<Rightarrow> string \<Rightarrow> string \<Rightarrow> json" where
  "plan_document material action policy_version =
     JObj [(''action'', JStr action), (''material'', material), (''policy_version'', JStr policy_version)]"

definition canonical_plan_payload :: "py_value \<Rightarrow> string \<Rightarrow> string \<Rightarrow> string res" where
  "canonical_plan_payload material action policy_version =
     bind_res (normalize_json_value material) (\<lambda>m.
       Inr (json_dumps (plan_document m action policy_version)))"

definition hash_plan_material :: "py_value \<Rightarrow> string \<Rightarrow> string \<Rightarrow> string res" where
  "hash_plan_material material action policy_version =
     bind_res (canonical_plan_payload material action policy_version) (\<lambda>payload.
       Inr (sha256_hex (utf8 payload)))"


section \<open>Checks against a reviewed plan\<close>

fun utcoffset :: "pytime \<Rightarrow> timedelta option" where
  "utcoffset (Naive _) = None"
| "utcoffset (Aware _ off) = Some off"

definition validate_plan_actor_and_action ::
    "deployment_plan \<Rightarrow> user_id \<Rightarrow> string \<Rightarrow> unit res" where
  "validate_plan_actor_and_action plan actor_id action =
     require (pln_actor_id plan = actor_id) (PlanErr PlanActorMismatch)
    (require (pln_action plan = action) (PlanErr PlanActionMismatch) (Inr ()))"

definition validate_plan_material ::
    "deployment_plan \<Rightarrow> py_value \<Rightarrow> string \<Rightarrow> string \<Rightarrow> unit res" where
  "validate_plan_material plan material action policy_version =
     bind_res (hash_plan_material material action policy_version) (\<lambda>expected_hash.
       require (pln_policy_version plan = policy_version \<and> pln_material_hash plan = expected_hash)
         (PlanErr PlanMaterialMismatch) (Inr ()))"

definition validate_plan_request ::
    "deployment_plan \<Rightarrow> user_id \<Rightarrow> py_value \<Rightarrow> string \<Rightarrow> string \<Rightarrow> pytime \<Rightarrow> unit res" where
  "validate_plan_request plan actor_id material action policy_version at =
     bind_res (validate_plan_actor_and_action plan actor_id action) (\<lambda>_.
     require (utcoffset at \<noteq> None \<and> utcoffset at = utcoffset (pln_expires_at plan))
       (PlanErr PlanExpired)
    (require (\<not> time_leq (pln_expires_at plan) at) (PlanErr PlanExpired)
       (validate_plan_material plan material action policy_version)))"

definition validate_consumed_plan_repair ::
    "deployment_plan \<Rightarrow> user_id \<Rightarrow> py_value \<Rightarrow> string \<Rightarrow> string \<Rightarrow> unit res" where
  "validate_consumed_plan_repair plan actor_id material action policy_version =
     require (pln_state plan = PlanConsumed) (PlanErr PlanStateMismatch)
    (bind_res (validate_plan_actor_and_action plan actor_id action) (\<lambda>_.
       validate_plan_material plan material action policy_version))"

definition consume_plan_with_operation ::
    "store \<Rightarrow> plan_id \<Rightarrow> user_id \<Rightarrow> py_value \<Rightarrow> string \<Rightarrow> string \<Rightarrow> operation \<Rightarrow> pytime
       \<Rightarrow> (store, deployment_plan \<times> operation) outcome" where
  "consume_plan_with_operation s plan_id actor_id material action policy_version p consumed_at =
     attempt s (get_deployment_plan s plan_id) (\<lambda>plan.
     attempt s (validate_plan_request plan actor_id material action policy_version consumed_at) (\<lambda>_.
     ensure s (op_actor_id p = actor_id) (PlanErr PlanActorMismatch)
    (ensure s (op_action p = action) (PlanErr PlanActionMismatch)
    (consume_deployment_plan_with_operation s (pln_id plan) actor_id (pln_material_hash plan) action
       policy_version consumed_at p))))"


section \<open>The hash binds the material\<close>

text \<open>The floats of a value are as Python prints them.\<close>

fun py_floats_ok :: "py_value \<Rightarrow> bool" where
  "py_floats_ok (PyMap items) = list_all (\<lambda>(_, v). py_floats_ok v) items"
| "py_floats_ok (PySeq values) = list_all py_floats_ok values"
| "py_floats_ok (PyFloat r) = (r \<in> {''nan'', ''inf'', ''-inf''} \<or> float_repr r)"
| "py_floats_ok _ = True"

lemma dict_of_values: "(k, v) \<in> set (dict_of ps) \<Longrightarrow> v \<in> snd ` set ps"
proof -
  have "(k, v) \<in> set (fold (\<lambda>(k, v). dict_put k v) ps d) \<Longrightarrow> v \<in> snd ` set ps \<union> snd ` set d" for d
  proof (induction ps arbitrary: d)
    case (Cons x ps)
    from Cons.IH [of "dict_put (fst x) (snd x) d"] Cons.prems dict_values_put_subset [of "fst x" "snd x" d]
    show ?case by (cases x) auto
  qed force
  then show "(k, v) \<in> set (dict_of ps) \<Longrightarrow> v \<in> snd ` set ps"
    by (force simp: dict_of_def)
qed

lemma normalize_floats_ok:
  "normalize_json_value v = Inr j \<Longrightarrow> py_floats_ok v \<Longrightarrow> floats_ok j"
proof (induction v arbitrary: j rule: normalize_json_value.induct)
  case (1 items)
  from 1(2) obtain ps where j: "j = JObj (dict_of ps)"
    and ps: "map_res (\<lambda>(key, v). case key of None \<Rightarrow> Inl TypeErr
      | Some k \<Rightarrow> bind_res (normalize_json_value v) (\<lambda>w. Inr (k, w))) items = Inr ps"
    by (auto simp: bind_res_Inr)
  have "floats_ok w" if "w \<in> snd ` set ps" for w
  proof -
    from that map_res_set [OF ps]
    obtain key v where "(key, v) \<in> set items" "key \<noteq> None" "normalize_json_value v = Inr w"
      by (force simp: bind_res_Inr split: option.splits)
    with 1(1) 1(3) show ?thesis by (fastforce simp: list_all_iff)
  qed
  then show ?case by (auto simp: j list_all_iff dest!: dict_of_values)
next
  case (2 xs)
  from 2(2) obtain vs where j: "j = JArr vs" and vs: "map_res normalize_json_value xs = Inr vs"
    by (auto simp: bind_res_Inr)
  have "floats_ok w" if "w \<in> set vs" for w
  proof -
    from map_res_set [OF vs that] obtain v where "v \<in> set xs" "normalize_json_value v = Inr w"
      by blast
    with 2(1,3) show ?thesis by (auto simp: list_all_iff)
  qed
  then show ?case by (simp add: j list_all_iff)
qed (auto simp: res_simps)

lemma plan_document_sorted:
  "sort_json (plan_document m a v) = sort_json (plan_document n b w) \<longleftrightarrow>
     sort_json m = sort_json n \<and> a = b \<and> v = w"
  by (auto simp: plan_document_def)

lemma plan_document_inject:
  assumes "floats_ok m" and "floats_ok n"
  shows "json_dumps (plan_document m a v) = json_dumps (plan_document n b w) \<longleftrightarrow>
    sort_json m = sort_json n \<and> a = b \<and> v = w"
  using json_dumps_inject [of "plan_document m a v" "plan_document n b w"] assms plan_document_sorted
  by (simp add: plan_document_def)

lemma validate_plan_request_Inr:
  "validate_plan_request plan actor_id material action policy_version at = Inr u \<longleftrightarrow>
     pln_actor_id plan = actor_id \<and> pln_action plan = action \<and>
     utcoffset at \<noteq> None \<and> utcoffset at = utcoffset (pln_expires_at plan) \<and>
     time_less at (pln_expires_at plan) \<and> pln_policy_version plan = policy_version \<and>
     hash_plan_material material action policy_version = Inr (pln_material_hash plan)"
  by (auto simp: validate_plan_request_def validate_plan_actor_and_action_def
      validate_plan_material_def res_simps time_less_not_leq)

end
