(* ===== verification/Plan_Guarantees.thy ===== *)
theory Plan_Guarantees
  imports Plans Samples
begin

text \<open>
  What the plan hash binds, and what a caller needs to consume a reviewed plan.
\<close>

section \<open>The hash binds the reviewed material\<close>

text \<open>
  The material of a plan as the hash sees it: normalized, with the keys of every object in order.
\<close>

definition canonical_material :: "py_value \<Rightarrow> json res" where
  "canonical_material material =
     bind_res (normalize_json_value material) (\<lambda>m. Inr (sort_json m))"

definition payloads_collide ::
    "py_value \<times> string \<times> string \<Rightarrow> py_value \<times> string \<times> string \<Rightarrow> bool" where
  "payloads_collide x y \<longleftrightarrow>
     (case (x, y) of ((m, a, v), (n, b, w)) \<Rightarrow>
        (case (canonical_plan_payload m a v, canonical_plan_payload n b w) of
           (Inr p, Inr q) \<Rightarrow> sha256_collides (utf8 p) (utf8 q)
         | _ \<Rightarrow> False))"

lemma hash_plan_material_eq_iff:
  assumes "py_floats_ok m" and "py_floats_ok n"
    and "hash_plan_material m a v = Inr h" and "hash_plan_material n b w = Inr k"
  shows "h = k \<longleftrightarrow>
    canonical_material m = canonical_material n \<and> a = b \<and> v = w \<or>
    payloads_collide (m, a, v) (n, b, w)"
proof -
  obtain x y where x: "normalize_json_value m = Inr x" and y: "normalize_json_value n = Inr y"
    and h: "h = sha256_hex (utf8 (json_dumps (plan_document x a v)))"
    and k: "k = sha256_hex (utf8 (json_dumps (plan_document y b w)))"
    using assms(3,4) by (auto simp: hash_plan_material_def canonical_plan_payload_def res_simps)
  have "floats_ok x" and "floats_ok y"
    using normalize_floats_ok x y assms(1,2) by auto
  note inject = plan_document_inject [OF this, of a v b w]
  show ?thesis
    unfolding h k payloads_collide_def canonical_material_def canonical_plan_payload_def
      sha256_collides_def
    using inject by (auto simp: x y utf8_inject)
qed


definition sample_material :: py_value where
  "sample_material = PyMap [(Some ''image'', PyStr ''a''), (Some ''ports'', PySeq [PyInt 80, PyNone])]"

definition sample_material_reordered :: py_value where
  "sample_material_reordered =
     PyMap [(Some ''ports'', PySeq [PyInt 80, PyNone]), (Some ''image'', PyStr ''a'')]"

lemma sample_materials:
  "py_floats_ok sample_material" "py_floats_ok sample_material_reordered"
  "canonical_material sample_material = canonical_material sample_material_reordered"
  "normalize_json_value sample_material =
     Inr (JObj [(''image'', JStr ''a''), (''ports'', JArr [JInt 80, JNull])])"
  "normalize_json_value sample_material_reordered =
     Inr (JObj [(''ports'', JArr [JInt 80, JNull]), (''image'', JStr ''a'')])"
  by code_simp+



section \<open>Consuming a reviewed plan\<close>

text \<open>
  C17: A caller consumes a plan exactly when the store's own consumption succeeds and the caller is
  the plan's actor, asks for its action under its policy version before it expires, and presents
  material with the reviewed hash; the result and the store are those of the store's transaction.
\<close>

theorem consumption_needs_the_reviewed_request:
  assumes "reachable s"
  shows "consume_plan_with_operation s pid actor m act v p at = (Inr r, s') \<longleftrightarrow>
    (\<exists>plan. get_deployment_plan s pid = Inr plan \<and>
       pln_actor_id plan = actor \<and> pln_action plan = act \<and> pln_policy_version plan = v \<and>
       is_utc at \<and> time_less at (pln_expires_at plan) \<and>
       hash_plan_material m act v = Inr (pln_material_hash plan) \<and>
       consume_deployment_plan_with_operation s pid actor (pln_material_hash plan) act v at p =
         (Inr r, s'))"
proof -
  have plan: "pln_id plan = pid \<and> utcoffset (pln_expires_at plan) = Some 0"
    if "get_deployment_plan s pid = Inr plan" for plan
  proof -
    have "dict_get (st_plans s) pid = Some plan"
      using that by (simp add: get_deployment_plan_def coll_get_Inr)
    then have "pln_id plan = pid" and "plan_ok plan"
      using reachable_keyed [OF assms] reachable_valid [OF assms]
      by (auto simp: store_keyed_def store_valid_def dest: keyed_by_get dict_all_get)
    then show ?thesis by (cases "pln_expires_at plan") (auto simp: plan_ok_def)
  qed
  have utc: "utcoffset at = Some 0 \<longleftrightarrow> is_utc at" by (cases at) auto
  have agrees: "op_actor_id p = actor \<and> op_action p = act"
    if "consume_deployment_plan_with_operation s i actor h act v at p = (Inr r, s')" for i h
    using that
    by (auto simp: consume_deployment_plan_with_operation_def ensure_Inr split: option.splits)
  show ?thesis
    unfolding consume_plan_with_operation_def attempt_Inr ensure_Inr validate_plan_request_Inr
    using plan agrees utc by auto
qed

definition reviewed_plan :: deployment_plan where
  "reviewed_plan =
     sample_plan\<lparr>pln_material_hash := projr (hash_plan_material sample_material ''deploy'' ''v1'')\<rparr>"

definition reviewed_store :: store where
  "reviewed_store = snd (run empty_store (CreatePlan reviewed_plan))"

lemma reviewed_plan_hash:
  "hash_plan_material sample_material ''deploy'' ''v1'' = Inr (pln_material_hash reviewed_plan)"
  by (simp add: reviewed_plan_def hash_plan_material_def canonical_plan_payload_def sample_materials)

lemma reviewed_plan_ok: "plan_ok reviewed_plan"
proof -
  have "plan_ok sample_plan" by simp
  moreover have "text_ok (pln_material_hash reviewed_plan)"
    using reviewed_plan_hash
    by (clarsimp simp: hash_plan_material_def bind_res_Inr text_ok_def) (metis sha256_hex_nonblank)
  ultimately show ?thesis by (simp add: plan_ok_def reviewed_plan_def)
qed

lemma reviewed_store_plan: "reachable reviewed_store" "get_deployment_plan reviewed_store ''p1'' = Inr reviewed_plan"
proof -
  show "reachable reviewed_store"
    unfolding reviewed_store_def by (rule reachable_run) (simp_all add: reviewed_plan_ok)
  have "pln_id reviewed_plan = ''p1''" "pln_version reviewed_plan = 1"
    by (simp_all add: reviewed_plan_def sample_plan_def)
  then show "get_deployment_plan reviewed_store ''p1'' = Inr reviewed_plan"
    by (simp add: reviewed_store_def create_deployment_plan_def coll_create_def empty_store_def
        get_deployment_plan_def coll_get_def)
qed

lemma reordered_material_hash:
  "hash_plan_material sample_material_reordered ''deploy'' ''v1'' = Inr (pln_material_hash reviewed_plan)"
proof -
  obtain k where k: "hash_plan_material sample_material_reordered ''deploy'' ''v1'' = Inr k"
    by (auto simp: hash_plan_material_def canonical_plan_payload_def sample_materials)
  with hash_plan_material_eq_iff [OF sample_materials(1,2) reviewed_plan_hash k] sample_materials(3)
  show ?thesis by simp
qed

theorem consumption_needs_the_reviewed_request_witness:
  "\<exists>r s'. consume_plan_with_operation reviewed_store ''p1'' ''u1'' sample_material_reordered ''deploy''
     ''v1'' sample_operation t1 = (Inr r, s')"
proof -
  have fields: "pln_actor_id reviewed_plan = ''u1''" "pln_action reviewed_plan = ''deploy''"
    "pln_policy_version reviewed_plan = ''v1''" "pln_state reviewed_plan = PlanIssued"
    "pln_expires_at reviewed_plan = t9" "pln_updated_at reviewed_plan = t0"
    "pln_workload_id reviewed_plan = Some ''w1''"
    by (simp_all add: reviewed_plan_def sample_plan_def)
  obtain used where used: "plan_transition_state reviewed_plan PlanConsumed t1 = Inr used"
    by (simp add: plan_transition_state_Inr [OF reviewed_plan_ok] fields transition_time_ok_def
        t0_def t1_def time_leq_def)
  have "dict_get (st_plans reviewed_store) ''p1'' = Some reviewed_plan"
    "st_op_claims reviewed_store = []" "st_operations reviewed_store = []"
    using reviewed_store_plan(2)
    by (simp_all add: get_deployment_plan_def coll_get_Inr reviewed_store_def create_deployment_plan_def
        coll_create_def empty_store_def reviewed_plan_def sample_plan_def)
  with used obtain s' where run: "consume_deployment_plan_with_operation reviewed_store ''p1'' ''u1''
      (pln_material_hash reviewed_plan) ''deploy'' ''v1'' t1 sample_operation = (Inr (used, sample_operation), s')"
    by (simp add: consume_deployment_plan_with_operation_def fields sample_operation_def t1_def t9_def
        time_leq_def)
  have "is_utc t1" "time_less t1 t9" by code_simp+
  then have "consume_plan_with_operation reviewed_store ''p1'' ''u1'' sample_material_reordered
      ''deploy'' ''v1'' sample_operation t1 = (Inr (used, sample_operation), s')"
    by (intro iffD2 [OF consumption_needs_the_reviewed_request [OF reviewed_store_plan(1)]]
        exI [of _ reviewed_plan])
      (simp add: run fields reordered_material_hash reviewed_store_plan(2))
  then show ?thesis by blast
qed

end
