(* ===== verification/Usage.thy ===== *)
theory Usage
  imports Models_Ledger Store_Base PyJson PyCalendar
begin

text \<open>
  \<^verbatim>\<open>services/usage.py\<close>: cost attribution from the usage ledger, the acceptance of activity
  events, rolling activity metrics, daily rollups, and the retention plan for detailed events.
\<close>

section \<open>The usage ledger\<close>

record usage_ledger =
  led_entries :: "usage_entry list"
  led_direct_entries :: "usage_entry list"
  led_shared_entries :: "usage_entry list"
  led_latest_collected_at :: "pytime option"

definition usage_ledger_ok :: "usage_ledger \<Rightarrow> bool" where
  "usage_ledger_ok l = utc_ok (led_latest_collected_at l)"

fun check_usage_ids :: "string set \<Rightarrow> usage_entry list \<Rightarrow> unit res" where
  "check_usage_ids seen_ids [] = Inr ()"
| "check_usage_ids seen_ids (e # es) =
     require (use_id e \<notin> seen_ids) UsageLedgerError
       (check_usage_ids (insert (use_id e) seen_ids) es)"

definition build_usage_ledger :: "usage_entry list \<Rightarrow> usage_ledger res" where
  "build_usage_ledger entries =
     (let ordered = sort_key (\<lambda>e. time_id_key (use_collected_at e) (use_id e)) entries;
          ledger =
            \<lparr>led_entries = ordered,
             led_direct_entries = filter (\<lambda>e. use_owner_id e \<noteq> None) ordered,
             led_shared_entries = filter (\<lambda>e. use_owner_id e = None) ordered,
             led_latest_collected_at =
               (if ordered = [] then None else Some (use_collected_at (last ordered)))\<rparr>
      in bind_res (check_usage_ids {} ordered) (\<lambda>_.
           require (usage_ledger_ok ledger) ActivityMetricsError (Inr ledger)))"

definition usage_entries_for_utc_month :: "usage_entry list \<Rightarrow> pytime \<Rightarrow> usage_entry list res" where
  "usage_entries_for_utc_month entries now =
     require (is_utc now) ActivityMetricsError
       (Inr (filter (\<lambda>e. year_month_of (use_collected_at e) = year_month_of now) entries))"


section \<open>Cost totals\<close>

record cost_snapshot =
  cst_user_direct_estimated_krw :: int
  cst_user_direct_finalized_krw :: int
  cst_user_policy_krw :: int
  cst_org_direct_estimated_krw :: int
  cst_org_direct_finalized_krw :: int
  cst_org_direct_policy_krw :: int
  cst_shared_estimated_krw :: int
  cst_shared_finalized_krw :: int
  cst_shared_policy_krw :: int
  cst_user_percent :: int

definition cost_snapshot_ok :: "cost_snapshot \<Rightarrow> bool" where
  "cost_snapshot_ok c =
     list_all non_negative_ok
       [cst_user_direct_estimated_krw c, cst_user_direct_finalized_krw c, cst_user_policy_krw c,
        cst_org_direct_estimated_krw c, cst_org_direct_finalized_krw c, cst_org_direct_policy_krw c,
        cst_shared_estimated_krw c, cst_shared_finalized_krw c, cst_shared_policy_krw c,
        cst_user_percent c]"

definition target_monthly_budget_krw :: int where
  "target_monthly_budget_krw = 1000"

definition admin_budget_ceiling_krw :: int where
  "admin_budget_ceiling_krw = 10000"

text \<open>\<^verbatim>\<open>entry.finalized_cost_krw or 0\<close>\<close>

definition finalized_or_zero :: "usage_entry \<Rightarrow> int" where
  "finalized_or_zero e = (case use_finalized_cost_krw e of None \<Rightarrow> 0 | Some c \<Rightarrow> c)"

definition policy_cost :: "usage_entry list \<Rightarrow> int" where
  "policy_cost entries =
     sum_list (map (\<lambda>e. max (use_estimated_cost_krw e) (finalized_or_zero e)) entries)"

definition build_cost_snapshot :: "usage_ledger \<Rightarrow> user_id \<Rightarrow> cost_snapshot res" where
  "build_cost_snapshot ledger user_id =
     (let user_entries = filter (\<lambda>e. use_owner_id e = Some user_id) (led_direct_entries ledger);
          estimated = (\<lambda>es. sum_list (map use_estimated_cost_krw es));
          finalized = (\<lambda>es. sum_list (map finalized_or_zero es));
          user_policy = policy_cost user_entries;
          snapshot =
            \<lparr>cst_user_direct_estimated_krw = estimated user_entries,
             cst_user_direct_finalized_krw = finalized user_entries,
             cst_user_policy_krw = user_policy,
             cst_org_direct_estimated_krw = estimated (led_direct_entries ledger),
             cst_org_direct_finalized_krw = finalized (led_direct_entries ledger),
             cst_org_direct_policy_krw = policy_cost (led_direct_entries ledger),
             cst_shared_estimated_krw = estimated (led_shared_entries ledger),
             cst_shared_finalized_krw = finalized (led_shared_entries ledger),
             cst_shared_policy_krw = policy_cost (led_shared_entries ledger),
             cst_user_percent = (user_policy * 100) div target_monthly_budget_krw\<rparr>
      in require (cost_snapshot_ok snapshot) ValueErr (Inr snapshot))"

end
