(* ===== verification/Activity.thy ===== *)
theory Activity
  imports Usage Store_Work
begin

text \<open>
  The activity half of \<^verbatim>\<open>services/usage.py\<close>: which payloads become events, rolling metrics, daily
  rollups, and the plan of what to expire. Every rejection raises the same class,
  \<^verbatim>\<open>ActivityMetricsError\<close>. Events are records of \<^verbatim>\<open>ActivityEvent\<close>, so their times are in UTC.
\<close>

section \<open>Accepting an event\<close>

definition activity_actions :: "string list" where
  "activity_actions =
     [''view_dashboard'', ''plan_deploy'', ''plan_schedule'', ''get_operation'', ''list_workloads'',
      ''get_usage'', ''explain_failure'', ''deploy_execution'', ''schedule_run'', ''repair_execution'']"

definition target_ref_char :: "char \<Rightarrow> bool" where
  "target_ref_char c \<longleftrightarrow> is_ascii_alnum c \<or> c \<in> {CHR ''-'', CHR ''.'', CHR ''_'', CHR ''/''}"

definition correlation_id_char :: "char \<Rightarrow> bool" where
  "correlation_id_char c \<longleftrightarrow> is_ascii_alnum c \<or> c \<in> {CHR ''-'', CHR ''_''}"

text \<open>
  These three tests are only reached for text of the two alphabets above, where \<^verbatim>\<open>isdigit\<close> and
  \<^verbatim>\<open>isalpha\<close> are the ASCII classes.
\<close>

definition digits :: "string \<Rightarrow> bool" where
  "digits s \<longleftrightarrow> s \<noteq> [] \<and> list_all is_digit s"

definition looks_like_ipv4 :: "string \<Rightarrow> bool" where
  "looks_like_ipv4 s \<longleftrightarrow>
     length (split_on (CHR ''.'') s) = 4 \<and>
     list_all (\<lambda>part. digits part \<and> read_digits part \<le> 255) (split_on (CHR ''.'') s)"

definition looks_like_ipv6 :: "string \<Rightarrow> bool" where
  "looks_like_ipv6 s \<longleftrightarrow>
     CHR '':'' \<in> set s \<and>
     list_all (list_all (\<lambda>c. is_digit c \<or> CHR ''a'' \<le> c \<and> c \<le> CHR ''f'' \<or> CHR ''A'' \<le> c \<and> c \<le> CHR ''F''))
       (split_on (CHR '':'') s)"

definition looks_like_host_port :: "string \<Rightarrow> bool" where
  "looks_like_host_port s \<longleftrightarrow>
     (case split_on (CHR '':'') s of
        [host, port] \<Rightarrow>
          host \<noteq> [] \<and> digits port \<and>
          (CHR ''.'' \<in> set host \<or> list_all is_ascii_alpha host \<or> CHR ''-'' \<in> set host)
      | _ \<Rightarrow> False)"

definition looks_like_address :: "string \<Rightarrow> bool" where
  "looks_like_address s \<longleftrightarrow> looks_like_ipv4 s \<or> looks_like_ipv6 s \<or> looks_like_host_port s"

definition target_ref_markers :: "string list" where
  "target_ref_markers =
     [''authorization'', ''bearer'', ''cookie'', ''session='', ''openai_api_key'', ''api_key'',
      ''apikey'', ''access_token'', ''refresh_token'', ''ghp_'', ''sk-'', ''curl/'', ''mozilla/'',
      ''python-requests/'', ''wget/'']"

definition target_ref_ok :: "string \<Rightarrow> nat \<Rightarrow> string \<Rightarrow> bool" where
  "target_ref_ok field_name max_length v \<longleftrightarrow>
     strip v \<noteq> [] \<and> strip v = v \<and> length v \<le> max_length \<and> list_all target_ref_char v \<and>
     \<not> list_ex (\<lambda>marker. contains marker (lower v)) target_ref_markers \<and>
     \<not> (field_name = ''target_ref'' \<and> starts_with (lower v) ''env'') \<and>
     \<not> looks_like_address v"

definition correlation_id_markers :: "string list" where
  "correlation_id_markers =
     [''curl'', ''mozilla'', ''python-requests'', ''wget'', ''bearer'', ''ghp_'', ''sk-'', ''api_key'',
      ''apikey'', ''authorization'', ''cookie'', ''session'']"

definition correlation_id_ok :: "string \<Rightarrow> bool" where
  "correlation_id_ok v \<longleftrightarrow>
     strip v \<noteq> [] \<and> strip v = v \<and> starts_with v ''corr-'' \<and> drop 5 v \<noteq> [] \<and> length v \<le> 64 \<and>
     list_all correlation_id_char (drop 5 v) \<and>
     \<not> list_ex (\<lambda>marker. contains marker (lower v)) correlation_id_markers \<and>
     \<not> looks_like_address v"

text \<open>\<^verbatim>\<open>payload.get(key)\<close>\<close>

definition payload_get :: "(string option \<times> py_value) list \<Rightarrow> string \<Rightarrow> py_value" where
  "payload_get items key = (case map_of items (Some key) of None \<Rightarrow> PyNone | Some v \<Rightarrow> v)"

definition parse_surface :: "py_value \<Rightarrow> activity_surface res" where
  "parse_surface v =
     (case v of
        PyStr s \<Rightarrow>
          (case parse_activity_surface s of
             None \<Rightarrow> Inl ActivityMetricsError | Some x \<Rightarrow> Inr x)
      | _ \<Rightarrow> Inl ActivityMetricsError)"

definition parse_action :: "py_value \<Rightarrow> string res" where
  "parse_action v =
     (case v of
        PyStr s \<Rightarrow> require (s \<in> set activity_actions) ActivityMetricsError (Inr s)
      | _ \<Rightarrow> Inl ActivityMetricsError)"

definition parse_outcome :: "py_value \<Rightarrow> activity_outcome res" where
  "parse_outcome v =
     (case v of
        PyStr s \<Rightarrow>
          (case parse_activity_outcome s of
             None \<Rightarrow> Inl ActivityMetricsError | Some x \<Rightarrow> Inr x)
      | _ \<Rightarrow> Inl ActivityMetricsError)"

definition parse_optional_safe_ref :: "py_value \<Rightarrow> string \<Rightarrow> string option res" where
  "parse_optional_safe_ref v field_name =
     (case v of
        PyNone \<Rightarrow> Inr None
      | PyStr s \<Rightarrow> require (target_ref_ok field_name 128 s) ActivityMetricsError (Inr (Some s))
      | _ \<Rightarrow> Inl ActivityMetricsError)"

definition latency_bucket :: "py_value \<Rightarrow> string res" where
  "latency_bucket v =
     (case v of
        PyInt n \<Rightarrow>
          require (0 \<le> n) ActivityMetricsError
            (Inr (if n < 250 then ''lt_250ms'' else if n < 1000 then ''lt_1000ms''
                  else if n < 5000 then ''lt_5000ms'' else ''gte_5000ms''))
      | _ \<Rightarrow> Inl ActivityMetricsError)"

definition allowed_payload_keys :: "string list" where
  "allowed_payload_keys = [''surface'', ''action'', ''target_ref'', ''outcome'', ''latency_ms'']"

definition ingest_activity_event ::
    "string \<Rightarrow> user_id \<Rightarrow> string \<Rightarrow> pytime \<Rightarrow> pytime \<Rightarrow> py_value \<Rightarrow> activity_event res" where
  "ingest_activity_event event_id trusted_user_id trusted_correlation_id trusted_occurred_at
     observed_at payload =
     require (target_ref_ok ''event_id'' 64 event_id) ActivityMetricsError
    (require (target_ref_ok ''trusted_user_id'' 64 trusted_user_id) ActivityMetricsError
    (require (correlation_id_ok trusted_correlation_id) ActivityMetricsError
    (require (is_utc trusted_occurred_at) ActivityMetricsError
    (require (is_utc observed_at) ActivityMetricsError
    (require (\<not> time_less observed_at trusted_occurred_at) ActivityMetricsError
    (case payload of
       PyMap items \<Rightarrow>
         require (list_all (\<lambda>(key, _). key \<in> Some ` set allowed_payload_keys) items)
           ActivityMetricsError
        (bind_res (parse_surface (payload_get items ''surface'')) (\<lambda>surface.
         bind_res (parse_action (payload_get items ''action'')) (\<lambda>action.
         bind_res (parse_optional_safe_ref (payload_get items ''target_ref'') ''target_ref'') (\<lambda>target_ref.
         bind_res (parse_outcome (payload_get items ''outcome'')) (\<lambda>outcome.
         bind_res (latency_bucket (payload_get items ''latency_ms'')) (\<lambda>bucket.
           activity_event_post_init
             \<lparr>act_id = event_id, act_user_id = trusted_user_id, act_surface = surface,
              act_action = action, act_target_ref = target_ref, act_outcome = outcome,
              act_latency_bucket = bucket, act_correlation_id = trusted_correlation_id,
              act_occurred_at = trusted_occurred_at\<rparr>))))))
     | _ \<Rightarrow> Inl ActivityMetricsError))))))"


section \<open>Rolling metrics\<close>

fun check_activity_events :: "string set \<Rightarrow> activity_event list \<Rightarrow> pytime \<Rightarrow> unit res" where
  "check_activity_events seen_ids [] now = Inr ()"
| "check_activity_events seen_ids (e # es) now =
     require (act_id e \<notin> seen_ids) ActivityMetricsError
    (require (is_utc (act_occurred_at e)) ActivityMetricsError
    (require (\<not> time_less now (act_occurred_at e)) ActivityMetricsError
    (check_activity_events (insert (act_id e) seen_ids) es now)))"

definition validated_activity_events :: "activity_event list \<Rightarrow> pytime \<Rightarrow> activity_event list res" where
  "validated_activity_events events now =
     bind_res (check_activity_events {} events now) (\<lambda>_.
       Inr (sort_key (\<lambda>e. time_id_key (act_occurred_at e) (act_id e)) events))"

definition filter_events :: "activity_event list \<Rightarrow> user_id option \<Rightarrow> activity_event list" where
  "filter_events events user_id =
     (case user_id of None \<Rightarrow> events | Some u \<Rightarrow> filter (\<lambda>e. act_user_id e = u) events)"

definition events_in_window ::
    "activity_event list \<Rightarrow> pytime \<Rightarrow> pytime \<Rightarrow> activity_event list" where
  "events_in_window events start now =
     filter (\<lambda>e. time_leq start (act_occurred_at e) \<and> time_leq (act_occurred_at e) now) events"

definition dashboard_view :: "activity_event \<Rightarrow> bool" where
  "dashboard_view e \<longleftrightarrow> act_surface e = SurfDashboard \<and> act_action e = ''view_dashboard''"

definition count_events :: "(activity_event \<Rightarrow> bool) \<Rightarrow> activity_event list \<Rightarrow> int" where
  "count_events P events = int (length (filter P events))"

definition count_users :: "activity_event list \<Rightarrow> int" where
  "count_users events = int (length (remdups (map act_user_id events)))"

definition dashboard_visitors :: "activity_event list \<Rightarrow> int" where
  "dashboard_visitors events = count_users (filter dashboard_view events)"

definition dashboard_visits :: "activity_event list \<Rightarrow> int" where
  "dashboard_visits events = count_events dashboard_view events"

record activity_metrics_summary =
  met_active_users_24h :: int
  met_active_users_7d :: int
  met_active_users_30d :: int
  met_dashboard_unique_visitors_24h :: int
  met_dashboard_unique_visitors_7d :: int
  met_dashboard_unique_visitors_30d :: int
  met_dashboard_visits_24h :: int
  met_dashboard_visits_7d :: int
  met_dashboard_visits_30d :: int
  met_mcp_actions_30d :: int
  met_deployments_30d :: int
  met_schedule_runs_30d :: int
  met_successes_30d :: int
  met_failures_30d :: int
  met_denials_30d :: int

text \<open>All fields are counts, so the summary's own non-negativity check always passes.\<close>

definition compute_activity_metrics ::
    "activity_event list \<Rightarrow> pytime \<Rightarrow> user_id option \<Rightarrow> activity_metrics_summary res" where
  "compute_activity_metrics events now user_id =
     require (is_utc now) ActivityMetricsError
    (bind_res (validated_activity_events (filter_events events user_id) now) (\<lambda>validated.
     bind_res (add_delta now (- hours 24)) (\<lambda>start_24h.
     bind_res (add_delta now (- days 7)) (\<lambda>start_7d.
     bind_res (add_delta now (- days 30)) (\<lambda>start_30d.
       let w24 = events_in_window validated start_24h now;
           w7 = events_in_window validated start_7d now;
           w30 = events_in_window validated start_30d now
       in Inr
         \<lparr>met_active_users_24h = count_users w24, met_active_users_7d = count_users w7,
          met_active_users_30d = count_users w30,
          met_dashboard_unique_visitors_24h = dashboard_visitors w24,
          met_dashboard_unique_visitors_7d = dashboard_visitors w7,
          met_dashboard_unique_visitors_30d = dashboard_visitors w30,
          met_dashboard_visits_24h = dashboard_visits w24,
          met_dashboard_visits_7d = dashboard_visits w7,
          met_dashboard_visits_30d = dashboard_visits w30,
          met_mcp_actions_30d = count_events (\<lambda>e. act_surface e = SurfMcp) w30,
          met_deployments_30d = count_events (\<lambda>e. act_action e = ''deploy_execution'') w30,
          met_schedule_runs_30d = count_events (\<lambda>e. act_action e = ''schedule_run'') w30,
          met_successes_30d = count_events (\<lambda>e. act_outcome e = ActSucceeded) w30,
          met_failures_30d = count_events (\<lambda>e. act_outcome e = ActFailed) w30,
          met_denials_30d = count_events (\<lambda>e. act_outcome e = ActDenied) w30\<rparr>)))))"


section \<open>Daily rollups\<close>

text \<open>A day is its ordinal, with 1970-01-01 at 719163; this is its first instant.\<close>

definition day_start_of :: "int \<Rightarrow> pytime" where
  "day_start_of day = utc ((day - 719163) * days 1)"

definition daily_usage_aggregate_of ::
    "int \<Rightarrow> user_id option \<Rightarrow> activity_event list \<Rightarrow> pytime \<Rightarrow> daily_usage_aggregate res" where
  "daily_usage_aggregate_of day user_id events updated_at =
     aggregate_post_init
       \<lparr>agg_day = day, agg_user_id = user_id, agg_active_users = count_users events,
        agg_dashboard_visits = dashboard_visits events,
        agg_mcp_actions = count_events (\<lambda>e. act_surface e = SurfMcp) events,
        agg_deployments = count_events (\<lambda>e. act_action e = ''deploy_execution'') events,
        agg_schedule_executions = count_events (\<lambda>e. act_action e = ''schedule_run'') events,
        agg_successes = count_events (\<lambda>e. act_outcome e = ActSucceeded) events,
        agg_failures = count_events (\<lambda>e. act_outcome e = ActFailed) events,
        agg_policy_denials = count_events (\<lambda>e. act_outcome e = ActDenied) events,
        agg_version = 1, agg_updated_at = updated_at\<rparr>"

text \<open>\<^verbatim>\<open>max((event.occurred_at for event in events), default=default)\<close>\<close>

definition latest_occurred_at :: "pytime \<Rightarrow> activity_event list \<Rightarrow> pytime" where
  "latest_occurred_at default_time events =
     (case map act_occurred_at events of
        [] \<Rightarrow> default_time | t # ts \<Rightarrow> max_by instant t ts)"

record daily_activity_rollup =
  rol_organization :: daily_usage_aggregate
  rol_by_user :: "(user_id, daily_usage_aggregate) dict"

definition user_events :: "user_id \<Rightarrow> activity_event list \<Rightarrow> activity_event list" where
  "user_events user_id events = filter (\<lambda>e. act_user_id e = user_id) events"

definition aggregate_daily_activity ::
    "activity_event list \<Rightarrow> int \<Rightarrow> pytime \<Rightarrow> daily_activity_rollup res" where
  "aggregate_daily_activity events day now_utc =
     require (is_utc now_utc) ActivityMetricsError
    (bind_res (validated_activity_events events now_utc) (\<lambda>validated.
     let day_start = day_start_of day in
     bind_res (add_delta day_start (days 1)) (\<lambda>day_end.
     let day_events =
           filter (\<lambda>e. time_leq day_start (act_occurred_at e) \<and> time_less (act_occurred_at e) day_end)
             validated;
         user_ids = sort (remdups (map act_user_id day_events))
     in
     bind_res
       (daily_usage_aggregate_of day None day_events (latest_occurred_at day_start day_events))
       (\<lambda>organization.
     bind_res
       (map_res (\<lambda>u.
          bind_res
            (daily_usage_aggregate_of day (Some u) (user_events u day_events)
               (latest_occurred_at day_start (user_events u day_events)))
            (\<lambda>a. Inr (u, a))) user_ids)
       (\<lambda>by_user. Inr \<lparr>rol_organization = organization, rol_by_user = by_user\<rparr>)))))"


section \<open>Retention\<close>

text \<open>The events of the retention planner are activity events or, by mistake, audit events.\<close>

datatype retained_event = DetailEvent activity_event | AuditLogEvent audit_event

record activity_retention_plan =
  ret_cutoff :: pytime
  ret_expired_event_ids :: "string list"
  ret_keep_event_ids :: "string list"

fun retention_scan ::
    "pytime \<Rightarrow> pytime \<Rightarrow> string set \<Rightarrow> string list \<Rightarrow> string list \<Rightarrow> retained_event list
       \<Rightarrow> (string list \<times> string list) res" where
  "retention_scan cutoff now seen expired keep [] = Inr (expired, keep)"
| "retention_scan cutoff now seen expired keep (AuditLogEvent _ # rest) = Inl ActivityMetricsError"
| "retention_scan cutoff now seen expired keep (DetailEvent e # rest) =
     require (act_id e \<notin> seen) ActivityMetricsError
    (require (is_utc (act_occurred_at e)) ActivityMetricsError
    (require (\<not> time_less now (act_occurred_at e)) ActivityMetricsError
    (if time_less (act_occurred_at e) cutoff
     then retention_scan cutoff now (insert (act_id e) seen) (expired @ [act_id e]) keep rest
     else retention_scan cutoff now (insert (act_id e) seen) expired (keep @ [act_id e]) rest)))"

definition plan_activity_retention :: "retained_event list \<Rightarrow> pytime \<Rightarrow> activity_retention_plan res" where
  "plan_activity_retention events now =
     require (is_utc now) ActivityMetricsError
    (bind_res (add_delta now (- days 30)) (\<lambda>cutoff.
     bind_res (retention_scan cutoff now {} [] [] events) (\<lambda>(expired, keep).
       Inr \<lparr>ret_cutoff = cutoff, ret_expired_event_ids = sort expired,
            ret_keep_event_ids = sort keep\<rparr>)))"

end
