(* ===== verification/Quota.thy ===== *)
theory Quota
  imports Usage Store_Ledger
begin

text \<open>
  \<^verbatim>\<open>services/quota.py\<close>, the fixed resource limits and the cost decision, and
  \<^verbatim>\<open>services/org_cost_guard.py\<close>, the guard record that the request path consults.
\<close>

section \<open>Resource limits\<close>

definition per_user_service_limit :: int where
  "per_user_service_limit = 2"

definition per_user_schedule_limit :: int where
  "per_user_schedule_limit = 3"

definition default_secret_limit :: int where
  "default_secret_limit = 5"

definition hard_secret_limit :: int where
  "hard_secret_limit = 10"

record resource_inventory =
  inv_active_services :: int
  inv_active_schedules :: int
  inv_active_secrets :: int
  inv_approved_secret_limit :: "int option"

definition inventory_ok :: "resource_inventory \<Rightarrow> bool" where
  "inventory_ok i \<longleftrightarrow>
     non_negative_ok (inv_active_services i) \<and> non_negative_ok (inv_active_schedules i) \<and>
     non_negative_ok (inv_active_secrets i) \<and>
     (case inv_approved_secret_limit i of None \<Rightarrow> True | Some n \<Rightarrow> non_negative_ok n)"

definition inventory_post_init :: "resource_inventory \<Rightarrow> resource_inventory res" where
  "inventory_post_init i = require (inventory_ok i) QuotaPolicyError (Inr i)"

record resource_policy_decision =
  rpd_service_limit_reached :: bool
  rpd_schedule_limit_reached :: bool
  rpd_secret_limit_reached :: bool
  rpd_secret_limit :: int
  rpd_reason_codes :: "string list"

definition resolved_secret_limit :: "int option \<Rightarrow> int res" where
  "resolved_secret_limit approved =
     (case approved of
        None \<Rightarrow> Inr default_secret_limit
      | Some n \<Rightarrow> require (\<not> (n < 1 \<or> n > hard_secret_limit)) QuotaPolicyError (Inr n))"

text \<open>The reason codes of the rules that fired, in the order of the rules.\<close>

definition fired :: "(bool \<times> string) list \<Rightarrow> string list" where
  "fired rules = map snd (filter fst rules)"

definition evaluate_resource_policy :: "resource_inventory \<Rightarrow> resource_policy_decision res" where
  "evaluate_resource_policy i =
     bind_res (resolved_secret_limit (inv_approved_secret_limit i)) (\<lambda>secret_limit.
       let service = inv_active_services i \<ge> per_user_service_limit;
           schedule = inv_active_schedules i \<ge> per_user_schedule_limit;
           secret = inv_active_secrets i \<ge> secret_limit
       in require (non_negative_ok secret_limit) QuotaPolicyError
         (Inr \<lparr>rpd_service_limit_reached = service, rpd_schedule_limit_reached = schedule,
              rpd_secret_limit_reached = secret, rpd_secret_limit = secret_limit,
              rpd_reason_codes =
                fired [(service, ''service_limit_reached''), (schedule, ''schedule_limit_reached''),
                       (secret, ''secret_limit_reached'')]\<rparr>))"


section \<open>The cost decision\<close>

record cost_policy_decision =
  cpd_user_percent :: int
  cpd_warn :: bool
  cpd_block_new :: bool
  cpd_pause :: bool
  cpd_emergency_stop :: bool
  cpd_projected_user_cost_krw :: int
  cpd_org_policy_cost_krw :: int
  cpd_reason_codes :: "string list"

definition cost_decision_ok :: "cost_policy_decision \<Rightarrow> bool" where
  "cost_decision_ok d \<longleftrightarrow>
     non_negative_ok (cpd_user_percent d) \<and> non_negative_ok (cpd_projected_user_cost_krw d) \<and>
     non_negative_ok (cpd_org_policy_cost_krw d)"

definition evaluate_cost_policy ::
    "cost_snapshot \<Rightarrow> int \<Rightarrow> int \<Rightarrow> int \<Rightarrow> cost_policy_decision res" where
  "evaluate_cost_policy snapshot lag_reservation_krw proposed_cost_krw org_projected_additional_krw =
     require (non_negative_ok lag_reservation_krw) QuotaPolicyError
    (require (non_negative_ok proposed_cost_krw) QuotaPolicyError
    (require (non_negative_ok org_projected_additional_krw) QuotaPolicyError
    (let user_percent = (cst_user_policy_krw snapshot * 100) div target_monthly_budget_krw;
         projected = cst_user_policy_krw snapshot + lag_reservation_krw + proposed_cost_krw;
         org_cost = cst_org_direct_policy_krw snapshot + cst_shared_policy_krw snapshot
           + lag_reservation_krw + proposed_cost_krw + org_projected_additional_krw;
         warn = user_percent \<ge> 70;
         block_new = user_percent \<ge> 90;
         pause = projected \<ge> target_monthly_budget_krw;
         emergency_stop = org_cost \<ge> admin_budget_ceiling_krw;
         decision =
           \<lparr>cpd_user_percent = user_percent, cpd_warn = warn, cpd_block_new = block_new,
            cpd_pause = pause, cpd_emergency_stop = emergency_stop,
            cpd_projected_user_cost_krw = projected, cpd_org_policy_cost_krw = org_cost,
            cpd_reason_codes =
              fired [(warn, ''user_warn_threshold_reached''),
                     (block_new, ''user_block_new_threshold_reached''),
                     (pause, ''user_projected_limit_reached''),
                     (emergency_stop, ''org_emergency_ceiling_reached'')]\<rparr>
     in require (cost_decision_ok decision) QuotaPolicyError (Inr decision))))"


section \<open>The organization cost guard\<close>

definition org_cost_guard_max_age :: timedelta where
  "org_cost_guard_max_age = hours 2"

definition same_guard_material :: "org_cost_guard \<Rightarrow> org_cost_guard \<Rightarrow> bool" where
  "same_guard_material current candidate \<longleftrightarrow>
     grd_evaluated_at current = grd_evaluated_at candidate \<and>
     grd_latest_usage_collected_at current = grd_latest_usage_collected_at candidate \<and>
     grd_emergency_stop current = grd_emergency_stop candidate \<and>
     grd_org_policy_cost_krw current = grd_org_policy_cost_krw candidate"

text \<open>
  What \<^verbatim>\<open>persist_org_cost_guard\<close> does once it has read a current guard. The second read of the
  source, after a create that found a guard of another writer, is this step on that guard.
\<close>

definition replace_org_cost_guard ::
    "store \<Rightarrow> org_cost_guard \<Rightarrow> org_cost_guard \<Rightarrow> (store, org_cost_guard) outcome" where
  "replace_org_cost_guard s current candidate =
     (if same_guard_material current candidate then (Inr current, s)
      else
        ensure s (\<not> time_less (grd_evaluated_at candidate) (grd_evaluated_at current)) ValueErr
       (ensure s (grd_evaluated_at current \<noteq> grd_evaluated_at candidate) ValueErr
       (attempt s
          (org_cost_guard_post_init (candidate\<lparr>grd_version := grd_version current + 1\<rparr>))
          (\<lambda>next_guard. save_org_cost_guard s next_guard (grd_version current)))))"

definition persist_org_cost_guard ::
    "store \<Rightarrow> pytime \<Rightarrow> pytime option \<Rightarrow> cost_policy_decision \<Rightarrow> (store, org_cost_guard) outcome" where
  "persist_org_cost_guard s evaluated_at latest_usage_collected_at decision =
     attempt s
       (org_cost_guard_post_init
          \<lparr>grd_evaluated_at = evaluated_at,
           grd_latest_usage_collected_at = latest_usage_collected_at,
           grd_emergency_stop = cpd_emergency_stop decision,
           grd_org_policy_cost_krw = cpd_org_policy_cost_krw decision, grd_version = 1\<rparr>)
       (\<lambda>candidate.
          case get_org_cost_guard s of
            Inr current \<Rightarrow> replace_org_cost_guard s current candidate
          | Inl e \<Rightarrow>
              if e = StoreErr NotFound then
                (case create_org_cost_guard s candidate of
                   (Inl (StoreErr AlreadyExists), s') \<Rightarrow>
                     attempt s' (get_org_cost_guard s') (\<lambda>current.
                       replace_org_cost_guard s' current candidate)
                 | result \<Rightarrow> result)
              else (Inl e, s))"

definition require_current_org_cost_guard :: "store \<Rightarrow> pytime \<Rightarrow> org_cost_guard res" where
  "require_current_org_cost_guard s now =
     (case get_org_cost_guard s of
        Inl e \<Rightarrow> if e = StoreErr NotFound then Inl OrgCostGuardDenied else Inl e
      | Inr guard \<Rightarrow>
          require (is_utc now) ValueErr
         (require (\<not> time_less now (grd_evaluated_at guard)) OrgCostGuardDenied
         (require
            (case grd_latest_usage_collected_at guard of
               None \<Rightarrow> True | Some t \<Rightarrow> \<not> time_less now t) OrgCostGuardDenied
         (require (\<not> instant now - instant (grd_evaluated_at guard) > org_cost_guard_max_age)
            OrgCostGuardDenied
         (require (\<not> grd_emergency_stop guard) OrgCostGuardDenied (Inr guard))))))"

end
