(* ===== verification/Accounting.thy ===== *)
theory Accounting
  imports Activity Quota Samples Store_Expiry
begin

text \<open>
  What the usage ledger, the activity reports, the retention plan and the organization cost guard
  guarantee, alone and over the store.
\<close>

section \<open>Ledger and cost totals\<close>

lemma check_usage_ids_Inr:
  "check_usage_ids seen es = Inr () \<longleftrightarrow>
     distinct (map use_id es) \<and> set (map use_id es) \<inter> seen = {}"
  by (induction seen es rule: check_usage_ids.induct) (auto simp: res_simps)

lemma check_usage_ids_Inl: "check_usage_ids seen es = Inl e \<Longrightarrow> e = UsageLedgerError"
  by (induction seen es rule: check_usage_ids.induct) (auto simp: res_simps split: if_splits)

lemma sort_key_last_max: "e \<in> set xs \<Longrightarrow> f e \<le> f (last (sort_key f xs))"
proof -
  assume e: "e \<in> set xs"
  define ys where "ys = sort_key f xs"
  have "sorted (map f ys)" and "e \<in> set ys" using e by (auto simp: ys_def)
  then have "f e \<le> f (last ys)"
  proof (induction ys)
    case (Cons y ys)
    then show ?case by (cases "ys = []") auto
  qed simp
  then show ?thesis by (simp add: ys_def)
qed

lemma time_id_key_leq: "time_id_key a x \<le> time_id_key b y \<Longrightarrow> time_leq a b"
  by (auto simp: time_id_key_def time_leq_def less_eq_prod_def)

text \<open>
  The ledger holds exactly the entries it was given, split into those with an owner and those
  without, ordered by collection time and id, with the time of the latest; it is refused exactly
  when two entries share an id.
\<close>

theorem ledger_splits_entries:
  assumes "list_all usage_entry_ok es"
  shows "case build_usage_ledger es of
      Inl e \<Rightarrow> e = UsageLedgerError \<and> \<not> distinct (map use_id es)
    | Inr l \<Rightarrow> distinct (map use_id es) \<and> mset (led_entries l) = mset es \<and>
        mset (led_direct_entries l) + mset (led_shared_entries l) = mset es \<and>
        (\<forall>e \<in> set (led_direct_entries l). use_owner_id e \<noteq> None) \<and>
        (\<forall>e \<in> set (led_shared_entries l). use_owner_id e = None) \<and>
        sorted (map (\<lambda>e. time_id_key (use_collected_at e) (use_id e)) (led_entries l)) \<and>
        (case led_latest_collected_at l of
           None \<Rightarrow> es = []
         | Some t \<Rightarrow> \<forall>e \<in> set es. time_leq (use_collected_at e) t)"
proof -
  define ordered where "ordered = sort_key (\<lambda>e. time_id_key (use_collected_at e) (use_id e)) es"
  have perm: "mset ordered = mset es" and set: "set ordered = set es"
    by (simp_all add: ordered_def)
  have empty: "ordered = [] \<longleftrightarrow> es = []"
    by (metis perm mset_zero_iff)
  have srt: "sorted (map (\<lambda>e. time_id_key (use_collected_at e) (use_id e)) ordered)"
    by (simp add: ordered_def)
  have dist: "distinct (map use_id ordered) \<longleftrightarrow> distinct (map use_id es)"
    by (metis mset_map perm mset_eq_imp_distinct_iff)
  have utc: "ordered \<noteq> [] \<Longrightarrow> is_utc (use_collected_at (last ordered))"
    using assms set last_in_set [of ordered] by (auto simp: list_all_iff usage_entry_ok_def)
  have latest: "time_leq (use_collected_at e) (use_collected_at (last ordered))" if "e \<in> set es" for e
    using sort_key_last_max [OF that, of "\<lambda>e. time_id_key (use_collected_at e) (use_id e)"]
    unfolding ordered_def by (rule time_id_key_leq)
  have split: "mset (filter P ordered) + mset (filter (\<lambda>e. \<not> P e) ordered) = mset es" for P
    by (simp add: perm flip: multiset_partition)
  show ?thesis
  proof (cases "distinct (map use_id es)")
    case False
    then have "check_usage_ids {} ordered = Inl UsageLedgerError"
      using dist check_usage_ids_Inr [of "{}" ordered]
      by (cases "check_usage_ids {} ordered") (auto dest: check_usage_ids_Inl)
    with False show ?thesis
      unfolding build_usage_ledger_def Let_def ordered_def [symmetric] by simp
  next
    case True
    then have checked: "check_usage_ids {} ordered = Inr ()"
      using dist check_usage_ids_Inr [of "{}" ordered] by simp
    show ?thesis
      unfolding build_usage_ledger_def Let_def ordered_def [symmetric] checked bind_res_simps
        usage_ledger_ok_def
      using utc latest split [of "\<lambda>e. use_owner_id e \<noteq> None"] perm empty srt True
      by simp
  qed
qed

theorem ledger_splits_entries_witness:
  "case build_usage_ledger [sample_usage, sample_usage] of
     Inl e \<Rightarrow> e = UsageLedgerError | Inr l \<Rightarrow> False"
proof -
  have "list_all usage_entry_ok [sample_usage, sample_usage]" by simp
  from ledger_splits_entries [OF this] show ?thesis by (simp split: sum.splits)
qed

text \<open>Sums over the groups of a list add up to the sum over the list.\<close>

lemma sum_over_groups_set:
  fixes g :: "'a \<Rightarrow> int"
  assumes "finite A"
  shows "(\<Sum>u\<in>A. sum_list (map g (filter (\<lambda>e. k e = u) xs))) =
    sum_list (map g (filter (\<lambda>e. k e \<in> A) xs))"
proof (induction xs)
  case (Cons x xs)
  have "sum_list (map g (filter (\<lambda>e. k e = u) (x # xs))) =
      (if k x = u then g x else 0) + sum_list (map g (filter (\<lambda>e. k e = u) xs))" for u
    by simp
  then show ?case using Cons assms by (simp add: sum.distrib)
qed simp

lemma sum_over_groups:
  fixes g :: "'a \<Rightarrow> int"
  shows "sum_list (map (\<lambda>u. sum_list (map g (filter (\<lambda>e. k e = u) xs))) (remdups (map k xs))) =
    sum_list (map g xs)"
proof -
  have "sum_list (map (\<lambda>u. sum_list (map g (filter (\<lambda>e. k e = u) xs))) (remdups (map k xs))) =
      (\<Sum>u\<in>set (remdups (map k xs)). sum_list (map g (filter (\<lambda>e. k e = u) xs)))"
    by (rule sum_list_distinct_conv_sum_set) simp
  also have "\<dots> = sum_list (map g (filter (\<lambda>e. k e \<in> set (remdups (map k xs))) xs))"
    by (rule sum_over_groups_set) simp
  also have "filter (\<lambda>e. k e \<in> set (remdups (map k xs))) xs = xs"
    by (rule filter_True) simp
  finally show ?thesis .
qed

lemma sum_list_map_leq:
  fixes f g :: "'a \<Rightarrow> int"
  assumes "\<And>x. x \<in> set xs \<Longrightarrow> f x \<le> g x"
  shows "sum_list (map f xs) \<le> sum_list (map g xs)"
  using assms by (induction xs) (auto intro: add_mono)

lemma policy_cost_bounds:
  assumes "list_all usage_entry_ok es"
  shows "0 \<le> sum_list (map use_estimated_cost_krw es)" "0 \<le> sum_list (map finalized_or_zero es)"
    "sum_list (map use_estimated_cost_krw es) \<le> policy_cost es"
    "sum_list (map finalized_or_zero es) \<le> policy_cost es"
    "policy_cost es \<le> sum_list (map use_estimated_cost_krw es) + sum_list (map finalized_or_zero es)"
proof -
  have pos: "0 \<le> use_estimated_cost_krw e \<and> 0 \<le> finalized_or_zero e" if "e \<in> set es" for e
    using assms that
    by (auto simp: list_all_iff usage_entry_ok_def non_negative_ok_def finalized_or_zero_def
        split: option.splits)
  show "0 \<le> sum_list (map use_estimated_cost_krw es)" "0 \<le> sum_list (map finalized_or_zero es)"
    using pos by (auto intro!: sum_list_nonneg)
  show "sum_list (map use_estimated_cost_krw es) \<le> policy_cost es"
    "sum_list (map finalized_or_zero es) \<le> policy_cost es"
    unfolding policy_cost_def by (auto intro: sum_list_map_leq)
  have "policy_cost es \<le> sum_list (map (\<lambda>e. use_estimated_cost_krw e + finalized_or_zero e) es)"
    unfolding policy_cost_def by (rule sum_list_map_leq) (use pos in force)
  then show "policy_cost es \<le>
      sum_list (map use_estimated_cost_krw es) + sum_list (map finalized_or_zero es)"
    by (simp add: sum_list_addf)
qed

lemma policy_cost_filter_leq:
  assumes "list_all usage_entry_ok es"
  shows "policy_cost (filter P es) \<le> policy_cost es"
  unfolding policy_cost_def
  using assms
  by (induction es)
    (auto simp: usage_entry_ok_def non_negative_ok_def le_max_iff_disj intro: add_increasing)

text \<open>The ledger of valid entries holds valid entries.\<close>

lemma ledger_entries_ok:
  assumes "list_all usage_entry_ok es" and "build_usage_ledger es = Inr l"
  shows "list_all usage_entry_ok (led_direct_entries l) \<and> list_all usage_entry_ok (led_shared_entries l)"
  using assms by (auto simp: build_usage_ledger_def Let_def res_simps list_all_iff)

lemma cost_snapshot_fields:
  assumes "build_cost_snapshot l u = Inr c"
  shows "cst_user_direct_estimated_krw c =
        sum_list (map use_estimated_cost_krw (filter (\<lambda>e. use_owner_id e = Some u) (led_direct_entries l))) \<and>
      cst_user_direct_finalized_krw c =
        sum_list (map finalized_or_zero (filter (\<lambda>e. use_owner_id e = Some u) (led_direct_entries l))) \<and>
      cst_user_policy_krw c =
        policy_cost (filter (\<lambda>e. use_owner_id e = Some u) (led_direct_entries l)) \<and>
      cst_org_direct_policy_krw c = policy_cost (led_direct_entries l) \<and>
      cst_shared_policy_krw c = policy_cost (led_shared_entries l)"
  using assms by (auto simp: build_cost_snapshot_def Let_def res_simps)

text \<open>
  C19: Every user's cost snapshot can be built from a ledger of valid entries; in it each policy
  cost is at least the estimated and the finalized cost and at most their sum, the user's cost is
  at most the organization's, and the costs of the owners in the ledger add up to the
  organization's direct cost.
\<close>

theorem user_costs_sum_to_organization:
  assumes "list_all usage_entry_ok es" and "build_usage_ledger es = Inr l"
  shows "\<exists>snapshot. (\<forall>u. build_cost_snapshot l u = Inr (snapshot u) \<and>
      max (cst_user_direct_estimated_krw (snapshot u)) (cst_user_direct_finalized_krw (snapshot u))
        \<le> cst_user_policy_krw (snapshot u) \<and>
      cst_user_policy_krw (snapshot u)
        \<le> cst_user_direct_estimated_krw (snapshot u) + cst_user_direct_finalized_krw (snapshot u) \<and>
      cst_user_policy_krw (snapshot u) \<le> cst_org_direct_policy_krw (snapshot u) \<and>
      sum_list (map (cst_user_policy_krw \<circ> snapshot)
          (remdups (map (the \<circ> use_owner_id) (led_direct_entries l))))
        = cst_org_direct_policy_krw (snapshot u))"
proof -
  let ?direct = "led_direct_entries l" and ?shared = "led_shared_entries l"
  have ok: "list_all usage_entry_ok ?direct" "list_all usage_entry_ok ?shared"
    using ledger_entries_ok [OF assms] by auto
  have mine: "list_all usage_entry_ok (filter (\<lambda>e. use_owner_id e = Some u) ?direct)" for u
    using ok(1) by (auto simp: list_all_iff)
  obtain snapshot where snapshot: "\<And>u. build_cost_snapshot l u = Inr (snapshot u)"
  proof (rule that)
    fix u
    show "build_cost_snapshot l u = Inr (projr (build_cost_snapshot l u))"
      using policy_cost_bounds [OF ok(1)] policy_cost_bounds [OF ok(2)] policy_cost_bounds [OF mine [of u]]
      by (simp add: build_cost_snapshot_def Let_def require_def cost_snapshot_ok_def
          non_negative_ok_def target_monthly_budget_krw_def)
  qed
  note fields = cost_snapshot_fields [OF snapshot]
  have owned: "use_owner_id e = Some u \<longleftrightarrow> (the \<circ> use_owner_id) e = u" if "e \<in> set ?direct" for e u
    using that assms(2) by (auto simp: build_usage_ledger_def Let_def res_simps)
  have groups: "filter (\<lambda>e. use_owner_id e = Some u) ?direct =
      filter (\<lambda>e. (the \<circ> use_owner_id) e = u) ?direct" for u
    by (rule filter_cong [OF refl]) (rule owned)
  have "sum_list (map (cst_user_policy_krw \<circ> snapshot) (remdups (map (the \<circ> use_owner_id) ?direct)))
      = policy_cost ?direct"
    using sum_over_groups [of "\<lambda>e. max (use_estimated_cost_krw e) (finalized_or_zero e)"
        "the \<circ> use_owner_id" ?direct]
    by (simp add: fields groups policy_cost_def comp_def)
  then show ?thesis
    by (intro exI [of _ snapshot] allI)
      (simp add: snapshot fields policy_cost_bounds [OF mine] policy_cost_filter_leq [OF ok(1)])
qed

theorem user_costs_sum_to_organization_witness:
  "\<exists>c. build_cost_snapshot (projr (build_usage_ledger [sample_usage])) ''u2'' = Inr c \<and>
     cst_user_policy_krw c \<le> cst_org_direct_policy_krw c"
proof -
  have "build_usage_ledger [sample_usage] = Inr (projr (build_usage_ledger [sample_usage]))"
    by code_simp
  from user_costs_sum_to_organization [OF _ this] show ?thesis by auto
qed


section \<open>Activity reports\<close>

lemma map_res_projr: "map_res f xs = Inr ys \<Longrightarrow> ys = map (\<lambda>x. projr (f x)) xs"
  by (induction xs arbitrary: ys) (auto simp: res_simps)

lemma map_res_each: "map_res f xs = Inr ys \<Longrightarrow> x \<in> set xs \<Longrightarrow> f x = Inr (projr (f x))"
  by (induction xs arbitrary: ys) (auto simp: bind_res_Inr)

lemma daily_aggregate_fields:
  assumes "daily_usage_aggregate_of day user_id events at = Inr a"
  shows "agg_day a = day \<and> agg_user_id a = user_id \<and> agg_active_users a = count_users events \<and>
    agg_dashboard_visits a = count_events dashboard_view events \<and>
    agg_mcp_actions a = count_events (\<lambda>e. act_surface e = SurfMcp) events \<and>
    agg_deployments a = count_events (\<lambda>e. act_action e = ''deploy_execution'') events \<and>
    agg_schedule_executions a = count_events (\<lambda>e. act_action e = ''schedule_run'') events \<and>
    agg_successes a = count_events (\<lambda>e. act_outcome e = ActSucceeded) events \<and>
    agg_failures a = count_events (\<lambda>e. act_outcome e = ActFailed) events \<and>
    agg_policy_denials a = count_events (\<lambda>e. act_outcome e = ActDenied) events \<and> agg_version a = 1"
  using assms
  by (auto simp: daily_usage_aggregate_of_def aggregate_post_init_def dashboard_visits_def res_simps)

lemma count_events_sum: "count_events P es = sum_list (map (\<lambda>e. if P e then 1 else 0) es)"
  by (induction es) (simp_all add: count_events_def)

lemma count_users_card: "count_users es = int (card (act_user_id ` set es))"
  by (simp add: count_users_def length_remdups_card_conv)

lemma count_over_users:
  assumes "distinct us" and "set us = act_user_id ` set es"
  shows "sum_list (map (\<lambda>u. count_events P (user_events u es)) us) = count_events P es"
proof -
  have "sum_list (map (\<lambda>u. count_events P (user_events u es)) us) =
      (\<Sum>u\<in>set us. sum_list (map (\<lambda>e. if P e then 1 else 0) (filter (\<lambda>e. act_user_id e = u) es)))"
    using assms(1) by (simp add: sum_list_distinct_conv_sum_set count_events_sum user_events_def)
  also have "\<dots> = sum_list (map (\<lambda>e. if P e then 1 else 0) (filter (\<lambda>e. act_user_id e \<in> set us) es))"
    by (rule sum_over_groups_set) simp
  also have "filter (\<lambda>e. act_user_id e \<in> set us) es = es"
    by (rule filter_True) (simp add: assms(2))
  finally show ?thesis by (simp add: count_events_sum)
qed

lemma count_users_of_user:
  assumes "u \<in> act_user_id ` set es"
  shows "count_users (user_events u es) = 1"
proof -
  have "act_user_id ` set (user_events u es) = {u}"
    using assms by (auto simp: user_events_def)
  then show ?thesis by (simp add: count_users_card)
qed

text \<open>
  C21: In a daily rollup every user who was active that day has one aggregate, counted as one
  active user, and the users' counts add up to the organization's in every column.
\<close>

theorem daily_rollup_adds_up:
  assumes "aggregate_daily_activity es day now = Inr r"
  shows "distinct (dict_keys (rol_by_user r)) \<and>
    agg_active_users (rol_organization r) = int (length (rol_by_user r)) \<and>
    (\<forall>(u, a) \<in> set (rol_by_user r). agg_user_id a = Some u \<and> agg_day a = day \<and> agg_active_users a = 1) \<and>
    (\<forall>column \<in> {agg_dashboard_visits, agg_mcp_actions, agg_deployments, agg_schedule_executions,
        agg_successes, agg_failures, agg_policy_denials}.
      sum_list (map column (dict_values (rol_by_user r))) = column (rol_organization r))"
proof -
  obtain events us f at where us: "us = sort (remdups (map act_user_id events))"
    and org: "daily_usage_aggregate_of day None events at = Inr (rol_organization r)"
    and f: "f = (\<lambda>u. bind_res (daily_usage_aggregate_of day (Some u) (user_events u events)
        (latest_occurred_at (day_start_of day) (user_events u events))) (\<lambda>a. Inr (u, a)))"
    and users: "map_res f us = Inr (rol_by_user r)"
    using assms by (auto simp: aggregate_daily_activity_def Let_def res_simps simp del: map_res_Inr)
  have dist: "distinct us" and set: "set us = act_user_id ` set events"
    by (simp_all add: us)
  define g where "g u = snd (projr (f u))" for u
  have each: "f u = Inr (u, g u) \<and> daily_usage_aggregate_of day (Some u) (user_events u events)
      (latest_occurred_at (day_start_of day) (user_events u events)) = Inr (g u)" if "u \<in> set us" for u
    using map_res_each [OF users that] by (auto simp: f g_def res_simps)
  have by_user: "rol_by_user r = map (\<lambda>u. (u, g u)) us"
    using map_res_projr [OF users] each by (auto intro!: map_cong)
  have fields: "agg_day (g u) = day \<and> agg_user_id (g u) = Some u \<and> agg_active_users (g u) = 1"
    if "u \<in> set us" for u
    using daily_aggregate_fields [of day "Some u" "user_events u events" _ "g u"] each [OF that]
      count_users_of_user [of u events] that set by auto
  have column: "sum_list (map column (dict_values (rol_by_user r))) = column (rol_organization r)"
    if "\<And>d u es at a. daily_usage_aggregate_of d u es at = Inr a \<Longrightarrow> column a = count_events P es"
    for column P
  proof -
    have "map column (dict_values (rol_by_user r)) = map (\<lambda>u. count_events P (user_events u events)) us"
      using that [OF conjunct2 [OF each]] by (simp add: by_user)
    then show ?thesis using that [OF org] count_over_users [OF dist set] by simp
  qed
  have active: "agg_active_users (rol_organization r) = int (length (rol_by_user r))"
    using daily_aggregate_fields [OF org] distinct_card [OF dist] set
    by (simp add: by_user count_users_card)
  have keys: "dict_keys (rol_by_user r) = us" by (simp add: by_user comp_def)
  have "\<forall>(u, a) \<in> set (rol_by_user r). agg_user_id a = Some u \<and> agg_day a = day \<and> agg_active_users a = 1"
    using fields by (auto simp: by_user)
  moreover have "\<forall>column \<in> {agg_dashboard_visits, agg_mcp_actions, agg_deployments,
      agg_schedule_executions, agg_successes, agg_failures, agg_policy_denials}.
      sum_list (map column (dict_values (rol_by_user r))) = column (rol_organization r)"
    by (intro ballI, elim insertE emptyE; hypsubst; rule column, drule daily_aggregate_fields,
        elim conjE, assumption)
  ultimately show ?thesis using keys dist active by simp
qed

theorem daily_rollup_adds_up_witness:
  "agg_mcp_actions (rol_organization (projr (aggregate_daily_activity [sample_activity] 719163 t1))) =
   sum_list (map agg_mcp_actions
     (dict_values (rol_by_user (projr (aggregate_daily_activity [sample_activity] 719163 t1)))))"
proof -
  have "aggregate_daily_activity [sample_activity] 719163 t1 =
      Inr (projr (aggregate_daily_activity [sample_activity] 719163 t1))"
    by code_simp
  from daily_rollup_adds_up [OF this] show ?thesis by simp
qed


section \<open>Retention over the store\<close>

lemma retention_scan_Inr:
  "retention_scan cutoff now seen expired keep events = Inr (xs, ys) \<Longrightarrow>
   \<exists>es. events = map DetailEvent es \<and>
     distinct (map act_id es) \<and> set (map act_id es) \<inter> seen = {} \<and>
     xs = expired @ map act_id (filter (\<lambda>e. time_less (act_occurred_at e) cutoff) es) \<and>
     ys = keep @ map act_id (filter (\<lambda>e. \<not> time_less (act_occurred_at e) cutoff) es)"
proof (induction cutoff now seen expired keep events rule: retention_scan.induct)
  case (3 cutoff now seen expired keep e rest)
  then obtain es where
    "rest = map DetailEvent es" "distinct (map act_id es)"
    "set (map act_id es) \<inter> insert (act_id e) seen = {}" "act_id e \<notin> seen"
    "xs = (if time_less (act_occurred_at e) cutoff then expired @ [act_id e] else expired) @
      map act_id (filter (\<lambda>e. time_less (act_occurred_at e) cutoff) es)"
    "ys = (if time_less (act_occurred_at e) cutoff then keep else keep @ [act_id e]) @
      map act_id (filter (\<lambda>e. \<not> time_less (act_occurred_at e) cutoff) es)"
    by (auto simp: res_simps split: if_splits)
  then show ?case by (intro exI [of _ "e # es"]) auto
qed auto




section \<open>Rolling metrics\<close>

lemma count_events_mono: "set es \<subseteq> set fs \<Longrightarrow> count_users es \<le> count_users fs"
  by (auto simp: count_users_card intro!: card_mono)

lemma count_users_length: "count_users es \<le> int (length es)"
  using length_remdups_leq [of "map act_user_id es"] by (simp add: count_users_def)

lemma count_events_length: "count_events P es \<le> int (length es)"
  by (simp add: count_events_def)

lemma window_filter: "time_leq a b \<Longrightarrow> events_in_window es b now = filter (\<lambda>e. time_leq b (act_occurred_at e)) (events_in_window es a now)"
  by (auto simp: events_in_window_def intro!: filter_cong dest: time_leq_trans)

lemma count_events_filter_leq: "count_events P (filter Q es) \<le> count_events P es"
  by (induction es) (auto simp: count_events_def)

lemma visitors_leq_visits: "dashboard_visitors es \<le> dashboard_visits es"
  using count_users_length [of "filter dashboard_view es"]
  by (simp add: dashboard_visitors_def dashboard_visits_def count_events_def)

lemma visitors_leq_users: "dashboard_visitors es \<le> count_users es"
  unfolding dashboard_visitors_def by (rule count_events_mono) auto

lemma outcomes_partition:
  "count_events (\<lambda>e. act_outcome e = ActSucceeded) es + count_events (\<lambda>e. act_outcome e = ActFailed) es +
   count_events (\<lambda>e. act_outcome e = ActDenied) es = int (length es)"
proof (induction es)
  case (Cons e es)
  then show ?case by (cases "act_outcome e") (simp_all add: count_events_def)
qed (simp add: count_events_def)

lemma kinds_disjoint:
  "count_events (\<lambda>e. act_action e = ''deploy_execution'') es +
   count_events (\<lambda>e. act_action e = ''schedule_run'') es \<le> int (length es)"
  by (induction es) (auto simp: count_events_def)

lemma window_users_of_one:
  "set es \<subseteq> set (filter_events events (Some u)) \<Longrightarrow> count_users es \<le> 1"
proof -
  assume "set es \<subseteq> set (filter_events events (Some u))"
  then have "act_user_id ` set es \<subseteq> {u}" by (auto simp: filter_events_def)
  then have "card (act_user_id ` set es) \<le> card {u}" by (intro card_mono) auto
  then show ?thesis by (simp add: count_users_card)
qed




section \<open>The organization cost guard\<close>

definition guard_candidate :: "pytime \<Rightarrow> pytime option \<Rightarrow> cost_policy_decision \<Rightarrow> org_cost_guard" where
  "guard_candidate evaluated_at latest decision =
     \<lparr>grd_evaluated_at = evaluated_at, grd_latest_usage_collected_at = latest,
      grd_emergency_stop = cpd_emergency_stop decision,
      grd_org_policy_cost_krw = cpd_org_policy_cost_krw decision, grd_version = 1\<rparr>"

lemma get_guard_Inr [res_simps]: "get_org_cost_guard s = Inr g \<longleftrightarrow> dict_get (st_guards s) guard_key = Some g"
  by (auto simp: get_org_cost_guard_def coll_get_def split: option.splits)

lemma get_guard_Inl: "get_org_cost_guard s = Inl e \<Longrightarrow> e = StoreErr NotFound \<and> dict_get (st_guards s) guard_key = None"
  by (auto simp: get_org_cost_guard_def coll_get_def split: option.splits)

lemma replace_guard_Inr:
  assumes "replace_org_cost_guard s current candidate = (Inr g, s')"
    and "dict_get (st_guards s) guard_key = Some current"
  shows "dict_get (st_guards s') guard_key = Some g \<and> same_guard_material g candidate \<and>
    time_leq (grd_evaluated_at current) (grd_evaluated_at g)"
  using assms
  by (auto simp: replace_org_cost_guard_def same_guard_material_def save_org_cost_guard_def
      put_guard_def save_versioned_def org_cost_guard_post_init_def res_simps split: if_splits)

lemma persist_guard_Inr:
  assumes "persist_org_cost_guard s at latest d = (Inr g, s')"
  shows "dict_get (st_guards s') guard_key = Some g \<and>
    same_guard_material g (guard_candidate at latest d) \<and>
    org_cost_guard_ok (guard_candidate at latest d) \<and>
    (\<forall>old. dict_get (st_guards s) guard_key = Some old \<longrightarrow>
      time_leq (grd_evaluated_at old) (grd_evaluated_at g))"
proof (cases "get_org_cost_guard s")
  case (Inr current)
  with assms have "replace_org_cost_guard s current (guard_candidate at latest d) = (Inr g, s')"
    and "org_cost_guard_ok (guard_candidate at latest d)"
    by (auto simp: persist_org_cost_guard_def org_cost_guard_post_init_def guard_candidate_def res_simps)
  with replace_guard_Inr Inr show ?thesis by (auto simp: res_simps)
next
  case (Inl e)
  with get_guard_Inl [OF Inl] assms show ?thesis
    by (auto simp: persist_org_cost_guard_def org_cost_guard_post_init_def guard_candidate_def
        create_org_cost_guard_def coll_create_def same_guard_material_def res_simps
        split: if_splits)
qed

lemma fired_Cons: "fired [] = []" "fired ((b, c) # rules) = (if b then [c] else []) @ fired rules"
  by (simp_all add: fired_def)

lemma cost_decision_Inr:
  assumes "evaluate_cost_policy c lag proposed extra = Inr d"
  shows "cpd_org_policy_cost_krw d =
      cst_org_direct_policy_krw c + cst_shared_policy_krw c + lag + proposed + extra \<and>
    (cpd_emergency_stop d \<longleftrightarrow> cpd_org_policy_cost_krw d \<ge> admin_budget_ceiling_krw) \<and>
    cpd_projected_user_cost_krw d = cst_user_policy_krw c + lag + proposed \<and>
    (cpd_pause d \<longleftrightarrow> cpd_projected_user_cost_krw d \<ge> target_monthly_budget_krw) \<and>
    0 \<le> lag \<and> 0 \<le> proposed \<and> 0 \<le> extra \<and>
    cpd_user_percent d = cst_user_policy_krw c * 100 div target_monthly_budget_krw \<and>
    (cpd_warn d \<longleftrightarrow> 70 \<le> cpd_user_percent d) \<and> (cpd_block_new d \<longleftrightarrow> 90 \<le> cpd_user_percent d) \<and>
    cpd_reason_codes d =
      (if cpd_warn d then [''user_warn_threshold_reached''] else []) @
      (if cpd_block_new d then [''user_block_new_threshold_reached''] else []) @
      (if cpd_pause d then [''user_projected_limit_reached''] else []) @
      (if cpd_emergency_stop d then [''org_emergency_ceiling_reached''] else [])"
  using assms
  unfolding evaluate_cost_policy_def Let_def require_Inr non_negative_ok_def sum.inject
  by (elim conjE) (hypsubst, simp add: fired_Cons)

text \<open>
  C18: After the cost decision of a snapshot was persisted as the guard, the request path is open
  exactly from the moment of evaluation until two hours later, and only while the organization's
  projected cost is below the ceiling; otherwise it is denied. Persisting the same decision again
  changes nothing, and the guard in the store never goes back in time.
\<close>

theorem cost_guard_opens_the_gate:
  assumes "evaluate_cost_policy c lag proposed extra = Inr d"
    and "persist_org_cost_guard s at latest d = (Inr g, s')" and "is_utc now"
  shows "require_current_org_cost_guard s' now =
      (if time_leq at now \<and> instant now - instant at \<le> hours 2 \<and>
          cst_org_direct_policy_krw c + cst_shared_policy_krw c + lag + proposed + extra
            < admin_budget_ceiling_krw
       then Inr g else Inl OrgCostGuardDenied) \<and>
    persist_org_cost_guard s' at latest d = (Inr g, s') \<and>
    (\<forall>old. get_org_cost_guard s = Inr old \<longrightarrow> time_leq (grd_evaluated_at old) (grd_evaluated_at g))"
proof -
  have persisted: "same_guard_material g (guard_candidate at latest d)"
    "org_cost_guard_ok (guard_candidate at latest d)"
    and monotone: "\<forall>old. dict_get (st_guards s) guard_key = Some old \<longrightarrow>
      time_leq (grd_evaluated_at old) (grd_evaluated_at g)"
    and "dict_get (st_guards s') guard_key = Some g"
    using persist_guard_Inr [OF assms(2)] by blast+
  then have stored: "get_org_cost_guard s' = Inr g" by (simp only: get_guard_Inr)
  have fields: "grd_evaluated_at g = at" "grd_latest_usage_collected_at g = latest"
    "grd_emergency_stop g = cpd_emergency_stop d"
    using persisted by (auto simp: same_guard_material_def guard_candidate_def)
  have latest: "case latest of None \<Rightarrow> True | Some t \<Rightarrow> time_leq t at"
    using persisted by (auto simp: org_cost_guard_ok_def guard_candidate_def split: option.splits)
  have "require_current_org_cost_guard s' now =
      (if time_leq at now \<and> instant now - instant at \<le> hours 2 \<and> \<not> cpd_emergency_stop d
       then Inr g else Inl OrgCostGuardDenied)"
    using latest assms(3)
    by (auto simp: require_current_org_cost_guard_def stored fields require_def org_cost_guard_max_age_def
        dest: time_leq_trans split: option.splits)
  moreover have "persist_org_cost_guard s' at latest d = (Inr g, s')"
    using persisted stored
    by (simp add: persist_org_cost_guard_def replace_org_cost_guard_def guard_candidate_def
        org_cost_guard_post_init_def require_def)
  ultimately show ?thesis
    using cost_decision_Inr [OF assms(1)] monotone by (simp add: get_guard_Inr not_le)
qed

theorem cost_guard_opens_the_gate_witness:
  "require_current_org_cost_guard
     (snd (persist_org_cost_guard empty_store t0 None
        (projr (evaluate_cost_policy (projr (build_cost_snapshot (projr (build_usage_ledger [sample_usage])) ''u1''))
           0 0 0)))) (utc (hours 3)) = Inl OrgCostGuardDenied"
proof -
  let ?c = "projr (build_cost_snapshot (projr (build_usage_ledger [sample_usage])) ''u1'')"
  let ?d = "projr (evaluate_cost_policy ?c 0 0 0)"
  have decision: "evaluate_cost_policy ?c 0 0 0 = Inr ?d" by code_simp
  have "fst (persist_org_cost_guard empty_store t0 None ?d) = Inr (guard_candidate t0 None ?d)"
    by code_simp
  then have persisted: "persist_org_cost_guard empty_store t0 None ?d =
      (Inr (guard_candidate t0 None ?d), snd (persist_org_cost_guard empty_store t0 None ?d))"
    by (metis prod.collapse)
  have late: "\<not> instant (utc (hours 3)) - instant t0 \<le> hours 2" by code_simp
  show ?thesis
    using cost_guard_opens_the_gate [OF decision persisted, of "utc (hours 3)"] late
    by (simp del: instant.simps)
qed


section \<open>Accepted events\<close>

lemma target_ref_text: "target_ref_ok field n v \<Longrightarrow> text_ok v"
  by (auto simp: target_ref_ok_def text_ok_def nonblank_def)

lemma activity_actions_text: "v \<in> set activity_actions \<Longrightarrow> text_ok v"
proof -
  have "list_all text_ok activity_actions" by code_simp
  then show "v \<in> set activity_actions \<Longrightarrow> text_ok v" by (simp add: list_all_iff)
qed

lemma latency_bucket_text: "latency_bucket v = Inr b \<Longrightarrow> text_ok b"
proof -
  have "list_all text_ok [''lt_250ms'', ''lt_1000ms'', ''lt_5000ms'', ''gte_5000ms'']" by code_simp
  then show "latency_bucket v = Inr b \<Longrightarrow> text_ok b"
    by (auto simp: latency_bucket_def res_simps split: py_value.splits if_splits)
qed

lemma payload_errors:
  "parse_surface v = Inl e \<Longrightarrow> e = ActivityMetricsError"
  "parse_action v = Inl e \<Longrightarrow> e = ActivityMetricsError"
  "parse_outcome v = Inl e \<Longrightarrow> e = ActivityMetricsError"
  "parse_optional_safe_ref v f = Inl e \<Longrightarrow> e = ActivityMetricsError"
  "latency_bucket v = Inl e \<Longrightarrow> e = ActivityMetricsError"
  by (auto simp: parse_surface_def parse_action_def parse_outcome_def parse_optional_safe_ref_def
      latency_bucket_def res_simps split: py_value.splits option.splits if_splits)

lemma optional_ref_text: "parse_optional_safe_ref v f = Inr r \<Longrightarrow> opt_text_ok r"
  by (auto simp: parse_optional_safe_ref_def res_simps dest: target_ref_text split: py_value.splits)

lemma ingested_event_ok:
  assumes "target_ref_ok ''event_id'' 64 event_id" "target_ref_ok ''trusted_user_id'' 64 u"
    "correlation_id_ok c" "is_utc at" "parse_action v = Inr action"
    "parse_optional_safe_ref w ''target_ref'' = Inr ref" "latency_bucket x = Inr bucket"
  shows "activity_event_ok
    \<lparr>act_id = event_id, act_user_id = u, act_surface = surface, act_action = action,
     act_target_ref = ref, act_outcome = outcome, act_latency_bucket = bucket,
     act_correlation_id = c, act_occurred_at = at\<rparr>"
proof -
  have "text_ok action"
    using assms(5) by (auto simp: parse_action_def res_simps activity_actions_text split: py_value.splits)
  moreover have "text_ok c"
    using assms(3) by (auto simp: correlation_id_ok_def text_ok_def nonblank_def)
  ultimately show ?thesis
    using assms by (simp add: activity_event_ok_def target_ref_text optional_ref_text latency_bucket_text)
qed


end
