(* ===== verification/Procs.thy ===== *)
theory Procs
  imports Store_Invariants
begin

text \<open>
  Services and workers: procedures that read and write the store, call services outside of it and
  may raise. A procedure takes a world and returns its result or exception with the world it leaves
  behind. A world is the store and the calls to outside services so far; what such a call answers,
  and what it does to the store, is a parameter that may depend on everything before it.
\<close>

section \<open>Procedures\<close>

type_synonym ('w, 'a) proc = "'w \<Rightarrow> ('w, 'a) outcome"

definition give :: "'a \<Rightarrow> ('w, 'a) proc" where
  "give x w = (Inr x, w)"

definition stop :: "err \<Rightarrow> ('w, 'a) proc" where
  "stop e w = (Inl e, w)"

definition andthen :: "('w, 'a) proc \<Rightarrow> ('a \<Rightarrow> ('w, 'b) proc) \<Rightarrow> ('w, 'b) proc" where
  "andthen m f w = (case m w of (Inl e, w') \<Rightarrow> (Inl e, w') | (Inr x, w') \<Rightarrow> f x w')"

definition compute :: "'a res \<Rightarrow> ('w, 'a) proc" where
  "compute r w = (r, w)"

definition check :: "bool \<Rightarrow> err \<Rightarrow> ('w, 'a) proc \<Rightarrow> ('w, 'a) proc" where
  "check c e m = (if c then m else stop e)"

fun each :: "('a \<Rightarrow> ('w, unit) proc) \<Rightarrow> 'a list \<Rightarrow> ('w, unit) proc" where
  "each f [] = give ()"
| "each f (x # xs) = andthen (f x) (\<lambda>_. each f xs)"

fun collect :: "('a \<Rightarrow> ('w, 'b) proc) \<Rightarrow> 'a list \<Rightarrow> ('w, 'b list) proc" where
  "collect f [] = give []"
| "collect f (x # xs) = andthen (f x) (\<lambda>y. andthen (collect f xs) (\<lambda>ys. give (y # ys)))"

text \<open>\<^verbatim>\<open>try: ... except\<close>: the handler runs on the world that the body left.\<close>

definition rescue :: "('w, 'a) proc \<Rightarrow> (err \<Rightarrow> ('w, 'a) proc) \<Rightarrow> ('w, 'a) proc" where
  "rescue m h w = (case m w of (Inl e, w') \<Rightarrow> h e w' | (Inr x, w') \<Rightarrow> (Inr x, w'))"

named_theorems proc_simps \<open>how procedures run\<close>

lemma proc_run [proc_simps]:
  "give x w = (Inr x, w)"
  "stop e w = (Inl e, w)"
  "compute r w = (r, w)"
  "check c e m w = (if c then m w else (Inl e, w))"
  by (simp_all add: give_def stop_def compute_def check_def)

lemma andthen_Inr [proc_simps]:
  "andthen m f w = (Inr y, w') \<longleftrightarrow> (\<exists>x w1. m w = (Inr x, w1) \<and> f x w1 = (Inr y, w'))"
  by (auto simp: andthen_def split: prod.splits sum.splits)

lemma andthen_step [proc_simps]: "m w = (Inr x, w1) \<Longrightarrow> andthen m f w = f x w1"
  by (simp add: andthen_def)

lemma andthen_raise [proc_simps]: "m w = (Inl e, w1) \<Longrightarrow> andthen m f w = (Inl e, w1)"
  by (simp add: andthen_def)


section \<open>What a run can do to the world\<close>

text \<open>A relation between worlds that runs can be composed under.\<close>

locale run_relation =
  fixes R :: "'w \<Rightarrow> 'w \<Rightarrow> bool"
  assumes stays: "R w w"
    and compose: "R u v \<Longrightarrow> R v w \<Longrightarrow> R u w"
begin

definition within :: "('w, 'a) proc \<Rightarrow> bool" where
  "within m \<longleftrightarrow> (\<forall>w. R w (snd (m w)))"

lemma withinD: "within m \<Longrightarrow> m w = (r, w') \<Longrightarrow> R w w'"
  by (metis within_def snd_conv)

lemma within_give: "within (give x)"
  by (simp add: within_def give_def stays)

lemma within_stop: "within (stop e)"
  by (simp add: within_def stop_def stays)

lemma within_compute: "within (compute r)"
  by (simp add: within_def compute_def stays)

lemma within_check: "within m \<Longrightarrow> within (check c e m)"
  by (simp add: check_def within_stop)

lemma within_andthen: "within m \<Longrightarrow> (\<And>x. within (f x)) \<Longrightarrow> within (andthen m f)"
  unfolding within_def andthen_def
  by (auto split: prod.splits sum.splits) (metis compose snd_conv)+

lemma within_compute_andthen:
  "(\<And>x. r = Inr x \<Longrightarrow> within (f x)) \<Longrightarrow> within (andthen (compute r) f)"
  by (cases r) (simp_all add: within_def andthen_def compute_def stays)

lemma within_each: "(\<And>x. x \<in> set xs \<Longrightarrow> within (f x)) \<Longrightarrow> within (each f xs)"
  by (induction xs) (auto intro: within_give within_andthen)

lemma within_collect: "(\<And>x. x \<in> set xs \<Longrightarrow> within (f x)) \<Longrightarrow> within (collect f xs)"
  by (induction xs) (auto intro: within_give within_andthen)

lemma within_rescue: "within m \<Longrightarrow> (\<And>e. within (h e)) \<Longrightarrow> within (rescue m h)"
  unfolding within_def rescue_def
  by (auto split: prod.splits sum.splits) (metis compose snd_conv)+

lemma within_if: "within m \<Longrightarrow> within n \<Longrightarrow> within (if c then m else n)"
  by simp

lemma within_option: "within m \<Longrightarrow> (\<And>x. within (f x)) \<Longrightarrow> within (case v of None \<Rightarrow> m | Some x \<Rightarrow> f x)"
  by (cases v) auto

text \<open>The same, step by step from the world where the run began.\<close>

lemma after_within: "R u v \<Longrightarrow> within m \<Longrightarrow> R u (snd (m v))"
  by (auto simp: within_def intro: compose)

lemma after_andthen:
  assumes "R u (snd (m v))" and "\<And>x v'. m v = (Inr x, v') \<Longrightarrow> R u v' \<Longrightarrow> R u (snd (f x v'))"
  shows "R u (snd (andthen m f v))"
  using assms unfolding andthen_def by (auto split: prod.splits sum.splits)

lemmas within_intros =
  within_give within_stop within_compute within_check within_andthen within_each within_collect
  within_rescue within_if within_option

end


section \<open>Worlds\<close>

record 'c world =
  wrl_store :: store
  wrl_calls :: "'c list"

text \<open>
  Outside services: given the calls so far and the store, one raises or returns an answer, and may
  leave another store behind. A service without answers takes the call itself as an argument.
\<close>

type_synonym ('c, 'a) answering = "'c list \<Rightarrow> store \<Rightarrow> (store, 'a) outcome"

type_synonym 'c service = "'c list \<Rightarrow> 'c \<Rightarrow> store \<Rightarrow> (store, unit) outcome"

definition reading :: "(store \<Rightarrow> 'a res) \<Rightarrow> ('c world, 'a) proc" where
  "reading f w = (f (wrl_store w), w)"

definition asking :: "(store \<Rightarrow> 'a) \<Rightarrow> ('c world, 'a) proc" where
  "asking f w = (Inr (f (wrl_store w)), w)"

definition storing :: "(store \<Rightarrow> (store, 'a) outcome) \<Rightarrow> ('c world, 'a) proc" where
  "storing f w = (case f (wrl_store w) of (r, s) \<Rightarrow> (r, w\<lparr>wrl_store := s\<rparr>))"

definition outside :: "'c \<Rightarrow> ('c, 'a) answering \<Rightarrow> ('c world, 'a) proc" where
  "outside c f w =
     (case f (wrl_calls w) (wrl_store w) of
        (r, s) \<Rightarrow> (r, w\<lparr>wrl_store := s, wrl_calls := wrl_calls w @ [c]\<rparr>))"

text \<open>A call that leaves the store alone, such as reading the clock.\<close>

definition observing :: "'c \<Rightarrow> ('c list \<Rightarrow> 'a res) \<Rightarrow> ('c world, 'a) proc" where
  "observing c f = outside c (\<lambda>history s. (f history, s))"

definition calling :: "'c service \<Rightarrow> 'c \<Rightarrow> ('c world, unit) proc" where
  "calling perform c = outside c (\<lambda>history. perform history c)"

lemma world_run [proc_simps]:
  "reading f w = (f (wrl_store w), w)"
  "asking f w = (Inr (f (wrl_store w)), w)"
  by (simp_all add: reading_def asking_def)

text \<open>Steps that leave the world alone.\<close>

lemma quiet_steps:
  "andthen (reading f) g w =
     (case f (wrl_store w) of Inl e \<Rightarrow> (Inl e, w) | Inr x \<Rightarrow> g x w)"
  "andthen (asking h) g' w = g' (h (wrl_store w)) w"
  "andthen (compute r) g'' w = (case r of Inl e \<Rightarrow> (Inl e, w) | Inr x \<Rightarrow> g'' x w)"
  by (simp_all add: andthen_def reading_def asking_def compute_def split: sum.splits)

text \<open>
  A run of which every outside call was justified by a store that the run went through: the calls
  of the run, each with such a store between its beginning and its end.
\<close>

definition justified_run :: "(store \<Rightarrow> 'c \<Rightarrow> bool) \<Rightarrow> 'c world \<Rightarrow> 'c world \<Rightarrow> bool" where
  "justified_run J w w' \<longleftrightarrow>
     later (wrl_store w) (wrl_store w') \<and>
     (\<exists>cs. wrl_calls w' = wrl_calls w @ cs \<and>
       (\<forall>c \<in> set cs. \<exists>s. later (wrl_store w) s \<and> later s (wrl_store w') \<and> J s c))"

interpretation justified: run_relation "justified_run J" for J
proof
  show "justified_run J w w" for w by (simp add: justified_run_def)
  show "justified_run J u w" if "justified_run J u v" and "justified_run J v w" for u v w
  proof -
    from that obtain cs ds where "later (wrl_store u) (wrl_store v)" "later (wrl_store v) (wrl_store w)"
      "wrl_calls w = wrl_calls u @ (cs @ ds)"
      "\<forall>c \<in> set cs. \<exists>s. later (wrl_store u) s \<and> later s (wrl_store v) \<and> J s c"
      "\<forall>c \<in> set ds. \<exists>s. later (wrl_store v) s \<and> later s (wrl_store w) \<and> J s c"
      unfolding justified_run_def by force
    then show ?thesis unfolding justified_run_def
      by (intro conjI exI [of _ "cs @ ds"]) (auto dest: later_trans, (meson later_trans)+)
  qed
qed

lemma justified_reading: "justified.within J (reading f)"
  by (simp add: justified.within_def reading_def justified_run_def)

lemma justified_asking: "justified.within J (asking f)"
  by (simp add: justified.within_def asking_def justified_run_def)

lemma justified_storing: "(\<And>s. later s (snd (f s))) \<Longrightarrow> justified.within J (storing f)"
  by (auto simp: justified.within_def storing_def justified_run_def split: prod.splits) (metis snd_conv)

lemma justified_outside_after:
  assumes "\<And>history s. later s (snd (f history s))"
    and "justified_run J w w'" and "J (wrl_store w) c"
  shows "justified_run J w (snd (outside c f w'))"
proof -
  obtain r s where "f (wrl_calls w') (wrl_store w') = (r, s)" by force
  moreover from this have "later (wrl_store w') s" using assms(1) by (metis snd_conv)
  moreover from assms(2) obtain cs where "later (wrl_store w) (wrl_store w')"
    "wrl_calls w' = wrl_calls w @ cs"
    "\<forall>c \<in> set cs. \<exists>s. later (wrl_store w) s \<and> later s (wrl_store w') \<and> J s c"
    unfolding justified_run_def by blast
  ultimately show ?thesis using assms(3) unfolding justified_run_def outside_def
    by (intro conjI exI [of _ "cs @ [c]"]) (auto intro: later_trans later_refl)
qed

lemma justified_outside:
  assumes "\<And>history s. later s (snd (f history s))" and "\<And>s. J s c"
  shows "justified.within J (outside c f)"
  unfolding justified.within_def by (intro allI justified_outside_after assms justified.stays)

lemma justified_observing: "(\<And>s. J s c) \<Longrightarrow> justified.within J (observing c f)"
  unfolding observing_def by (rule justified_outside) simp_all

text \<open>An outside service that touches the store only through its methods.\<close>

definition evolving_service :: "'c service \<Rightarrow> bool" where
  "evolving_service perform \<longleftrightarrow> (\<forall>h c s. later s (snd (perform h c s)))"

lemma justified_call_after:
  assumes "evolving_service perform"
    and "justified_run J w w'" and "J (wrl_store w) c"
  shows "justified_run J w (snd (calling perform c w'))"
  unfolding calling_def
  by (rule justified_outside_after) (use assms in \<open>simp_all add: evolving_service_def\<close>)

lemma justified_calling:
  assumes "evolving_service perform" and "\<And>s. J s c"
  shows "justified.within J (calling perform c)"
  unfolding justified.within_def by (intro allI justified_call_after assms justified.stays)

end
