(* ===== verification/Lifecycle.thy ===== *)
theory Lifecycle
  imports Models_Ledger Models_Work Schedules PyJson PyCalendar
begin

text \<open>
  \<^verbatim>\<open>services/lifecycle.py\<close>: what is proposed for the workloads and schedules of a user, by account
  lock or by inactivity, and the revalidation of a planned cleanup at execution time. The set of
  held workloads is a list here; it is only tested for members and for blank items.
\<close>

section \<open>Decisions\<close>

datatype compute_target_kind = CloudRunService | CloudRunJob | CloudSchedulerJob

datatype admin_decision_kind = NotifyAdmin | TransferWindow

datatype cleanup_decision_kind = CleanupNoop | CleanupExecute | CleanupCancel

record compute_target =
  ctg_workload_id :: workload_id
  ctg_kind :: compute_target_kind

record workload_transition_proposal =
  wtp_workload_id :: workload_id
  wtp_target_state :: workload_state
  wtp_reason :: string

record schedule_transition_proposal =
  stp_schedule_id :: schedule_id
  stp_workload_id :: workload_id
  stp_target_state :: schedule_state
  stp_reason :: string

record admin_decision =
  adc_user_id :: user_id
  adc_kind :: admin_decision_kind
  adc_eligible_at :: pytime
  adc_reason :: string

definition admin_decision_post_init :: "admin_decision \<Rightarrow> admin_decision res" where
  "admin_decision_post_init d = bind_res (require_utc_datetime (adc_eligible_at d)) (\<lambda>_. Inr d)"

record cleanup_guard =
  cgd_planned_user_id :: user_id
  cgd_expected_workload_owner_id :: user_id
  cgd_user_state :: user_state
  cgd_user_version :: int
  cgd_user_updated_at :: pytime
  cgd_workload_state :: workload_state
  cgd_workload_version :: int
  cgd_workload_updated_at :: pytime
  cgd_observed_last_activity_at :: "pytime option"
  cgd_status_anchor_at :: "pytime option"
  cgd_inactivity_anchor :: "pytime option"

definition cleanup_guard_ok :: "cleanup_guard \<Rightarrow> bool" where
  "cleanup_guard_ok g \<longleftrightarrow>
     is_utc (cgd_user_updated_at g) \<and> is_utc (cgd_workload_updated_at g) \<and>
     utc_ok (cgd_observed_last_activity_at g) \<and> utc_ok (cgd_status_anchor_at g) \<and>
     utc_ok (cgd_inactivity_anchor g)"

definition cleanup_guard_post_init :: "cleanup_guard \<Rightarrow> cleanup_guard res" where
  "cleanup_guard_post_init g = require (cleanup_guard_ok g) ValueErr (Inr g)"

record planned_action =
  pla_action :: lifecycle_action
  pla_compute_targets :: "compute_target list"
  pla_cleanup_guard :: "cleanup_guard option"

definition planned_action_ok :: "planned_action \<Rightarrow> bool" where
  "planned_action_ok p \<longleftrightarrow>
     (if lca_kind (pla_action p) = DeleteCompute
      then pla_compute_targets p \<noteq> [] \<and> pla_cleanup_guard p \<noteq> None
      else pla_compute_targets p = [])"

definition planned_action_post_init :: "planned_action \<Rightarrow> planned_action res" where
  "planned_action_post_init p = require (planned_action_ok p) ValueErr (Inr p)"

record lifecycle_decision =
  lcd_workload_transitions :: "workload_transition_proposal list"
  lcd_schedule_transitions :: "schedule_transition_proposal list"
  lcd_admin_decisions :: "admin_decision list"
  lcd_planned_actions :: "planned_action list"

record cleanup_execution_decision =
  ced_kind :: cleanup_decision_kind
  ced_action :: lifecycle_action
  ced_compute_targets :: "compute_target list"
  ced_reason :: string


section \<open>Helpers\<close>

definition transfer_grace_days :: int where "transfer_grace_days = 7"
definition inactivity_warning_days :: int where "inactivity_warning_days = 23"
definition cleanup_days :: int where "cleanup_days = 30"

definition offboard_cleanup_delay :: timedelta where
  "offboard_cleanup_delay = days transfer_grace_days"

definition inactivity_warning_delay :: timedelta where
  "inactivity_warning_delay = days inactivity_warning_days"

definition inactivity_cleanup_delay :: timedelta where
  "inactivity_cleanup_delay = days cleanup_days"

definition holds_are_valid :: "workload_id list \<Rightarrow> bool" where
  "holds_are_valid holds = list_all nonblank holds"

text \<open>\<open>now\<close> is in UTC here, so the offsets agree when the value is in UTC.\<close>

definition valid_status_anchor :: "pytime option \<Rightarrow> pytime \<Rightarrow> pytime option" where
  "valid_status_anchor v now =
     (case v of
        None \<Rightarrow> None
      | Some t \<Rightarrow> if \<not> is_utc t then None else if time_less now t then None else Some t)"

definition compute_targets_for :: "workload \<Rightarrow> compute_target list" where
  "compute_targets_for w =
     (if wl_kind w = ScheduledScript
      then [\<lparr>ctg_workload_id = wl_id w, ctg_kind = CloudRunJob\<rparr>,
            \<lparr>ctg_workload_id = wl_id w, ctg_kind = CloudSchedulerJob\<rparr>]
      else [\<lparr>ctg_workload_id = wl_id w, ctg_kind = CloudRunService\<rparr>])"

definition cleanup_action_id ::
    "workload \<Rightarrow> lifecycle_kind \<Rightarrow> pytime \<Rightarrow> string \<Rightarrow> string" where
  "cleanup_action_id w kind eligible_at discriminator =
     ''life-'' @ wl_id w @ ''-'' @ lifecycle_kind_value kind @ ''-'' @ stamp eligible_at @ ''-w''
       @ show_int (wl_version w) @ ''-'' @ discriminator"

text \<open>\<^verbatim>\<open>workload.last_activity_at or workload.created_at\<close>\<close>

definition activity_anchor :: "workload \<Rightarrow> pytime" where
  "activity_anchor w = (case wl_last_activity_at w of None \<Rightarrow> wl_created_at w | Some t \<Rightarrow> t)"

text \<open>The action that every planner builds: planned now, for the workload as observed.\<close>

definition new_lifecycle_action ::
    "workload \<Rightarrow> lifecycle_kind \<Rightarrow> string \<Rightarrow> string \<Rightarrow> pytime \<Rightarrow> pytime \<Rightarrow> lifecycle_action res" where
  "new_lifecycle_action w kind discriminator reason eligible_at now =
     lifecycle_action_post_init
       \<lparr>lca_id = cleanup_action_id w kind eligible_at discriminator, lca_workload_id = wl_id w,
        lca_kind = kind, lca_state = LaPlanned, lca_reason = reason, lca_eligible_at = eligible_at,
        lca_observed_workload_version = wl_version w, lca_created_at = now, lca_updated_at = now,
        lca_executed_at = None, lca_version = 1\<rparr>"

definition new_cleanup_guard ::
    "user \<Rightarrow> workload \<Rightarrow> pytime option \<Rightarrow> pytime option \<Rightarrow> cleanup_guard res" where
  "new_cleanup_guard u w status_anchor_at inactivity_anchor =
     cleanup_guard_post_init
       \<lparr>cgd_planned_user_id = usr_id u, cgd_expected_workload_owner_id = wl_owner_id w,
        cgd_user_state = usr_state u, cgd_user_version = usr_version u,
        cgd_user_updated_at = usr_updated_at u, cgd_workload_state = wl_state w,
        cgd_workload_version = wl_version w, cgd_workload_updated_at = wl_updated_at w,
        cgd_observed_last_activity_at = wl_last_activity_at w,
        cgd_status_anchor_at = status_anchor_at, cgd_inactivity_anchor = inactivity_anchor\<rparr>"

definition new_cleanup ::
    "user \<Rightarrow> workload \<Rightarrow> string \<Rightarrow> string \<Rightarrow> pytime \<Rightarrow> pytime \<Rightarrow> pytime option \<Rightarrow> pytime option
       \<Rightarrow> planned_action res" where
  "new_cleanup u w discriminator reason eligible_at now status_anchor_at inactivity_anchor =
     bind_res (new_lifecycle_action w DeleteCompute discriminator reason eligible_at now) (\<lambda>action.
     bind_res (new_cleanup_guard u w status_anchor_at inactivity_anchor) (\<lambda>guard.
       planned_action_post_init
         \<lparr>pla_action = action, pla_compute_targets = compute_targets_for w,
          pla_cleanup_guard = Some guard\<rparr>))"


section \<open>Planning\<close>

definition account_locked :: "user \<Rightarrow> bool" where
  "account_locked u \<longleftrightarrow> usr_state u \<in> {UserSuspended, UserOffboarded}"

definition lock_workload_transitions :: "user \<Rightarrow> workload \<Rightarrow> workload_transition_proposal list" where
  "lock_workload_transitions u w =
     (if wl_state w \<notin> {WlQuarantined, WlArchived}
      then [\<lparr>wtp_workload_id = wl_id w, wtp_target_state = WlQuarantined,
             wtp_reason = user_state_value (usr_state u) @ ''_quarantine''\<rparr>]
      else [])"

definition lock_schedule_transitions ::
    "user \<Rightarrow> workload \<Rightarrow> schedule list \<Rightarrow> schedule_transition_proposal list" where
  "lock_schedule_transitions u w schedules =
     map (\<lambda>c. \<lparr>stp_schedule_id = sch_id c, stp_workload_id = wl_id w, stp_target_state = ScDisabled,
               stp_reason = user_state_value (usr_state u) @ ''_disable_schedule''\<rparr>)
       (filter (\<lambda>c. sch_state c \<notin> {ScDisabled, ScArchived, ScQuarantined}) schedules)"

definition lock_cleanup_actions ::
    "user \<Rightarrow> workload \<Rightarrow> workload_id list \<Rightarrow> bool \<Rightarrow> pytime option \<Rightarrow> pytime \<Rightarrow> planned_action list res" where
  "lock_cleanup_actions u w holds holds_valid account_locked_at now =
     (if wl_state w = WlArchived \<or> \<not> holds_valid then Inr []
      else case account_locked_at of
        None \<Rightarrow> Inr []
      | Some locked_at \<Rightarrow>
          bind_res (add_delta locked_at offboard_cleanup_delay) (\<lambda>eligible_at.
            if wl_id w \<in> set holds \<or> time_less now eligible_at \<or> wl_state w \<noteq> WlQuarantined
            then Inr []
            else bind_res
              (new_cleanup u w (''locked-'' @ stamp locked_at)
                 (user_state_value (usr_state u) @ ''_7d_quarantined'') eligible_at now
                 (Some locked_at) None)
              (\<lambda>planned. Inr [planned])))"

definition plan_inactivity_actions ::
    "user \<Rightarrow> workload \<Rightarrow> workload_id list \<Rightarrow> bool \<Rightarrow> pytime \<Rightarrow> planned_action list res" where
  "plan_inactivity_actions u w holds holds_valid now =
     (if wl_state w = WlArchived then Inr []
      else
        bind_res (add_delta (activity_anchor w) inactivity_warning_delay) (\<lambda>warning_at.
        bind_res (add_delta (activity_anchor w) inactivity_cleanup_delay) (\<lambda>cleanup_at.
          if time_leq cleanup_at now then
            (if \<not> holds_valid \<or> wl_id w \<in> set holds then Inr []
             else bind_res
               (new_cleanup u w (''inactivity-v'' @ show_int (wl_version w)) ''30_days_inactive''
                  cleanup_at now None (Some (activity_anchor w)))
               (\<lambda>planned. Inr [planned]))
          else if time_leq warning_at now then
            bind_res
              (new_lifecycle_action w InactivityWarning ''warning'' ''23_days_inactive'' warning_at now)
              (\<lambda>action.
            bind_res
              (planned_action_post_init
                 \<lparr>pla_action = action, pla_compute_targets = [], pla_cleanup_guard = None\<rparr>)
              (\<lambda>planned. Inr [planned]))
          else Inr [])))"

definition admin_decisions_for :: "user \<Rightarrow> workload list \<Rightarrow> pytime \<Rightarrow> admin_decision list res" where
  "admin_decisions_for u workloads now =
     (if account_locked u \<and> workloads \<noteq> [] then
        bind_res
          (admin_decision_post_init
             \<lparr>adc_user_id = usr_id u, adc_kind = NotifyAdmin, adc_eligible_at = now,
              adc_reason = user_state_value (usr_state u) @ ''_notification''\<rparr>) (\<lambda>notify.
        bind_res
          (admin_decision_post_init
             \<lparr>adc_user_id = usr_id u, adc_kind = TransferWindow, adc_eligible_at = now,
              adc_reason = user_state_value (usr_state u) @ ''_transfer_window''\<rparr>) (\<lambda>transfer.
          Inr [notify, transfer]))
      else Inr [])"

definition plan_user_lifecycle ::
    "user \<Rightarrow> workload list \<Rightarrow> schedule list \<Rightarrow> workload_id list \<Rightarrow> pytime option \<Rightarrow> pytime
       \<Rightarrow> lifecycle_decision res" where
  "plan_user_lifecycle u workloads schedules holds account_locked_at now =
     bind_res (require_utc_datetime now) (\<lambda>now.
     let holds_valid = holds_are_valid holds;
         locked_anchor = valid_status_anchor account_locked_at now;
         schedules_of = (\<lambda>w. filter (\<lambda>c. sch_workload_id c = wl_id w) schedules)
     in
     bind_res (admin_decisions_for u workloads now) (\<lambda>admin_decisions.
     bind_res
       (map_res (\<lambda>w.
          if account_locked u then lock_cleanup_actions u w holds holds_valid locked_anchor now
          else plan_inactivity_actions u w holds holds_valid now) workloads)
       (\<lambda>actions.
       Inr \<lparr>lcd_workload_transitions =
              (if account_locked u then concat (map (lock_workload_transitions u) workloads) else []),
            lcd_schedule_transitions =
              (if account_locked u
               then concat (map (\<lambda>w. lock_schedule_transitions u w (schedules_of w)) workloads)
               else []),
            lcd_admin_decisions = admin_decisions,
            lcd_planned_actions = concat actions\<rparr>)))"


section \<open>Revalidation\<close>

definition invalid_cleanup_reason ::
    "planned_action \<Rightarrow> user \<Rightarrow> workload \<Rightarrow> workload_id list \<Rightarrow> bool \<Rightarrow> pytime option \<Rightarrow> string option" where
  "invalid_cleanup_reason planned u w holds holds_valid account_locked_at =
     (case pla_cleanup_guard planned of
        None \<Rightarrow> Some ''cleanup_missing_guard''
      | Some g \<Rightarrow>
          if \<not> holds_valid then Some ''cleanup_invalid_hold_input''
          else if wl_id w \<in> set holds then Some ''cleanup_hold_present''
          else if lca_workload_id (pla_action planned) \<noteq> wl_id w then Some ''cleanup_wrong_workload''
          else if usr_id u \<noteq> cgd_planned_user_id g then Some ''cleanup_wrong_user''
          else if wl_owner_id w \<noteq> cgd_expected_workload_owner_id g then Some ''cleanup_owner_changed''
          else if usr_id u \<noteq> wl_owner_id w then Some ''cleanup_owner_relation_changed''
          else if usr_version u \<noteq> cgd_user_version g \<or> usr_updated_at u \<noteq> cgd_user_updated_at g
          then Some ''cleanup_stale_user''
          else if usr_state u \<noteq> cgd_user_state g then Some ''cleanup_user_state_changed''
          else if wl_version w \<noteq> cgd_workload_version g then Some ''cleanup_stale_workload''
          else if wl_updated_at w \<noteq> cgd_workload_updated_at g
          then Some ''cleanup_workload_timestamp_changed''
          else if wl_state w \<noteq> cgd_workload_state g then Some ''cleanup_workload_state_changed''
          else if wl_last_activity_at w \<noteq> cgd_observed_last_activity_at g
          then Some ''cleanup_new_activity''
          else if cgd_status_anchor_at g \<noteq> None \<and> account_locked_at \<noteq> cgd_status_anchor_at g
          then Some ''cleanup_status_anchor_changed''
          else if cgd_status_anchor_at g \<noteq> None \<and> \<not> account_locked u
          then Some ''cleanup_user_reactivated''
          else if cgd_inactivity_anchor g \<noteq> None \<and> Some (activity_anchor w) \<noteq> cgd_inactivity_anchor g
          then Some ''cleanup_new_activity''
          else None)"

definition revalidate_cleanup_action ::
    "planned_action \<Rightarrow> user \<Rightarrow> workload \<Rightarrow> workload_id list \<Rightarrow> pytime option \<Rightarrow> pytime
       \<Rightarrow> cleanup_execution_decision res" where
  "revalidate_cleanup_action planned u w holds account_locked_at now =
     bind_res (require_utc_datetime now) (\<lambda>now.
     require (lca_kind (pla_action planned) = DeleteCompute) ValueErr
    (require (pla_cleanup_guard planned \<noteq> None) ValueErr
    (if time_less now (lca_eligible_at (pla_action planned)) then
       Inr \<lparr>ced_kind = CleanupNoop, ced_action = pla_action planned, ced_compute_targets = [],
            ced_reason = ''cleanup_not_yet_eligible''\<rparr>
     else
       case invalid_cleanup_reason planned u w holds (holds_are_valid holds)
              (valid_status_anchor account_locked_at now) of
         Some invalid_reason \<Rightarrow>
           bind_res
             (if lca_state (pla_action planned) = LaPlanned
              then lifecycle_action_transition_state (pla_action planned) LaCancelled now
              else Inr (pla_action planned)) (\<lambda>cancelled.
             Inr \<lparr>ced_kind = CleanupCancel, ced_action = cancelled, ced_compute_targets = [],
                  ced_reason = invalid_reason\<rparr>)
       | None \<Rightarrow>
           Inr \<lparr>ced_kind = CleanupExecute, ced_action = pla_action planned,
                ced_compute_targets = pla_compute_targets planned,
                ced_reason = ''cleanup_execute''\<rparr>)))"

end
