(* ===== verification/Lifecycle_Worker.thy ===== *)
theory Lifecycle_Worker
  imports Procs Lifecycle
begin

text \<open>
  \<^verbatim>\<open>workers/lifecycle.py\<close>, which carries the lifecycle decisions of one user out, and
  \<^verbatim>\<open>workers/maintenance.py\<close>, which runs it over all users. The managers of sessions, access,
  secrets, grants, notifications, transfers, schedules and compute are outside services: their
  calls are the constructors of \<open>lifecycle_call\<close>, their behaviour is a parameter.
\<close>

datatype lifecycle_call =
    DenyUserSessions user_id string
  | RemoveOwnerAccess workload_id int string
  | RemoveWorkloadBindings workload_id "secret_id list" int
  | RevokeUserGrant user_id string
  | NotifyAdminOf user_id string string
  | NotifyOwnerOf user_id workload_id string
  | OpenTransferWindow user_id "workload_id list" string
  | ApplyScheduleState schedule_id workload_id schedule_state int string
  | DeleteComputeOf workload_id int "compute_target_kind list" "pytime option"

type_synonym 'a lifecycle_proc = "(lifecycle_call world, 'a) proc"

record lifecycle_reconcile_result =
  lrr_user :: user
  lrr_planned_actions :: "planned_action list"
  lrr_persisted_action_ids :: "string list"

record lifecycle_execution_result =
  ler_kind :: string
  ler_action :: lifecycle_action

fun lifecycle_state_value :: "lifecycle_state \<Rightarrow> string" where
  "lifecycle_state_value LaPlanned = ''planned''"
| "lifecycle_state_value LaExecuted = ''executed''"
| "lifecycle_state_value LaCancelled = ''cancelled''"
| "lifecycle_state_value LaFailed = ''failed''"

fun admin_decision_kind_value :: "admin_decision_kind \<Rightarrow> string" where
  "admin_decision_kind_value NotifyAdmin = ''notify_admin''"
| "admin_decision_kind_value TransferWindow = ''transfer_window''"

definition final_image_retention_days :: int where
  "final_image_retention_days = 30"


section \<open>Reconciling one user\<close>

definition attached_secrets :: "user_id \<Rightarrow> workload_id \<Rightarrow> store \<Rightarrow> secret_metadata list" where
  "attached_secrets owner_id workload_id s =
     filter (\<lambda>x. workload_id \<in> set (sec_attached_workload_ids x)) (list_secret_metadata s (Some owner_id))"

definition lock_secret :: "pytime \<Rightarrow> secret_metadata \<Rightarrow> unit lifecycle_proc" where
  "lock_secret at secret =
     (if sec_lifecycle_state secret \<noteq> SecActive then give ()
      else andthen (compute (transition_lifecycle secret SecLocked at)) (\<lambda>locked.
           andthen (storing (\<lambda>s. save_secret_metadata s locked (sec_version secret))) (\<lambda>_. give ())))"

definition apply_workload_transition ::
    "lifecycle_call service \<Rightarrow> user \<Rightarrow> pytime \<Rightarrow> workload_transition_proposal \<Rightarrow> unit lifecycle_proc" where
  "apply_workload_transition perform u now proposal =
     andthen (reading (\<lambda>s. get_workload s (wtp_workload_id proposal))) (\<lambda>w.
       if wl_state w = wtp_target_state proposal then give ()
       else
         andthen (calling perform
           (RemoveOwnerAccess (wl_id w) (wl_version w) (user_state_value (usr_state u)))) (\<lambda>_.
         andthen (asking (attached_secrets (usr_id u) (wl_id w))) (\<lambda>attached.
         andthen
           (if attached = [] then give ()
            else andthen (calling perform
                   (RemoveWorkloadBindings (wl_id w) (map sec_id attached) (wl_version w)))
                   (\<lambda>_. each (lock_secret now) attached)) (\<lambda>_.
         andthen (compute (workload_transition_state w (wtp_target_state proposal) now)) (\<lambda>updated.
         andthen (storing (\<lambda>s. save_workload s updated (wl_version w))) (\<lambda>_. give ()))))))"

definition apply_schedule_transition ::
    "lifecycle_call service \<Rightarrow> pytime \<Rightarrow> schedule_transition_proposal \<Rightarrow> unit lifecycle_proc" where
  "apply_schedule_transition perform now proposal =
     andthen (reading (\<lambda>s. get_schedule s (stp_schedule_id proposal))) (\<lambda>c.
       if sch_state c = stp_target_state proposal then give ()
       else
         andthen (calling perform
           (ApplyScheduleState (sch_id c) (sch_workload_id c) (stp_target_state proposal)
              (sch_version c) (stp_reason proposal))) (\<lambda>_.
         andthen (compute (schedule_transition_state c (stp_target_state proposal) now)) (\<lambda>updated.
         andthen (storing (\<lambda>s. save_schedule s updated (sch_version c))) (\<lambda>_. give ()))))"

definition apply_admin_decision ::
    "lifecycle_call service \<Rightarrow> user \<Rightarrow> workload_id list \<Rightarrow> admin_decision \<Rightarrow> unit lifecycle_proc" where
  "apply_admin_decision perform u workload_ids decision =
     (if adc_kind decision = TransferWindow
      then calling perform (OpenTransferWindow (usr_id u) workload_ids (adc_reason decision))
      else calling perform
        (NotifyAdminOf (usr_id u) (admin_decision_kind_value (adc_kind decision)) (adc_reason decision)))"

definition persist_action :: "planned_action \<Rightarrow> planned_action lifecycle_proc" where
  "persist_action planned =
     andthen
       (rescue (storing (\<lambda>s. create_lifecycle_action s (pla_action planned)))
          (\<lambda>e. if e = StoreErr AlreadyExists then
                 andthen (reading (\<lambda>s. get_lifecycle_action s (lca_id (pla_action planned)))) (\<lambda>saved.
                   check (saved = pla_action planned) ValueErr (give saved))
               else stop e))
       (\<lambda>saved. compute (planned_action_post_init (planned\<lparr>pla_action := saved\<rparr>)))"

definition reconcile_user ::
    "lifecycle_call service \<Rightarrow> user_id \<Rightarrow> pytime option \<Rightarrow> workload_id list \<Rightarrow> pytime
       \<Rightarrow> lifecycle_reconcile_result lifecycle_proc" where
  "reconcile_user perform user_id account_locked_at holds now =
     andthen (compute (require_utc_datetime now)) (\<lambda>now.
     andthen (reading (\<lambda>s. get_user s user_id)) (\<lambda>u.
     andthen (asking (\<lambda>s. list_workloads s (Some user_id))) (\<lambda>workloads.
     andthen (asking (\<lambda>s. list_schedules s (Some user_id))) (\<lambda>schedules.
     andthen (compute (plan_user_lifecycle u workloads schedules holds account_locked_at now)) (\<lambda>decision.
     andthen
       (if account_locked u
        then calling perform (DenyUserSessions (usr_id u) (user_state_value (usr_state u)))
        else give ()) (\<lambda>_.
     andthen (each (apply_workload_transition perform u now) (lcd_workload_transitions decision)) (\<lambda>_.
     andthen
       (if account_locked u
        then calling perform (RevokeUserGrant (usr_id u) (user_state_value (usr_state u)))
        else give ()) (\<lambda>_.
     andthen (each (apply_schedule_transition perform now) (lcd_schedule_transitions decision)) (\<lambda>_.
     andthen
       (each (apply_admin_decision perform u (sort (map wl_id workloads)))
          (lcd_admin_decisions decision)) (\<lambda>_.
     andthen (collect persist_action (lcd_planned_actions decision)) (\<lambda>planned.
     andthen (reading (\<lambda>s. get_user s (usr_id u))) (\<lambda>refreshed.
       give \<lparr>lrr_user = refreshed, lrr_planned_actions = planned,
             lrr_persisted_action_ids = map (\<lambda>p. lca_id (pla_action p)) planned\<rparr>))))))))))))"


section \<open>Executing one planned action\<close>

definition same_planned_material :: "planned_action \<Rightarrow> planned_action \<Rightarrow> bool" where
  "same_planned_material left right \<longleftrightarrow>
     lca_id (pla_action left) = lca_id (pla_action right) \<and>
     lca_workload_id (pla_action left) = lca_workload_id (pla_action right) \<and>
     lca_kind (pla_action left) = lca_kind (pla_action right) \<and>
     lca_reason (pla_action left) = lca_reason (pla_action right) \<and>
     lca_eligible_at (pla_action left) = lca_eligible_at (pla_action right) \<and>
     lca_observed_workload_version (pla_action left) =
       lca_observed_workload_version (pla_action right) \<and>
     pla_compute_targets left = pla_compute_targets right \<and>
     pla_cleanup_guard left = pla_cleanup_guard right"

definition validate_wrapper_if_current ::
    "planned_action \<Rightarrow> user_id \<Rightarrow> workload_id list \<Rightarrow> pytime option \<Rightarrow> pytime \<Rightarrow> store \<Rightarrow> unit res" where
  "validate_wrapper_if_current planned user_id holds account_locked_at now s =
     bind_res (get_user s user_id) (\<lambda>u.
     bind_res
       (plan_user_lifecycle u (list_workloads s (Some user_id)) (list_schedules s (Some user_id)) holds
          account_locked_at now) (\<lambda>decision.
       case find (\<lambda>candidate. lca_id (pla_action candidate) = lca_id (pla_action planned))
              (lcd_planned_actions decision) of
         None \<Rightarrow> Inr ()
       | Some current_match \<Rightarrow>
           require (same_planned_material current_match planned) ValueErr (Inr ())))"

text \<open>\<^verbatim>\<open>_archive_schedules\<close>, over the listing taken at its start.\<close>

definition archive_schedule ::
    "lifecycle_call service \<Rightarrow> workload_id \<Rightarrow> pytime \<Rightarrow> string \<Rightarrow> schedule \<Rightarrow> unit lifecycle_proc" where
  "archive_schedule perform workload_id at reason c =
     (if sch_workload_id c \<noteq> workload_id then give ()
      else if sch_state c = ScArchived then give ()
      else
        andthen (calling perform
          (ApplyScheduleState (sch_id c) (sch_workload_id c) ScArchived (sch_version c) reason)) (\<lambda>_.
        andthen (compute (schedule_transition_state c ScArchived at)) (\<lambda>archived.
        andthen (storing (\<lambda>s. save_schedule s archived (sch_version c))) (\<lambda>_. give ()))))"

definition archive_schedules ::
    "lifecycle_call service \<Rightarrow> user_id \<Rightarrow> workload_id \<Rightarrow> pytime \<Rightarrow> string \<Rightarrow> unit lifecycle_proc" where
  "archive_schedules perform owner_id workload_id at reason =
     andthen (asking (\<lambda>s. list_schedules s (Some owner_id)))
       (each (archive_schedule perform workload_id at reason))"

definition finish_action ::
    "lifecycle_action \<Rightarrow> lifecycle_state \<Rightarrow> pytime \<Rightarrow> string \<Rightarrow> lifecycle_execution_result lifecycle_proc" where
  "finish_action current target now kind =
     andthen (compute (lifecycle_action_transition_state current target now)) (\<lambda>finished.
     andthen (storing (\<lambda>s. save_lifecycle_action s finished (lca_version current))) (\<lambda>saved.
       give \<lparr>ler_kind = kind, ler_action = saved\<rparr>))"

definition execute_warning ::
    "lifecycle_call service \<Rightarrow> planned_action \<Rightarrow> lifecycle_action \<Rightarrow> user_id \<Rightarrow> pytime
       \<Rightarrow> lifecycle_execution_result lifecycle_proc" where
  "execute_warning perform planned current user_id now =
     (if time_less now (lca_eligible_at (pla_action planned))
      then give \<lparr>ler_kind = ''noop'', ler_action = current\<rparr>
      else
        andthen (calling perform
          (NotifyOwnerOf user_id (lca_workload_id (pla_action planned)) (lca_reason (pla_action planned))))
          (\<lambda>_. finish_action current LaExecuted now ''executed''))"

definition execute_cleanup ::
    "lifecycle_call service \<Rightarrow> planned_action \<Rightarrow> lifecycle_action \<Rightarrow> user_id \<Rightarrow> workload_id list
       \<Rightarrow> pytime option \<Rightarrow> pytime \<Rightarrow> lifecycle_execution_result lifecycle_proc" where
  "execute_cleanup perform planned current user_id holds account_locked_at now =
     andthen (reading (\<lambda>s. get_user s user_id)) (\<lambda>u.
     andthen (reading (\<lambda>s. get_workload s (lca_workload_id (pla_action planned)))) (\<lambda>w.
     andthen (compute (revalidate_cleanup_action planned u w holds account_locked_at now)) (\<lambda>revalidated.
       case ced_kind revalidated of
         CleanupNoop \<Rightarrow> give \<lparr>ler_kind = ''noop'', ler_action = current\<rparr>
       | CleanupCancel \<Rightarrow> finish_action current LaCancelled now ''cancelled''
       | CleanupExecute \<Rightarrow>
           andthen (reading (\<lambda>s. get_workload s (wl_id w))) (\<lambda>cw.
           andthen (archive_schedules perform (usr_id u) (wl_id cw) now (lca_reason (pla_action planned)))
             (\<lambda>_.
           andthen (compute (add_delta now (days final_image_retention_days))) (\<lambda>retain_until.
           andthen (calling perform
             (DeleteComputeOf (wl_id cw) (wl_version cw) (map ctg_kind (ced_compute_targets revalidated))
                (Some retain_until))) (\<lambda>_.
           andthen
             (if wl_state cw \<noteq> WlArchived then
                andthen (compute (workload_transition_state cw WlArchived now)) (\<lambda>archived.
                andthen (storing (\<lambda>s. save_workload s archived (wl_version cw))) (\<lambda>_. give ()))
              else give ()) (\<lambda>_.
             finish_action current LaExecuted now ''executed''))))))))"

definition execute_planned_action ::
    "lifecycle_call service \<Rightarrow> planned_action \<Rightarrow> user_id \<Rightarrow> workload_id list \<Rightarrow> pytime option \<Rightarrow> pytime
       \<Rightarrow> lifecycle_execution_result lifecycle_proc" where
  "execute_planned_action perform planned user_id holds account_locked_at now =
     andthen (compute (require_utc_datetime now)) (\<lambda>now.
     andthen (reading (\<lambda>s. get_lifecycle_action s (lca_id (pla_action planned)))) (\<lambda>current.
       if lca_state current \<noteq> LaPlanned
       then give \<lparr>ler_kind = lifecycle_state_value (lca_state current), ler_action = current\<rparr>
       else
         andthen
           (reading (validate_wrapper_if_current planned user_id holds account_locked_at now)) (\<lambda>_.
         if lca_kind (pla_action planned) = InactivityWarning
         then execute_warning perform planned current user_id now
         else execute_cleanup perform planned current user_id holds account_locked_at now)))"


section \<open>The maintenance sweep\<close>

record maintenance_sweep_result =
  msr_processed_users :: int
  msr_failed_users :: int
  msr_replayed_users :: int
  msr_replayed_actions :: int
  msr_executed_actions :: int
  msr_noop_actions :: int
  msr_cancelled_actions :: int

text \<open>Who is held is asked outside; any blank id is refused.\<close>

type_synonym hold_resolver = "user_id \<Rightarrow> pytime \<Rightarrow> workload_id list res"

definition resolve_holds :: "hold_resolver \<Rightarrow> user_id \<Rightarrow> pytime \<Rightarrow> workload_id list res" where
  "resolve_holds resolver user_id now =
     bind_res (resolver user_id now) (\<lambda>holds.
       require (list_all nonblank holds) ValueErr (Inr holds))"

definition account_locked_since :: "user \<Rightarrow> pytime option" where
  "account_locked_since u = (if account_locked u then Some (usr_updated_at u) else None)"

definition same_action_material :: "lifecycle_action \<Rightarrow> lifecycle_action \<Rightarrow> bool" where
  "same_action_material existing planned \<longleftrightarrow>
     lca_id existing = lca_id planned \<and> lca_workload_id existing = lca_workload_id planned \<and>
     lca_kind existing = lca_kind planned \<and> lca_reason existing = lca_reason planned \<and>
     lca_eligible_at existing = lca_eligible_at planned \<and>
     lca_observed_workload_version existing = lca_observed_workload_version planned"

text \<open>The loop of \<^verbatim>\<open>_recover_replayed_actions\<close>: whether every planned action is stored as planned.\<close>

fun all_replayed :: "store \<Rightarrow> planned_action list \<Rightarrow> bool res" where
  "all_replayed s [] = Inr True"
| "all_replayed s (p # ps) =
     bind_res (get_lifecycle_action s (lca_id (pla_action p))) (\<lambda>existing.
       if same_action_material existing (pla_action p) then all_replayed s ps else Inr False)"

definition recover_replayed_actions ::
    "user_id \<Rightarrow> workload_id list \<Rightarrow> pytime option \<Rightarrow> pytime \<Rightarrow> store \<Rightarrow> planned_action list option res" where
  "recover_replayed_actions user_id holds account_locked_at now s =
     bind_res (get_user s user_id) (\<lambda>u.
     bind_res
       (plan_user_lifecycle u (list_workloads s (Some user_id)) (list_schedules s (Some user_id)) holds
          account_locked_at now) (\<lambda>decision.
       if lcd_planned_actions decision = [] then Inr None
       else bind_res (all_replayed s (lcd_planned_actions decision)) (\<lambda>all_same.
         Inr (if all_same then Some (lcd_planned_actions decision) else None))))"

text \<open>The planned actions of a user and whether they were recovered from an earlier run.\<close>

definition reconcile_or_recover ::
    "lifecycle_call service \<Rightarrow> user_id \<Rightarrow> workload_id list \<Rightarrow> pytime option \<Rightarrow> pytime
       \<Rightarrow> (planned_action list \<times> bool) lifecycle_proc" where
  "reconcile_or_recover perform user_id holds account_locked_at now =
     rescue
       (andthen (reconcile_user perform user_id account_locked_at holds now) (\<lambda>result.
          give (lrr_planned_actions result, False)))
       (\<lambda>e.
          if is_value_error e then
            andthen (reading (recover_replayed_actions user_id holds account_locked_at now)) (\<lambda>recovered.
              case recovered of None \<Rightarrow> stop e | Some planned \<Rightarrow> give (planned, True))
          else stop e)"

definition count_execution ::
    "string \<Rightarrow> maintenance_sweep_result \<Rightarrow> maintenance_sweep_result" where
  "count_execution kind r =
     (if kind = ''executed'' then r\<lparr>msr_executed_actions := msr_executed_actions r + 1\<rparr>
      else if kind = ''noop'' then r\<lparr>msr_noop_actions := msr_noop_actions r + 1\<rparr>
      else if kind = ''cancelled'' then r\<lparr>msr_cancelled_actions := msr_cancelled_actions r + 1\<rparr>
      else r)"

text \<open>
  One user of the sweep. The counters are updated as the code goes, so a failure keeps what was
  counted before it.
\<close>

fun execute_all ::
    "lifecycle_call service \<Rightarrow> user_id \<Rightarrow> workload_id list \<Rightarrow> pytime option \<Rightarrow> pytime \<Rightarrow> planned_action list
       \<Rightarrow> maintenance_sweep_result \<Rightarrow> lifecycle_call world
       \<Rightarrow> bool \<times> maintenance_sweep_result \<times> lifecycle_call world" where
  "execute_all perform user_id holds account_locked_at now [] r w = (True, r, w)"
| "execute_all perform user_id holds account_locked_at now (p # ps) r w =
     (case execute_planned_action perform p user_id holds account_locked_at now w of
        (Inl _, w') \<Rightarrow> (False, r, w')
      | (Inr execution, w') \<Rightarrow>
          execute_all perform user_id holds account_locked_at now ps
            (count_execution (ler_kind execution) r) w')"

definition sweep_user ::
    "lifecycle_call service \<Rightarrow> hold_resolver \<Rightarrow> pytime \<Rightarrow> user
       \<Rightarrow> maintenance_sweep_result \<times> lifecycle_call world
       \<Rightarrow> maintenance_sweep_result \<times> lifecycle_call world" where
  "sweep_user perform resolver now u state =
     (let (r, w) = state;
          failed = (\<lambda>r. r\<lparr>msr_failed_users := msr_failed_users r + 1\<rparr>)
      in case resolve_holds resolver (usr_id u) now of
           Inl _ \<Rightarrow> (failed r, w)
         | Inr holds \<Rightarrow>
             (case reconcile_or_recover perform (usr_id u) holds (account_locked_since u) now w of
                (Inl _, w') \<Rightarrow> (failed r, w')
              | (Inr (planned, replayed), w') \<Rightarrow>
                  (let r1 = r\<lparr>msr_processed_users := msr_processed_users r + 1\<rparr>;
                       r2 =
                         (if replayed then
                            r1\<lparr>msr_replayed_users := msr_replayed_users r1 + 1,
                               msr_replayed_actions :=
                                 msr_replayed_actions r1 + int (length planned)\<rparr>
                          else r1)
                   in case execute_all perform (usr_id u) holds (account_locked_since u) now planned r2 w' of
                        (ok, r3, w'') \<Rightarrow> (if ok then r3 else failed r3, w''))))"

definition maintenance_sweep ::
    "lifecycle_call service \<Rightarrow> hold_resolver \<Rightarrow> pytime \<Rightarrow> lifecycle_call world
       \<Rightarrow> maintenance_sweep_result res \<times> lifecycle_call world" where
  "maintenance_sweep perform resolver now w =
     (case require_utc_datetime now of
        Inl e \<Rightarrow> (Inl e, w)
      | Inr now \<Rightarrow>
          (case fold (sweep_user perform resolver now) (list_users (wrl_store w))
                  (\<lparr>msr_processed_users = 0, msr_failed_users = 0, msr_replayed_users = 0,
                    msr_replayed_actions = 0, msr_executed_actions = 0, msr_noop_actions = 0,
                    msr_cancelled_actions = 0\<rparr>, w) of
             (r, w') \<Rightarrow> (Inr r, w')))"

end
