(* ===== verification/Lifecycle_Guarantees.thy ===== *)
theory Lifecycle_Guarantees
  imports Lifecycle Samples
begin

text \<open>
  When the lifecycle planner proposes a cleanup, what a cleanup needs at execution time, and that
  its other proposals are legal transitions.
\<close>

lemma map_res_concat:
  assumes "map_res f xs = Inr yss" and "y \<in> set (concat yss)"
  shows "\<exists>x \<in> set xs. \<exists>ys. f x = Inr ys \<and> y \<in> set ys"
proof -
  from assms(2) obtain ys where "ys \<in> set yss" "y \<in> set ys" by auto
  with map_res_set [OF assms(1)] show ?thesis by blast
qed

lemma new_cleanup_Inr:
  assumes "new_cleanup u w d r eligible_at now sa ia = Inr p"
  shows "lca_kind (pla_action p) = DeleteCompute \<and> lca_state (pla_action p) = LaPlanned \<and>
    lca_workload_id (pla_action p) = wl_id w \<and> lca_eligible_at (pla_action p) = eligible_at \<and>
    lca_observed_workload_version (pla_action p) = wl_version w \<and>
    lca_updated_at (pla_action p) = now \<and> lifecycle_action_ok (pla_action p) \<and>
    pla_compute_targets p = compute_targets_for w \<and>
    pla_cleanup_guard p = Some
      \<lparr>cgd_planned_user_id = usr_id u, cgd_expected_workload_owner_id = wl_owner_id w,
       cgd_user_state = usr_state u, cgd_user_version = usr_version u,
       cgd_user_updated_at = usr_updated_at u, cgd_workload_state = wl_state w,
       cgd_workload_version = wl_version w, cgd_workload_updated_at = wl_updated_at w,
       cgd_observed_last_activity_at = wl_last_activity_at w,
       cgd_status_anchor_at = sa, cgd_inactivity_anchor = ia\<rparr>"
  using assms
  by (auto simp: new_cleanup_def new_lifecycle_action_def new_cleanup_guard_def
      cleanup_guard_post_init_def planned_action_post_init_def res_simps)

text \<open>Which workloads get a cleanup, by which of the two clocks.\<close>

definition lock_clock :: "workload \<Rightarrow> pytime option \<Rightarrow> pytime \<Rightarrow> pytime \<Rightarrow> bool" where
  "lock_clock w locked_at eligible_at now \<longleftrightarrow>
     wl_state w = WlQuarantined \<and>
     (\<exists>t. locked_at = Some t \<and> is_utc t \<and> instant eligible_at = instant t + days 7 \<and>
        instant eligible_at \<le> instant now)"

definition inactivity_clock :: "workload \<Rightarrow> pytime \<Rightarrow> pytime \<Rightarrow> bool" where
  "inactivity_clock w eligible_at now \<longleftrightarrow>
     wl_state w \<noteq> WlArchived \<and>
     instant eligible_at = instant (activity_anchor w) + days 30 \<and>
     instant eligible_at \<le> instant now"

lemma valid_status_anchor_Some:
  "valid_status_anchor v now = Some t \<longleftrightarrow> v = Some t \<and> is_utc t \<and> time_leq t now"
  by (auto simp: valid_status_anchor_def time_less_not_leq split: option.splits if_splits)

lemma planned_cleanup:
  assumes "plan_user_lifecycle u ws schedules holds locked_at now = Inr dec"
    and "p \<in> set (lcd_planned_actions dec)" and "lca_kind (pla_action p) = DeleteCompute"
  shows "\<exists>w \<in> set ws. \<exists>d r eligible_at. is_utc now \<and> holds_are_valid holds \<and> wl_id w \<notin> set holds \<and>
    (if account_locked u
     then new_cleanup u w d r eligible_at now locked_at None = Inr p \<and>
       locked_at \<noteq> None \<and> valid_status_anchor locked_at now = locked_at \<and>
       lock_clock w locked_at eligible_at now
     else new_cleanup u w d r eligible_at now None (Some (activity_anchor w)) = Inr p \<and>
       inactivity_clock w eligible_at now)"
proof -
  let ?locked = "valid_status_anchor locked_at now"
  from assms(1,2) obtain yss where now: "is_utc now"
    and yss: "map_res (\<lambda>w. if account_locked u
        then lock_cleanup_actions u w holds (holds_are_valid holds) ?locked now
        else plan_inactivity_actions u w holds (holds_are_valid holds) now) ws = Inr yss"
    and p: "p \<in> set (concat yss)"
    by (auto simp: plan_user_lifecycle_def Let_def bind_res_Inr require_utc_datetime_Inr)
  from map_res_concat [OF yss p] obtain w ys where w: "w \<in> set ws" and p: "p \<in> set ys"
    and ys: "(if account_locked u
      then lock_cleanup_actions u w holds (holds_are_valid holds) ?locked now
      else plan_inactivity_actions u w holds (holds_are_valid holds) now) = Inr ys" by blast
  show ?thesis
  proof (cases "account_locked u")
    case True
    with ys p obtain t eligible_at where t: "?locked = Some t"
      and elig: "add_delta t offboard_cleanup_delay = Inr eligible_at"
      and made: "new_cleanup u w (''locked-'' @ stamp t)
        (user_state_value (usr_state u) @ ''_7d_quarantined'') eligible_at now (Some t) None = Inr p"
      and conds: "wl_id w \<notin> set holds" "\<not> time_less now eligible_at" "wl_state w = WlQuarantined"
        "holds_are_valid holds"
      by (auto simp: lock_cleanup_actions_def bind_res_Inr split: if_splits option.splits)
    from t have locked: "locked_at = Some t" "is_utc t" by (simp_all add: valid_status_anchor_Some)
    have "lock_clock w locked_at eligible_at now"
      using conds locked add_delta_instant [OF elig]
      by (simp add: lock_clock_def offboard_cleanup_delay_def transfer_grace_days_def time_leq_def)
    with True w made conds locked t now show ?thesis by auto
  next
    case False
    with ys p assms(3) obtain eligible_at d where
      elig: "add_delta (activity_anchor w) inactivity_cleanup_delay = Inr eligible_at"
      and made: "new_cleanup u w d ''30_days_inactive'' eligible_at now None
        (Some (activity_anchor w)) = Inr p"
      and conds: "wl_id w \<notin> set holds" "time_leq eligible_at now" "wl_state w \<noteq> WlArchived"
        "holds_are_valid holds"
      by (auto simp: plan_inactivity_actions_def bind_res_Inr new_lifecycle_action_def
          lifecycle_action_post_init_Inr planned_action_post_init_def require_Inr split: if_splits)
    have "inactivity_clock w eligible_at now"
      using conds add_delta_instant [OF elig]
      by (simp add: inactivity_clock_def inactivity_cleanup_delay_def cleanup_days_def time_leq_def)
    with False w made conds now show ?thesis by auto
  qed
qed


lemma invalid_cleanup_reason_None:
  assumes "pla_cleanup_guard p = Some g"
  shows "invalid_cleanup_reason p u w holds holds_valid locked_at = None \<longleftrightarrow>
    holds_valid \<and> wl_id w \<notin> set holds \<and> lca_workload_id (pla_action p) = wl_id w \<and>
    usr_id u = cgd_planned_user_id g \<and> wl_owner_id w = cgd_expected_workload_owner_id g \<and>
    usr_id u = wl_owner_id w \<and> usr_version u = cgd_user_version g \<and>
    usr_updated_at u = cgd_user_updated_at g \<and> usr_state u = cgd_user_state g \<and>
    wl_version w = cgd_workload_version g \<and> wl_updated_at w = cgd_workload_updated_at g \<and>
    wl_state w = cgd_workload_state g \<and> wl_last_activity_at w = cgd_observed_last_activity_at g \<and>
    (cgd_status_anchor_at g \<noteq> None \<longrightarrow> locked_at = cgd_status_anchor_at g \<and> account_locked u) \<and>
    (cgd_inactivity_anchor g \<noteq> None \<longrightarrow> Some (activity_anchor w) = cgd_inactivity_anchor g)"
  unfolding invalid_cleanup_reason_def assms option.case if_split_eq1 by blast

lemma cleanup_reason_owner:
  "invalid_cleanup_reason p u w holds holds_valid locked_at = None \<Longrightarrow> wl_owner_id w = usr_id u"
  unfolding invalid_cleanup_reason_def by (auto split: option.splits if_splits)

lemma revalidation_executes:
  "revalidate_cleanup_action p u w holds locked_at now = Inr d \<and> ced_kind d = CleanupExecute \<longleftrightarrow>
     is_utc now \<and> lca_kind (pla_action p) = DeleteCompute \<and> pla_cleanup_guard p \<noteq> None \<and>
     time_leq (lca_eligible_at (pla_action p)) now \<and>
     invalid_cleanup_reason p u w holds (holds_are_valid holds) (valid_status_anchor locked_at now) = None \<and>
     d = \<lparr>ced_kind = CleanupExecute, ced_action = pla_action p,
          ced_compute_targets = pla_compute_targets p, ced_reason = ''cleanup_execute''\<rparr>"
  by (auto simp: revalidate_cleanup_action_def bind_res_Inr require_utc_datetime_Inr require_Inr
      time_less_not_leq split: option.splits if_splits)

lemma compute_targets_for_workload:
  "compute_targets_for w \<noteq> [] \<and> (\<forall>x \<in> set (compute_targets_for w). ctg_workload_id x = wl_id w)"
  by (auto simp: compute_targets_for_def)

text \<open>
  Compute is only deleted after its grace period. If a cleanup that the planner proposed is
  revalidated to execute, then at that moment the workload is owned by that user, is not held and
  not archived, and either the account is locked, was locked at least seven days ago and the
  workload is still quarantined, or the account is not locked and the workload has been inactive
  for at least thirty days; and only that workload's compute is named.
\<close>

lemma cleanup_only_after_grace:
  assumes "plan_user_lifecycle u0 ws schedules holds0 locked0 now0 = Inr dec"
    and "p \<in> set (lcd_planned_actions dec)"
    and "revalidate_cleanup_action p u w holds locked_at now = Inr d" and "ced_kind d = CleanupExecute"
  shows "wl_owner_id w = usr_id u \<and> wl_id w \<notin> set holds \<and> wl_state w \<noteq> WlArchived \<and>
    (if account_locked u
     then wl_state w = WlQuarantined \<and>
       (\<exists>t. locked_at = Some t \<and> is_utc t \<and> instant t + days 7 \<le> instant now)
     else instant (activity_anchor w) + days 30 \<le> instant now) \<and>
    ced_compute_targets d \<noteq> [] \<and> (\<forall>x \<in> set (ced_compute_targets d). ctg_workload_id x = wl_id w)"
proof -
  from assms(3,4) have exec: "lca_kind (pla_action p) = DeleteCompute"
      "time_leq (lca_eligible_at (pla_action p)) now"
      "invalid_cleanup_reason p u w holds (holds_are_valid holds) (valid_status_anchor locked_at now) = None"
      "ced_compute_targets d = pla_compute_targets p"
    using revalidation_executes [of p u w holds locked_at now d] by auto
  from planned_cleanup [OF assms(1,2) exec(1)] obtain w0 desc r eligible_at sa ia where
    made: "new_cleanup u0 w0 desc r eligible_at now0 sa ia = Inr p"
    and clock: "if account_locked u0 then sa = locked0 \<and> locked0 \<noteq> None \<and> lock_clock w0 locked0 eligible_at now0
      else sa = None \<and> ia = Some (activity_anchor w0) \<and> inactivity_clock w0 eligible_at now0"
    by (metis (full_types))
  note p = new_cleanup_Inr [OF made]
  note valid = exec(3) [unfolded invalid_cleanup_reason_None [OF p [THEN conjunct2, THEN conjunct2,
        THEN conjunct2, THEN conjunct2, THEN conjunct2, THEN conjunct2, THEN conjunct2, THEN conjunct2]]]
  have same: "usr_state u = usr_state u0" "wl_state w = wl_state w0" "wl_id w = wl_id w0"
    "wl_id w \<notin> set holds"
    using valid p by simp_all
  have owner: "wl_owner_id w = usr_id u" by (rule cleanup_reason_owner [OF exec(3)])
  have locked: "account_locked u = account_locked u0" using same by (simp add: account_locked_def)
  have "eligible_at = lca_eligible_at (pla_action p)" using p by simp
  then have elapsed: "instant eligible_at \<le> instant now" using exec(2) by (simp add: time_leq_def)
  have "ced_compute_targets d = compute_targets_for w0" using exec(4) p by simp
  then have targets: "ced_compute_targets d \<noteq> []"
    "\<forall>x \<in> set (ced_compute_targets d). ctg_workload_id x = wl_id w"
    using compute_targets_for_workload [of w0] same by auto
  show ?thesis
  proof (cases "account_locked u0")
    case True
    with clock obtain t where t: "locked0 = Some t" "is_utc t" "sa = Some t"
      "instant eligible_at = instant t + days 7" "wl_state w0 = WlQuarantined"
      by (auto simp: lock_clock_def)
    with valid have "valid_status_anchor locked_at now = Some t" by simp
    then have "locked_at = Some t" by (simp add: valid_status_anchor_Some)
    with True t same owner locked elapsed targets show ?thesis by simp
  next
    case False
    with clock valid have "activity_anchor w = activity_anchor w0" "inactivity_clock w0 eligible_at now0"
      by auto
    with False same owner locked elapsed targets show ?thesis by (simp add: inactivity_clock_def)
  qed
qed

definition idle_workload :: workload where
  "idle_workload = sample_workload\<lparr>wl_last_activity_at := None\<rparr>"

definition idle_decision :: lifecycle_decision where
  "idle_decision = projr (plan_user_lifecycle sample_user [idle_workload] [] [] None (utc (days 30)))"

definition idle_cleanup :: planned_action where
  "idle_cleanup = hd (lcd_planned_actions idle_decision)"

lemma idle_planned:
  "plan_user_lifecycle sample_user [idle_workload] [] [] None (utc (days 30)) = Inr idle_decision"
  "idle_cleanup \<in> set (lcd_planned_actions idle_decision)"
  "lca_kind (pla_action idle_cleanup) = DeleteCompute"
  "lca_workload_id (pla_action idle_cleanup) = wl_id idle_workload"
  by code_simp+

lemma revalidation_cancels:
  assumes "is_utc now" and "lca_kind (pla_action p) = DeleteCompute" and "pla_cleanup_guard p \<noteq> None"
    and "time_leq (lca_eligible_at (pla_action p)) now" and "lca_state (pla_action p) = LaPlanned"
    and "lifecycle_action_ok (pla_action p)" and "time_leq (lca_updated_at (pla_action p)) now"
    and "invalid_cleanup_reason p u w holds (holds_are_valid holds) (valid_status_anchor locked_at now) \<noteq> None"
  shows "\<exists>d. revalidate_cleanup_action p u w holds locked_at now = Inr d \<and> ced_kind d = CleanupCancel \<and>
    lca_state (ced_action d) = LaCancelled \<and> ced_compute_targets d = []"
proof -
  obtain reason where reason: "invalid_cleanup_reason p u w holds (holds_are_valid holds)
      (valid_status_anchor locked_at now) = Some reason" using assms(8) by auto
  have "lifecycle_action_transition_state (pla_action p) LaCancelled now =
      Inr (pla_action p\<lparr>lca_state := LaCancelled, lca_updated_at := now, lca_executed_at := None,
        lca_version := lca_version (pla_action p) + 1\<rparr>)"
    using assms(1,5,7) by (simp add: lifecycle_action_transition_state_Inr [OF assms(6)] transition_time_ok_def)
  with assms reason show ?thesis
    by (simp add: revalidate_cleanup_action_def require_utc_datetime_def time_less_not_leq)
qed

text \<open>
  C27: A planned cleanup executes unless something changed: revalidated at any later time with the
  same user, workload, holds and lock, it names exactly that workload's compute; if the workload or
  the user has another version, or the workload is held, it is cancelled and names nothing.
\<close>

theorem planned_cleanup_revalidates:
  assumes "plan_user_lifecycle u ws schedules holds locked_at now = Inr dec"
    and "p \<in> set (lcd_planned_actions dec)" and "lca_kind (pla_action p) = DeleteCompute"
    and "distinct (map wl_id ws)" and "w \<in> set ws" and "wl_id w = lca_workload_id (pla_action p)"
    and "usr_id u = wl_owner_id w" and "is_utc at" and "time_leq now at"
  shows "revalidate_cleanup_action p u w holds locked_at at =
      Inr \<lparr>ced_kind = CleanupExecute, ced_action = pla_action p,
           ced_compute_targets = compute_targets_for w, ced_reason = ''cleanup_execute''\<rparr> \<and>
    (\<forall>u' w' holds'. wl_version w' \<noteq> wl_version w \<or> usr_version u' \<noteq> usr_version u \<or> wl_id w' \<in> set holds' \<longrightarrow>
      (\<exists>d. revalidate_cleanup_action p u' w' holds' locked_at at = Inr d \<and> ced_kind d = CleanupCancel \<and>
         lca_state (ced_action d) = LaCancelled \<and> ced_compute_targets d = []))"
proof -
  from planned_cleanup [OF assms(1-3)] obtain w0 d r eligible_at sa ia where
    w0: "w0 \<in> set ws" and now: "is_utc now" and holds: "holds_are_valid holds" "wl_id w0 \<notin> set holds"
    and made: "new_cleanup u w0 d r eligible_at now sa ia = Inr p"
    and clock: "if account_locked u then sa = locked_at \<and> ia = None \<and> locked_at \<noteq> None \<and>
        valid_status_anchor locked_at now = locked_at \<and> lock_clock w0 locked_at eligible_at now
      else sa = None \<and> ia = Some (activity_anchor w0) \<and> inactivity_clock w0 eligible_at now"
    by (metis (full_types))
  note p = new_cleanup_Inr [OF made]
  obtain g where guard: "pla_cleanup_guard p = Some g" "cgd_workload_version g = wl_version w0"
    "cgd_user_version g = usr_version u" using p by auto
  have w: "w0 = w"
    using w0 assms(4-6) p by (metis (no_types, lifting) distinct_map inj_onD)
  have elig: "time_leq (lca_eligible_at (pla_action p)) at"
    using clock p assms(9)
    by (auto simp: lock_clock_def inactivity_clock_def time_leq_def split: if_splits)
  have anchor: "account_locked u \<longrightarrow> valid_status_anchor locked_at at = locked_at"
    using clock assms(9) time_leq_trans by (auto simp: valid_status_anchor_Some)
  have "invalid_cleanup_reason p u w holds (holds_are_valid holds) (valid_status_anchor locked_at at) = None"
    using p [unfolded w] holds [unfolded w] clock [unfolded w] anchor assms(7)
    by (cases "account_locked u") (simp_all add: invalid_cleanup_reason_def)
  with elig p assms(3,8) have exec: "revalidate_cleanup_action p u w holds locked_at at =
      Inr \<lparr>ced_kind = CleanupExecute, ced_action = pla_action p,
           ced_compute_targets = compute_targets_for w, ced_reason = ''cleanup_execute''\<rparr>"
    by (simp add: revalidate_cleanup_action_def require_utc_datetime_def time_less_not_leq w)
  have "\<exists>d. revalidate_cleanup_action p u' w' holds' locked_at at = Inr d \<and> ced_kind d = CleanupCancel \<and>
      lca_state (ced_action d) = LaCancelled \<and> ced_compute_targets d = []"
    if "wl_version w' \<noteq> wl_version w \<or> usr_version u' \<noteq> usr_version u \<or> wl_id w' \<in> set holds'"
    for u' w' holds'
  proof (rule revalidation_cancels)
    show "invalid_cleanup_reason p u' w' holds' (holds_are_valid holds') (valid_status_anchor locked_at at)
        \<noteq> None"
      using that unfolding invalid_cleanup_reason_None [OF guard(1)] guard(2,3) w by blast
  qed (use assms(3,8,9) elig p guard in simp_all)
  with exec show ?thesis by blast
qed

theorem planned_cleanup_revalidates_witness:
  "ced_kind (projr (revalidate_cleanup_action idle_cleanup sample_user idle_workload [] None
     (utc (days 31)))) = CleanupExecute"
  using planned_cleanup_revalidates [OF idle_planned(1-3), of idle_workload "utc (days 31)"]
    idle_planned(4)
  by (simp add: time_leq_def idle_workload_def sample_workload_def sample_user_def days_def hours_def
      seconds_def)

text \<open>
  What the planner proposes for a locked account is legal and complete: each proposed workload
  or schedule state is a legal successor of the current one, every workload that is neither
  quarantined nor archived gets its quarantine, every schedule of the workloads that still runs or
  is paused gets disabled, and nothing is proposed for an account that is not locked.
\<close>

theorem lock_proposals_are_legal:
  assumes "plan_user_lifecycle u ws schedules holds locked_at now = Inr dec"
  shows "(\<forall>x \<in> set (lcd_workload_transitions dec). \<exists>w \<in> set ws. wl_id w = wtp_workload_id x \<and>
        wtp_target_state x \<in> workload_transitions (wl_state w)) \<and>
    (\<forall>x \<in> set (lcd_schedule_transitions dec). \<exists>c \<in> set schedules. sch_id c = stp_schedule_id x \<and>
        sch_workload_id c = stp_workload_id x \<and> stp_target_state x \<in> schedule_transitions (sch_state c)) \<and>
    (if account_locked u
     then (\<forall>w \<in> set ws. wl_state w \<notin> {WlQuarantined, WlArchived} \<longrightarrow>
         wl_id w \<in> wtp_workload_id ` set (lcd_workload_transitions dec)) \<and>
       (\<forall>c \<in> set schedules. sch_workload_id c \<in> wl_id ` set ws \<and> sch_state c \<in> {ScEnabled, ScPaused} \<longrightarrow>
         sch_id c \<in> stp_schedule_id ` set (lcd_schedule_transitions dec))
     else lcd_workload_transitions dec = [] \<and> lcd_schedule_transitions dec = [])"
proof -
  let ?schedules = "\<lambda>w. filter (\<lambda>c. sch_workload_id c = wl_id w) schedules"
  have workloads: "lcd_workload_transitions dec =
      (if account_locked u then concat (map (lock_workload_transitions u) ws) else [])"
    and schedules: "lcd_schedule_transitions dec =
      (if account_locked u then concat (map (\<lambda>w. lock_schedule_transitions u w (?schedules w)) ws) else [])"
    using assms by (auto simp: plan_user_lifecycle_def Let_def bind_res_Inr)
  have legal_w: "wl_state w \<notin> {WlQuarantined, WlArchived} \<longleftrightarrow> WlQuarantined \<in> workload_transitions (wl_state w)" for w
    by (cases "wl_state w") auto
  have legal_s: "sch_state c \<notin> {ScDisabled, ScArchived, ScQuarantined} \<Longrightarrow>
      ScDisabled \<in> schedule_transitions (sch_state c)" for c
    by (cases "sch_state c") auto
  have "\<exists>w \<in> set ws. wl_id w = wtp_workload_id x \<and> wtp_target_state x \<in> workload_transitions (wl_state w)"
    if "x \<in> set (lcd_workload_transitions dec)" for x
    using that unfolding workloads lock_workload_transitions_def legal_w
    by (force split: if_splits)
  moreover have "\<exists>c \<in> set schedules. sch_id c = stp_schedule_id x \<and>
      sch_workload_id c = stp_workload_id x \<and> stp_target_state x \<in> schedule_transitions (sch_state c)"
    if "x \<in> set (lcd_schedule_transitions dec)" for x
    using that legal_s by (fastforce simp: schedules lock_schedule_transitions_def split: if_splits)
  moreover have "wl_id w \<in> wtp_workload_id ` set (lcd_workload_transitions dec)"
    if "account_locked u" "w \<in> set ws" "wl_state w \<notin> {WlQuarantined, WlArchived}" for w
    using that by (force simp: workloads lock_workload_transitions_def)
  moreover have "sch_id c \<in> stp_schedule_id ` set (lcd_schedule_transitions dec)"
    if "account_locked u" "c \<in> set schedules" "sch_workload_id c \<in> wl_id ` set ws"
      "sch_state c \<in> {ScEnabled, ScPaused}" for c
    using that by (force simp: schedules lock_schedule_transitions_def)
  ultimately show ?thesis using workloads schedules by simp
qed

theorem lock_proposals_are_legal_witness:
  "''w1'' \<in> wtp_workload_id ` set (lcd_workload_transitions (projr
     (plan_user_lifecycle (sample_user\<lparr>usr_state := UserSuspended\<rparr>) [sample_workload] [] [] None t1)))"
proof -
  let ?u = "sample_user\<lparr>usr_state := UserSuspended\<rparr>"
  have "plan_user_lifecycle ?u [sample_workload] [] [] None t1 =
      Inr (projr (plan_user_lifecycle ?u [sample_workload] [] [] None t1))"
    by code_simp
  from lock_proposals_are_legal [OF this]
  have "\<forall>w \<in> set [sample_workload]. wl_state w \<notin> {WlQuarantined, WlArchived} \<longrightarrow>
      wl_id w \<in> wtp_workload_id ` set (lcd_workload_transitions (projr
        (plan_user_lifecycle ?u [sample_workload] [] [] None t1)))"
    by (simp add: account_locked_def)
  then show ?thesis by (simp add: sample_workload_def)
qed

end
