(* ===== verification/Worker_Guarantees.thy ===== *)
theory Worker_Guarantees
  imports Lifecycle_Worker Lifecycle_Guarantees
begin

text \<open>
  What a maintenance sweep and its lifecycle worker can do, for every behaviour of the outside
  services: how the store evolves, when compute is released, what a failure leaves behind.
\<close>

section \<open>The store evolves by calls\<close>

lemma worker_stores:
  "workload_ok x \<Longrightarrow> later s (snd (save_workload s x v))"
  "schedule_ok c \<Longrightarrow> later s (snd (save_schedule s c v))"
  "secret_ok z \<Longrightarrow> later s (snd (save_secret_metadata s z v))"
  "lifecycle_action_ok a \<Longrightarrow> later s (snd (save_lifecycle_action s a v))"
  "lifecycle_action_ok a \<Longrightarrow> later s (snd (create_lifecycle_action s a))"
  using later_run [of "SaveWorkload x v" s] later_run [of "SaveSchedule c v" s]
    later_run [of "SaveSecret z v" s] later_run [of "SaveAction a v" s] later_run [of "CreateAction a" s]
  by simp_all

lemma transitions_ok:
  "workload_transition_state w target at = Inr w' \<Longrightarrow> workload_ok w'"
  "schedule_transition_state c target' at = Inr c' \<Longrightarrow> schedule_ok c'"
  "transition_lifecycle z target'' at = Inr z' \<Longrightarrow> secret_ok z'"
  "lifecycle_action_transition_state a target''' at = Inr a' \<Longrightarrow> lifecycle_action_ok a'"
  by (auto simp: workload_transition_state_def schedule_transition_state_def transition_lifecycle_def
      lifecycle_action_transition_state_def res_simps)

lemma new_lifecycle_action_ok:
  "new_lifecycle_action w k d r e now = Inr a \<Longrightarrow> lifecycle_action_ok a \<and> lca_created_at a = now"
  by (auto simp: new_lifecycle_action_def res_simps)

lemma planned_actions_new:
  assumes "plan_user_lifecycle u ws schedules holds locked_at now = Inr dec"
    and "p \<in> set (lcd_planned_actions dec)"
  shows "lifecycle_action_ok (pla_action p) \<and> lca_created_at (pla_action p) = now"
proof -
  from assms obtain yss where
    yss: "map_res (\<lambda>w. if account_locked u
        then lock_cleanup_actions u w holds (holds_are_valid holds) (valid_status_anchor locked_at now) now
        else plan_inactivity_actions u w holds (holds_are_valid holds) now) ws = Inr yss"
    and p: "p \<in> set (concat yss)"
    by (auto simp: plan_user_lifecycle_def Let_def bind_res_Inr require_utc_datetime_Inr)
  from map_res_concat [OF yss p] obtain w ys where "p \<in> set ys"
    "(if account_locked u
      then lock_cleanup_actions u w holds (holds_are_valid holds) (valid_status_anchor locked_at now) now
      else plan_inactivity_actions u w holds (holds_are_valid holds) now) = Inr ys" by blast
  then show ?thesis
    by (auto simp: lock_cleanup_actions_def plan_inactivity_actions_def new_cleanup_def res_simps
        planned_action_post_init_def dest!: new_lifecycle_action_ok split: if_splits option.splits)
qed

lemmas planned_actions_ok = planned_actions_new [THEN conjunct1]


section \<open>When compute is released\<close>

text \<open>
  Why a call may be made: a deletion of compute needs a workload of one of the users, at the version
  that the call names, unheld, not archived yet and due for cleanup. Other calls need nothing.
\<close>

definition due_for_cleanup :: "user \<Rightarrow> user \<Rightarrow> workload \<Rightarrow> pytime \<Rightarrow> bool" where
  "due_for_cleanup listed u w now \<longleftrightarrow>
     (if account_locked u
      then wl_state w = WlQuarantined \<and> account_locked listed \<and>
        instant (usr_updated_at listed) + days 7 \<le> instant now
      else wl_state w \<noteq> WlArchived \<and> instant (activity_anchor w) + days 30 \<le> instant now)"

fun release_due :: "hold_resolver \<Rightarrow> user list \<Rightarrow> pytime \<Rightarrow> store \<Rightarrow> lifecycle_call \<Rightarrow> bool" where
  "release_due resolver users now s (DeleteComputeOf workload_id version kinds retain_until) \<longleftrightarrow>
     (\<exists>listed \<in> set users. \<exists>u w holds.
        get_user s (usr_id listed) = Inr u \<and> get_workload s workload_id = Inr w \<and>
        wl_owner_id w = usr_id u \<and> wl_version w = version \<and> kinds \<noteq> [] \<and>
        resolver (usr_id listed) now = Inr holds \<and> workload_id \<notin> set holds \<and>
        due_for_cleanup listed u w now)"
| "release_due resolver users now s _ \<longleftrightarrow> True"

lemmas justified_intros =
  justified.within_give justified.within_stop justified.within_compute_andthen justified.within_compute
  justified.within_check justified.within_andthen justified.within_each justified.within_collect
  justified.within_rescue justified.within_option justified_reading justified_asking

definition planned_from :: "workload_id list \<Rightarrow> pytime option \<Rightarrow> pytime \<Rightarrow> planned_action \<Rightarrow> bool" where
  "planned_from holds locked_at now p \<longleftrightarrow>
     (\<exists>u ws schedules dec. plan_user_lifecycle u ws schedules holds locked_at now = Inr dec \<and>
        p \<in> set (lcd_planned_actions dec))"

abbreviation due_run ::
    "hold_resolver \<Rightarrow> user list \<Rightarrow> pytime \<Rightarrow> lifecycle_call world \<Rightarrow> lifecycle_call world \<Rightarrow> bool" where
  "due_run resolver users now \<equiv> justified_run (release_due resolver users now)"

abbreviation due_within ::
    "hold_resolver \<Rightarrow> user list \<Rightarrow> pytime \<Rightarrow> 'a lifecycle_proc \<Rightarrow> bool" where
  "due_within resolver users now \<equiv> justified.within (release_due resolver users now)"

lemma finish_action_runs: "due_within resolver users now (finish_action a target at kind)"
  unfolding finish_action_def
  by (intro justified_intros justified_storing worker_stores transitions_ok)

lemma lock_secret_runs: "due_within resolver users now (lock_secret at z)"
  unfolding lock_secret_def
  by (auto intro!: justified_intros justified_storing worker_stores transitions_ok)

lemma apply_workload_transition_runs:
  "evolving_service perform \<Longrightarrow> due_within resolver users now (apply_workload_transition perform u at x)"
  unfolding apply_workload_transition_def
  by (auto intro!: justified_intros justified_storing worker_stores transitions_ok justified_calling
      lock_secret_runs simp: Let_def)

lemma apply_schedule_transition_runs:
  "evolving_service perform \<Longrightarrow> due_within resolver users now (apply_schedule_transition perform at x)"
  unfolding apply_schedule_transition_def
  by (auto intro!: justified_intros justified_storing worker_stores transitions_ok justified_calling)

lemma apply_admin_decision_runs:
  "evolving_service perform \<Longrightarrow> due_within resolver users now (apply_admin_decision perform u ids d)"
  unfolding apply_admin_decision_def by (auto intro!: justified_calling)

lemma archive_schedules_runs:
  "evolving_service perform \<Longrightarrow> due_within resolver users now (archive_schedules perform o' i at r)"
  unfolding archive_schedules_def archive_schedule_def
  by (auto intro!: justified_intros justified_storing worker_stores transitions_ok justified_calling)

lemma persist_action_runs:
  "lifecycle_action_ok (pla_action p) \<Longrightarrow> due_within resolver users now (persist_action p)"
  unfolding persist_action_def
  by (auto intro!: justified_intros justified_storing worker_stores)

lemma reconcile_user_runs:
  "evolving_service perform \<Longrightarrow>
     due_within resolver users now (reconcile_user perform i locked_at holds at)"
  unfolding reconcile_user_def
  by (auto intro!: justified_intros justified_calling apply_workload_transition_runs
      apply_schedule_transition_runs apply_admin_decision_runs persist_action_runs planned_actions_ok)

text \<open>What comes back from reconciling is what the planner proposed.\<close>

lemma persist_action_same:
  assumes "persist_action p w = (Inr q, w')"
  shows "q = p"
  using assms
  by (auto simp: persist_action_def andthen_Inr rescue_def proc_run storing_def create_lifecycle_action_def
      world_run planned_action_post_init_def res_simps split: prod.splits sum.splits if_splits)

lemma collected_actions_same: "collect persist_action ps w = (Inr qs, w') \<Longrightarrow> qs = ps"
  by (induction ps arbitrary: qs w) (auto simp: proc_run andthen_Inr dest!: persist_action_same)

lemma reconcile_user_planned:
  assumes "reconcile_user perform i locked_at holds now w = (Inr r, w')"
    and "p \<in> set (lrr_planned_actions r)"
  shows "planned_from holds locked_at now p"
proof -
  from assms obtain u ws schedules dec where
    "plan_user_lifecycle u ws schedules holds locked_at now = Inr dec"
    "lrr_planned_actions r = lcd_planned_actions dec"
    by (auto simp: reconcile_user_def andthen_Inr proc_run world_run require_utc_datetime_Inr
        dest!: collected_actions_same)
  with assms(2) show ?thesis unfolding planned_from_def by metis
qed

lemma recover_planned:
  assumes "recover_replayed_actions i holds locked_at now s = Inr (Some ps)" and "p \<in> set ps"
  shows "planned_from holds locked_at now p"
  using assms
  by (auto simp: recover_replayed_actions_def planned_from_def res_simps split: if_splits)

lemma reconcile_or_recover_planned:
  assumes "reconcile_or_recover perform i holds locked_at now w = (Inr (ps, b), w')" and "p \<in> set ps"
  shows "planned_from holds locked_at now p"
  using assms
  by (auto simp: reconcile_or_recover_def rescue_def andthen_Inr andthen_def proc_run world_run
      split: prod.splits sum.splits if_splits option.splits
      dest: reconcile_user_planned recover_planned)

lemma reconcile_or_recover_runs:
  "evolving_service perform \<Longrightarrow>
     due_within resolver users now (reconcile_or_recover perform i holds locked_at at)"
  unfolding reconcile_or_recover_def
  by (auto intro!: justified_intros reconcile_user_runs split: option.splits)

text \<open>A cleanup that revalidates is due.\<close>

lemma revalidated_release_due:
  assumes "planned_from holds (account_locked_since listed) now0 p" and "listed \<in> set users"
    and "get_user s (usr_id listed) = Inr u" and "get_workload s (lca_workload_id (pla_action p)) = Inr w"
    and "revalidate_cleanup_action p u w holds (account_locked_since listed) now = Inr d"
    and "ced_kind d = CleanupExecute" and "resolver (usr_id listed) now = Inr holds"
  shows "get_workload s (wl_id w) = Inr w \<and>
    release_due resolver users now s
      (DeleteComputeOf (wl_id w) (wl_version w) (map ctg_kind (ced_compute_targets d)) until)"
proof -
  obtain u0 ws schedules dec where "plan_user_lifecycle u0 ws schedules holds (account_locked_since listed) now0
      = Inr dec" "p \<in> set (lcd_planned_actions dec)" using assms(1) unfolding planned_from_def by blast
  from cleanup_only_after_grace [OF this assms(5,6)]
  have due: "wl_owner_id w = usr_id u" "wl_id w \<notin> set holds" "ced_compute_targets d \<noteq> []"
    "due_for_cleanup listed u w now"
    by (auto simp: due_for_cleanup_def account_locked_since_def split: if_splits)
  from revalidation_executes [THEN iffD1, OF conjI, OF assms(5,6)] obtain g where
    "pla_cleanup_guard p = Some g" "invalid_cleanup_reason p u w holds (holds_are_valid holds)
      (valid_status_anchor (account_locked_since listed) now) = None" by auto
  then have id: "lca_workload_id (pla_action p) = wl_id w" by (simp add: invalid_cleanup_reason_None)
  show ?thesis using assms due id by auto
qed

lemma execute_cleanup_runs:
  assumes "evolving_service perform" and "planned_from holds (account_locked_since listed) now p"
    and "listed \<in> set users" and "resolver (usr_id listed) now = Inr holds"
  shows "due_run resolver users now w
    (snd (execute_cleanup perform p current (usr_id listed) holds (account_locked_since listed) now w))"
proof -
  have finish: "due_run resolver users now w v \<Longrightarrow>
      due_run resolver users now w (snd (finish_action current st now kind v))" for v st kind
    by (rule justified.after_within [OF _ finish_action_runs])
  have delete: "due_run resolver users now w
      (snd (calling perform (DeleteComputeOf (wl_id x) (wl_version x)
         (map ctg_kind (ced_compute_targets d)) until) v))"
    if "get_user (wrl_store w) (usr_id listed) = Inr u"
      "get_workload (wrl_store w) (lca_workload_id (pla_action p)) = Inr x"
      "revalidate_cleanup_action p u x holds (account_locked_since listed) now = Inr d"
      "ced_kind d = CleanupExecute" "due_run resolver users now w v" for v u x d until
    by (rule justified_call_after [OF assms(1) that(5)
          revalidated_release_due [where resolver = resolver, OF assms(2,3) that(1-4) assms(4), THEN conjunct2]])
  have same: "get_workload (wrl_store w) (wl_id x) = Inr x"
    if "get_user (wrl_store w) (usr_id listed) = Inr u"
      "get_workload (wrl_store w) (lca_workload_id (pla_action p)) = Inr x"
      "revalidate_cleanup_action p u x holds (account_locked_since listed) now = Inr d"
      "ced_kind d = CleanupExecute" for u x d
    using revalidated_release_due [where resolver = resolver, OF assms(2,3) that] assms by blast
  have save: "due_within resolver users now (storing (\<lambda>s. save_workload s y v))" if "workload_ok y" for y v
    by (intro justified_storing worker_stores that)
  show ?thesis
    unfolding execute_cleanup_def
    by (auto simp: quiet_steps proc_run same transitions_ok
        split: sum.splits cleanup_decision_kind.splits
        intro!: justified.after_andthen finish delete justified.stays
          justified.after_within [OF _ archive_schedules_runs [OF assms(1)]]
          justified.after_within [OF _ save])
qed

lemma execute_planned_action_runs:
  assumes "evolving_service perform" and "planned_from holds (account_locked_since listed) now p"
    and "listed \<in> set users" and "resolver (usr_id listed) now = Inr holds"
  shows "due_run resolver users now w
    (snd (execute_planned_action perform p (usr_id listed) holds (account_locked_since listed) now w))"
proof -
  have "due_within resolver users now (execute_warning perform p a i now)" for a i
    unfolding execute_warning_def using assms(1)
    by (auto intro!: justified_intros justified_calling finish_action_runs)
  moreover have "due_within resolver users now
      (execute_cleanup perform p a (usr_id listed) holds (account_locked_since listed) now)" for a
    unfolding justified.within_def using execute_cleanup_runs [where resolver = resolver, OF assms] by blast
  ultimately have "due_within resolver users now
      (execute_planned_action perform p (usr_id listed) holds (account_locked_since listed) now)"
    unfolding execute_planned_action_def require_utc_datetime_def
    by (auto intro!: justified_intros simp: require_Inr)
  then show ?thesis by (simp add: justified.within_def)
qed

lemma execute_all_runs:
  assumes "evolving_service perform" and "listed \<in> set users" and "resolver (usr_id listed) now = Inr holds"
    and "execute_all perform (usr_id listed) holds (account_locked_since listed) now ps r w = (ok, r', w')"
    and "\<forall>p \<in> set ps. planned_from holds (account_locked_since listed) now p"
  shows "due_run resolver users now w w'"
  using assms(4,5)
proof (induction ps arbitrary: r w)
  case Nil
  then show ?case by (simp add: justified.stays)
next
  case (Cons p ps)
  obtain res w1 where run: "execute_planned_action perform p (usr_id listed) holds
      (account_locked_since listed) now w = (res, w1)" by force
  with execute_planned_action_runs [where resolver = resolver, OF assms(1) _ assms(2,3), of p w] Cons.prems(2)
  have "due_run resolver users now w w1" by simp
  with Cons run show ?case by (auto split: sum.splits intro: justified.compose)
qed

lemma sweep_user_runs:
  assumes "evolving_service perform" and "listed \<in> set users"
    and "sweep_user perform resolver now listed (r, w) = (r', w')"
  shows "due_run resolver users now w w'"
proof (cases "resolve_holds resolver (usr_id listed) now")
  case (Inl e)
  with assms(3) show ?thesis by (simp add: sweep_user_def Let_def justified.stays)
next
  case (Inr holds)
  then have holds: "resolver (usr_id listed) now = Inr holds"
    by (auto simp: resolve_holds_def res_simps)
  obtain res w1 where run: "reconcile_or_recover perform (usr_id listed) holds
      (account_locked_since listed) now w = (res, w1)" by force
  from justified.withinD [OF reconcile_or_recover_runs [OF assms(1)] run]
  have first: "due_run resolver users now w w1" .
  show ?thesis
  proof (cases res)
    case (Inl e)
    with assms(3) Inr run first show ?thesis by (simp add: sweep_user_def Let_def)
  next
    case planned: (Inr planned)
    obtain ps replayed where ps: "planned = (ps, replayed)" by force
    obtain r0 ok r2 w2 where "execute_all perform (usr_id listed) holds (account_locked_since listed)
        now ps r0 w1 = (ok, r2, w2)" "w' = w2"
      using assms(3) Inr run planned ps by (auto simp: sweep_user_def Let_def split: prod.splits)
    with execute_all_runs [where resolver = resolver, OF assms(1,2) holds this(1)] run planned ps
    have "due_run resolver users now w1 w'" by (auto dest: reconcile_or_recover_planned)
    with first show ?thesis by (rule justified.compose)
  qed
qed

lemma sweep_users_run:
  assumes "evolving_service perform" and "set us \<subseteq> set users"
    and "fold (sweep_user perform resolver now) us (r, w) = (r', w')"
  shows "due_run resolver users now w w'"
  using assms(2,3)
proof (induction us arbitrary: r w)
  case Nil
  then show ?case by (simp add: justified.stays)
next
  case (Cons u us)
  obtain r1 w1 where one: "sweep_user perform resolver now u (r, w) = (r1, w1)" by force
  with Cons sweep_user_runs [where resolver = resolver, OF assms(1) _ one] show ?case by (auto intro: justified.compose)
qed

text \<open>
  C24: Compute is only deleted after its grace period. In a maintenance sweep, whatever the outside
  services answer, the store evolves by legal calls only, and each deletion of compute is justified
  by a store the sweep went through: the named workload belonged to one of the listed users at the
  named version, the hold resolver did not hold it, and either its owner's account was locked, since
  seven days, and the workload quarantined, or the account was not locked and the workload, not
  archived yet, had no activity for thirty days.
\<close>

theorem sweep_releases_only_due_compute:
  assumes "evolving_service perform" and "maintenance_sweep perform resolver now w = (r, w')"
  shows "later (wrl_store w) (wrl_store w') \<and>
    (\<exists>calls. wrl_calls w' = wrl_calls w @ calls \<and>
      (\<forall>c \<in> set calls. \<exists>s. later (wrl_store w) s \<and> later s (wrl_store w') \<and>
         release_due resolver (list_users (wrl_store w)) now s c))"
proof -
  have "due_run resolver (list_users (wrl_store w)) now w w'"
    using assms(2) sweep_users_run [OF assms(1) order.refl]
    by (fastforce simp: maintenance_sweep_def require_utc_datetime_def require_def justified.stays
        split: prod.splits if_splits)
  then show ?thesis by (simp add: justified_run_def)
qed

definition quiet_services :: "lifecycle_call service" where
  "quiet_services history c s = (Inr (), s)"

definition nothing_held :: hold_resolver where
  "nothing_held user_id now = Inr []"

lemma quiet_services_evolve: "evolving_service quiet_services"
  by (simp add: evolving_service_def quiet_services_def)

definition swept_world :: "lifecycle_call world" where
  "swept_world = snd (maintenance_sweep quiet_services nothing_held (utc (days 30))
     \<lparr>wrl_store = sample_store, wrl_calls = []\<rparr>)"

theorem sweep_releases_only_due_compute_witness:
  "\<exists>s kinds until. later sample_store s \<and>
     release_due nothing_held [sample_user] (utc (days 30)) s (DeleteComputeOf ''w1'' 1 kinds until)"
proof -
  have "maintenance_sweep quiet_services nothing_held (utc (days 30)) \<lparr>wrl_store = sample_store, wrl_calls = []\<rparr>
      = (fst (maintenance_sweep quiet_services nothing_held (utc (days 30))
          \<lparr>wrl_store = sample_store, wrl_calls = []\<rparr>), swept_world)"
    by (simp add: swept_world_def)
  note run = sweep_releases_only_due_compute [OF quiet_services_evolve this]
  have "DeleteComputeOf ''w1'' 1 [CloudRunService] (Some (utc (days 60))) \<in> set (wrl_calls swept_world)"
    by code_simp
  moreover have "list_users sample_store = [sample_user]" by code_simp
  ultimately obtain s where "later sample_store s" "release_due nothing_held [sample_user] (utc (days 30)) s
      (DeleteComputeOf ''w1'' 1 [CloudRunService] (Some (utc (days 60))))"
    using run by (fastforce simp del: release_due.simps)
  then show ?thesis by blast
qed


section \<open>What a failed execution leaves behind\<close>

text \<open>Runs that leave the lifecycle actions of the store alone.\<close>

definition actions_kept :: "'c world \<Rightarrow> 'c world \<Rightarrow> bool" where
  "actions_kept w w' \<longleftrightarrow> st_actions (wrl_store w') = st_actions (wrl_store w)"

interpretation kept: run_relation actions_kept
  by unfold_locales (simp_all add: actions_kept_def)

lemma kept_steps:
  "kept.within (reading f)" "kept.within (asking g)"
  "(\<And>s. st_actions (snd (h s)) = st_actions s) \<Longrightarrow> kept.within (storing h)"
  "(\<And>t c s. st_actions (snd (perform t c s)) = st_actions s) \<Longrightarrow> kept.within (calling perform c)"
  by (auto simp: kept.within_def actions_kept_def reading_def asking_def storing_def calling_def
      outside_def       split: prod.splits) (metis snd_conv)+

lemma kept_saves:
  "st_actions (snd (save_schedule s c v)) = st_actions s"
  "st_actions (snd (save_workload s x v)) = st_actions s"
  by (simp_all add: save_schedule_def save_workload_def commit_def split: sum.splits)

lemma archive_schedules_kept:
  "(\<And>t c s. st_actions (snd (perform t c s)) = st_actions s) \<Longrightarrow>
     kept.within (archive_schedules perform o' i at r)"
  unfolding archive_schedules_def archive_schedule_def
  by (auto intro!: kept.within_intros kept_steps kept_saves)

text \<open>The last step: the action is stored as finished, or nothing is.\<close>

definition action_outcome ::
    "lifecycle_action \<Rightarrow> lifecycle_call world \<Rightarrow> lifecycle_execution_result res \<times> lifecycle_call world \<Rightarrow> bool" where
  "action_outcome current w out \<longleftrightarrow>
     (case out of
        (Inl e, w') \<Rightarrow> st_actions (wrl_store w') = st_actions (wrl_store w)
      | (Inr r, w') \<Rightarrow>
          dict_get (st_actions (wrl_store w')) (lca_id current) = Some (ler_action r) \<and>
          (if lca_state (ler_action r) = LaPlanned
           then ler_kind r = ''noop'' \<and> st_actions (wrl_store w') = st_actions (wrl_store w)
           else ler_kind r = lifecycle_state_value (lca_state (ler_action r))))"

lemma action_outcome_unchanged:
  "actions_kept w v \<Longrightarrow> action_outcome a w (Inl e, v)"
  "actions_kept w v \<Longrightarrow> dict_get (st_actions (wrl_store w)) (lca_id a) = Some a \<Longrightarrow>
     lca_state a = LaPlanned \<Longrightarrow> action_outcome a w (Inr \<lparr>ler_kind = ''noop'', ler_action = a\<rparr>, v)"
  by (simp_all add: action_outcome_def actions_kept_def)

lemma action_outcome_andthen:
  assumes "actions_kept w v" and "kept.within m"
    and "\<And>x v'. actions_kept w v' \<Longrightarrow> action_outcome a w (f x v')"
  shows "action_outcome a w (andthen m f v)"
proof -
  obtain r v' where run: "m v = (r, v')" by force
  with kept.after_within [OF assms(1,2)] have "actions_kept w v'" by simp
  with run assms(3) show ?thesis
    by (cases r) (auto simp: andthen_def intro: action_outcome_unchanged)
qed

lemma finish_action_outcome:
  assumes "actions_kept w v" and "target \<noteq> LaPlanned" and "kind = lifecycle_state_value target"
  shows "action_outcome a w (finish_action a target now kind v)"
proof (cases "lifecycle_action_transition_state a target now")
  case (Inl e)
  then show ?thesis using assms(1)
    by (simp add: finish_action_def quiet_steps action_outcome_unchanged)
next
  case (Inr b)
  then have b: "lca_id b = lca_id a" "lca_state b = target"
    by (auto simp: lifecycle_action_transition_state_def res_simps)
  have saved: "save_lifecycle_action s b u = (r, s') \<Longrightarrow>
      (case r of Inl e \<Rightarrow> st_actions s' = st_actions s | Inr x \<Rightarrow> x = b \<and> dict_get (st_actions s') (lca_id b) = Some b)"
    for s u r s'
    by (auto simp: save_lifecycle_action_def ensure_def commit_def put_action_def save_stateful_def res_simps
        split: if_splits sum.splits option.splits)
  show ?thesis
  proof (cases "save_lifecycle_action (wrl_store v) b (lca_version a)")
    case (Pair r s')
    with saved [OF Pair] Inr b assms show ?thesis
      by (cases r) (simp_all add: finish_action_def quiet_steps andthen_def storing_def proc_run
          action_outcome_def actions_kept_def)
  qed
qed

lemma execute_outcome:
  assumes "\<And>t c s. st_actions (snd (perform t c s)) = st_actions s"
    and "dict_get (st_actions (wrl_store w)) (lca_id a) = Some a" and "lca_state a = LaPlanned"
  shows "action_outcome a w (execute_warning perform p a i now w)"
    and "action_outcome a w (execute_cleanup perform p a i holds locked_at now w)"
proof -
  have kept: "actions_kept w w" by (rule kept.stays)
  show "action_outcome a w (execute_warning perform p a i now w)"
    using assms kept unfolding execute_warning_def
    by (auto simp: proc_run intro!: action_outcome_andthen kept_steps finish_action_outcome
        action_outcome_unchanged)
  show "action_outcome a w (execute_cleanup perform p a i holds locked_at now w)"
    using assms kept unfolding execute_cleanup_def
    by (auto simp: proc_run split: cleanup_decision_kind.splits
        intro!: action_outcome_andthen kept_steps finish_action_outcome kept.within_intros
          action_outcome_unchanged archive_schedules_kept kept_saves)
qed

text \<open>
  C25: A failed execution can be retried. If the outside services leave the lifecycle actions alone,
  then an execution that raises leaves every lifecycle action as it was, one that returns reports
  the stored action with its stored state, where a planned action is only reported as a no-op that
  changed no action, and an action that was finished before is not executed again: nothing is
  called or written.
\<close>

theorem failed_execution_can_be_retried:
  assumes "reachable (wrl_store w)" and "\<And>t c s. st_actions (snd (perform t c s)) = st_actions s"
    and "execute_planned_action perform p i holds locked_at now w = (r, w')"
  shows "(case r of
      Inl e \<Rightarrow> st_actions (wrl_store w') = st_actions (wrl_store w)
    | Inr x \<Rightarrow> get_lifecycle_action (wrl_store w') (lca_id (pla_action p)) = Inr (ler_action x) \<and>
        (if lca_state (ler_action x) = LaPlanned
         then ler_kind x = ''noop'' \<and> st_actions (wrl_store w') = st_actions (wrl_store w)
         else ler_kind x = lifecycle_state_value (lca_state (ler_action x)))) \<and>
    (\<forall>a. get_lifecycle_action (wrl_store w) (lca_id (pla_action p)) = Inr a \<longrightarrow>
       lca_state a \<noteq> LaPlanned \<longrightarrow> w' = w)"
proof (cases "\<exists>a. is_utc now \<and> dict_get (st_actions (wrl_store w)) (lca_id (pla_action p)) = Some a")
  case False
  with assms(3) show ?thesis
    by (auto simp: execute_planned_action_def quiet_steps require_utc_datetime_def require_def
        get_lifecycle_action_def coll_get_def split: if_splits option.splits)
next
  case True
  then obtain a where utc: "is_utc now"
    and a: "dict_get (st_actions (wrl_store w)) (lca_id (pla_action p)) = Some a" by blast
  have id: "lca_id a = lca_id (pla_action p)"
    using reachable_keyed [OF assms(1)] a by (auto simp: store_keyed_def dest: keyed_by_get)
  show ?thesis
  proof (cases "lca_state a = LaPlanned")
    case False
    with assms(3) utc a show ?thesis
      by (auto simp: execute_planned_action_def quiet_steps proc_run require_utc_datetime_def require_def
          get_lifecycle_action_def coll_get_def)
  next
    case planned: True
    have "action_outcome a w (execute_planned_action perform p i holds locked_at now w)"
      using utc a planned id execute_outcome [OF assms(2) _ planned]
      by (auto simp: execute_planned_action_def quiet_steps proc_run require_utc_datetime_def require_def
          get_lifecycle_action_def coll_get_def action_outcome_unchanged kept.stays split: sum.splits)
    with assms(3) a id planned show ?thesis
      by (auto simp: action_outcome_def get_lifecycle_action_def coll_get_def split: sum.splits)
  qed
qed

definition refusing_services :: "lifecycle_call service" where
  "refusing_services history c s = (case c of DeleteComputeOf _ _ _ _ \<Rightarrow> (Inl ValueErr, s) | _ \<Rightarrow> (Inr (), s))"

definition cleanup_world :: "lifecycle_call world" where
  "cleanup_world =
     \<lparr>wrl_store = snd (run sample_store (CreateAction (pla_action idle_cleanup))), wrl_calls = []\<rparr>"

theorem failed_execution_can_be_retried_witness:
  "fst (execute_planned_action refusing_services idle_cleanup ''u1'' [] None (utc (days 31)) cleanup_world)
     = Inl ValueErr \<and>
   st_actions (wrl_store (snd (execute_planned_action refusing_services idle_cleanup ''u1'' [] None
     (utc (days 31)) cleanup_world))) = st_actions (wrl_store cleanup_world)"
proof -
  have "call_ok (CreateAction (pla_action idle_cleanup))" by code_simp
  then have reach: "reachable (wrl_store cleanup_world)"
    unfolding cleanup_world_def using reachable_run [OF sample_reachable, of "CreateAction _"] by simp
  have kept: "st_actions (snd (refusing_services t c s)) = st_actions s" for t c s
    by (simp add: refusing_services_def split: lifecycle_call.split)
  have raised: "fst (execute_planned_action refusing_services idle_cleanup ''u1'' [] None (utc (days 31))
      cleanup_world) = Inl ValueErr" by code_simp
  with failed_execution_can_be_retried [where perform = refusing_services and p = idle_cleanup and i = "''u1''" and holds = "[]" and
      locked_at = None and now = "utc (days 31)", OF reach kept surjective_pairing]
  show ?thesis by simp
qed


section \<open>Actions that starve\<close>

lemma all_replayed_missing:
  "q \<in> set ps \<Longrightarrow> get_lifecycle_action s (lca_id (pla_action q)) = Inl e \<Longrightarrow> all_replayed s ps \<noteq> Inr True"
  by (induction ps) (auto simp: bind_res_Inr)

lemma persist_conflict:
  assumes "lifecycle_action_ok (pla_action p)"
    and "get_lifecycle_action (wrl_store w) (lca_id (pla_action p)) = Inr a" and "a \<noteq> pla_action p"
  shows "persist_action p w = (Inl ValueErr, w)"
proof -
  have "create_lifecycle_action (wrl_store w) (pla_action p) = (Inl (StoreErr AlreadyExists), wrl_store w)"
    using assms by (simp add: create_lifecycle_action_def ensure_def commit_def coll_create_def
        lifecycle_execution_consistent_def lifecycle_action_ok_def get_lifecycle_action_def res_simps)
  with assms(2,3) show ?thesis
    by (simp add: persist_action_def andthen_def rescue_def storing_def proc_run world_run)
qed

lemma reconcile_conflict:
  assumes "get_user (wrl_store w) i = Inr u" and "\<not> account_locked u"
    and "plan_user_lifecycle u (list_workloads (wrl_store w) (Some i)) (list_schedules (wrl_store w) (Some i))
      holds locked_at now = Inr dec"
    and "lcd_planned_actions dec = p # ps"
    and "get_lifecycle_action (wrl_store w) (lca_id (pla_action p)) = Inr a" and "a \<noteq> pla_action p"
  shows "reconcile_user perform i locked_at holds now w = (Inl ValueErr, w)"
proof -
  have none: "lcd_workload_transitions dec = []" "lcd_schedule_transitions dec = []"
    "lcd_admin_decisions dec = []" "require_utc_datetime now = Inr now"
    using assms(2,3) by (auto simp: plan_user_lifecycle_def Let_def bind_res_Inr admin_decisions_for_def
        require_utc_datetime_Inr)
  have "lifecycle_action_ok (pla_action p)"
    using planned_actions_ok [OF assms(3)] assms(4) by simp
  from persist_conflict [OF this assms(5,6)] show ?thesis
    by (simp add: reconcile_user_def quiet_steps none assms(1-4) proc_run andthen_def [of "give ()"]
        andthen_raise [OF andthen_raise])
qed

text \<open>
  C26: An action stored by an earlier sweep starves the ones that become due after it. If an unlocked
  user's first planned action is stored, as it is for the seven days after a warning, with another
  planning time, and another of the user's planned actions is not stored yet, then the sweep counts
  the user as failed and does nothing else: the new action is neither stored nor executed, and the
  next sweep meets the same world.
\<close>

theorem stored_action_starves_new_ones:
  assumes "get_user (wrl_store w) (usr_id u) = Inr u" and "\<not> account_locked u"
    and "resolver (usr_id u) now = Inr holds"
    and "plan_user_lifecycle u (list_workloads (wrl_store w) (Some (usr_id u)))
      (list_schedules (wrl_store w) (Some (usr_id u))) holds None now = Inr dec"
    and "lcd_planned_actions dec = p # ps"
    and "get_lifecycle_action (wrl_store w) (lca_id (pla_action p)) = Inr a"
    and "lca_created_at a \<noteq> now"
    and "q \<in> set ps" and "get_lifecycle_action (wrl_store w) (lca_id (pla_action q)) = Inl e"
  shows "sweep_user perform resolver now u (r, w) = (r\<lparr>msr_failed_users := msr_failed_users r + 1\<rparr>, w)"
proof -
  have since: "account_locked_since u = None" using assms(2) by (simp add: account_locked_since_def)
  have "lca_created_at (pla_action p) = now" using planned_actions_new [OF assms(4)] assms(5) by simp
  then have "a \<noteq> pla_action p" using assms(7) by auto
  note conflict = reconcile_conflict [OF assms(1,2,4-6) this, of perform]
  have "all_replayed (wrl_store w) (p # ps) \<noteq> Inr True"
    using assms(8,9) by (intro all_replayed_missing [of q]) simp_all
  then obtain e' where "recover_replayed_actions (usr_id u) holds None now (wrl_store w) = Inl e' \<or>
      recover_replayed_actions (usr_id u) holds None now (wrl_store w) = Inr None"
    by (cases "all_replayed (wrl_store w) (p # ps)")
      (auto simp: recover_replayed_actions_def assms(1,4,5) simp del: all_replayed.simps)
  with conflict have "\<exists>e. reconcile_or_recover perform (usr_id u) holds None now w = (Inl e, w)"
    by (auto simp: reconcile_or_recover_def rescue_def andthen_def proc_run world_run)
  with assms(3) since show ?thesis
    by (auto simp: sweep_user_def Let_def resolve_holds_def require_def)
qed

definition younger_workload :: workload where
  "younger_workload = sample_workload
     \<lparr>wl_id := ''w2'', wl_created_at := utc (days 1), wl_updated_at := utc (days 1)\<rparr>"

definition warned_world :: "lifecycle_call world" where
  "warned_world = snd (maintenance_sweep quiet_services nothing_held (utc (days 23))
     \<lparr>wrl_store = foldl (\<lambda>s c. snd (run s c)) empty_store
        [CreateUser sample_user, CreateWorkload sample_workload, CreateWorkload younger_workload],
      wrl_calls = []\<rparr>)"

definition stored_warning :: lifecycle_action where
  "stored_warning =
     \<lparr>lca_id = ''life-w1-inactivity_warning-19700124T000000Z-w1-warning'', lca_workload_id = ''w1'',
      lca_kind = InactivityWarning, lca_state = LaExecuted, lca_reason = ''23_days_inactive'',
      lca_eligible_at = utc (days 23), lca_observed_workload_version = 1,
      lca_created_at = utc (days 23), lca_updated_at = utc (days 23),
      lca_executed_at = Some (utc (days 23)), lca_version = 2\<rparr>"

lemma warned_world_eq:
  "warned_world =
     \<lparr>wrl_store = empty_store
        \<lparr>st_users := [(''u1'', sample_user)],
         st_workloads := [(''w1'', sample_workload), (''w2'', younger_workload)],
         st_actions := [(lca_id stored_warning, stored_warning)]\<rparr>,
      wrl_calls = [NotifyOwnerOf ''u1'' ''w1'' ''23_days_inactive'']\<rparr>"
  by code_simp

definition repeated_warning :: planned_action where
  "repeated_warning =
     \<lparr>pla_action = stored_warning
        \<lparr>lca_state := LaPlanned, lca_created_at := utc (days 24), lca_updated_at := utc (days 24),
         lca_executed_at := None, lca_version := 1\<rparr>,
      pla_compute_targets = [], pla_cleanup_guard = None\<rparr>"

definition new_warning :: planned_action where
  "new_warning = repeated_warning
     \<lparr>pla_action := (pla_action repeated_warning)
        \<lparr>lca_id := ''life-w2-inactivity_warning-19700125T000000Z-w1-warning'', lca_workload_id := ''w2'',
         lca_eligible_at := utc (days 24)\<rparr>\<rparr>"

lemma next_day_planned:
  "plan_user_lifecycle sample_user [sample_workload, younger_workload] [] [] None (utc (days 24)) =
     Inr \<lparr>lcd_workload_transitions = [], lcd_schedule_transitions = [], lcd_admin_decisions = [],
          lcd_planned_actions = [repeated_warning, new_warning]\<rparr>"
  by code_simp

lemma warned_world_actions:
  "get_lifecycle_action (wrl_store warned_world) (lca_id (pla_action repeated_warning)) = Inr stored_warning"
  "lca_created_at stored_warning \<noteq> utc (days 24)"
  "get_lifecycle_action (wrl_store warned_world) (lca_id (pla_action new_warning)) = Inl (StoreErr NotFound)"
  unfolding warned_world_eq by code_simp+

lemma warned_world_records:
  "get_user (wrl_store warned_world) (usr_id sample_user) = Inr sample_user"
  "list_workloads (wrl_store warned_world) (Some (usr_id sample_user)) = [sample_workload, younger_workload]"
  "list_schedules (wrl_store warned_world) (Some (usr_id sample_user)) = []"
  "\<not> account_locked sample_user" "nothing_held (usr_id sample_user) (utc (days 24)) = Inr []"
  unfolding warned_world_eq by code_simp+

theorem stored_action_starves_new_ones_witness:
  "\<forall>r. sweep_user quiet_services nothing_held (utc (days 24)) sample_user (r, warned_world) =
     (r\<lparr>msr_failed_users := msr_failed_users r + 1\<rparr>, warned_world)"
  using stored_action_starves_new_ones [where resolver = nothing_held, OF warned_world_records(1,4,5) _ _
      warned_world_actions(1,2) _ warned_world_actions(3)]
    next_day_planned warned_world_records(2,3)
  by simp

end
