(* ===== verification/Access.thy ===== *)
theory Access
  imports Store_Base
begin

text \<open>
  Who may act: \<^verbatim>\<open>security/authorization.py\<close>, and of \<^verbatim>\<open>security/identity.py\<close> the claims, the principal
  and the choice of the one access assertion among the request headers. Tokens themselves are
  verified by a JWT library.
\<close>

record identity_claims =
  clm_subject :: string
  clm_email :: string
  clm_issuer :: string
  clm_audience :: "string list"
  clm_issued_at :: pytime
  clm_expires_at :: pytime

record principal =
  prn_user_id :: user_id
  prn_email :: string
  prn_role :: user_role

definition require_admin :: "principal \<Rightarrow> unit res" where
  "require_admin p = require (prn_role p = RoleAdmin) AccessDenied (Inr ())"

definition require_owner_or_admin :: "principal \<Rightarrow> user_id \<Rightarrow> unit res" where
  "require_owner_or_admin p owner_id =
     require (\<not> (prn_role p \<noteq> RoleAdmin \<and> prn_user_id p \<noteq> owner_id)) AccessDenied (Inr ())"


section \<open>The identity policy\<close>

record identity_policy =
  idp_issuer :: string
  idp_audience :: string
  idp_company_domain :: string
  idp_required_group :: string
  idp_max_staleness :: timedelta

text \<open>\<^verbatim>\<open>issuer.rstrip("/")\<close>\<close>

definition rstrip_slash :: "string \<Rightarrow> string" where
  "rstrip_slash s = rev (dropWhile (\<lambda>c. c = CHR ''/'') (rev s))"

definition new_identity_policy ::
    "string \<Rightarrow> string \<Rightarrow> string \<Rightarrow> string \<Rightarrow> timedelta \<Rightarrow> identity_policy res" where
  "new_identity_policy issuer audience company_domain required_group max_staleness =
     require (\<not> max_staleness \<le> 0) ValueErr
       (Inr \<lparr>idp_issuer = rstrip_slash issuer, idp_audience = audience,
            idp_company_domain = casefold company_domain, idp_required_group = required_group,
            idp_max_staleness = max_staleness\<rparr>)"

text \<open>
  \<^verbatim>\<open>email.rpartition("@")\<close> as the text before and after the last separator, or nothing when there is
  none, where Python returns two empty texts.
\<close>

definition rpartition_at :: "string \<Rightarrow> (string \<times> string) option" where
  "rpartition_at s =
     (let parts = split_on (CHR ''@'') s
      in if length parts = 1 then None
         else Some (take (length s - length (last parts) - 1) s, last parts))"

definition require_utc_access :: "pytime \<Rightarrow> unit res" where
  "require_utc_access value = require (is_utc value) AccessDenied (Inr ())"

definition authorize_resolved_user ::
    "identity_policy \<Rightarrow> store \<Rightarrow> pytime \<Rightarrow> user_id \<Rightarrow> string \<Rightarrow> principal res" where
  "authorize_resolved_user policy s now user_id email =
     bind_res (require_utc_access now) (\<lambda>_.
     let normalized_email = casefold (strip email) in
     (case rpartition_at normalized_email of
        None \<Rightarrow> Inl AccessDenied
      | Some (local, domain) \<Rightarrow>
          require (local \<noteq> [] \<and> domain = idp_company_domain policy) AccessDenied
         (case get_user s user_id of
            Inl e \<Rightarrow> if e = StoreErr NotFound then Inl AccessDenied else Inl e
          | Inr record \<Rightarrow>
              require (casefold (usr_email record) = normalized_email) AccessDenied
             (require (usr_state record = UserActive) AccessDenied
             (require (idp_required_group policy \<in> usr_groups record) AccessDenied
             (let identity_age = instant now - instant (usr_identity_synced_at record)
              in require (\<not> (identity_age < 0 \<or> identity_age > idp_max_staleness policy)) AccessDenied
                (Inr \<lparr>prn_user_id = usr_id record, prn_email = usr_email record,
                     prn_role = usr_role record\<rparr>)))))))"

text \<open>The clock is read twice, here and for the resolved user.\<close>

definition authorize ::
    "identity_policy \<Rightarrow> store \<Rightarrow> pytime \<Rightarrow> pytime \<Rightarrow> identity_claims \<Rightarrow> principal res" where
  "authorize policy s now later_now claims =
     bind_res (require_utc_access now) (\<lambda>_.
     bind_res (require_utc_access (clm_issued_at claims)) (\<lambda>_.
     bind_res (require_utc_access (clm_expires_at claims)) (\<lambda>_.
     require (\<not> (clm_issuer claims \<noteq> idp_issuer policy \<or> clm_audience claims \<noteq> [idp_audience policy]))
       AccessDenied
    (require
       (\<not> (time_less now (clm_issued_at claims) \<or> time_leq (clm_expires_at claims) now)) AccessDenied
    (require (\<not> time_leq (clm_expires_at claims) (clm_issued_at claims)) AccessDenied
       (authorize_resolved_user policy s later_now (clm_subject claims) (clm_email claims)))))))"


section \<open>The access assertion of a request\<close>

definition forbidden_credential_headers :: "string list" where
  "forbidden_credential_headers =
     [''authorization'', ''cookie'', ''proxy-authorization'', ''set-cookie'']"

fun scan_access_headers :: "(string \<times> string) list \<Rightarrow> string option \<Rightarrow> string option res" where
  "scan_access_headers [] token = Inr token"
| "scan_access_headers ((raw_name, raw_value) # headers) token =
     (let normalized_name = casefold (strip raw_name) in
      require (normalized_name \<notin> set forbidden_credential_headers) TokenDenied
     (if normalized_name \<noteq> ''cf-access-jwt-assertion'' then scan_access_headers headers token
      else
        require (token = None) TokenDenied
       (require (strip raw_value \<noteq> []) TokenDenied
         (scan_access_headers headers (Some (strip raw_value))))))"

definition extract_access_assertion :: "(string \<times> string) list \<Rightarrow> string res" where
  "extract_access_assertion headers =
     bind_res (scan_access_headers headers None) (\<lambda>token.
       case token of None \<Rightarrow> Inl TokenDenied | Some t \<Rightarrow> Inr t)"

end
