(* ===== verification/Signing.thy ===== *)
theory Signing
  imports PyJson
begin

text \<open>
  \<^verbatim>\<open>hmac.new(key, message, hashlib.sha256).hexdigest()\<close> and \<^verbatim>\<open>hmac.compare_digest\<close>: how the control
  plane authenticates desired states and webhook deliveries.
\<close>

text \<open>The bytes of a digest in hexadecimal.\<close>

fun hex_bytes :: "string \<Rightarrow> bytes" where
  "hex_bytes (a # b # s) = char_of (16 * unhex_char a + unhex_char b) # hex_bytes s"
| "hex_bytes _ = []"

definition sha256_bytes :: "bytes \<Rightarrow> bytes" where
  "sha256_bytes m = hex_bytes (sha256_hex m)"

text \<open>The key in a block of 64 bytes; a longer one is hashed first.\<close>

definition hmac_block :: "bytes \<Rightarrow> bytes" where
  "hmac_block key =
     (let k = (if 64 < length key then sha256_bytes key else key)
      in k @ replicate (64 - length k) (char_of (0 :: nat)))"

definition mask_bytes :: "nat \<Rightarrow> bytes \<Rightarrow> bytes" where
  "mask_bytes m = map (\<lambda>c. char_of (of_char c XOR m))"

definition hmac_sha256 :: "bytes \<Rightarrow> bytes \<Rightarrow> string" where
  "hmac_sha256 key message =
     (let block = hmac_block key
      in sha256_hex (mask_bytes 92 block @ sha256_bytes (mask_bytes 54 block @ message)))"

text \<open>\<^verbatim>\<open>hmac.compare_digest\<close> of two texts raises TypeError unless both are ASCII.\<close>

definition compare_digest :: "string \<Rightarrow> string \<Rightarrow> bool res" where
  "compare_digest a b =
     require (list_all (\<lambda>c. code_point c < 128) (a @ b)) TypeErr (Inr (a = b))"

lemma compare_digest_Inr [res_simps]:
  "compare_digest a b = Inr same \<longleftrightarrow> list_all (\<lambda>c. code_point c < 128) (a @ b) \<and> same = (a = b)"
  by (auto simp: compare_digest_def res_simps)

lemma hex_is_ascii: "is_hex_text n s \<Longrightarrow> list_all (\<lambda>c. code_point c < 128) s"
proof -
  have "is_lower_hex c \<Longrightarrow> code_point c < 128" for c
    by (auto simp: is_lower_hex_def is_digit_def less_eq_char_def)
  then show "is_hex_text n s \<Longrightarrow> list_all (\<lambda>c. code_point c < 128) s"
    by (auto simp: is_hex_text_def list_all_iff)
qed

lemma hash_is_ascii: "list_all (\<lambda>c. code_point c < 128) (sha256_hex m)"
  by (rule hex_is_ascii [OF sha256_hex_text])

lemma hmac_sha256_text: "is_hex_text 64 (hmac_sha256 key message)"
  by (simp add: hmac_sha256_def Let_def sha256_hex_text)

text \<open>
  Two different messages with the same code under one key. It takes a collision of SHA-256, in its
  inner or in its outer use.
\<close>

definition hmac_collides :: "bytes \<Rightarrow> bytes \<Rightarrow> bytes \<Rightarrow> bool" where
  "hmac_collides key x y \<longleftrightarrow> x \<noteq> y \<and> hmac_sha256 key x = hmac_sha256 key y"

end
