(* ===== verification/ScheduleService.thy ===== *)
theory ScheduleService
  imports Procs Access Plans Activity Quota Signing
begin

text \<open>
  \<^verbatim>\<open>services/schedule_management.py\<close> and the request of \<^verbatim>\<open>ports/schedule.py\<close>: planning and creating a
  schedule, pausing and resuming it, and executing one hourly tick. Results hold the fields of the
  returned dictionaries that are not constants. The clock, the id factory, the lease token factory,
  the scheduler and the dispatcher are outside services.
\<close>

section \<open>Interfaces\<close>

record scheduled_run_request =
  srr_schedule_id :: schedule_id
  srr_workload_id :: workload_id
  srr_tick_at :: pytime
  srr_lease_token :: string

definition scheduled_run_request_post_init :: "scheduled_run_request \<Rightarrow> scheduled_run_request res" where
  "scheduled_run_request_post_init r =
     require (nonblank (srr_schedule_id r)) ValueErr
    (require (nonblank (srr_workload_id r)) ValueErr
    (require (is_utc (srr_tick_at r)) ValueErr
    (require (nonblank (srr_lease_token r)) ValueErr (Inr r))))"

datatype schedule_call =
    ScheduleClock
  | ScheduleNewId string
  | ScheduleLeaseToken
  | EnsureScheduleEnabled schedule
  | PauseScheduleJob schedule
  | ResumeScheduleJob schedule
  | DispatchRun scheduled_run_request

record schedule_services =
  ssv_clock :: "schedule_call list \<Rightarrow> pytime res"
  ssv_new_id :: "schedule_call list \<Rightarrow> string \<Rightarrow> string res"
  ssv_lease_token :: "schedule_call list \<Rightarrow> string res"
  ssv_perform :: "schedule_call service"

type_synonym 'a schedule_proc = "(schedule_call world, 'a) proc"

record schedule_plan_result =
  spr_workload_id :: workload_id
  spr_plan_id :: plan_id
  spr_plan_hash :: string

record schedule_create_result =
  scr_schedule_id :: schedule_id
  scr_operation_id :: operation_id
  scr_state :: schedule_state
  scr_replayed :: bool

record schedule_state_result =
  ssr_schedule_id :: schedule_id
  ssr_state :: schedule_state
  ssr_replayed :: bool

record schedule_tick_result =
  str_schedule_id :: schedule_id
  str_state :: schedule_state
  str_outcome :: string
  str_reason :: "string option"
  str_replayed :: bool


section \<open>Constants and keys\<close>

definition plan_action :: string where "plan_action = ''create_schedule''"
definition plan_policy_version :: string where "plan_policy_version = ''mim-schedule-v1''"
definition run_action :: string where "run_action = ''schedule_run''"
definition safe_workload_states :: "workload_state set" where "safe_workload_states = {WlActive, WlFailed}"
definition lease_duration :: timedelta where "lease_duration = seconds 300"
definition activity_heartbeat_window :: timedelta where "activity_heartbeat_window = hours 1"

definition require_identifier :: "string \<Rightarrow> string res" where
  "require_identifier v = require (nonblank v) ValueErr (Inr v)"

definition idempotency_key_char :: "char \<Rightarrow> bool" where
  "idempotency_key_char c \<longleftrightarrow> is_ascii_alnum c \<or> c \<in> {CHR ''.'', CHR ''_'', CHR '':'', CHR ''-''}"

definition require_idempotency_key :: "string \<Rightarrow> string res" where
  "require_idempotency_key v =
     require (1 \<le> length v \<and> length v \<le> 128 \<and> list_all idempotency_key_char v) ValueErr (Inr v)"

definition require_hash :: "string \<Rightarrow> string res" where
  "require_hash v = require (is_hex_text 64 v) ValueErr (Inr v)"

text \<open>\<^verbatim>\<open>tick_at.strftime("%Y%m%d%H")\<close>\<close>

definition hour_stamp :: "pytime \<Rightarrow> string" where
  "hour_stamp t =
     (case (civil_of_days (local_micros t div days 1), clock_fields (local_micros t)) of
        ((y, mo, d), (h, _)) \<Rightarrow> show_int y @ pad 2 mo @ pad 2 d @ pad 2 h)"

definition tick_idempotency_key :: "schedule_id \<Rightarrow> pytime \<Rightarrow> string" where
  "tick_idempotency_key schedule_id tick_at = ''schedule:'' @ schedule_id @ '':'' @ hour_stamp tick_at"

definition nul :: string where "nul = [char_of (0 :: nat)]"

definition tick_request_hash :: "schedule_id \<Rightarrow> workload_id \<Rightarrow> pytime \<Rightarrow> string" where
  "tick_request_hash schedule_id workload_id tick_at =
     sha256_hex (utf8 (schedule_id @ nul @ workload_id @ nul @ isoformat tick_at))"

text \<open>The first digits of the digest of a text, as ids use it.\<close>

definition short_digest :: "nat \<Rightarrow> string \<Rightarrow> string" where
  "short_digest n text = take n (sha256_hex (utf8 text))"

definition activity_event_id :: "schedule_id \<Rightarrow> pytime \<Rightarrow> string" where
  "activity_event_id schedule_id tick_at =
     ''schrun-'' @ short_digest 24 (schedule_id @ '':'' @ isoformat tick_at)"

definition correlation_id :: "schedule_id \<Rightarrow> pytime \<Rightarrow> string" where
  "correlation_id schedule_id tick_at =
     ''corr-'' @ short_digest 24 (schedule_id @ '':'' @ isoformat tick_at)"


section \<open>Reviews\<close>

definition now_of :: "schedule_services \<Rightarrow> pytime schedule_proc" where
  "now_of services =
     andthen (observing ScheduleClock (ssv_clock services)) (\<lambda>value. compute (require_utc_datetime value))"

definition new_id_of :: "schedule_services \<Rightarrow> string \<Rightarrow> string schedule_proc" where
  "new_id_of services kind =
     observing (ScheduleNewId kind) (\<lambda>history. ssv_new_id services history kind)"

text \<open>Which exceptions a handler turns into a plain denial; denials themselves pass through.\<close>

definition denying :: "(err \<Rightarrow> bool) \<Rightarrow> 'a schedule_proc \<Rightarrow> 'a schedule_proc" where
  "denying caught m =
     rescue m (\<lambda>e.
       case e of
         ScheduleDenied _ \<Rightarrow> stop e
       | _ \<Rightarrow> if caught e then stop (ScheduleDenied ''schedule_denied'') else stop e)"

fun is_store_error :: "err \<Rightarrow> bool" where
  "is_store_error (StoreErr _) = True"
| "is_store_error _ = False"

definition review_workload :: "principal \<Rightarrow> workload_id \<Rightarrow> store \<Rightarrow> workload res" where
  "review_workload p workload_id s =
     bind_res (get_workload s workload_id) (\<lambda>w.
     bind_res (require_owner_or_admin p (wl_owner_id w)) (\<lambda>_.
     bind_res (get_user s (wl_owner_id w)) (\<lambda>owner.
     require (usr_state owner = UserActive) (ScheduleDenied ''owner_inactive'')
    (require (wl_kind w = ScheduledScript) (ScheduleDenied ''workload_kind_invalid'')
    (require (wl_state w \<in> safe_workload_states) (ScheduleDenied ''workload_state_invalid'')
       (Inr w))))))"

definition authorized_schedule :: "principal \<Rightarrow> schedule_id \<Rightarrow> store \<Rightarrow> schedule res" where
  "authorized_schedule p schedule_id s =
     (case bind_res (get_schedule s schedule_id) (\<lambda>c.
             bind_res (require_owner_or_admin p (sch_owner_id c)) (\<lambda>_. Inr c)) of
        Inl e \<Rightarrow>
          if e = AccessDenied \<or> e = StoreErr NotFound then Inl (ScheduleDenied ''schedule_denied'')
          else Inl e
      | Inr c \<Rightarrow> Inr c)"

definition plan_material :: "workload \<Rightarrow> py_value res" where
  "plan_material w =
     bind_res (normalize_schedule_policy ''hourly'' approved_schedule_timezone) (\<lambda>(cron, timezone).
       Inr (PyMap
         [(Some ''workload_id'', PyStr (wl_id w)), (Some ''owner_id'', PyStr (wl_owner_id w)),
          (Some ''cron'', PyStr cron), (Some ''timezone'', PyStr timezone)]))"

definition count_where :: "('a \<Rightarrow> bool) \<Rightarrow> 'a list \<Rightarrow> int" where
  "count_where P xs = int (length (filter P xs))"

definition owner_inventory :: "user_id \<Rightarrow> store \<Rightarrow> resource_inventory res" where
  "owner_inventory owner_id s =
     inventory_post_init
       \<lparr>inv_active_services =
          count_where (\<lambda>w. wl_state w \<in> {WlActive, WlFailed}) (list_workloads s (Some owner_id)),
        inv_active_schedules =
          count_where (\<lambda>c. sch_state c \<in> {ScEnabled, ScPaused, ScDisabled})
            (list_schedules s (Some owner_id)),
        inv_active_secrets = int (length (list_secret_metadata s (Some owner_id))),
        inv_approved_secret_limit = None\<rparr>"

text \<open>The cost decision of one owner over the entries of the month.\<close>

definition owner_cost_decision :: "user_id \<Rightarrow> pytime \<Rightarrow> store \<Rightarrow> cost_policy_decision res" where
  "owner_cost_decision owner_id now s =
     bind_res (usage_entries_for_utc_month (list_usage_entries s (Some owner_id)) now) (\<lambda>entries.
     bind_res (build_usage_ledger entries) (\<lambda>ledger.
     bind_res (build_cost_snapshot ledger owner_id) (\<lambda>snapshot.
       evaluate_cost_policy snapshot 0 0 0)))"

text \<open>The guard of the organization, denied with the service's own reason.\<close>

definition guard_open :: "err \<Rightarrow> pytime \<Rightarrow> store \<Rightarrow> unit res" where
  "guard_open denial now s =
     (case require_current_org_cost_guard s now of
        Inl e \<Rightarrow> if e = OrgCostGuardDenied then Inl denial else Inl e
      | Inr _ \<Rightarrow> Inr ())"

definition require_schedule_capacity :: "schedule_services \<Rightarrow> user_id \<Rightarrow> unit schedule_proc" where
  "require_schedule_capacity services owner_id =
     andthen (reading (owner_inventory owner_id)) (\<lambda>inventory.
     andthen (compute (evaluate_resource_policy inventory)) (\<lambda>resource.
     andthen (now_of services) (\<lambda>now.
     andthen (reading (guard_open (ScheduleDenied ''schedule_policy_blocked'') now)) (\<lambda>_.
     andthen (reading (owner_cost_decision owner_id now)) (\<lambda>cost.
       check
         (\<not> (rpd_schedule_limit_reached resource \<or> cpd_block_new cost \<or> cpd_pause cost \<or>
             cpd_emergency_stop cost))
         (ScheduleDenied ''schedule_policy_blocked'') (give ()))))))"


section \<open>Planning and creating\<close>

definition new_schedule_plan ::
    "principal \<Rightarrow> workload \<Rightarrow> string \<Rightarrow> string \<Rightarrow> pytime \<Rightarrow> pytime \<Rightarrow> deployment_plan res" where
  "new_schedule_plan p w plan_id material_hash expires_at now =
     plan_post_init
       \<lparr>pln_id = plan_id, pln_actor_id = prn_user_id p, pln_workload_id = Some (wl_id w),
        pln_action = plan_action, pln_material_hash = material_hash,
        pln_policy_version = plan_policy_version, pln_state = PlanIssued,
        pln_expires_at = expires_at, pln_created_at = now, pln_updated_at = now,
        pln_sanitized_summary =
          [(''workload_id'', wl_id w), (''cron'', approved_schedule_cron),
           (''timezone'', approved_schedule_timezone)],
        pln_version = 1\<rparr>"

definition plan_schedule ::
    "schedule_services \<Rightarrow> principal \<Rightarrow> workload_id \<Rightarrow> schedule_plan_result schedule_proc" where
  "plan_schedule services p workload_id =
     andthen (now_of services) (\<lambda>now.
     andthen
       (denying (\<lambda>e. e = AccessDenied \<or> is_store_error e \<or> is_value_error e)
         (andthen (compute (require_identifier workload_id)) (\<lambda>i.
          andthen (reading (review_workload p i)) (\<lambda>w.
          andthen (require_schedule_capacity services (wl_owner_id w)) (\<lambda>_.
          andthen (compute (plan_material w)) (\<lambda>material.
          andthen (compute (hash_plan_material material plan_action plan_policy_version)) (\<lambda>material_hash.
          andthen (new_id_of services ''plan'') (\<lambda>plan_id.
          andthen (compute (add_delta now (seconds 900))) (\<lambda>expires_at.
          andthen (compute (new_schedule_plan p w plan_id material_hash expires_at now)) (\<lambda>plan.
          andthen (storing (\<lambda>s. create_deployment_plan s plan)) (\<lambda>created.
            give (w, created))))))))))))
       (\<lambda>(w, plan).
          give \<lparr>spr_workload_id = wl_id w, spr_plan_id = pln_id plan, spr_plan_hash = pln_material_hash plan\<rparr>))"

definition schedule_for_plan :: "deployment_plan \<Rightarrow> workload \<Rightarrow> pytime \<Rightarrow> schedule res" where
  "schedule_for_plan plan w now =
     schedule_post_init
       \<lparr>sch_id = ''sch-'' @ short_digest 20 (pln_id plan), sch_owner_id = wl_owner_id w,
        sch_workload_id = wl_id w, sch_cron = approved_schedule_cron,
        sch_timezone = approved_schedule_timezone, sch_state = ScEnabled, sch_created_at = now,
        sch_updated_at = now, sch_consecutive_failures = 0, sch_lease_token = None,
        sch_lease_expires_at = None, sch_last_attempt_at = None, sch_last_success_at = None,
        sch_version = 1\<rparr>"

text \<open>A new operation of the service.\<close>

definition new_operation ::
    "operation_id \<Rightarrow> user_id \<Rightarrow> workload_id \<Rightarrow> string \<Rightarrow> string \<Rightarrow> string \<Rightarrow> operation_state \<Rightarrow> pytime
       \<Rightarrow> operation res" where
  "new_operation i actor_id workload_id action key request_hash state now =
     operation_post_init
       \<lparr>op_id = i, op_actor_id = actor_id, op_workload_id = Some workload_id, op_action = action,
        op_idempotency_key = key, op_request_hash = request_hash, op_state = state,
        op_created_at = now, op_updated_at = now, op_sanitized_failure = None,
        op_result_summary = [], op_version = 1\<rparr>"

definition create_schedule_from_plan ::
    "schedule_services \<Rightarrow> principal \<Rightarrow> plan_id \<Rightarrow> string \<Rightarrow> string \<Rightarrow> schedule_create_result schedule_proc" where
  "create_schedule_from_plan services p plan_id plan_hash idempotency_key =
     andthen (now_of services) (\<lambda>now.
     andthen (new_id_of services ''operation'') (\<lambda>requested_operation_id.
     andthen
       (denying (\<lambda>_. True)
         (andthen (compute (require_identifier plan_id)) (\<lambda>normalized_plan_id.
          andthen (compute (require_hash plan_hash)) (\<lambda>normalized_plan_hash.
          andthen (compute (require_idempotency_key idempotency_key)) (\<lambda>normalized_idempotency.
          andthen (reading (\<lambda>s. get_deployment_plan s normalized_plan_id)) (\<lambda>plan.
          andthen (compute (compare_digest (pln_material_hash plan) normalized_plan_hash)) (\<lambda>same.
          check same (ScheduleDenied ''plan_hash_mismatch'')
         (case pln_workload_id plan of
            None \<Rightarrow> stop (ScheduleDenied ''plan_missing_workload'')
          | Some workload_id \<Rightarrow>
              andthen (reading (review_workload p workload_id)) (\<lambda>w.
              andthen (require_schedule_capacity services (wl_owner_id w)) (\<lambda>_.
              andthen (compute (plan_material w)) (\<lambda>material.
              andthen
                (compute (validate_plan_request plan (prn_user_id p) material plan_action
                   plan_policy_version now)) (\<lambda>_.
              andthen (compute (schedule_for_plan plan w now)) (\<lambda>schedule.
              andthen
                (compute (new_operation requested_operation_id (prn_user_id p) (wl_id w) plan_action
                   normalized_idempotency (pln_material_hash plan) OpQueued now)) (\<lambda>requested_operation.
              andthen
                (storing (\<lambda>s. consume_schedule_plan_with_operation s (pln_id plan) (prn_user_id p)
                   (pln_material_hash plan) plan_action plan_policy_version now schedule
                   requested_operation)) (\<lambda>(persisted_plan, persisted_schedule, persisted_operation).
              andthen
                (calling (ssv_perform services) (EnsureScheduleEnabled persisted_schedule)) (\<lambda>_.
                give (persisted_plan, persisted_schedule, persisted_operation)))))))))))))))))
       (\<lambda>(persisted_plan, persisted_schedule, persisted_operation).
          give
            \<lparr>scr_schedule_id = sch_id persisted_schedule, scr_operation_id = op_id persisted_operation,
             scr_state = sch_state persisted_schedule,
             scr_replayed =
               (op_id persisted_operation \<noteq> requested_operation_id \<or> 2 < pln_version persisted_plan)\<rparr>)))"


section \<open>Pausing and resuming\<close>

definition move_schedule ::
    "schedule_services \<Rightarrow> schedule \<Rightarrow> schedule_state \<Rightarrow> schedule schedule_proc" where
  "move_schedule services current target =
     andthen (now_of services) (\<lambda>at.
     andthen (compute (schedule_transition_state current target at)) (\<lambda>moved.
       storing (\<lambda>s. save_schedule s moved (sch_version current))))"

definition state_result :: "schedule \<Rightarrow> bool \<Rightarrow> schedule_state_result" where
  "state_result c replayed =
     \<lparr>ssr_schedule_id = sch_id c, ssr_state = sch_state c, ssr_replayed = replayed\<rparr>"

definition pause_schedule ::
    "schedule_services \<Rightarrow> principal \<Rightarrow> schedule_id \<Rightarrow> schedule_state_result schedule_proc" where
  "pause_schedule services p schedule_id =
     andthen (compute (require_identifier schedule_id)) (\<lambda>i.
     andthen (reading (authorized_schedule p i)) (\<lambda>current.
       denying (\<lambda>_. True)
         (andthen
            (if sch_state current = ScPaused then give (current, True)
             else if sch_state current = ScEnabled then
               andthen (move_schedule services current ScPaused) (\<lambda>target. give (target, False))
             else stop (ScheduleDenied ''schedule_denied'')) (\<lambda>(target, replayed).
          andthen (calling (ssv_perform services) (PauseScheduleJob target)) (\<lambda>_.
            give (state_result target replayed))))))"

definition resume_schedule ::
    "schedule_services \<Rightarrow> principal \<Rightarrow> schedule_id \<Rightarrow> schedule_state_result schedule_proc" where
  "resume_schedule services p schedule_id =
     andthen (compute (require_identifier schedule_id)) (\<lambda>i.
     andthen (reading (authorized_schedule p i)) (\<lambda>current.
       denying (\<lambda>_. True)
         (andthen
            (if sch_state current = ScEnabled then give (current, True)
             else if sch_state current \<in> {ScPaused, ScDisabled} then
               andthen (reading (review_workload p (sch_workload_id current))) (\<lambda>w.
               andthen (require_schedule_capacity services (wl_owner_id w)) (\<lambda>_.
               andthen (move_schedule services current ScEnabled) (\<lambda>target. give (target, False))))
             else stop (ScheduleDenied ''schedule_denied'')) (\<lambda>(target, replayed).
          andthen (calling (ssv_perform services) (ResumeScheduleJob target)) (\<lambda>_.
            give (state_result target replayed))))))"


section \<open>Executing one tick\<close>

definition revalidate_execution_policy ::
    "schedule_services \<Rightarrow> user_id \<Rightarrow> workload_id \<Rightarrow> unit schedule_proc" where
  "revalidate_execution_policy services owner_id workload_id =
     andthen (reading (\<lambda>s. get_user s owner_id)) (\<lambda>owner.
     check (usr_state owner = UserActive) (ScheduleDenied ''owner_inactive'')
    (andthen (reading (\<lambda>s. get_workload s workload_id)) (\<lambda>w.
     check (wl_state w \<in> safe_workload_states) (ScheduleDenied ''workload_state_invalid'')
       (require_schedule_capacity services owner_id))))"

definition advance_operation :: "operation_state \<Rightarrow> pytime \<Rightarrow> operation \<Rightarrow> operation schedule_proc" where
  "advance_operation target at p =
     andthen (compute (operation_transition p target at None)) (\<lambda>q.
       storing (\<lambda>s. save_operation s q (op_version p)))"

definition mark_operation_succeeded :: "operation \<Rightarrow> pytime \<Rightarrow> unit schedule_proc" where
  "mark_operation_succeeded p at =
     andthen (advance_operation OpBuilding at p) (\<lambda>building.
     andthen (advance_operation OpDeploying at building) (\<lambda>deploying.
     andthen (advance_operation OpVerifying at deploying) (\<lambda>verifying.
     andthen (advance_operation OpSucceeded at verifying) (\<lambda>_. give ()))))"

definition mark_operation_failed :: "operation \<Rightarrow> pytime \<Rightarrow> unit schedule_proc" where
  "mark_operation_failed p at =
     andthen (reading (\<lambda>s. get_operation s (op_id p))) (\<lambda>current.
       if op_state current = OpQueued
       then andthen (advance_operation OpFailed at current) (\<lambda>_. give ())
       else give ())"

text \<open>The heartbeat: the workload's activity time, written at most once an hour and best effort.\<close>

definition heartbeat_is_recent :: "pytime option \<Rightarrow> pytime \<Rightarrow> bool res" where
  "heartbeat_is_recent last_activity_at at =
     (case last_activity_at of
        None \<Rightarrow> Inr False
      | Some t \<Rightarrow>
          bind_res (add_delta at (- activity_heartbeat_window)) (\<lambda>window_start.
            Inr (time_less window_start t)))"

definition eligible_schedule_heartbeat_workload :: "workload \<Rightarrow> bool" where
  "eligible_schedule_heartbeat_workload w \<longleftrightarrow>
     wl_kind w = ScheduledScript \<and> wl_state w \<in> safe_workload_states"

definition eligible_schedule_retry_workload :: "workload \<Rightarrow> bool" where
  "eligible_schedule_retry_workload w \<longleftrightarrow> wl_kind w = ScheduledScript \<and> wl_state w = WlActive"

definition heartbeat_signal_discriminator :: "string \<Rightarrow> string \<Rightarrow> string \<Rightarrow> string" where
  "heartbeat_signal_discriminator schedule_id workload_id run_discriminator =
     short_digest 24
       (''schedule-heartbeat-signal:'' @ schedule_id @ '':'' @ workload_id @ '':'' @ run_discriminator)"

definition heartbeat_text :: "string \<Rightarrow> string \<Rightarrow> pytime \<Rightarrow> string \<Rightarrow> string" where
  "heartbeat_text prefix target_ref occurred_at discriminator =
     prefix @ target_ref @ '':'' @ isoformat occurred_at @ '':'' @ discriminator"

definition heartbeat_audit_event_id :: "string \<Rightarrow> pytime \<Rightarrow> string \<Rightarrow> string" where
  "heartbeat_audit_event_id target_ref occurred_at discriminator =
     ''audit-heartbeat-'' @
       short_digest 24 (heartbeat_text ''schedule-heartbeat:'' target_ref occurred_at discriminator)"

definition heartbeat_audit_correlation_id :: "string \<Rightarrow> pytime \<Rightarrow> string \<Rightarrow> string" where
  "heartbeat_audit_correlation_id target_ref occurred_at discriminator =
     ''corr-heartbeat-'' @
       short_digest 24 (heartbeat_text ''schedule-heartbeat-corr:'' target_ref occurred_at discriminator)"

definition append_heartbeat_failure_signal :: "pytime \<Rightarrow> string \<Rightarrow> unit schedule_proc" where
  "append_heartbeat_failure_signal occurred_at discriminator =
     andthen
       (compute (audit_event_post_init
          \<lparr>aud_id = heartbeat_audit_event_id ''schedule_worker'' occurred_at discriminator,
           aud_actor_id = None, aud_action = ''heartbeat_write_failed'',
           aud_target_ref = ''schedule_worker'', aud_policy_decision = ''best_effort_suppressed'',
           aud_before_ref = None, aud_after_ref = None,
           aud_correlation_id =
             heartbeat_audit_correlation_id ''schedule_worker'' occurred_at discriminator,
           aud_outcome = ''recorded'', aud_occurred_at = occurred_at\<rparr>)) (\<lambda>event.
       rescue (andthen (storing (\<lambda>s. append_audit_event s event)) (\<lambda>_. give ())) (\<lambda>_. give ()))"

definition write_heartbeat ::
    "(workload \<Rightarrow> bool) \<Rightarrow> workload_id \<Rightarrow> pytime \<Rightarrow> unit schedule_proc" where
  "write_heartbeat eligible workload_id at =
     andthen (reading (\<lambda>s. get_workload s workload_id)) (\<lambda>current.
       if \<not> eligible current then give ()
       else
         andthen (compute (heartbeat_is_recent (wl_last_activity_at current) at)) (\<lambda>recent.
           if recent then give ()
           else
             andthen (compute (record_activity current at)) (\<lambda>active.
             andthen (storing (\<lambda>s. save_workload s active (wl_version current))) (\<lambda>_. give ()))))"

definition record_workload_activity_best_effort ::
    "schedule_id \<Rightarrow> workload_id \<Rightarrow> string \<Rightarrow> pytime \<Rightarrow> unit schedule_proc" where
  "record_workload_activity_best_effort schedule_id workload_id run_discriminator at =
     (let signal =
        append_heartbeat_failure_signal at
          (heartbeat_signal_discriminator schedule_id workload_id run_discriminator)
      in rescue (write_heartbeat eligible_schedule_heartbeat_workload workload_id at) (\<lambda>e.
           if e = StoreErr VersionConflict then
             rescue (write_heartbeat eligible_schedule_retry_workload workload_id at) (\<lambda>e'.
               if e' \<in> {StoreErr NotFound, StoreErr VersionConflict} \<or> is_value_error e' then give ()
               else signal)
           else if e = StoreErr NotFound \<or> is_value_error e then give ()
           else signal))"

definition schedule_run_payload :: "schedule_id \<Rightarrow> activity_outcome \<Rightarrow> py_value" where
  "schedule_run_payload schedule_id outcome =
     PyMap
       [(Some ''surface'', PyStr (activity_surface_value SurfWorker)),
        (Some ''action'', PyStr ''schedule_run''), (Some ''target_ref'', PyStr schedule_id),
        (Some ''outcome'', PyStr (activity_outcome_value outcome)), (Some ''latency_ms'', PyInt 250)]"

text \<open>The dispatch of a leased tick with its three outcomes.\<close>

definition dispatch_tick ::
    "schedule_services \<Rightarrow> user_id \<Rightarrow> workload_id \<Rightarrow> schedule \<Rightarrow> string \<Rightarrow> pytime \<Rightarrow> operation
       \<Rightarrow> activity_outcome schedule_proc" where
  "dispatch_tick services owner_id workload_id leased lease_token trusted_tick queued =
     rescue
       (andthen (revalidate_execution_policy services owner_id workload_id) (\<lambda>_.
        andthen
          (compute (scheduled_run_request_post_init
             \<lparr>srr_schedule_id = sch_id leased, srr_workload_id = sch_workload_id leased,
              srr_tick_at = trusted_tick, srr_lease_token = lease_token\<rparr>)) (\<lambda>request.
        andthen (calling (ssv_perform services) (DispatchRun request)) (\<lambda>_.
        andthen (mark_operation_succeeded queued trusted_tick) (\<lambda>_. give ActSucceeded)))))
       (\<lambda>e.
          andthen (mark_operation_failed queued trusted_tick) (\<lambda>_.
            case e of ScheduleDenied _ \<Rightarrow> give ActDenied | _ \<Rightarrow> give ActFailed))"

definition tick_reason :: "activity_outcome \<Rightarrow> string" where
  "tick_reason outcome =
     (case outcome of
        ActSucceeded \<Rightarrow> ''schedule execution completed.''
      | ActDenied \<Rightarrow> ''schedule execution was denied.''
      | ActFailed \<Rightarrow> ''schedule execution failed.'')"

definition replayed_tick :: "schedule \<Rightarrow> schedule_tick_result" where
  "replayed_tick c =
     \<lparr>str_schedule_id = sch_id c, str_state = sch_state c, str_outcome = ''replayed'',
      str_reason = None, str_replayed = True\<rparr>"

definition finish_tick ::
    "schedule \<Rightarrow> workload_id \<Rightarrow> string \<Rightarrow> pytime \<Rightarrow> activity_outcome \<Rightarrow> schedule_tick_result schedule_proc" where
  "finish_tick leased workload_id lease_token trusted_tick outcome =
     andthen
       (storing (\<lambda>s. complete_schedule_run s (sch_id leased) (sch_version leased) lease_token
          (outcome = ActSucceeded) trusted_tick)) (\<lambda>completed.
     andthen
       (if outcome \<in> {ActSucceeded, ActFailed}
        then record_workload_activity_best_effort (sch_id leased) workload_id
               (tick_idempotency_key (sch_id leased) trusted_tick) trusted_tick
        else give ()) (\<lambda>_.
     andthen
       (compute (ingest_activity_event (activity_event_id (sch_id leased) trusted_tick)
          (sch_owner_id completed) (correlation_id (sch_id leased) trusted_tick) trusted_tick
          trusted_tick (schedule_run_payload (sch_id leased) outcome))) (\<lambda>event.
     andthen (storing (\<lambda>s. append_activity_event s event)) (\<lambda>_.
       give \<lparr>str_schedule_id = sch_id completed, str_state = sch_state completed,
             str_outcome = activity_outcome_value outcome, str_reason = Some (tick_reason outcome),
             str_replayed = False\<rparr>))))"

text \<open>What is checked before anything is written; \<open>None\<close> goes on to the lease.\<close>

definition admit_tick ::
    "(int \<Rightarrow> timedelta) \<Rightarrow> schedule \<Rightarrow> workload_id \<Rightarrow> pytime \<Rightarrow> schedule_tick_result option res" where
  "admit_tick seoul_offset current expected_workload_id trusted_tick =
     require (sch_workload_id current = expected_workload_id) (ScheduleDenied ''schedule_denied'')
    (require (sch_state current = ScEnabled) (ScheduleDenied ''schedule_denied'')
    (bind_res (schedule_is_due seoul_offset current trusted_tick) (\<lambda>due.
     require due (ScheduleDenied ''schedule_denied'')
       (case sch_last_attempt_at current of
          Some t \<Rightarrow> Inr (if time_leq trusted_tick t then Some (replayed_tick current) else None)
        | None \<Rightarrow> Inr None))))"

text \<open>The tick once its lease is taken: operation, dispatch, report.\<close>

definition leased_tick ::
    "schedule_services \<Rightarrow> user_id \<Rightarrow> workload_id \<Rightarrow> schedule \<Rightarrow> string \<Rightarrow> pytime
       \<Rightarrow> schedule_tick_result schedule_proc" where
  "leased_tick services owner_id workload_id leased lease_token trusted_tick =
     andthen (new_id_of services ''operation'') (\<lambda>operation_id.
     andthen
       (compute (new_operation operation_id owner_id workload_id run_action
          (tick_idempotency_key (sch_id leased) trusted_tick)
          (tick_request_hash (sch_id leased) workload_id trusted_tick) OpPlanned trusted_tick))
       (\<lambda>requested.
     andthen (storing (\<lambda>s. create_operation_once s requested)) (\<lambda>operation.
       let go_on = (\<lambda>queued.
         andthen (dispatch_tick services owner_id workload_id leased lease_token trusted_tick queued)
           (finish_tick leased workload_id lease_token trusted_tick))
       in
       if op_state operation \<noteq> OpPlanned then
         (if (case sch_last_attempt_at leased of Some t \<Rightarrow> time_leq trusted_tick t | None \<Rightarrow> False)
          then give (replayed_tick leased)
          else check (op_state operation = OpQueued) (ScheduleDenied ''schedule_denied'')
                 (go_on operation))
       else andthen (advance_operation OpQueued trusted_tick operation) go_on)))"

text \<open>
  The tick of a schedule that passed those checks. The lease keeps the id of the schedule, so the
  keys of the operation may be built from the leased record.
\<close>

definition run_tick ::
    "schedule_services \<Rightarrow> schedule \<Rightarrow> pytime \<Rightarrow> schedule_tick_result schedule_proc" where
  "run_tick services current trusted_tick =
     andthen (reading (\<lambda>s. get_workload s (sch_workload_id current))) (\<lambda>w.
     andthen (reading (\<lambda>s. get_user s (sch_owner_id current))) (\<lambda>owner.
     andthen (observing ScheduleLeaseToken (ssv_lease_token services)) (\<lambda>raw_token.
     andthen (compute (require_schedule_lease_token raw_token)) (\<lambda>lease_token.
     andthen (compute (add_delta trusted_tick lease_duration)) (\<lambda>lease_expires_at.
     andthen
       (storing (\<lambda>s. acquire_schedule_lease s (sch_id current) (sch_version current) lease_token
          lease_expires_at trusted_tick)) (\<lambda>leased.
       leased_tick services (usr_id owner) (wl_id w) leased lease_token trusted_tick))))))"

definition execute_schedule_tick ::
    "schedule_services \<Rightarrow> (int \<Rightarrow> timedelta) \<Rightarrow> schedule_id \<Rightarrow> workload_id \<Rightarrow> pytime
       \<Rightarrow> schedule_tick_result schedule_proc" where
  "execute_schedule_tick services seoul_offset schedule_id workload_id tick_at =
     andthen (compute (require_utc_datetime tick_at)) (\<lambda>trusted_tick.
     andthen (compute (require_identifier schedule_id)) (\<lambda>i.
     andthen (reading (\<lambda>s. get_schedule s i)) (\<lambda>current.
     andthen (compute (require_identifier workload_id)) (\<lambda>expected_workload_id.
     andthen (compute (admit_tick seoul_offset current expected_workload_id trusted_tick)) (\<lambda>admitted.
       case admitted of
         Some replayed \<Rightarrow> give replayed
       | None \<Rightarrow> run_tick services current trusted_tick)))))"

end
