(* ===== verification/Schedule_Guarantees.thy ===== *)
theory Schedule_Guarantees
  imports ScheduleService Samples
begin

text \<open>
  What the schedule service guarantees: one hourly tick is dispatched at most once, whoever else
  works on the store; and what an owner at the schedule limit can expect.
\<close>

section \<open>A taken tick stays taken\<close>

text \<open>What one call can do to a schedule, as far as leases and attempts are concerned.\<close>

definition schedule_moves :: "schedule \<Rightarrow> schedule \<Rightarrow> bool" where
  "schedule_moves c d \<longleftrightarrow>
     time_leq (sch_updated_at c) (sch_updated_at d) \<and>
       sch_lease_token d = sch_lease_token c \<and> sch_lease_expires_at d = sch_lease_expires_at c \<and>
       sch_last_attempt_at d = sch_last_attempt_at c \<or>
     (\<exists>token now expires_at. lease_available c token now \<and> time_less now expires_at \<and>
        d = leased_schedule c token expires_at now) \<or>
     (\<exists>token ok at. lease_held c token at \<and> d = completed_schedule c ok at)"

lemma put_schedule_moves:
  assumes "put_schedule d c v = Inr d'" and "dict_get d k = Some r"
  shows "dict_get d' k = Some r \<or> (\<exists>r'. dict_get d' k = Some r' \<and> schedule_moves r r')"
  using assms
  by (cases "k = sch_id c")
    (auto simp: schedules.save_iff stateful_step_def next_version_def attrs_defs schedule_same_def
      schedule_moves_def time_not_back_def)

lemma leased_moves:
  "lease_available c token now \<Longrightarrow> time_less now expires_at \<Longrightarrow>
     schedule_moves c (leased_schedule c token expires_at now)"
  unfolding schedule_moves_def by blast

lemma completed_moves: "lease_held c token at \<Longrightarrow> schedule_moves c (completed_schedule c ok at)"
  unfolding schedule_moves_def by blast

interpretation hist_ticks: tracked_collection "\<lambda>s. dict_get (st_schedules s)" schedule_moves
proof unfold_locales
  fix s s' k r
  assume "effect s s'" and "dict_get (st_schedules s) k = Some r"
  then show "dict_get (st_schedules s') k = Some r \<or>
      (\<exists>r'. dict_get (st_schedules s') k = Some r' \<and> schedule_moves r r')"
    by (cases rule: effect.cases) (auto dest: put_schedule_moves leased_moves completed_moves)
qed simp

text \<open>
  A tick is taken once a lease reaches beyond it, a run at it or later was reported, or the record
  moved beyond it.
\<close>

definition tick_taken :: "pytime \<Rightarrow> schedule \<Rightarrow> bool" where
  "tick_taken tick c \<longleftrightarrow>
     time_leq tick (sch_updated_at c) \<and>
     ((\<exists>expires_at. sch_lease_token c \<noteq> None \<and> sch_lease_expires_at c = Some expires_at \<and>
         time_less tick expires_at) \<or>
      (\<exists>t. sch_last_attempt_at c = Some t \<and> time_leq tick t) \<or> time_less tick (sch_updated_at c))"

lemma tick_taken_moves: "schedule_moves c d \<Longrightarrow> tick_taken tick c \<Longrightarrow> tick_taken tick d"
  unfolding schedule_moves_def
proof (elim disjE exE conjE)
  assume "time_leq (sch_updated_at c) (sch_updated_at d)" "sch_lease_token d = sch_lease_token c"
    "sch_lease_expires_at d = sch_lease_expires_at c" "sch_last_attempt_at d = sch_last_attempt_at c"
    "tick_taken tick c"
  then show ?thesis by (auto simp: tick_taken_def time_less_def time_leq_def)
next
  fix token now expires_at
  assume "lease_available c token now" "time_less now expires_at" "tick_taken tick c"
    "d = leased_schedule c token expires_at now"
  then show ?thesis
    by (auto simp: tick_taken_def lease_available_def leased_schedule_def time_less_def time_leq_def)
next
  fix token ok at
  assume "lease_held c token at" "d = completed_schedule c ok at" "tick_taken tick c"
  then show ?thesis
    by (auto simp: tick_taken_def lease_held_def completed_schedule_def time_less_def time_leq_def Let_def)
qed

lemma tick_stays_taken:
  assumes "later s s'" and "store_keyed s" and "dict_get (st_schedules s) i = Some c" and "tick_taken tick c"
  shows "\<exists>d. dict_get (st_schedules s') i = Some d \<and> tick_taken tick d"
  using hist_ticks.history_closed [OF assms(1-3), of "\<lambda>_. tick_taken tick"] assms(4) tick_taken_moves
  by blast

lemma acquired_tick_taken:
  "acquire_schedule_lease s i v token expires_at tick = (Inr leased, s') \<Longrightarrow>
     dict_get (st_schedules s') i = Some leased \<and> tick_taken tick leased"
  by (auto simp: acquire_schedule_lease_Inr tick_taken_def leased_schedule_def)

lemma taken_tick_unavailable:
  assumes "tick_taken tick c" and "admit_tick seoul_offset c w tick = Inr None"
  shows "\<not> lease_available c token tick"
  using assms
  by (auto simp: tick_taken_def admit_tick_def lease_available_def res_simps time_less_not_leq
      split: option.splits if_splits)


section \<open>Dispatches\<close>

fun is_dispatch :: "schedule_call \<Rightarrow> bool" where
  "is_dispatch (DispatchRun _) = True"
| "is_dispatch _ = False"

definition dispatches :: "schedule_call world \<Rightarrow> schedule_call list" where
  "dispatches w = filter is_dispatch (wrl_calls w)"

text \<open>Runs that dispatch nothing.\<close>

definition undispatched :: "schedule_call world \<Rightarrow> schedule_call world \<Rightarrow> bool" where
  "undispatched w w' \<longleftrightarrow> dispatches w' = dispatches w"

interpretation quiet: run_relation undispatched
  by unfold_locales (simp_all add: undispatched_def)

lemma quiet_runs:
  "quiet.within (reading f)" "quiet.within (asking g)" "quiet.within (storing h)"
  "\<not> is_dispatch c \<Longrightarrow> quiet.within (outside c a)"
  "\<not> is_dispatch c \<Longrightarrow> quiet.within (observing c b)"
  "\<not> is_dispatch c \<Longrightarrow> quiet.within (calling p c)"
  by (auto simp: quiet.within_def undispatched_def dispatches_def reading_def asking_def storing_def
      observing_def calling_def outside_def split: prod.splits)

lemma require_schedule_capacity_quiet: "quiet.within (require_schedule_capacity services i)"
  unfolding require_schedule_capacity_def now_of_def
  by (intro quiet.within_intros quiet_runs) simp_all

lemma new_id_quiet: "quiet.within (new_id_of services kind)"
  unfolding new_id_of_def by (intro quiet_runs) simp

lemma advance_operation_quiet: "quiet.within (advance_operation target at p)"
  unfolding advance_operation_def by (intro quiet.within_intros quiet_runs)

lemma mark_operation_quiet:
  "quiet.within (mark_operation_succeeded p at)" "quiet.within (mark_operation_failed p at)"
  unfolding mark_operation_succeeded_def mark_operation_failed_def
  by (intro quiet.within_intros quiet_runs advance_operation_quiet)+

lemma heartbeat_quiet: "quiet.within (record_workload_activity_best_effort i j d at)"
  unfolding record_workload_activity_best_effort_def write_heartbeat_def
    append_heartbeat_failure_signal_def Let_def
  by (intro quiet.within_intros quiet_runs)

lemma finish_tick_quiet: "quiet.within (finish_tick leased i token tick outcome)"
  unfolding finish_tick_def by (intro quiet.within_intros quiet_runs heartbeat_quiet)


section \<open>At most one dispatch\<close>

text \<open>Runs that dispatch nothing or one request.\<close>

definition at_most_one :: "scheduled_run_request \<Rightarrow> 'a schedule_proc \<Rightarrow> bool" where
  "at_most_one q m \<longleftrightarrow>
     (\<forall>w. dispatches (snd (m w)) \<in> {dispatches w, dispatches w @ [DispatchRun q]})"

lemma quiet_dispatches: "quiet.within m \<Longrightarrow> dispatches (snd (m w)) = dispatches w"
  by (simp add: quiet.within_def undispatched_def)

lemma at_most_one_quiet: "quiet.within m \<Longrightarrow> at_most_one q m"
  by (simp add: at_most_one_def quiet_dispatches)

lemma at_most_one_dispatch: "at_most_one q (calling p (DispatchRun q))"
  by (auto simp: at_most_one_def calling_def outside_def dispatches_def split: prod.splits)

lemma at_most_one_first:
  assumes "at_most_one q m" and "\<And>x. quiet.within (f x)"
  shows "at_most_one q (andthen m f)"
  unfolding at_most_one_def
proof
  fix w
  from assms(1) have "dispatches (snd (m w)) \<in> {dispatches w, dispatches w @ [DispatchRun q]}"
    by (simp add: at_most_one_def)
  then show "dispatches (snd (andthen m f w)) \<in> {dispatches w, dispatches w @ [DispatchRun q]}"
    using quiet_dispatches [OF assms(2)] by (auto simp: andthen_def split: prod.splits sum.splits)
qed

lemma at_most_one_then:
  assumes "quiet.within m" and "\<And>x. at_most_one q (f x)"
  shows "at_most_one q (andthen m f)"
  using assms(2) quiet_dispatches [OF assms(1)] unfolding at_most_one_def andthen_def
  by (auto split: prod.splits sum.splits) (metis snd_conv)+

lemma at_most_one_rescue:
  assumes "at_most_one q m" and "\<And>e. quiet.within (h e)"
  shows "at_most_one q (rescue m h)"
  unfolding at_most_one_def
proof
  fix w
  from assms(1) have "dispatches (snd (m w)) \<in> {dispatches w, dispatches w @ [DispatchRun q]}"
    by (simp add: at_most_one_def)
  then show "dispatches (snd (rescue m h w)) \<in> {dispatches w, dispatches w @ [DispatchRun q]}"
    using quiet_dispatches [OF assms(2)] by (auto simp: rescue_def split: prod.splits sum.splits)
qed

lemma at_most_one_compute:
  "(\<And>x. r = Inr x \<Longrightarrow> at_most_one q (f x)) \<Longrightarrow> at_most_one q (andthen (compute r) f)"
  by (cases r) (simp_all add: at_most_one_def andthen_def compute_def)

text \<open>The request that a leased tick dispatches.\<close>

definition tick_request :: "schedule \<Rightarrow> pytime \<Rightarrow> string \<Rightarrow> scheduled_run_request" where
  "tick_request c tick token =
     \<lparr>srr_schedule_id = sch_id c, srr_workload_id = sch_workload_id c, srr_tick_at = tick,
      srr_lease_token = token\<rparr>"

lemma revalidate_quiet: "quiet.within (revalidate_execution_policy services owner workload)"
  unfolding revalidate_execution_policy_def
  by (intro quiet.within_intros quiet_runs require_schedule_capacity_quiet)

lemma dispatch_tick_at_most_one:
  "at_most_one (tick_request leased tick token)
     (dispatch_tick services owner workload leased token tick queued)"
proof -
  have "at_most_one (tick_request leased tick token)
      (andthen (compute (scheduled_run_request_post_init (tick_request leased tick token))) (\<lambda>request.
        andthen (calling (ssv_perform services) (DispatchRun request)) (\<lambda>_.
        andthen (mark_operation_succeeded queued tick) (\<lambda>_. give ActSucceeded))))"
    by (rule at_most_one_compute)
      (auto simp: scheduled_run_request_post_init_def require_def split: if_splits
        intro!: at_most_one_first at_most_one_dispatch quiet.within_andthen mark_operation_quiet
          quiet.within_give)
  moreover have "quiet.within (case e of ScheduleDenied _ \<Rightarrow> give ActDenied | _ \<Rightarrow> give ActFailed)" for e
    by (cases e) (simp_all add: quiet.within_give)
  ultimately show ?thesis unfolding dispatch_tick_def tick_request_def
    by (rule at_most_one_rescue [OF at_most_one_then [OF revalidate_quiet]
          quiet.within_andthen [OF mark_operation_quiet(2)]])
qed

lemma leased_tick_at_most_one:
  "at_most_one (tick_request leased tick token)
     (leased_tick services owner workload leased token tick)"
proof -
  have go: "at_most_one (tick_request leased tick token)
      (andthen (dispatch_tick services owner workload leased token tick queued)
        (finish_tick leased workload token tick))" for queued
    by (intro at_most_one_first dispatch_tick_at_most_one finish_tick_quiet)
  have skip: "at_most_one (tick_request leased tick token) (give x)"
    "at_most_one (tick_request leased tick token) (stop e)" for x and e
    by (intro at_most_one_quiet quiet.within_give quiet.within_stop)+
  show ?thesis unfolding leased_tick_def Let_def check_def
    by (intro at_most_one_then new_id_quiet quiet.within_compute quiet_runs)
      (simp add: go skip at_most_one_then advance_operation_quiet)
qed

text \<open>Once the checks pass, the request is dispatched.\<close>

lemma quiet_andthen:
  "(\<And>x. quiet.within (f x)) \<Longrightarrow> dispatches (snd (andthen m f w)) = dispatches (snd (m w))"
  using quiet_dispatches [of "f _"] by (auto simp: andthen_def split: prod.splits sum.splits)

lemma quiet_rescue:
  "(\<And>e. quiet.within (h e)) \<Longrightarrow> dispatches (snd (rescue m h w)) = dispatches (snd (m w))"
  using quiet_dispatches [of "h _"] by (auto simp: rescue_def split: prod.splits sum.splits)

lemma calling_dispatches:
  "dispatches (snd (calling p (DispatchRun q) w)) = dispatches w @ [DispatchRun q]"
  by (auto simp: calling_def outside_def dispatches_def split: prod.splits)

lemma failure_quiet:
  "quiet.within (andthen (mark_operation_failed queued tick)
     (\<lambda>_. case e of ScheduleDenied _ \<Rightarrow> give ActDenied | _ \<Rightarrow> give ActFailed))"
  by (intro quiet.within_andthen mark_operation_quiet) (cases e; simp add: quiet.within_give)

lemma dispatch_tick_dispatches:
  assumes "revalidate_execution_policy services owner workload w = (Inr (), w')"
    and "scheduled_run_request_post_init (tick_request leased tick token) =
      Inr (tick_request leased tick token)"
  shows "dispatches (snd (dispatch_tick services owner workload leased token tick queued w)) =
    dispatches w @ [DispatchRun (tick_request leased tick token)]"
proof -
  have "dispatches w' = dispatches w"
    using quiet_dispatches [OF revalidate_quiet, of services owner workload w] assms(1) by simp
  with assms show ?thesis
    unfolding dispatch_tick_def quiet_rescue [OF failure_quiet] tick_request_def [symmetric]
    by (simp add: andthen_step quiet_steps calling_dispatches quiet_andthen quiet.within_andthen
        mark_operation_quiet quiet.within_give)
qed

text \<open>Outside calls that only observe leave the store alone.\<close>

lemma observing_steps:
  "andthen (observing c f) g w =
     (case f (wrl_calls w) of
        Inl e \<Rightarrow> (Inl e, w\<lparr>wrl_calls := wrl_calls w @ [c]\<rparr>)
      | Inr x \<Rightarrow> g x (w\<lparr>wrl_calls := wrl_calls w @ [c]\<rparr>))"
  by (cases w) (simp add: andthen_def observing_def outside_def split: sum.splits)

lemma storing_steps:
  "andthen (storing f) g w =
     (case f (wrl_store w) of
        (Inl e, s) \<Rightarrow> (Inl e, w\<lparr>wrl_store := s\<rparr>) | (Inr x, s) \<Rightarrow> g x (w\<lparr>wrl_store := s\<rparr>))"
  by (simp add: andthen_def storing_def split: prod.splits sum.splits)

lemma run_tick_lease:
  assumes "run_tick services c tick w = (r, w')" and "dispatches w' \<noteq> dispatches w"
  shows "\<exists>token expires_at leased s1 owner workload.
    acquire_schedule_lease (wrl_store w) (sch_id c) (sch_version c) token expires_at tick = (Inr leased, s1) \<and>
    get_user (wrl_store w) (sch_owner_id c) = Inr owner \<and>
    leased_tick services (usr_id owner) workload leased token tick
      (w\<lparr>wrl_calls := wrl_calls w @ [ScheduleLeaseToken], wrl_store := s1\<rparr>) = (r, w')"
  using assms
  by (auto simp: run_tick_def quiet_steps observing_steps storing_steps dispatches_def
      require_schedule_lease_token_def require_def split: sum.splits prod.splits if_splits)
    blast


section \<open>Executing a tick\<close>

lemma execute_tick_runs:
  assumes "execute_schedule_tick services off i wid tick w = (r, w')" and "dispatches w' \<noteq> dispatches w"
  shows "\<exists>c. dict_get (st_schedules (wrl_store w)) i = Some c \<and> admit_tick off c wid tick = Inr None \<and>
    run_tick services c tick w = (r, w')"
  using assms
  by (auto simp: execute_schedule_tick_def quiet_steps proc_run require_utc_datetime_def
      require_identifier_def get_schedule_def coll_get_def require_def
      split: sum.splits option.splits if_splits)

lemma dispatched_tick:
  assumes "store_keyed (wrl_store w)"
    and "execute_schedule_tick services off i wid tick w = (r, w')" and "dispatches w' \<noteq> dispatches w"
  shows "\<exists>c token expires_at leased s1 owner workload.
    dict_get (st_schedules (wrl_store w)) i = Some c \<and> sch_id c = i \<and>
    admit_tick off c wid tick = Inr None \<and>
    acquire_schedule_lease (wrl_store w) i (sch_version c) token expires_at tick = (Inr leased, s1) \<and>
    lease_available c token tick \<and> sch_id leased = i \<and> tick_taken tick leased \<and>
    dict_get (st_schedules s1) i = Some leased \<and> later (wrl_store w) s1 \<and>
    leased_tick services owner workload leased token tick
      (w\<lparr>wrl_calls := wrl_calls w @ [ScheduleLeaseToken], wrl_store := s1\<rparr>) = (r, w')"
proof -
  from execute_tick_runs [OF assms(2,3)] obtain c
    where c: "dict_get (st_schedules (wrl_store w)) i = Some c" "admit_tick off c wid tick = Inr None"
      and run: "run_tick services c tick w = (r, w')" by blast
  from assms(1) c(1) have id: "sch_id c = i" by (auto simp: store_keyed_def dest: keyed_by_get)
  from run_tick_lease [OF run assms(3)] obtain token expires_at leased s1 workload and owner :: user
    where acquired:
        "acquire_schedule_lease (wrl_store w) i (sch_version c) token expires_at tick = (Inr leased, s1)"
      and rest: "leased_tick services (usr_id owner) workload leased token tick
        (w\<lparr>wrl_calls := wrl_calls w @ [ScheduleLeaseToken], wrl_store := s1\<rparr>) = (r, w')"
    unfolding id by blast
  moreover from acquired c(1) id have "lease_available c token tick" "sch_id leased = i"
    by (auto simp: acquire_schedule_lease_Inr leased_schedule_def)
  moreover from acquired have "later (wrl_store w) s1"
    using later_run [of "AcquireLease i (sch_version c) token expires_at tick" "wrl_store w"] by simp
  ultimately show ?thesis using c id acquired_tick_taken [OF acquired] by blast
qed

lemma tick_not_dispatched_again:
  assumes "store_keyed s1" and "dict_get (st_schedules s1) i = Some leased" and "tick_taken tick leased"
    and "later s1 (wrl_store w)" and "store_keyed (wrl_store w)"
    and "execute_schedule_tick services off i wid tick w = (r, w')"
  shows "dispatches w' = dispatches w"
proof (rule ccontr)
  assume "dispatches w' \<noteq> dispatches w"
  from dispatched_tick [OF assms(5,6) this] obtain c token
    where "dict_get (st_schedules (wrl_store w)) i = Some c" "admit_tick off c wid tick = Inr None"
      "lease_available c token tick" by blast
  moreover from this(1) tick_stays_taken [OF assms(4,1,2,3)] have "tick_taken tick c" by simp
  ultimately show False using taken_tick_unavailable by blast
qed

text \<open>
  C28: a tick of a schedule is dispatched at most once. A run of \<^verbatim>\<open>execute_schedule_tick\<close> that
  dispatches anything dispatches one request, for this schedule and this tick, after it took the
  lease; and from the moment it took the lease no other run for the same tick dispatches anything,
  whatever the store went through in between, whichever services that run is given and whatever they
  answer, and whether the first run succeeded, failed or was lost.
\<close>

theorem tick_is_dispatched_at_most_once:
  assumes "reachable (wrl_store w)"
    and "execute_schedule_tick services off i wid tick w = (r, w1)" and "dispatches w1 \<noteq> dispatches w"
  shows "\<exists>v token expires_at leased s1.
    acquire_schedule_lease (wrl_store w) i v token expires_at tick = (Inr leased, s1) \<and>
    dispatches w1 = dispatches w @
      [DispatchRun \<lparr>srr_schedule_id = i, srr_workload_id = sch_workload_id leased,
         srr_tick_at = tick, srr_lease_token = token\<rparr>] \<and>
    (\<forall>services' off' wid' w2 r2 w3.
       later s1 (wrl_store w2) \<longrightarrow> execute_schedule_tick services' off' i wid' tick w2 = (r2, w3) \<longrightarrow>
       dispatches w3 = dispatches w2)"
proof -
  from assms(1) have keyed: "store_keyed (wrl_store w)" by (rule reachable_keyed)
  from dispatched_tick [OF keyed assms(2,3)] obtain v token expires_at leased s1 owner workload
    where acquired:
        "acquire_schedule_lease (wrl_store w) i v token expires_at tick = (Inr leased, s1)"
      and leased: "sch_id leased = i" "tick_taken tick leased" "dict_get (st_schedules s1) i = Some leased"
        "later (wrl_store w) s1"
      and rest: "leased_tick services owner workload leased token tick
        (w\<lparr>wrl_calls := wrl_calls w @ [ScheduleLeaseToken], wrl_store := s1\<rparr>) = (r, w1)" by blast
  have "dispatches (w\<lparr>wrl_calls := wrl_calls w @ [ScheduleLeaseToken], wrl_store := s1\<rparr>) = dispatches w"
    by (simp add: dispatches_def)
  with leased_tick_at_most_one [of leased tick token services owner workload] rest assms(3) leased(1)
  have "dispatches w1 = dispatches w @ [DispatchRun (tick_request leased tick token)]"
    unfolding at_most_one_def by (metis insertE singletonD snd_conv)
  moreover have "dispatches w3 = dispatches w2"
    if "later s1 (wrl_store w2)" and "execute_schedule_tick services' off' i wid' tick w2 = (r2, w3)"
    for services' off' wid' w2 r2 w3
  proof -
    from reachable_later [OF assms(1) leased(4)] have s1: "reachable s1" .
    show ?thesis
      by (rule tick_not_dispatched_again [OF reachable_keyed [OF s1] leased(3,2) that(1)
            reachable_keyed [OF reachable_later [OF s1 that(1)]] that(2)])
  qed
  ultimately show ?thesis using acquired leased(1) unfolding tick_request_def by blast
qed


text \<open>One tick on a store with one schedule, a fresh guard and services that always answer.\<close>

definition tick_time :: pytime where "tick_time = utc (hours 1000)"
definition tick_lease_end :: pytime where "tick_lease_end = utc (hours 1000 + seconds 300)"

definition tick_guard :: org_cost_guard where
  "tick_guard =
     \<lparr>grd_evaluated_at = tick_time, grd_latest_usage_collected_at = None,
      grd_emergency_stop = False, grd_org_policy_cost_krw = 0, grd_version = 1\<rparr>"

definition ready_services :: schedule_services where
  "ready_services =
     \<lparr>ssv_clock = \<lambda>_. Inr tick_time, ssv_new_id = \<lambda>_ _. Inr ''o9'',
      ssv_lease_token = \<lambda>_. Inr ''lease-a'', ssv_perform = \<lambda>_ _ s. (Inr (), s)\<rparr>"

definition ready_store :: store where
  "ready_store = snd (run sample_store (CreateGuard tick_guard))"

definition tick_leased :: schedule where
  "tick_leased = leased_schedule sample_schedule ''lease-a'' tick_lease_end tick_time"

definition leased_store :: store where
  "leased_store = ready_store\<lparr>st_schedules := [(''s1'', tick_leased)]\<rparr>"

definition tick_operation :: "operation_state \<Rightarrow> int \<Rightarrow> string \<Rightarrow> operation" where
  "tick_operation state v h =
     \<lparr>op_id = ''o9'', op_actor_id = ''u1'', op_workload_id = Some ''w1'', op_action = run_action,
      op_idempotency_key = tick_idempotency_key ''s1'' tick_time, op_request_hash = h,
      op_state = state, op_created_at = tick_time, op_updated_at = tick_time,
      op_sanitized_failure = None, op_result_summary = [], op_version = v\<rparr>"

definition tick_store :: "operation \<Rightarrow> store" where
  "tick_store p = leased_store
     \<lparr>st_operations := [(''o1'', sample_operation), (''o9'', p)],
      st_op_claims := [((''u1'', ''k1''), (''h1'', ''deploy'', Some ''w1'', ''o1'')),
        ((''u1'', tick_idempotency_key ''s1'' tick_time), (op_request_hash p, run_action, Some ''w1'', ''o9''))]\<rparr>"

lemma ready_reachable: "reachable ready_store"
  unfolding ready_store_def by (rule reachable_run) (simp, code_simp)

lemma ready_store_eq: "ready_store = sample_store\<lparr>st_guards := [(guard_key, tick_guard)]\<rparr>"
  unfolding ready_store_def sample_store_eq by code_simp

lemma tick_admitted:
  "get_schedule ready_store ''s1'' = Inr sample_schedule"
  "get_workload ready_store ''w1'' = Inr sample_workload"
  "get_user ready_store ''u1'' = Inr sample_user"
  "admit_tick (\<lambda>_. hours 9) sample_schedule ''w1'' tick_time = Inr None"
  unfolding ready_store_eq sample_store_eq by code_simp+

lemma tick_arguments:
  "require_utc_datetime tick_time = Inr tick_time" "require_identifier ''s1'' = Inr ''s1''"
  "require_identifier ''w1'' = Inr ''w1''" "require_schedule_lease_token ''lease-a'' = Inr ''lease-a''"
  "add_delta tick_time lease_duration = Inr tick_lease_end"
  by code_simp+

lemma tick_lease:
  "acquire_schedule_lease ready_store ''s1'' 1 ''lease-a'' tick_lease_end tick_time =
     (Inr tick_leased, leased_store)"
  unfolding leased_store_def ready_store_eq sample_store_eq by code_simp

lemma tick_operation_ok:
  assumes "text_ok h" and "v \<in> {1, 2}"
  shows "operation_ok (tick_operation state v h)"
proof -
  have "text_ok ''o9'' \<and> text_ok ''u1'' \<and> opt_text_ok (Some ''w1'') \<and> text_ok run_action \<and>
      text_ok (tick_idempotency_key ''s1'' tick_time) \<and> is_utc tick_time \<and> opt_text_ok None \<and>
      summary_ok [] \<and> timestamp_order_ok tick_time tick_time \<and> version_ok 1 \<and> version_ok 2"
    by code_simp
  with assms show ?thesis by (auto simp: operation_ok_def tick_operation_def)
qed

lemma tick_created:
  "create_operation_once leased_store (tick_operation OpPlanned 1 h) =
     (Inr (tick_operation OpPlanned 1 h), tick_store (tick_operation OpPlanned 1 h))"
proof -
  have "tick_idempotency_key ''s1'' tick_time \<noteq> ''k1''" by (simp add: tick_idempotency_key_def)
  then show ?thesis
    by (simp add: create_operation_once_def tick_store_def leased_store_def ready_store_eq sample_store_eq
        operation_claim_key_def claim_of_def tick_operation_def)
qed

lemma tick_queued:
  assumes "text_ok h"
  shows "advance_operation OpQueued tick_time (tick_operation OpPlanned 1 h)
      \<lparr>wrl_store = tick_store (tick_operation OpPlanned 1 h), wrl_calls = cs\<rparr> =
    (Inr (tick_operation OpQueued 2 h), \<lparr>wrl_store = tick_store (tick_operation OpQueued 2 h), wrl_calls = cs\<rparr>)"
proof -
  have "is_utc tick_time" "opt_text_ok None" "time_leq tick_time tick_time" "\<not> time_less tick_time tick_time"
    by code_simp+
  note t = this
  then have "operation_transition (tick_operation OpPlanned 1 h) OpQueued tick_time None =
      Inr (tick_operation OpQueued 2 h)"
    using tick_operation_ok [OF assms, of 1]
    by (simp add: operation_transition_Inr) (simp add: tick_operation_def transition_time_ok_def)
  moreover have "save_operation (tick_store (tick_operation OpPlanned 1 h)) (tick_operation OpQueued 2 h) 1 =
      (Inr (tick_operation OpQueued 2 h), tick_store (tick_operation OpQueued 2 h))"
  proof -
    have "put_operation [(''o1'', sample_operation), (''o9'', tick_operation OpPlanned 1 h)]
        (tick_operation OpQueued 2 h) 1 =
      Inr [(''o1'', sample_operation), (''o9'', tick_operation OpQueued 2 h)]"
      unfolding operations.save_iff using t
      by (simp add: tick_operation_def operation_step_def next_version_def operation_same_def
          attrs_defs state_step_def time_not_back_def)
    then show ?thesis by (simp add: save_operation_def tick_store_def) (simp add: tick_operation_def)
  qed
  ultimately show ?thesis
    by (simp add: advance_operation_def quiet_steps storing_def) (simp add: tick_operation_def)
qed

lemma tick_policy:
  "revalidate_execution_policy ready_services ''u1'' ''w1'' \<lparr>wrl_store = tick_store p, wrl_calls = cs\<rparr> =
     (Inr (), \<lparr>wrl_store = tick_store p, wrl_calls = cs @ [ScheduleClock]\<rparr>)"
  unfolding tick_store_def leased_store_def ready_store_eq sample_store_eq by code_simp


lemma sample_fields:
  "sch_id sample_schedule = ''s1''" "sch_version sample_schedule = 1"
  "sch_workload_id sample_schedule = ''w1''" "sch_owner_id sample_schedule = ''u1''"
  "wl_id sample_workload = ''w1''" "usr_id sample_user = ''u1''" "sch_id tick_leased = ''s1''"
  "ssv_lease_token ready_services cs = Inr ''lease-a''" "ssv_new_id ready_services cs k = Inr ''o9''"
  "op_state (tick_operation state v h) = state"
  by (simp_all add: tick_operation_def record_samples ready_services_def tick_leased_def leased_schedule_def)

lemma tick_run:
  "dispatches (snd (execute_schedule_tick ready_services (\<lambda>_. hours 9) ''s1'' ''w1'' tick_time
      \<lparr>wrl_store = ready_store, wrl_calls = []\<rparr>)) =
    [DispatchRun \<lparr>srr_schedule_id = ''s1'', srr_workload_id = ''w1'', srr_tick_at = tick_time,
       srr_lease_token = ''lease-a''\<rparr>]"
proof -
  define h where "h = tick_request_hash ''s1'' ''w1'' tick_time"
  have h: "text_ok h" unfolding h_def tick_request_hash_def text_ok_def by (rule sha256_hex_nonblank)
  have operation: "new_operation ''o9'' ''u1'' ''w1'' run_action (tick_idempotency_key ''s1'' tick_time)
      h OpPlanned tick_time = Inr (tick_operation OpPlanned 1 h)"
    using tick_operation_ok [OF h, of 1 OpPlanned]
    by (simp add: new_operation_def operation_post_init_def require_def) (simp add: tick_operation_def)
  have request: "scheduled_run_request_post_init (tick_request tick_leased tick_time ''lease-a'') =
      Inr (tick_request tick_leased tick_time ''lease-a'')"
    by code_simp
  let ?w = "\<lparr>wrl_store = tick_store (tick_operation OpQueued 2 h),
         wrl_calls = [ScheduleLeaseToken, ScheduleNewId ''operation'']\<rparr>"
  have admitted: "execute_schedule_tick ready_services (\<lambda>_. hours 9) ''s1'' ''w1'' tick_time
      \<lparr>wrl_store = ready_store, wrl_calls = []\<rparr> =
    leased_tick ready_services ''u1'' ''w1'' tick_leased ''lease-a'' tick_time
      \<lparr>wrl_store = leased_store, wrl_calls = [ScheduleLeaseToken]\<rparr>"
    by (simp add: execute_schedule_tick_def run_tick_def quiet_steps observing_steps storing_steps
        tick_admitted tick_arguments sample_fields tick_lease)
  have queued: "leased_tick ready_services ''u1'' ''w1'' tick_leased ''lease-a'' tick_time
      \<lparr>wrl_store = leased_store, wrl_calls = [ScheduleLeaseToken]\<rparr> =
    andthen
      (dispatch_tick ready_services ''u1'' ''w1'' tick_leased ''lease-a'' tick_time
        (tick_operation OpQueued 2 h))
      (finish_tick tick_leased ''w1'' ''lease-a'' tick_time) ?w"
    by (simp add: leased_tick_def Let_def new_id_of_def observing_steps quiet_steps storing_steps
        sample_fields operation tick_created
        andthen_step [where m = "advance_operation _ _ _", OF tick_queued [OF h]] flip: h_def)
  have "dispatches ?w = []" by (simp add: dispatches_def)
  then show ?thesis
    unfolding admitted queued quiet_andthen [OF finish_tick_quiet]
      dispatch_tick_dispatches [OF tick_policy request]
    by (simp add: tick_request_def tick_leased_def leased_schedule_def sample_schedule_def)
qed


theorem tick_is_dispatched_at_most_once_witness:
  "\<exists>v token expires_at leased s1.
    acquire_schedule_lease ready_store ''s1'' v token expires_at tick_time = (Inr leased, s1) \<and>
    (\<forall>services' off' wid' w2 r2 w3.
       later s1 (wrl_store w2) \<longrightarrow>
       execute_schedule_tick services' off' ''s1'' wid' tick_time w2 = (r2, w3) \<longrightarrow>
       dispatches w3 = dispatches w2)"
proof -
  let ?w = "\<lparr>wrl_store = ready_store, wrl_calls = []\<rparr>"
  obtain r w1 where run: "execute_schedule_tick ready_services (\<lambda>_. hours 9) ''s1'' ''w1'' tick_time ?w =
      (r, w1)" by force
  with tick_run have "dispatches w1 \<noteq> dispatches ?w" by (simp add: dispatches_def)
  moreover have "reachable (wrl_store ?w)" by (simp add: ready_reachable)
  ultimately show ?thesis using tick_is_dispatched_at_most_once [OF _ run] unfolding world.select_convs
    by blast
qed



section \<open>An owner at the schedule limit\<close>

text \<open>Worlds of an owner with as many schedules as the policy allows.\<close>

definition at_limit :: "user_id \<Rightarrow> store \<Rightarrow> bool" where
  "at_limit i s \<longleftrightarrow>
     (\<exists>inventory. owner_inventory i s = Inr inventory \<and>
       per_user_schedule_limit \<le> inv_active_schedules inventory)"

definition stays_at_limit :: "user_id \<Rightarrow> schedule_call world \<Rightarrow> schedule_call world \<Rightarrow> bool" where
  "stays_at_limit i w w' \<longleftrightarrow>
     (at_limit i (wrl_store w) \<longrightarrow> at_limit i (wrl_store w')) \<and> dispatches w' = dispatches w"

interpretation crowded: run_relation "stays_at_limit i" for i
  by unfold_locales (auto simp: stays_at_limit_def)

definition counted_schedules :: "user_id \<Rightarrow> (schedule_id, schedule) dict \<Rightarrow> nat" where
  "counted_schedules i d =
     length (filter (\<lambda>c. sch_state c \<in> {ScEnabled, ScPaused, ScDisabled} \<and> sch_owner_id c = i) (dict_values d))"

lemma count_where_sort_key: "count_where P (sort_key f xs) = count_where P xs"
proof -
  have "mset (filter P (sort_key f xs)) = mset (filter P xs)" by (simp add: mset_filter)
  then show ?thesis unfolding count_where_def by (metis size_mset)
qed

lemma count_where_filter: "count_where P (filter Q xs) = count_where (\<lambda>x. P x \<and> Q x) xs"
  by (simp add: count_where_def conj_commute)

lemma at_limit_iff: "at_limit i s \<longleftrightarrow> 3 \<le> counted_schedules i (st_schedules s)"
proof -
  have "count_where (\<lambda>c. sch_state c \<in> {ScEnabled, ScPaused, ScDisabled}) (list_schedules s (Some i)) =
      int (counted_schedules i (st_schedules s))"
    by (simp add: list_schedules_def count_where_sort_key count_where_filter)
      (simp add: counted_schedules_def count_where_def)
  then show ?thesis
    by (auto simp: at_limit_def owner_inventory_def inventory_post_init_def inventory_ok_def require_def
        non_negative_ok_def per_user_schedule_limit_def count_where_def)
qed

lemma length_filter_put:
  "dict_get d k = Some c \<Longrightarrow> P c' = P c \<Longrightarrow>
     length (filter P (dict_values (dict_put k c' d))) = length (filter P (dict_values d))"
  by (induction d) (auto split: if_splits)

lemma counted_put:
  assumes "dict_get d k = Some c" and "sch_owner_id c' = sch_owner_id c"
    and "sch_state c \<in> {ScEnabled, ScPaused, ScDisabled}"
    and "sch_state c' \<in> {ScEnabled, ScPaused, ScDisabled}"
  shows "counted_schedules i (dict_put k c' d) = counted_schedules i d"
  unfolding counted_schedules_def
  by (rule length_filter_put [OF assms(1)]) (use assms(2-4) in simp)

lemma acquire_at_limit:
  "acquire_schedule_lease s j v token expires_at now = (Inr leased, s') \<Longrightarrow>
     at_limit i s \<Longrightarrow> at_limit i s'"
  by (auto simp: acquire_schedule_lease_Inr at_limit_iff leased_schedule_def lease_available_def
      counted_put)


lemma crowded_storing:
  assumes "\<And>s. at_limit i s \<Longrightarrow> at_limit i (snd (h s))"
  shows "crowded.within i (storing h)"
proof -
  have "stays_at_limit i w (snd (storing h w))" for w
    using assms [of "wrl_store w"]
    by (cases "h (wrl_store w)") (auto simp: stays_at_limit_def storing_def dispatches_def)
  then show ?thesis by (simp add: crowded.within_def)
qed

lemma crowded_runs:
  "crowded.within i (reading f)"
  "\<not> is_dispatch c \<Longrightarrow> crowded.within i (observing c b)"
  by (auto simp: crowded.within_def stays_at_limit_def dispatches_def reading_def observing_def outside_def
      storing_def split: prod.splits)

lemma same_schedules_at_limit:
  "st_schedules s' = st_schedules s \<Longrightarrow> at_limit i s \<Longrightarrow> at_limit i s'"
  by (simp add: at_limit_iff)

lemma operations_keep_schedules:
  "st_schedules (snd (create_operation_once s p)) = st_schedules s"
  "st_schedules (snd (save_operation s p v)) = st_schedules s"
  by (auto simp: create_operation_once_def save_operation_def commit_def ensure_def
      split: option.splits sum.splits)

lemma capacity_below_limit:
  "require_schedule_capacity services i w = (Inr u, w') \<Longrightarrow> \<not> at_limit i (wrl_store w)"
  by (auto simp: require_schedule_capacity_def proc_simps at_limit_def evaluate_resource_policy_def
      resolved_secret_limit_def res_simps Let_def split: if_splits)

lemma revalidated_below_limit:
  "revalidate_execution_policy services i workload w = (Inr u, w') \<Longrightarrow> \<not> at_limit i (wrl_store w)"
  by (auto simp: revalidate_execution_policy_def proc_simps dest: capacity_below_limit split: if_splits)

definition idle_at_limit :: "user_id \<Rightarrow> 'a schedule_proc \<Rightarrow> bool" where
  "idle_at_limit i m \<longleftrightarrow>
     (\<forall>w. at_limit i (wrl_store w) \<longrightarrow> dispatches (snd (m w)) = dispatches w)"

lemma idle_quiet: "quiet.within m \<Longrightarrow> idle_at_limit i m"
  by (simp add: idle_at_limit_def quiet_dispatches)

lemma idle_first:
  "idle_at_limit i m \<Longrightarrow> (\<And>x. quiet.within (f x)) \<Longrightarrow> idle_at_limit i (andthen m f)"
  by (simp add: idle_at_limit_def quiet_andthen)

lemma idle_then:
  assumes "crowded.within i m" and "\<And>x. idle_at_limit i (f x)"
  shows "idle_at_limit i (andthen m f)"
  unfolding idle_at_limit_def
proof (intro allI impI)
  fix w :: "schedule_call world"
  assume "at_limit i (wrl_store w)"
  then have "at_limit i (wrl_store (snd (m w)))" "dispatches (snd (m w)) = dispatches w"
    using assms(1) by (simp_all add: crowded.within_def stays_at_limit_def)
  then show "dispatches (snd (andthen m f w)) = dispatches w"
    using assms(2) by (auto simp: andthen_def idle_at_limit_def split: prod.splits sum.splits)
qed

lemma dispatch_tick_idle:
  "idle_at_limit owner (dispatch_tick services owner workload leased token tick queued)"
proof -
  have "dispatches (snd (andthen (revalidate_execution_policy services owner workload) f w)) = dispatches w"
    if "at_limit owner (wrl_store w)" for f :: "unit \<Rightarrow> activity_outcome schedule_proc" and w
    using that quiet_dispatches [OF revalidate_quiet, of services owner workload w]
      revalidated_below_limit [of services owner workload w]
    by (auto simp: andthen_def split: prod.splits sum.splits)
  then show ?thesis
    unfolding idle_at_limit_def dispatch_tick_def quiet_rescue [OF failure_quiet] by blast
qed

lemma leased_tick_idle:
  "idle_at_limit owner (leased_tick services owner workload leased token tick)"
proof -
  have go: "idle_at_limit owner (andthen (dispatch_tick services owner workload leased token tick queued)
      (finish_tick leased workload token tick))" for queued
    by (intro idle_first dispatch_tick_idle finish_tick_quiet)
  have skip: "idle_at_limit owner (give x)" "idle_at_limit owner (stop e)" for x :: 'a and e
    by (intro idle_quiet quiet.within_give quiet.within_stop)+
  have stores: "crowded.within owner (storing (\<lambda>s. create_operation_once s p))"
    "crowded.within owner (storing (\<lambda>s. save_operation s p v))" for p v
    by (rule crowded_storing, erule same_schedules_at_limit [rotated], simp add: operations_keep_schedules)+
  have advance: "crowded.within owner (advance_operation target at p)" for target at p
    unfolding advance_operation_def by (intro crowded.within_andthen crowded.within_compute stores)
  have new_id: "crowded.within owner (new_id_of services kind)" for kind
    unfolding new_id_of_def by (intro crowded_runs) simp
  show ?thesis unfolding leased_tick_def Let_def check_def
    by (intro idle_then new_id crowded.within_compute stores)
      (simp add: go skip idle_then advance)
qed


text \<open>
  C29: an owner who holds as many schedules as the policy allows gets none of them executed. The
  README grants three schedules per user, and the third one can still be created; but every tick
  asks for the capacity to create another one, so from then on whatever the services answer, no tick
  of the owner's schedules dispatches anything.
\<close>

theorem full_quota_starves_schedules:
  assumes "reachable (wrl_store w)" and "dict_get (st_schedules (wrl_store w)) i = Some c"
    and "owner_inventory (sch_owner_id c) (wrl_store w) = Inr inventory"
    and "per_user_schedule_limit \<le> inv_active_schedules inventory"
    and "execute_schedule_tick services off i wid tick w = (r, w')"
  shows "dispatches w' = dispatches w"
proof (rule ccontr)
  assume moved: "dispatches w' \<noteq> dispatches w"
  from execute_tick_runs [OF assms(5) moved] assms(2)
  have run: "run_tick services c tick w = (r, w')" by simp
  from run_tick_lease [OF run moved] obtain token expires_at leased s1 owner workload
    where acquired: "acquire_schedule_lease (wrl_store w) (sch_id c) (sch_version c) token expires_at tick =
        (Inr leased, s1)"
      and owner: "get_user (wrl_store w) (sch_owner_id c) = Inr owner"
      and rest: "leased_tick services (usr_id owner) workload leased token tick
        (w\<lparr>wrl_calls := wrl_calls w @ [ScheduleLeaseToken], wrl_store := s1\<rparr>) = (r, w')"
    by blast
  from assms(3,4) have "at_limit (sch_owner_id c) (wrl_store w)" by (auto simp: at_limit_def)
  from acquire_at_limit [OF acquired this] have "at_limit (sch_owner_id c) s1" .
  moreover from owner reachable_keyed [OF assms(1)] have "usr_id owner = sch_owner_id c"
    by (auto simp: get_user_def coll_get_def store_keyed_def split: option.splits dest: keyed_by_get)
  moreover define w1 where
    "w1 = w\<lparr>wrl_calls := wrl_calls w @ [ScheduleLeaseToken], wrl_store := s1\<rparr>"
  ultimately have "at_limit (usr_id owner) (wrl_store w1)" by simp
  with leased_tick_idle [of "usr_id owner" services workload leased token tick]
  have "dispatches (snd (leased_tick services (usr_id owner) workload leased token tick w1)) = dispatches w1"
    unfolding idle_at_limit_def by blast
  with rest have "dispatches w' = dispatches w1" by (simp add: w1_def)
  with moved show False by (simp add: dispatches_def w1_def)
qed

text \<open>The same tick as before, of an owner with two more schedules.\<close>

definition crowded_store :: store where
  "crowded_store = foldl (\<lambda>s c. snd (run s c)) ready_store
     [CreateSchedule (sample_schedule\<lparr>sch_id := ''s2''\<rparr>), CreateSchedule (sample_schedule\<lparr>sch_id := ''s3''\<rparr>)]"

lemma crowded_store_eq:
  "crowded_store = ready_store
     \<lparr>st_schedules := [(''s1'', sample_schedule), (''s2'', sample_schedule\<lparr>sch_id := ''s2''\<rparr>),
        (''s3'', sample_schedule\<lparr>sch_id := ''s3''\<rparr>)]\<rparr>"
  unfolding crowded_store_def ready_store_eq sample_store_eq by code_simp

theorem full_quota_starves_schedules_witness:
  "dispatches (snd (execute_schedule_tick ready_services (\<lambda>_. hours 9) ''s1'' ''w1'' tick_time
     \<lparr>wrl_store = crowded_store, wrl_calls = []\<rparr>)) = []"
proof -
  let ?w = "\<lparr>wrl_store = crowded_store, wrl_calls = []\<rparr>"
  obtain r w' where run: "execute_schedule_tick ready_services (\<lambda>_. hours 9) ''s1'' ''w1'' tick_time ?w =
      (r, w')" by force
  have ok: "list_all call_ok [CreateSchedule (sample_schedule\<lparr>sch_id := ''s2''\<rparr>),
      CreateSchedule (sample_schedule\<lparr>sch_id := ''s3''\<rparr>)]" by code_simp
  have "reachable crowded_store"
    unfolding crowded_store_def by (rule reachable_runs [OF ready_reachable ok])
  moreover have "dict_get (st_schedules crowded_store) ''s1'' = Some sample_schedule"
    by (simp add: crowded_store_eq)
  moreover have "owner_inventory ''u1'' crowded_store =
      Inr \<lparr>inv_active_services = 1, inv_active_schedules = 3, inv_active_secrets = 1,
        inv_approved_secret_limit = None\<rparr>"
    unfolding crowded_store_eq ready_store_eq sample_store_eq by code_simp
  ultimately have "dispatches w' = dispatches ?w"
    using full_quota_starves_schedules [OF _ _ _ _ run, of sample_schedule] sample_fields
    by (simp add: per_user_schedule_limit_def)
  with run show ?thesis by (simp add: dispatches_def)
qed

end
