(* ===== verification/SecretService.thy ===== *)
theory SecretService
  imports ScheduleService Store_Secrets
begin

text \<open>
  \<^verbatim>\<open>services/secret_management.py\<close>: planning the creation, rotation and attachment of a secret,
  applying such a plan so that an interrupted run can be resumed, and retiring an old version. The
  clock, the id factory and the secret manager are outside services; of the manager's answers the
  fields that the service reads are kept, and of returned dictionaries the fields that are not
  constants. Helpers whose code is the same in \<^verbatim>\<open>services/schedule_management.py\<close> are taken from
  there.
\<close>

section \<open>Interfaces\<close>

record managed_secret =
  mgs_name :: string
  mgs_created :: bool

record observed_secret =
  obs_name :: string
  obs_exists :: bool
  obs_exact_bindings :: bool
  obs_enabled_versions :: "int list"
  obs_disabled_versions :: "int list"
  obs_destroyed_versions :: "int list"

datatype secret_call =
    SecretClock
  | SecretNewId string
  | EnsureSecret secret_id "workload_id list"
  | AddVersion secret_id bytes
  | EnsureExactBindings secret_id "workload_id list"
  | DisableOldVersion secret_id string int pytime pytime
  | DestroyOldVersion secret_id string int pytime pytime
  | ProbeSecret secret_id "workload_id list"

text \<open>\<open>xsv_add_version\<close> answers the number of the new version.\<close>

record secret_services =
  xsv_clock :: "secret_call list \<Rightarrow> pytime res"
  xsv_new_id :: "secret_call list \<Rightarrow> string \<Rightarrow> string res"
  xsv_ensure :: "secret_id \<Rightarrow> workload_id list \<Rightarrow> (secret_call, managed_secret) answering"
  xsv_add_version :: "secret_id \<Rightarrow> bytes \<Rightarrow> (secret_call, int) answering"
  xsv_probe :: "secret_id \<Rightarrow> workload_id list \<Rightarrow> (secret_call, observed_secret) answering"
  xsv_perform :: "secret_call service"

type_synonym 'a secret_proc = "(secret_call world, 'a) proc"

definition ensure_secret :: "secret_services \<Rightarrow> secret_id \<Rightarrow> workload_id list \<Rightarrow> managed_secret secret_proc" where
  "ensure_secret services i workload_ids =
     outside (EnsureSecret i workload_ids) (xsv_ensure services i workload_ids)"

definition add_version :: "secret_services \<Rightarrow> secret_id \<Rightarrow> bytes \<Rightarrow> int secret_proc" where
  "add_version services i payload = outside (AddVersion i payload) (xsv_add_version services i payload)"

definition probe_secret :: "secret_services \<Rightarrow> secret_id \<Rightarrow> workload_id list \<Rightarrow> observed_secret secret_proc" where
  "probe_secret services i workload_ids =
     outside (ProbeSecret i workload_ids) (xsv_probe services i workload_ids)"

text \<open>The material of a plan, a dictionary with the mode as its text.\<close>

record secret_material =
  smt_mode :: string
  smt_secret_id :: secret_id
  smt_owner_id :: user_id
  smt_secret_name :: string
  smt_integration_type :: string
  smt_workload_ids :: "workload_id list"
  smt_baseline_metadata_version :: int
  smt_baseline_active_version :: int

record secret_plan_result =
  xpr_plan_id :: plan_id
  xpr_plan_hash :: string
  xpr_mode :: string
  xpr_secret_id :: secret_id
  xpr_secret_name :: string
  xpr_workload_ids :: "workload_id list"

record secret_apply_result =
  xar_operation_id :: operation_id
  xar_secret_id :: secret_id
  xar_mode :: string
  xar_active_version :: int
  xar_rotation_state :: string
  xar_retiring_version :: "int option"
  xar_attached_workload_ids :: "workload_id list"
  xar_replayed :: bool

record secret_retirement_result =
  xrr_secret_id :: secret_id
  xrr_state :: string
  xrr_replayed :: bool


section \<open>Constants and checks\<close>

definition secret_plan_action :: string where "secret_plan_action = ''manage_secret''"
definition secret_plan_policy_version :: string where "secret_plan_policy_version = ''mim-secret-v1''"
definition secret_safe_workload_states :: "workload_state set" where
  "secret_safe_workload_states = {WlActive, WlPaused, WlFailed, WlQuarantined}"
definition retirement_window :: timedelta where "retirement_window = days 7"
definition max_workload_attachments :: nat where "max_workload_attachments = 5"
definition max_payload_bytes :: nat where "max_payload_bytes = 16 * 1024"
definition none_sentinel :: string where "none_sentinel = ''none''"

text \<open>\<^verbatim>\<open>^[a-z][a-z0-9-]{0,62}$\<close>\<close>

definition secret_name_ok :: "string \<Rightarrow> bool" where
  "secret_name_ok v \<longleftrightarrow>
     (case v of
        [] \<Rightarrow> False
      | c # cs \<Rightarrow>
          is_ascii_lower c \<and> length cs \<le> 62 \<and>
          list_all (\<lambda>c. is_ascii_lower c \<or> is_digit c \<or> c = CHR ''-'') cs)"

definition require_secret_name :: "string \<Rightarrow> string res" where
  "require_secret_name v = require (secret_name_ok v) (SecretDenied ''secret_name_invalid'') (Inr v)"

text \<open>
  \<^verbatim>\<open>value.isdigit()\<close> and \<^verbatim>\<open>int(value)\<close>: digits outside ASCII pass the first and are refused by the
  second with the same error.
\<close>

definition require_non_negative_int :: "string \<Rightarrow> int res" where
  "require_non_negative_int v =
     require (v \<noteq> [] \<and> list_all is_digit v) ValueErr (Inr (int (read_digits v)))"

definition stable_secret_id :: "user_id \<Rightarrow> string \<Rightarrow> string" where
  "stable_secret_id owner_id secret_name = ''sec-'' @ short_digest 20 (owner_id @ nul @ secret_name)"

definition require_payload :: "bytes option \<Rightarrow> bytes res" where
  "require_payload payload =
     (case payload of
        None \<Rightarrow> Inl (SecretDenied ''secret_payload_invalid'')
      | Some p \<Rightarrow>
          require (p \<noteq> [] \<and> length p \<le> max_payload_bytes) (SecretDenied ''secret_payload_invalid'')
            (Inr p))"

definition require_payload_match :: "secret_metadata \<Rightarrow> bytes \<Rightarrow> unit res" where
  "require_payload_match draft payload =
     (case sec_pending_payload_sha256 draft of
        None \<Rightarrow> Inl (SecretDenied ''secret_payload_invalid'')
      | Some expected \<Rightarrow>
          bind_res (compare_digest expected (sha256_hex payload)) (\<lambda>same.
            require same (SecretDenied ''secret_payload_invalid'') (Inr ())))"

definition require_pending_workloads :: "secret_metadata \<Rightarrow> workload_id list res" where
  "require_pending_workloads x =
     (case sec_pending_workload_ids x of
        None \<Rightarrow> Inl (SecretDenied ''secret_pending_workloads_invalid'')
      | Some ws \<Rightarrow>
          require (ws \<noteq> [] \<and> length ws \<le> max_workload_attachments)
            (SecretDenied ''secret_pending_workloads_invalid'') (Inr ws))"

definition require_secret :: "secret_metadata option \<Rightarrow> secret_metadata res" where
  "require_secret x = (case x of None \<Rightarrow> Inl (SecretDenied ''secret_missing'') | Some y \<Rightarrow> Inr y)"

definition normalize_workload_ids :: "string list \<Rightarrow> workload_id list res" where
  "normalize_workload_ids workload_ids =
     require (workload_ids \<noteq> [] \<and> length workload_ids \<le> max_workload_attachments) ValueErr
    (bind_res (map_res require_identifier workload_ids) (\<lambda>normalized.
     require (distinct normalized) ValueErr (Inr (sort normalized))))"


section \<open>Plan material\<close>

definition new_secret_material ::
    "string \<Rightarrow> secret_id \<Rightarrow> user_id \<Rightarrow> string \<Rightarrow> string \<Rightarrow> workload_id list \<Rightarrow> int \<Rightarrow> int \<Rightarrow> secret_material res" where
  "new_secret_material mode i owner_id name integration_type workload_ids metadata_version active_version =
     require (mode \<in> {''create'', ''rotate'', ''attach''}) ValueErr
       (Inr \<lparr>smt_mode = mode, smt_secret_id = i, smt_owner_id = owner_id, smt_secret_name = name,
            smt_integration_type = integration_type, smt_workload_ids = workload_ids,
            smt_baseline_metadata_version = metadata_version,
            smt_baseline_active_version = active_version\<rparr>)"

definition secret_material_value :: "secret_material \<Rightarrow> py_value" where
  "secret_material_value m =
     PyMap
       [(Some ''mode'', PyStr (smt_mode m)), (Some ''secret_id'', PyStr (smt_secret_id m)),
        (Some ''owner_id'', PyStr (smt_owner_id m)), (Some ''secret_name'', PyStr (smt_secret_name m)),
        (Some ''integration_type'', PyStr (smt_integration_type m)),
        (Some ''workload_ids'', PySeq (map PyStr (smt_workload_ids m))),
        (Some ''baseline_metadata_version'', PyInt (smt_baseline_metadata_version m)),
        (Some ''baseline_active_version'', PyInt (smt_baseline_active_version m))]"

text \<open>\<^verbatim>\<open>",".join(...)\<close>\<close>

fun join_commas :: "string list \<Rightarrow> string" where
  "join_commas [] = []"
| "join_commas [w] = w"
| "join_commas (w # ws) = w @ CHR '','' # join_commas ws"

text \<open>The items of \<^verbatim>\<open>value.split(",")\<close> that are not blank, each a checked identifier.\<close>

definition split_identifiers :: "string \<Rightarrow> string list res" where
  "split_identifiers v = map_res require_identifier (filter nonblank (split_on (CHR '','') v))"

definition summary_from_material :: "secret_material \<Rightarrow> (string \<times> string) list" where
  "summary_from_material m =
     [(''mode'', smt_mode m), (''secret_id'', smt_secret_id m), (''owner_id'', smt_owner_id m),
      (''secret_name'', smt_secret_name m), (''integration_type'', smt_integration_type m),
      (''workload_ids'', join_commas (smt_workload_ids m)),
      (''baseline_metadata_version'', show_int (smt_baseline_metadata_version m)),
      (''baseline_active_version'', show_int (smt_baseline_active_version m))]"

definition summary_keys :: "string list" where
  "summary_keys =
     [''mode'', ''secret_id'', ''owner_id'', ''secret_name'', ''integration_type'', ''workload_ids'',
      ''baseline_metadata_version'', ''baseline_active_version'']"

text \<open>\<^verbatim>\<open>dict(summary)[key]\<close>: the last pair of a key counts.\<close>

definition summary_field :: "(string \<times> string) list \<Rightarrow> string \<Rightarrow> string" where
  "summary_field summary key = (case map_of (rev summary) key of None \<Rightarrow> [] | Some v \<Rightarrow> v)"

definition material_from_summary :: "(string \<times> string) list \<Rightarrow> secret_material res" where
  "material_from_summary summary =
     (let field = summary_field summary
      in require (set (map fst summary) = set summary_keys) (SecretDenied ''secret_plan_summary_invalid'')
        (bind_res (split_identifiers (field ''workload_ids'')) (\<lambda>workload_ids.
         require (workload_ids \<noteq> []) (SecretDenied ''secret_plan_summary_invalid'')
        (bind_res (require_identifier (field ''secret_id'')) (\<lambda>i.
         bind_res (require_identifier (field ''owner_id'')) (\<lambda>owner_id.
         bind_res (require_identifier (field ''secret_name'')) (\<lambda>name.
         bind_res (require_identifier (field ''integration_type'')) (\<lambda>integration_type.
         bind_res (require_non_negative_int (field ''baseline_metadata_version'')) (\<lambda>metadata_version.
         bind_res (require_non_negative_int (field ''baseline_active_version'')) (\<lambda>active_version.
           Inr \<lparr>smt_mode = field ''mode'', smt_secret_id = i, smt_owner_id = owner_id,
                smt_secret_name = name, smt_integration_type = integration_type,
                smt_workload_ids = workload_ids, smt_baseline_metadata_version = metadata_version,
                smt_baseline_active_version = active_version\<rparr>))))))))))"


section \<open>Reviews\<close>

definition secret_now :: "secret_services \<Rightarrow> pytime secret_proc" where
  "secret_now services =
     andthen (observing SecretClock (xsv_clock services)) (\<lambda>value.
       compute (require (is_utc value) (SecretDenied ''clock_invalid'') (Inr value)))"

definition secret_new_id :: "secret_services \<Rightarrow> string \<Rightarrow> string secret_proc" where
  "secret_new_id services kind =
     observing (SecretNewId kind) (\<lambda>history. xsv_new_id services history kind)"

definition secret_denying :: "(err \<Rightarrow> bool) \<Rightarrow> 'a secret_proc \<Rightarrow> 'a secret_proc" where
  "secret_denying caught m =
     rescue m (\<lambda>e.
       case e of
         SecretDenied _ \<Rightarrow> stop e
       | _ \<Rightarrow> if caught e then stop (SecretDenied ''secret_denied'') else stop e)"

definition review_secret_workload :: "principal \<Rightarrow> user_id \<Rightarrow> workload \<Rightarrow> unit res" where
  "review_secret_workload p owner_id w =
     bind_res (require_owner_or_admin p (wl_owner_id w)) (\<lambda>_.
     require (wl_owner_id w = owner_id) (SecretDenied ''mixed_owner_workloads'')
    (require (wl_state w \<in> secret_safe_workload_states) (SecretDenied ''workload_state_invalid'')
       (Inr ())))"

definition review_workloads :: "principal \<Rightarrow> string list \<Rightarrow> store \<Rightarrow> workload list res" where
  "review_workloads p workload_ids s =
     bind_res (normalize_workload_ids workload_ids) (\<lambda>normalized_ids.
     bind_res (map_res (get_workload s) normalized_ids) (\<lambda>workloads.
     let owner_id = wl_owner_id (hd workloads)
     in bind_res (get_user s owner_id) (\<lambda>owner.
        require (usr_state owner = UserActive) (SecretDenied ''owner_inactive'')
       (bind_res (map_res (review_secret_workload p owner_id) workloads) (\<lambda>_. Inr workloads)))))"

definition authorized_secret :: "principal \<Rightarrow> secret_id \<Rightarrow> store \<Rightarrow> secret_metadata res" where
  "authorized_secret p i s =
     bind_res (get_secret_metadata s i) (\<lambda>x.
     bind_res (require_owner_or_admin p (sec_owner_id x)) (\<lambda>_.
     require (sec_lifecycle_state x \<noteq> SecDestroyed) (SecretDenied ''secret_destroyed'') (Inr x)))"

fun is_secret_denied :: "err \<Rightarrow> bool" where
  "is_secret_denied (SecretDenied _) = True"
| "is_secret_denied _ = False"

definition current_secret_for_material ::
    "principal \<Rightarrow> secret_material \<Rightarrow> store \<Rightarrow> secret_metadata option res" where
  "current_secret_for_material p m s =
     (case authorized_secret p (smt_secret_id m) s of
        Inl e \<Rightarrow>
          if (e = StoreErr NotFound \<or> e = AccessDenied \<or> is_secret_denied e) \<and> smt_mode m = ''create''
          then Inr None else Inl e
      | Inr x \<Rightarrow>
          require (sec_owner_id x = smt_owner_id m) (SecretDenied ''secret_owner_mismatch'')
         (require (sec_name x = smt_secret_name m) (SecretDenied ''secret_name_mismatch'')
         (require (sec_integration_type x = smt_integration_type m)
            (SecretDenied ''secret_integration_mismatch'') (Inr (Some x)))))"

definition require_existing_secret_scope ::
    "principal \<Rightarrow> secret_metadata \<Rightarrow> string \<Rightarrow> unit res" where
  "require_existing_secret_scope p x integration_type =
     bind_res (require_owner_or_admin p (sec_owner_id x)) (\<lambda>_.
     require (sec_lifecycle_state x \<noteq> SecDestroyed) (SecretDenied ''secret_destroyed'')
    (require (sec_mutation_state x = MutIdle) (SecretDenied ''secret_mutation_inflight'')
    (require (sec_integration_type x = integration_type) (SecretDenied ''secret_integration_mismatch'')
       (Inr ()))))"

definition secret_by_name :: "user_id \<Rightarrow> string \<Rightarrow> store \<Rightarrow> secret_metadata option res" where
  "secret_by_name owner_id secret_name s =
     (case filter (\<lambda>x. sec_name x = secret_name \<and> sec_lifecycle_state x \<noteq> SecDestroyed)
             (list_secret_metadata s (Some owner_id)) of
        [] \<Rightarrow> Inr None
      | [x] \<Rightarrow> Inr (Some x)
      | _ \<Rightarrow> Inl (SecretDenied ''secret_name_conflict''))"

definition secret_inventory :: "user_id \<Rightarrow> store \<Rightarrow> resource_inventory res" where
  "secret_inventory owner_id s =
     inventory_post_init
       \<lparr>inv_active_services =
          count_where (\<lambda>w. wl_state w \<in> secret_safe_workload_states) (list_workloads s (Some owner_id)),
        inv_active_schedules = 0,
        inv_active_secrets =
          count_where (\<lambda>x. sec_lifecycle_state x \<noteq> SecDestroyed)
            (list_secret_metadata s (Some owner_id)),
        inv_approved_secret_limit = None\<rparr>"

definition require_secret_capacity :: "secret_services \<Rightarrow> user_id \<Rightarrow> unit secret_proc" where
  "require_secret_capacity services owner_id =
     andthen (reading (secret_inventory owner_id)) (\<lambda>inventory.
     andthen (compute (evaluate_resource_policy inventory)) (\<lambda>resource.
     andthen (secret_now services) (\<lambda>now.
     andthen (reading (guard_open (SecretDenied ''secret_policy_blocked'') now)) (\<lambda>_.
     andthen (reading (owner_cost_decision owner_id now)) (\<lambda>cost.
       check
         (\<not> (rpd_secret_limit_reached resource \<or> cpd_block_new cost \<or> cpd_pause cost \<or>
             cpd_emergency_stop cost))
         (SecretDenied ''secret_policy_blocked'') (give ()))))))"

text \<open>What a plan reviewed is still the case when it is first applied.\<close>

definition require_fresh_baseline :: "secret_metadata option \<Rightarrow> secret_material \<Rightarrow> unit res" where
  "require_fresh_baseline current m =
     (if smt_mode m = ''create'' then
        require
          (smt_baseline_metadata_version m = 0 \<and> smt_baseline_active_version m = 0 \<and> current = None)
          (SecretDenied ''secret_plan_stale'') (Inr ())
      else
        case current of
          None \<Rightarrow> Inl (SecretDenied ''secret_plan_stale'')
        | Some x \<Rightarrow>
            require
              (sec_version x = smt_baseline_metadata_version m \<and>
               sec_active_version x = smt_baseline_active_version m \<and> sec_mutation_state x = MutIdle)
              (SecretDenied ''secret_plan_stale'') (Inr ()))"


section \<open>Planning\<close>

definition new_secret_plan ::
    "principal \<Rightarrow> workload \<Rightarrow> secret_material \<Rightarrow> string \<Rightarrow> string \<Rightarrow> pytime \<Rightarrow> pytime \<Rightarrow> deployment_plan res" where
  "new_secret_plan p w m plan_id material_hash expires_at now =
     plan_post_init
       \<lparr>pln_id = plan_id, pln_actor_id = prn_user_id p, pln_workload_id = Some (wl_id w),
        pln_action = secret_plan_action, pln_material_hash = material_hash,
        pln_policy_version = secret_plan_policy_version, pln_state = PlanIssued,
        pln_expires_at = expires_at, pln_created_at = now, pln_updated_at = now,
        pln_sanitized_summary = summary_from_material m, pln_version = 1\<rparr>"

definition store_secret_plan ::
    "secret_services \<Rightarrow> principal \<Rightarrow> workload \<Rightarrow> secret_material \<Rightarrow> pytime \<Rightarrow> deployment_plan secret_proc" where
  "store_secret_plan services p w m now =
     andthen (secret_new_id services ''plan'') (\<lambda>plan_id.
     andthen
       (compute (hash_plan_material (secret_material_value m) secret_plan_action
          secret_plan_policy_version)) (\<lambda>material_hash.
     andthen (compute (add_delta now (seconds 900))) (\<lambda>expires_at.
     andthen (compute (new_secret_plan p w m plan_id material_hash expires_at now)) (\<lambda>plan.
       storing (\<lambda>s. create_deployment_plan s plan)))))"

definition secret_plan_result_of :: "deployment_plan \<Rightarrow> secret_material \<Rightarrow> secret_plan_result" where
  "secret_plan_result_of plan m =
     \<lparr>xpr_plan_id = pln_id plan, xpr_plan_hash = pln_material_hash plan, xpr_mode = smt_mode m,
      xpr_secret_id = smt_secret_id m, xpr_secret_name = smt_secret_name m,
      xpr_workload_ids = smt_workload_ids m\<rparr>"

text \<open>The exceptions that planning turns into a plain denial.\<close>

definition plan_denial :: "err \<Rightarrow> bool" where
  "plan_denial e \<longleftrightarrow> e = AccessDenied \<or> is_store_error e \<or> is_value_error e"

text \<open>The material of a write: the creation of a new secret, or the rotation of the current one.\<close>

definition write_material ::
    "secret_services \<Rightarrow> principal \<Rightarrow> user_id \<Rightarrow> string \<Rightarrow> string \<Rightarrow> workload_id list \<Rightarrow> secret_metadata option
       \<Rightarrow> secret_material secret_proc" where
  "write_material services p owner_id secret_name integration_type workload_ids current =
     (case current of
        None \<Rightarrow>
          andthen (require_secret_capacity services owner_id) (\<lambda>_.
            compute (new_secret_material ''create'' (stable_secret_id owner_id secret_name) owner_id
              secret_name integration_type workload_ids 0 0))
      | Some x \<Rightarrow>
          andthen (compute (require_existing_secret_scope p x integration_type)) (\<lambda>_.
          check (set (sec_attached_workload_ids x) \<subseteq> set workload_ids)
            (SecretDenied ''secret_detach_not_allowed'')
            (compute (new_secret_material ''rotate'' (sec_id x) owner_id secret_name integration_type
               workload_ids (sec_version x) (sec_active_version x)))))"

definition plan_secret_write ::
    "secret_services \<Rightarrow> principal \<Rightarrow> string \<Rightarrow> string \<Rightarrow> string list \<Rightarrow> secret_plan_result secret_proc" where
  "plan_secret_write services p secret_name integration_type workload_ids =
     andthen (secret_now services) (\<lambda>now.
       secret_denying plan_denial
         (andthen (compute (require_secret_name secret_name)) (\<lambda>name.
          andthen (reading (review_workloads p workload_ids)) (\<lambda>workloads.
          let owner_id = wl_owner_id (hd workloads)
          in andthen (reading (secret_by_name owner_id name)) (\<lambda>current.
             andthen
               (write_material services p owner_id name integration_type (map wl_id workloads) current)
               (\<lambda>m.
             andthen (store_secret_plan services p (hd workloads) m now) (\<lambda>plan.
               give (secret_plan_result_of plan m))))))))"

definition plan_secret_attach ::
    "secret_services \<Rightarrow> principal \<Rightarrow> string \<Rightarrow> string list \<Rightarrow> secret_plan_result secret_proc" where
  "plan_secret_attach services p i workload_ids =
     andthen (secret_now services) (\<lambda>now.
       secret_denying plan_denial
         (andthen (compute (require_identifier i)) (\<lambda>secret_id.
          andthen (reading (authorized_secret p secret_id)) (\<lambda>x.
          andthen (reading (review_workloads p workload_ids)) (\<lambda>workloads.
          check (list_all (\<lambda>w. wl_owner_id w = sec_owner_id x) workloads)
            (SecretDenied ''secret_owner_mismatch'')
         (check (set (sec_attached_workload_ids x) \<subseteq> set (map wl_id workloads))
            (SecretDenied ''secret_detach_not_allowed'')
         (andthen
            (compute (new_secret_material ''attach'' (sec_id x) (sec_owner_id x) (sec_name x)
               (sec_integration_type x) (map wl_id workloads) (sec_version x) (sec_active_version x)))
            (\<lambda>m.
          andthen (store_secret_plan services p (hd workloads) m now) (\<lambda>plan.
            give (secret_plan_result_of plan m))))))))))"


section \<open>Results\<close>

fun rotation_state_value :: "rotation_state \<Rightarrow> string" where
  "rotation_state_value RotStable = ''stable''"
| "rotation_state_value Rotating = ''rotating''"
| "rotation_state_value RetiringOldVersion = ''retiring_old_version''"

definition result_summary_for_secret :: "secret_metadata \<Rightarrow> string \<Rightarrow> (string \<times> string) list" where
  "result_summary_for_secret x mode =
     [(''secret_id'', sec_id x), (''mode'', mode),
      (''active_version'', show_int (sec_active_version x)),
      (''rotation_state'', rotation_state_value (sec_rotation_state x)),
      (''retiring_version'',
        (case sec_retiring_version x of None \<Rightarrow> none_sentinel | Some v \<Rightarrow> show_int v)),
      (''attached_workload_ids'', join_commas (sec_attached_workload_ids x))]"

definition result_keys :: "string list" where
  "result_keys =
     [''secret_id'', ''mode'', ''active_version'', ''rotation_state'', ''retiring_version'',
      ''attached_workload_ids'']"

definition replayed_result_from_operation :: "operation \<Rightarrow> secret_apply_result res" where
  "replayed_result_from_operation p =
     (let field = summary_field (op_result_summary p)
      in require (set (map fst (op_result_summary p)) = set result_keys)
           (SecretDenied ''secret_replay_unproven'')
        (bind_res (require_identifier (field ''secret_id'')) (\<lambda>i.
         bind_res (require_identifier (field ''mode'')) (\<lambda>mode.
         bind_res (require_non_negative_int (field ''active_version'')) (\<lambda>active_version.
         bind_res (require_identifier (field ''rotation_state'')) (\<lambda>rotation_state.
         bind_res
           (if field ''retiring_version'' = none_sentinel then Inr None
            else bind_res (require_non_negative_int (field ''retiring_version'')) (\<lambda>v. Inr (Some v)))
           (\<lambda>retiring_version.
         bind_res (split_identifiers (field ''attached_workload_ids'')) (\<lambda>attached.
           Inr \<lparr>xar_operation_id = op_id p, xar_secret_id = i, xar_mode = mode,
                xar_active_version = active_version, xar_rotation_state = rotation_state,
                xar_retiring_version = retiring_version, xar_attached_workload_ids = attached,
                xar_replayed = True\<rparr>))))))))"

definition canonical_result_from_secret ::
    "operation_id \<Rightarrow> secret_metadata \<Rightarrow> string \<Rightarrow> bool \<Rightarrow> secret_apply_result" where
  "canonical_result_from_secret operation_id x mode replayed =
     \<lparr>xar_operation_id = operation_id, xar_secret_id = sec_id x, xar_mode = mode,
      xar_active_version = sec_active_version x,
      xar_rotation_state = rotation_state_value (sec_rotation_state x),
      xar_retiring_version = sec_retiring_version x,
      xar_attached_workload_ids = sec_attached_workload_ids x, xar_replayed = replayed\<rparr>"


section \<open>Creating, attaching, rotating\<close>

text \<open>A change of the metadata of one secret, saved against the version it was made from.\<close>

definition save_secret_step ::
    "secret_metadata \<Rightarrow> (secret_metadata \<Rightarrow> secret_metadata res) \<Rightarrow> secret_metadata secret_proc" where
  "save_secret_step x change =
     andthen (compute (change x)) (\<lambda>y. storing (\<lambda>s. save_secret_metadata s y (sec_version x)))"

definition advance_draft :: "pytime \<Rightarrow> secret_metadata \<Rightarrow> secret_metadata secret_proc" where
  "advance_draft now draft = save_secret_step draft (\<lambda>x. advance_mutation_progress x now)"

definition stage_create_secret ::
    "operation \<Rightarrow> user_id \<Rightarrow> workload_id list \<Rightarrow> secret_material \<Rightarrow> bytes option \<Rightarrow> pytime
       \<Rightarrow> secret_metadata secret_proc" where
  "stage_create_secret p owner_id desired_workload_ids m payload now =
     andthen (compute (require_payload payload)) (\<lambda>normalized_payload.
     andthen
       (compute (create_draft (smt_secret_id m) owner_id (smt_secret_name m) (smt_integration_type m)
          desired_workload_ids (op_idempotency_key p) (sha256_hex normalized_payload) now)) (\<lambda>draft.
       storing (\<lambda>s. create_secret_metadata s draft)))"

text \<open>The payload, its match with the draft and the pending workloads, checked before a resumption.\<close>

definition resumable :: "secret_metadata \<Rightarrow> bytes option \<Rightarrow> (bytes \<times> workload_id list) res" where
  "resumable draft payload =
     bind_res (require_payload payload) (\<lambda>normalized_payload.
     bind_res (require_payload_match draft normalized_payload) (\<lambda>_.
     bind_res (require_pending_workloads draft) (\<lambda>desired_workload_ids.
       Inr (normalized_payload, desired_workload_ids))))"

definition finish_creation ::
    "secret_services \<Rightarrow> secret_metadata \<Rightarrow> bytes \<Rightarrow> observed_secret \<Rightarrow> pytime \<Rightarrow> secret_metadata secret_proc" where
  "finish_creation services draft payload observed now =
     check (obs_exists observed \<and> obs_exact_bindings observed) (SecretDenied ''secret_recovery_unproven'')
       (if obs_enabled_versions observed = [] then
          andthen (add_version services (sec_id draft) payload) (\<lambda>version.
          check (version = 1) (SecretDenied ''secret_create_version_invalid'')
            (andthen (advance_draft now draft) (\<lambda>advanced.
               save_secret_step advanced (\<lambda>x. finalize_creation x version now))))
        else if obs_enabled_versions observed = [1] \<and> obs_disabled_versions observed = [] \<and>
            obs_destroyed_versions observed = []
        then save_secret_step draft (\<lambda>x. finalize_creation x 1 now)
        else stop (SecretDenied ''secret_recovery_unproven''))"

definition resume_create_secret ::
    "secret_services \<Rightarrow> secret_metadata \<Rightarrow> bytes option \<Rightarrow> pytime \<Rightarrow> secret_metadata secret_proc" where
  "resume_create_secret services draft payload now =
     andthen (compute (resumable draft payload)) (\<lambda>(normalized_payload, desired_workload_ids).
     andthen (ensure_secret services (sec_id draft) desired_workload_ids) (\<lambda>ensured.
     andthen (if mgs_created ensured then advance_draft now draft else give draft) (\<lambda>advanced.
     andthen (probe_secret services (sec_id advanced) desired_workload_ids) (\<lambda>observed.
       finish_creation services advanced normalized_payload observed now))))"

definition stage_attach_secret ::
    "operation \<Rightarrow> secret_metadata \<Rightarrow> workload_id list \<Rightarrow> pytime \<Rightarrow> secret_metadata secret_proc" where
  "stage_attach_secret p current desired_workload_ids now =
     (if sec_attached_workload_ids current = desired_workload_ids then give current
      else
        save_secret_step current (\<lambda>x.
          begin_attachment x desired_workload_ids (op_idempotency_key p) now))"

definition resume_attach_secret ::
    "secret_services \<Rightarrow> secret_metadata \<Rightarrow> pytime \<Rightarrow> secret_metadata secret_proc" where
  "resume_attach_secret services draft now =
     (if sec_mutation_state draft = MutIdle then give draft
      else
        andthen (compute (require_pending_workloads draft)) (\<lambda>desired_workload_ids.
        andthen (probe_secret services (sec_id draft) desired_workload_ids) (\<lambda>observed.
        check (obs_exists observed) (SecretDenied ''secret_resource_missing'')
       (andthen
          (if obs_exact_bindings observed then give ()
           else calling (xsv_perform services) (EnsureExactBindings (sec_id draft) desired_workload_ids))
          (\<lambda>_. save_secret_step draft (\<lambda>x. finalize_attachment x now))))))"

definition stage_rotate_secret ::
    "operation \<Rightarrow> secret_metadata \<Rightarrow> workload_id list \<Rightarrow> bytes option \<Rightarrow> pytime
       \<Rightarrow> secret_metadata secret_proc" where
  "stage_rotate_secret p current desired_workload_ids payload now =
     andthen (compute (require_payload payload)) (\<lambda>normalized_payload.
       save_secret_step current (\<lambda>x.
         begin_rotation x desired_workload_ids (op_idempotency_key p) (sha256_hex normalized_payload) now))"

text \<open>The bindings of a secret under rotation: repaired and observed again unless exact.\<close>

definition observe_rotation ::
    "secret_services \<Rightarrow> secret_metadata \<Rightarrow> workload_id list \<Rightarrow> pytime
       \<Rightarrow> (secret_metadata \<times> observed_secret) secret_proc" where
  "observe_rotation services draft desired_workload_ids now =
     andthen (probe_secret services (sec_id draft) desired_workload_ids) (\<lambda>observed.
     check (obs_exists observed) (SecretDenied ''secret_resource_missing'')
       (if obs_exact_bindings observed then give (draft, observed)
        else
          andthen (ensure_secret services (sec_id draft) desired_workload_ids) (\<lambda>ensured.
          check (\<not> mgs_created ensured) (SecretDenied ''secret_resource_missing'')
         (andthen (advance_draft now draft) (\<lambda>advanced.
          andthen (probe_secret services (sec_id advanced) desired_workload_ids) (\<lambda>observed_again.
            give (advanced, observed_again)))))))"

text \<open>The version that replaces the active one: the one a crashed run added, or a new one.\<close>

definition rotated_version ::
    "secret_services \<Rightarrow> secret_metadata \<Rightarrow> bytes \<Rightarrow> observed_secret \<Rightarrow> pytime
       \<Rightarrow> (secret_metadata \<times> int) secret_proc" where
  "rotated_version services draft payload observed now =
     (case filter (\<lambda>v. sec_active_version draft < v) (obs_enabled_versions observed) of
        [] \<Rightarrow>
          check (sec_active_version draft \<in> set (obs_enabled_versions observed))
            (SecretDenied ''secret_recovery_unproven'')
            (andthen (add_version services (sec_id draft) payload) (\<lambda>created.
             andthen (advance_draft now draft) (\<lambda>advanced. give (advanced, created))))
      | [v] \<Rightarrow> give (draft, v)
      | _ \<Rightarrow> stop (SecretDenied ''secret_recovery_unproven''))"

text \<open>\<^verbatim>\<open>f"{name}/versions/{version}"\<close>\<close>

definition version_name :: "string \<Rightarrow> int \<Rightarrow> string" where
  "version_name name version = name @ ''/versions/'' @ show_int version"

definition retirement_not_before :: "secret_metadata \<Rightarrow> pytime res" where
  "retirement_not_before x = add_delta (sec_updated_at x) retirement_window"

definition disable_rotated_version ::
    "secret_services \<Rightarrow> secret_metadata \<Rightarrow> int \<Rightarrow> observed_secret \<Rightarrow> pytime \<Rightarrow> pytime
       \<Rightarrow> secret_metadata secret_proc" where
  "disable_rotated_version services draft new_version observed not_before now =
     (let old_version = sec_active_version draft
      in if old_version \<in> set (obs_enabled_versions observed) then
           andthen
             (calling (xsv_perform services)
                (DisableOldVersion (sec_id draft) (version_name (obs_name observed) old_version) new_version
                   not_before now)) (\<lambda>_. advance_draft now draft)
         else
           check
             (old_version \<in> set (obs_disabled_versions observed) \<or>
              old_version \<in> set (obs_destroyed_versions observed))
             (SecretDenied ''secret_recovery_unproven'') (give draft))"

definition resume_rotate_secret ::
    "secret_services \<Rightarrow> secret_metadata \<Rightarrow> bytes option \<Rightarrow> pytime \<Rightarrow> secret_metadata secret_proc" where
  "resume_rotate_secret services draft payload now =
     andthen (compute (resumable draft payload)) (\<lambda>(normalized_payload, desired_workload_ids).
     andthen (observe_rotation services draft desired_workload_ids now) (\<lambda>(bound, observed).
     andthen (rotated_version services bound normalized_payload observed now) (\<lambda>(added, new_version).
     andthen (compute (retirement_not_before added)) (\<lambda>not_before.
     andthen (disable_rotated_version services added new_version observed not_before now) (\<lambda>disabled.
       save_secret_step disabled (\<lambda>x.
         record_rotation x new_version (sec_active_version draft) not_before
           (Some desired_workload_ids) now))))))"


section \<open>Applying a plan\<close>

text \<open>Whether the plan's result is in place already, which takes a look at the secret manager.\<close>

definition final_state_observed ::
    "secret_metadata \<Rightarrow> secret_material \<Rightarrow> observed_secret \<Rightarrow> bool" where
  "final_state_observed x m observed \<longleftrightarrow>
     obs_exists observed \<and> obs_exact_bindings observed \<and>
     obs_enabled_versions observed = [sec_active_version x] \<and>
     (if smt_mode m = ''create'' then
        sec_rotation_state x = RotStable \<and> obs_disabled_versions observed = [] \<and>
        obs_destroyed_versions observed = [] \<and> sec_active_version x = 1
      else if smt_mode m = ''attach'' then sec_rotation_state x = RotStable
      else
        smt_baseline_active_version m < sec_active_version x \<and>
        sec_rotation_state x = RetiringOldVersion \<and>
        (case sec_retiring_version x of
           None \<Rightarrow> False
         | Some v \<Rightarrow> v \<in> set (obs_disabled_versions observed @ obs_destroyed_versions observed)))"

definition is_final_exact_state ::
    "secret_services \<Rightarrow> secret_metadata \<Rightarrow> secret_material \<Rightarrow> bool secret_proc" where
  "is_final_exact_state services x m =
     (if sec_mutation_state x \<noteq> MutIdle \<or> sec_attached_workload_ids x \<noteq> smt_workload_ids m
      then give False
      else
        andthen (probe_secret services (sec_id x) (sec_attached_workload_ids x)) (\<lambda>observed.
          give (final_state_observed x m observed)))"

text \<open>The current secret when the result is in place, and what is to be done otherwise.\<close>

definition unless_final ::
    "secret_services \<Rightarrow> secret_metadata option \<Rightarrow> secret_material \<Rightarrow> secret_metadata secret_proc
       \<Rightarrow> secret_metadata secret_proc" where
  "unless_final services current m todo =
     (case current of
        None \<Rightarrow> todo
      | Some x \<Rightarrow>
          andthen (is_final_exact_state services x m) (\<lambda>final. if final then give x else todo))"

definition execute_apply ::
    "secret_services \<Rightarrow> operation \<Rightarrow> secret_metadata option \<Rightarrow> user_id \<Rightarrow> workload_id list
       \<Rightarrow> secret_material \<Rightarrow> bytes option \<Rightarrow> pytime \<Rightarrow> secret_metadata secret_proc" where
  "execute_apply services p current owner_id desired_workload_ids m payload now =
     unless_final services current m
       (if smt_mode m = ''create'' then
          andthen (stage_create_secret p owner_id desired_workload_ids m payload now) (\<lambda>draft.
            resume_create_secret services draft payload now)
        else
          andthen (compute (require_secret current)) (\<lambda>x.
            if smt_mode m = ''attach'' then
              andthen (stage_attach_secret p x desired_workload_ids now) (\<lambda>draft.
                resume_attach_secret services draft now)
            else if smt_mode m = ''rotate'' then
              andthen (stage_rotate_secret p x desired_workload_ids payload now) (\<lambda>draft.
                resume_rotate_secret services draft payload now)
            else stop (SecretDenied ''secret_mode_invalid'')))"

definition resume_or_replay_operation ::
    "secret_services \<Rightarrow> operation \<Rightarrow> secret_metadata option \<Rightarrow> secret_material \<Rightarrow> workload_id list
       \<Rightarrow> bytes option \<Rightarrow> pytime \<Rightarrow> secret_metadata secret_proc" where
  "resume_or_replay_operation services p current m desired_workload_ids payload now =
     unless_final services current m
       (case current of
          None \<Rightarrow> stop (SecretDenied ''secret_replay_unproven'')
        | Some x \<Rightarrow>
            check (sec_mutation_idempotency_key x = Some (op_idempotency_key p))
              (SecretDenied ''secret_replay_unproven'')
              (if smt_mode m = ''create'' \<and> sec_mutation_state x = MutCreating then
                 resume_create_secret services x payload now
               else if smt_mode m = ''attach'' \<and> sec_mutation_state x = MutAttaching then
                 resume_attach_secret services x now
               else if smt_mode m = ''rotate'' \<and> sec_mutation_state x = MutRotating then
                 check (set (sec_attached_workload_ids x) \<subseteq> set desired_workload_ids)
                   (SecretDenied ''secret_detach_not_allowed'')
                   (resume_rotate_secret services x payload now)
               else stop (SecretDenied ''secret_replay_unproven'')))"

text \<open>One step of the operation, taken when it is in the state before it.\<close>

definition step_operation ::
    "operation_state \<Rightarrow> operation_state \<Rightarrow> pytime \<Rightarrow> operation \<Rightarrow> operation secret_proc" where
  "step_operation source target at p =
     (if op_state p = source then
        andthen (compute (operation_transition p target at None)) (\<lambda>q.
          storing (\<lambda>s. save_operation s q (op_version p)))
      else give p)"

definition finish_operation ::
    "operation \<Rightarrow> pytime \<Rightarrow> (string \<times> string) list \<Rightarrow> operation secret_proc" where
  "finish_operation p at result_summary =
     andthen (reading (\<lambda>s. get_operation s (op_id p))) (\<lambda>current.
       if op_state current = OpSucceeded \<and> op_result_summary current \<noteq> [] then give current
       else
         andthen (step_operation OpQueued OpBuilding at current) (\<lambda>q1.
         andthen (step_operation OpBuilding OpDeploying at q1) (\<lambda>q2.
         andthen (step_operation OpDeploying OpVerifying at q2) (\<lambda>q3.
         andthen (step_operation OpVerifying OpSucceeded at q3) (\<lambda>q4.
         check (op_state q4 = OpSucceeded) (SecretDenied ''secret_operation_state_invalid'')
           (if op_result_summary q4 \<noteq> result_summary then
              andthen (compute (record_result q4 result_summary at)) (\<lambda>q5.
                storing (\<lambda>s. save_operation s q5 (op_version q4)))
            else give q4))))))"

text \<open>
  The plan is consumed by the operation; a plan that was consumed before is consumed again after its
  expiry, without its checks.
\<close>

definition consume_secret_plan ::
    "deployment_plan \<Rightarrow> principal \<Rightarrow> secret_material \<Rightarrow> operation \<Rightarrow> pytime
       \<Rightarrow> (deployment_plan \<times> operation) secret_proc" where
  "consume_secret_plan plan p m requested now =
     rescue
       (storing (\<lambda>s. consume_plan_with_operation s (pln_id plan) (prn_user_id p)
          (secret_material_value m) secret_plan_action secret_plan_policy_version requested now))
       (\<lambda>e.
          if e = PlanErr PlanExpired \<and> pln_state plan = PlanConsumed then
            storing (\<lambda>s. consume_deployment_plan_with_operation s (pln_id plan) (prn_user_id p)
              (pln_material_hash plan) secret_plan_action secret_plan_policy_version now requested)
          else stop e)"

text \<open>What is done once the plan is consumed by an operation, the requested or an earlier one.\<close>

definition apply_consumed ::
    "secret_services \<Rightarrow> secret_metadata option \<Rightarrow> secret_material \<Rightarrow> user_id \<Rightarrow> workload_id list
       \<Rightarrow> bytes option \<Rightarrow> pytime \<Rightarrow> operation_id \<Rightarrow> deployment_plan \<Rightarrow> operation
       \<Rightarrow> secret_apply_result secret_proc" where
  "apply_consumed services current m owner_id desired_workload_ids payload now requested_operation_id
       consumed p =
     (let finish = (\<lambda>replayed x.
        andthen (finish_operation p now (result_summary_for_secret x (smt_mode m))) (\<lambda>finalized.
          give (canonical_result_from_secret (op_id finalized) x (smt_mode m) replayed)))
      in if op_id p \<noteq> requested_operation_id then
           if op_state p = OpSucceeded then compute (replayed_result_from_operation p)
           else
             andthen
               (resume_or_replay_operation services p current m desired_workload_ids payload now)
               (finish True)
         else
           andthen (execute_apply services p current owner_id desired_workload_ids m payload now)
             (finish (op_id p \<noteq> requested_operation_id \<or> 2 < pln_version consumed)))"

text \<open>The body of \<^verbatim>\<open>apply_secret_plan\<close>, whose every exception leaves as a denial.\<close>

definition apply_plan_at ::
    "secret_services \<Rightarrow> principal \<Rightarrow> string \<Rightarrow> string \<Rightarrow> string \<Rightarrow> bytes option \<Rightarrow> pytime
       \<Rightarrow> secret_apply_result secret_proc" where
  "apply_plan_at services p plan_id plan_hash idempotency_key payload now =
     andthen (compute (require_identifier plan_id)) (\<lambda>normalized_plan_id.
      andthen (compute (require_hash plan_hash)) (\<lambda>normalized_plan_hash.
      andthen (compute (require_idempotency_key idempotency_key)) (\<lambda>normalized_idempotency.
      andthen (reading (\<lambda>s. get_deployment_plan s normalized_plan_id)) (\<lambda>plan.
      andthen (compute (compare_digest (pln_material_hash plan) normalized_plan_hash)) (\<lambda>same.
      check same (SecretDenied ''plan_hash_mismatch'')
     (andthen (compute (material_from_summary (pln_sanitized_summary plan))) (\<lambda>m.
      check (pln_workload_id plan \<noteq> None) (SecretDenied ''plan_missing_workload'')
     (andthen (compute (require_secret_name (smt_secret_name m))) (\<lambda>_.
      andthen (reading (review_workloads p (smt_workload_ids m))) (\<lambda>workloads.
      let owner_id = wl_owner_id (hd workloads)
      in
      check (owner_id = smt_owner_id m) (SecretDenied ''plan_owner_mismatch'')
     (andthen (reading (current_secret_for_material p m)) (\<lambda>current.
      andthen
        (compute
           (if pln_state plan = PlanConsumed then Inr () else require_fresh_baseline current m))
        (\<lambda>_.
      andthen (secret_new_id services ''operation'') (\<lambda>requested_operation_id.
      andthen
        (compute (new_operation requested_operation_id (prn_user_id p) (wl_id (hd workloads))
           secret_plan_action normalized_idempotency (pln_material_hash plan) OpQueued now))
        (\<lambda>requested.
      andthen (consume_secret_plan plan p m requested now) (\<lambda>(consumed, operation).
        apply_consumed services current m owner_id (map wl_id workloads) payload now
          requested_operation_id consumed operation))))))))))))))))"

definition apply_secret_plan ::
    "secret_services \<Rightarrow> principal \<Rightarrow> string \<Rightarrow> string \<Rightarrow> string \<Rightarrow> bytes option
       \<Rightarrow> secret_apply_result secret_proc" where
  "apply_secret_plan services p plan_id plan_hash idempotency_key payload =
     andthen (secret_now services) (\<lambda>now.
       secret_denying (\<lambda>_. True)
         (apply_plan_at services p plan_id plan_hash idempotency_key payload now))"


section \<open>Retirement\<close>

text \<open>Every exception of the body, denials included, leaves as a plain denial.\<close>

definition retire_old_version ::
    "secret_services \<Rightarrow> secret_metadata \<Rightarrow> int \<Rightarrow> pytime \<Rightarrow> pytime \<Rightarrow> secret_metadata secret_proc" where
  "retire_old_version services current retiring_version not_before now =
     andthen (ensure_secret services (sec_id current) (sec_attached_workload_ids current)) (\<lambda>managed.
     check (\<not> mgs_created managed) (SecretDenied ''secret_resource_missing'')
    (andthen
       (calling (xsv_perform services)
          (DestroyOldVersion (sec_id current) (version_name (mgs_name managed) retiring_version)
             (sec_active_version current) not_before now)) (\<lambda>_.
       save_secret_step current (\<lambda>x. complete_retirement x now))))"

definition finalize_retirement_at ::
    "secret_services \<Rightarrow> string \<Rightarrow> pytime \<Rightarrow> secret_retirement_result secret_proc" where
  "finalize_retirement_at services secret_id now =
     andthen (compute (require_identifier secret_id)) (\<lambda>i.
     andthen (reading (\<lambda>s. get_secret_metadata s i)) (\<lambda>current.
       if sec_rotation_state current \<noteq> RetiringOldVersion then
         give \<lparr>xrr_secret_id = sec_id current, xrr_state = ''stable'', xrr_replayed = True\<rparr>
       else
         (case (sec_retiring_version current, sec_retirement_not_before current) of
            (Some retiring_version, Some not_before) \<Rightarrow>
              if time_less now not_before then
                give \<lparr>xrr_secret_id = sec_id current, xrr_state = ''pending'', xrr_replayed = True\<rparr>
              else
                andthen (retire_old_version services current retiring_version not_before now) (\<lambda>saved.
                  give \<lparr>xrr_secret_id = sec_id saved, xrr_state = ''retired'', xrr_replayed = False\<rparr>)
          | _ \<Rightarrow>
              give \<lparr>xrr_secret_id = sec_id current, xrr_state = ''pending'', xrr_replayed = True\<rparr>)))"

definition finalize_secret_retirement ::
    "secret_services \<Rightarrow> string \<Rightarrow> secret_retirement_result secret_proc" where
  "finalize_secret_retirement services secret_id =
     andthen (secret_now services) (\<lambda>now.
       rescue (finalize_retirement_at services secret_id now)
         (\<lambda>_. stop (SecretDenied ''secret_denied'')))"

end
