(* ===== verification/Secret_Guarantees.thy ===== *)
theory Secret_Guarantees
  imports SecretService Worker_Guarantees
begin

text \<open>
  What the secret service guarantees of its calls to the secret manager: changes there are recorded
  before they are made, and old versions are destroyed when their retirement is due.
\<close>

section \<open>Intentions are recorded first\<close>

text \<open>
  Which stored secret asks for a change in the secret manager: the pending bindings of a mutation,
  the hash of its pending value, the end of a retirement. Looking and reading the clock need
  nothing.
\<close>

fun intended :: "store \<Rightarrow> secret_call \<Rightarrow> bool" where
  "intended s (EnsureSecret i workload_ids) \<longleftrightarrow>
     (\<exists>x. dict_get (st_secrets s) i = Some x \<and>
       (sec_pending_workload_ids x = Some workload_ids \<or>
        sec_rotation_state x = RetiringOldVersion \<and> sec_attached_workload_ids x = workload_ids))"
| "intended s (EnsureExactBindings i workload_ids) \<longleftrightarrow>
     (\<exists>x. dict_get (st_secrets s) i = Some x \<and> sec_pending_workload_ids x = Some workload_ids)"
| "intended s (AddVersion i payload) \<longleftrightarrow>
     (\<exists>x. dict_get (st_secrets s) i = Some x \<and>
       sec_pending_payload_sha256 x = Some (sha256_hex payload))"
| "intended s (DisableOldVersion i name new_version not_before now) \<longleftrightarrow>
     (\<exists>x manager. dict_get (st_secrets s) i = Some x \<and> sec_pending_payload_sha256 x \<noteq> None \<and>
       name = version_name manager (sec_active_version x))"
| "intended s (DestroyOldVersion i name active_version not_before now) \<longleftrightarrow>
     (\<exists>x manager old. dict_get (st_secrets s) i = Some x \<and> sec_rotation_state x = RetiringOldVersion \<and>
       sec_retiring_version x = Some old \<and> name = version_name manager old \<and>
       sec_active_version x = active_version \<and> sec_retirement_not_before x = Some not_before \<and>
       \<not> time_less now not_before)"
| "intended s _ \<longleftrightarrow> True"

definition evolving_secrets :: "secret_services \<Rightarrow> bool" where
  "evolving_secrets services \<longleftrightarrow>
     (\<forall>i ws history s. later s (snd (xsv_ensure services i ws history s))) \<and>
     (\<forall>i payload history s. later s (snd (xsv_add_version services i payload history s))) \<and>
     (\<forall>i ws history s. later s (snd (xsv_probe services i ws history s))) \<and>
     evolving_service (xsv_perform services)"

text \<open>Runs all of whose calls one store asks for.\<close>

abbreviation asked :: "store \<Rightarrow> 'a secret_proc \<Rightarrow> bool" where
  "asked s \<equiv> justified.within (\<lambda>_. intended s)"

lemma justified_from:
  assumes "justified_run J u v" and "justified_run (\<lambda>_. J (wrl_store u)) v w"
  shows "justified_run J u w"
proof -
  from assms obtain cs ds where
    "later (wrl_store u) (wrl_store v)" "wrl_calls v = wrl_calls u @ cs"
    "\<forall>c \<in> set cs. \<exists>s. later (wrl_store u) s \<and> later s (wrl_store v) \<and> J s c"
    "later (wrl_store v) (wrl_store w)" "wrl_calls w = wrl_calls v @ ds"
    "\<forall>c \<in> set ds. J (wrl_store u) c"
    unfolding justified_run_def by blast
  then show ?thesis unfolding justified_run_def
    by (intro conjI exI [of _ "cs @ ds"]) (auto intro: later_trans later_refl, meson later_trans)
qed

lemma asked_run:
  "justified_run intended u v \<Longrightarrow> asked (wrl_store u) m \<Longrightarrow> justified_run intended u (snd (m v))"
  unfolding justified.within_def by (blast intro: justified_from)

text \<open>The steps of the service.\<close>

lemma manager_runs:
  assumes "evolving_secrets services"
  shows "(\<And>s. J s (EnsureSecret i ws)) \<Longrightarrow> justified.within J (ensure_secret services i ws)"
    and "(\<And>s. J s (AddVersion i payload)) \<Longrightarrow> justified.within J (add_version services i payload)"
    and "(\<And>s. J s (ProbeSecret i ws)) \<Longrightarrow> justified.within J (probe_secret services i ws)"
    and "(\<And>s. J s c) \<Longrightarrow> justified.within J (calling (xsv_perform services) c)"
  using assms unfolding evolving_secrets_def ensure_secret_def add_version_def probe_secret_def
  by (auto intro: justified_outside justified_calling)

lemma secret_methods_ok:
  "advance_mutation_progress x now = Inr y \<Longrightarrow> secret_ok y"
  "finalize_attachment x now = Inr y \<Longrightarrow> secret_ok y"
  "finalize_creation x v now = Inr y \<Longrightarrow> secret_ok y"
  "record_rotation x v old nb ws now = Inr y \<Longrightarrow> secret_ok y"
  "complete_retirement x now = Inr y \<Longrightarrow> secret_ok y"
  "begin_attachment x ws' k now = Inr y \<Longrightarrow> secret_ok y"
  "begin_rotation x ws' k h now = Inr y \<Longrightarrow> secret_ok y"
  by (auto simp: advance_mutation_progress_def finalize_attachment_def finalize_creation_def
      record_rotation_def complete_retirement_def begin_attachment_def begin_rotation_def res_simps
      split: option.splits)

lemma save_step_runs:
  "(\<And>y. change x = Inr y \<Longrightarrow> secret_ok y) \<Longrightarrow> justified.within J (save_secret_step x change)"
  unfolding save_secret_step_def
  by (intro justified.within_compute_andthen justified_storing worker_stores)

lemma step_runs:
  "justified.within J (advance_draft now x)"
  "justified.within J (save_secret_step x (\<lambda>x. finalize_attachment x now))"
  "justified.within J (save_secret_step x (\<lambda>x. finalize_creation x v now))"
  "justified.within J (save_secret_step x (\<lambda>x. record_rotation x v old nb ws now))"
  "justified.within J (save_secret_step x (\<lambda>x. complete_retirement x now))"
  "justified.within J (save_secret_step x (\<lambda>x. begin_attachment x ws' k now))"
  "justified.within J (save_secret_step x (\<lambda>x. begin_rotation x ws' k h now))"
  unfolding advance_draft_def by (rule save_step_runs, erule secret_methods_ok)+

lemma saved_step:
  "save_secret_step x change w = (Inr y, w') \<Longrightarrow>
     change x = Inr y \<and> dict_get (st_secrets (wrl_store w')) (sec_id y) = Some y"
  by (auto simp: save_secret_step_def andthen_Inr compute_def storing_def save_secret_metadata_def
      commit_def secrets.save_iff split: prod.splits sum.splits)

text \<open>The value a step returns is known once it returned.\<close>

lemma within_after_step:
  assumes "run_relation R" and "run_relation.within R m"
    and "\<And>w x w'. m w = (Inr x, w') \<Longrightarrow> Q x" and "\<And>x. Q x \<Longrightarrow> run_relation.within R (f x)"
  shows "run_relation.within R (andthen m f)"
proof -
  have "R w (snd (andthen m f w))" for w
    using assms(1-3) assms(4) [of "projr (fst (m w))"]
    unfolding run_relation.within_def [OF assms(1)] andthen_def
    by (cases "m w"; cases "fst (m w)")
      (auto split: sum.splits prod.splits intro: run_relation.compose [OF assms(1)] dest: spec [of _ w])
  then show ?thesis by (simp add: run_relation.within_def [OF assms(1)])
qed


lemmas within_after = within_after_step [OF justified.run_relation_axioms]

text \<open>A draft that makes progress keeps what was staged.\<close>

definition same_draft :: "secret_metadata \<Rightarrow> secret_metadata \<Rightarrow> bool" where
  "same_draft x y \<longleftrightarrow> sec_id y = sec_id x \<and> sec_active_version y = sec_active_version x"

lemma advanced_draft: "advance_draft now x w = (Inr y, w') \<Longrightarrow> same_draft x y"
  by (auto simp: advance_draft_def advance_mutation_progress_def same_draft_def res_simps dest!: saved_step)

lemma resumable_Inr:
  "resumable x payload = Inr (secret_value, ws) \<longleftrightarrow>
     payload = Some secret_value \<and> secret_value \<noteq> [] \<and> length secret_value \<le> max_payload_bytes \<and>
     sec_pending_payload_sha256 x = Some (sha256_hex secret_value) \<and>
     sec_pending_workload_ids x = Some ws \<and> ws \<noteq> [] \<and> length ws \<le> max_workload_attachments"
  using hash_is_ascii [of secret_value]
  by (auto simp: resumable_def require_payload_def require_payload_match_def require_pending_workloads_def
      res_simps split: option.splits)

lemma resume_create_asked:
  assumes "evolving_secrets services" and "dict_get (st_secrets s) (sec_id x) = Some x"
  shows "asked s (resume_create_secret services x payload now)"
proof -
  have finish: "asked s (finish_creation services y secret_value observed now)"
    if "resumable x payload = Inr (secret_value, ws)" and "same_draft x y" for y secret_value ws observed
    using that assms unfolding finish_creation_def
    by (auto simp: resumable_Inr same_draft_def
        intro!: justified.within_intros manager_runs step_runs)
  have advance: "asked s (if created then advance_draft now x else give x)" for created
    by (simp add: step_runs justified.within_give)
  have advanced: "(if created then advance_draft now x else give x) w = (Inr y, w') \<Longrightarrow> same_draft x y"
    for created y and w w' :: "secret_call world"
    by (auto simp: give_def same_draft_def dest: advanced_draft split: if_splits)
  show ?thesis
    unfolding resume_create_secret_def
    apply (rule justified.within_compute_andthen)
    apply clarify
    apply (rule justified.within_andthen)
    subgoal for v ws using assms by (auto simp: resumable_Inr intro!: manager_runs)
    apply (rule within_after [where Q = "same_draft x", OF advance advanced])
     apply assumption
    apply (rule justified.within_andthen)
    subgoal using assms by (auto intro!: manager_runs)
    apply (erule finish, assumption)
    done
qed


lemma resume_attach_asked:
  assumes "evolving_secrets services" and "dict_get (st_secrets s) (sec_id x) = Some x"
  shows "asked s (resume_attach_secret services x now)"
  using assms unfolding resume_attach_secret_def
  by (auto simp: require_pending_workloads_def require_def split: option.splits if_splits
      intro!: justified.within_compute_andthen justified.within_intros manager_runs step_runs)

text \<open>The three steps of a rotation that call the secret manager.\<close>

lemma observed_draft:
  "observe_rotation services x ws now w = (Inr (y, observed), w') \<Longrightarrow> same_draft x y"
  by (auto simp: observe_rotation_def proc_simps same_draft_def dest: advanced_draft [unfolded same_draft_def]
      split: if_splits)

lemma rotated_draft:
  "rotated_version services x v observed now w = (Inr (y, new), w') \<Longrightarrow> same_draft x y"
  by (auto simp: rotated_version_def proc_simps same_draft_def dest: advanced_draft [unfolded same_draft_def]
      split: if_splits list.splits)

lemma rotation_steps_asked:
  assumes "evolving_secrets services" and "dict_get (st_secrets s) (sec_id x) = Some x"
    and "resumable x payload = Inr (secret_value, ws)" and "same_draft x y"
  shows "asked s (observe_rotation services x ws now)"
    and "asked s (rotated_version services y secret_value observed now)"
    and "asked s (disable_rotated_version services y v observed not_before now)"
  using assms unfolding observe_rotation_def rotated_version_def disable_rotated_version_def
  by (auto simp: resumable_Inr same_draft_def Let_def split: list.split
      intro!: justified.within_intros manager_runs step_runs)

lemma resume_rotate_asked:
  assumes "evolving_secrets services" and "dict_get (st_secrets s) (sec_id x) = Some x"
  shows "asked s (resume_rotate_secret services x payload now)"
  unfolding resume_rotate_secret_def
  apply (rule justified.within_compute_andthen)
  apply clarify
  subgoal for v ws
    apply (rule within_after [where Q = "\<lambda>(y, _). same_draft x y"])
      apply (rule rotation_steps_asked(1) [OF assms, of payload v ws x], assumption, simp add: same_draft_def)
     apply (auto dest: observed_draft) []
    apply clarify
    subgoal for y observed
      apply (rule within_after [where Q = "\<lambda>(y', _). same_draft x y'"])
        apply (rule rotation_steps_asked(2) [OF assms], assumption+)
       apply (auto simp: same_draft_def dest: rotated_draft [unfolded same_draft_def]) []
      apply clarify
      subgoal for y' new
        apply (rule justified.within_andthen justified.within_compute rotation_steps_asked(3) [OF assms]
            step_runs | assumption)+
        done
      done
    done
  done


text \<open>Runs that stay justified, seen from the world \<open>u\<close> where the secret was read.\<close>

interpretation since: run_relation
  "\<lambda>v w. justified_run intended u v \<longrightarrow> justified_run intended u w" for u
  by unfold_locales simp_all

lemma since_asked: "asked (wrl_store u) m \<Longrightarrow> since.within u m"
  using asked_run unfolding since.within_def by blast

lemma since_intended: "justified.within intended m \<Longrightarrow> since.within u m"
  unfolding since.within_def by (blast intro: justified.after_within)

lemmas since_intros = since.within_intros since.within_compute_andthen

text \<open>Resuming what the store holds.\<close>

definition held :: "store \<Rightarrow> secret_metadata option \<Rightarrow> bool" where
  "held s current \<longleftrightarrow>
     (case current of None \<Rightarrow> True | Some x \<Rightarrow> dict_get (st_secrets s) (sec_id x) = Some x)"

lemma unless_final_runs:
  assumes "evolving_secrets services" and "since.within u todo"
  shows "since.within u (unless_final services current m todo)"
proof -
  have final: "since.within u (is_final_exact_state services x m)" for x
    unfolding is_final_exact_state_def
    by (intro since_intended justified.within_intros manager_runs [OF assms(1)]) simp
  show ?thesis unfolding unless_final_def
    by (cases current) (simp_all add: assms(2) final since.within_andthen since.within_give)
qed

lemma resume_or_replay_runs:
  assumes "evolving_secrets services" and "held (wrl_store u) current"
  shows "since.within u (resume_or_replay_operation services p current m ws payload now)"
proof (cases current)
  case None
  then show ?thesis unfolding resume_or_replay_operation_def
    by (simp add: unless_final_runs [OF assms(1)] since.within_stop)
next
  case (Some x)
  with assms(2) have x: "dict_get (st_secrets (wrl_store u)) (sec_id x) = Some x" by (simp add: held_def)
  have "since.within u (resume_create_secret services x payload now)"
    "since.within u (resume_attach_secret services x now)"
    "since.within u (resume_rotate_secret services x payload now)"
    using resume_create_asked [OF assms(1) x] resume_attach_asked [OF assms(1) x]
      resume_rotate_asked [OF assms(1) x]
    by (simp_all add: since_asked)
  with Some show ?thesis unfolding resume_or_replay_operation_def
    by (auto intro!: unless_final_runs [OF assms(1)] since.within_check since.within_stop)
qed

text \<open>Staging first, then resuming what was staged.\<close>

lemma staged_then:
  assumes "justified.within intended m"
    and "\<And>w x w'. m w = (Inr x, w') \<Longrightarrow> dict_get (st_secrets (wrl_store w')) (sec_id x) = Some x"
    and "\<And>s x. dict_get (st_secrets s) (sec_id x) = Some x \<Longrightarrow> asked s (f x)"
  shows "justified.within intended (andthen m f)"
proof -
  have "justified_run intended w (snd (andthen m f w))" for w
  proof (rule justified.after_andthen)
    show "justified_run intended w (snd (m w))" using assms(1) by (simp add: justified.within_def)
  next
    fix x v
    assume "m w = (Inr x, v)" and run: "justified_run intended w v"
    then have "asked (wrl_store v) (f x)" using assms(2,3) by blast
    from asked_run [OF justified.stays this] run show "justified_run intended w (snd (f x v))"
      by (blast intro: justified.compose)
  qed
  then show ?thesis by (simp add: justified.within_def)
qed

lemma secret_created:
  "create_secret_metadata s x = (Inr y, s') \<Longrightarrow> y = x \<and> dict_get (st_secrets s') (sec_id x) = Some x"
  by (auto simp: create_secret_metadata_def coll_create_def commit_def require_def bind_res_def
      split: sum.splits if_splits)

lemma stage_create_runs:
  "justified.within J (stage_create_secret p owner_id ws m payload now)"
  "stage_create_secret p owner_id ws m payload now w = (Inr x, w') \<Longrightarrow>
     dict_get (st_secrets (wrl_store w')) (sec_id x) = Some x"
proof -
  have "create_draft i u n t as k h at = Inr y \<Longrightarrow> later s (snd (create_secret_metadata s y))"
    for i u n t as k h at y s
    using later_run [of "CreateSecret y" s] by (auto simp: create_draft_def res_simps)
  then show "justified.within J (stage_create_secret p owner_id ws m payload now)"
    unfolding stage_create_secret_def
    by (intro justified.within_compute_andthen justified_storing)
  have "\<And>y. storing (\<lambda>s. create_secret_metadata s y) v = (Inr x, w') \<Longrightarrow>
      dict_get (st_secrets (wrl_store w')) (sec_id x) = Some x" for v :: "secret_call world"
    by (auto simp: storing_def split: prod.splits dest!: secret_created)
  then show "dict_get (st_secrets (wrl_store w')) (sec_id x) = Some x"
    if "stage_create_secret p owner_id ws m payload now w = (Inr x, w')"
    using that by (auto simp: stage_create_secret_def andthen_Inr)
qed

lemma execute_apply_runs:
  assumes "evolving_secrets services" and "held (wrl_store u) current"
  shows "since.within u (execute_apply services p current owner_id ws m payload now)"
proof -
  have create: "since.within u (andthen (stage_create_secret p owner_id ws m payload now)
      (\<lambda>draft. resume_create_secret services draft payload now))"
    by (rule since_intended [OF staged_then [OF stage_create_runs resume_create_asked [OF assms(1)]]])
  have attach: "since.within u (andthen (stage_attach_secret p x ws now)
      (\<lambda>draft. resume_attach_secret services draft now))" if "current = Some x" for x
  proof (cases "sec_attached_workload_ids x = ws")
    case True
    then have "andthen (stage_attach_secret p x ws now) (\<lambda>draft. resume_attach_secret services draft now) =
        resume_attach_secret services x now"
      by (simp add: stage_attach_secret_def fun_eq_iff andthen_def give_def)
    then show ?thesis
      using resume_attach_asked [OF assms(1), of "wrl_store u" x] assms(2) that
      by (simp add: held_def since_asked)
  next
    case False
    then show ?thesis unfolding stage_attach_secret_def
      by (simp, intro since_intended [OF staged_then [OF step_runs(6) _ resume_attach_asked [OF assms(1)]]])
        (auto dest: saved_step)
  qed
  have rotate: "since.within u (andthen (stage_rotate_secret p x ws payload now)
      (\<lambda>draft. resume_rotate_secret services draft payload now))" for x
    unfolding stage_rotate_secret_def
    by (rule since_intended [OF staged_then [OF justified.within_compute_andthen [OF step_runs(7)] _
            resume_rotate_asked [OF assms(1)]]])
      (auto simp: proc_simps dest: saved_step)
  show ?thesis unfolding execute_apply_def require_secret_def
    by (intro unless_final_runs [OF assms(1)])
      (auto intro!: since.within_check since.within_stop since.within_compute_andthen create attach rotate
        split: option.splits)
qed


text \<open>The rest of an application touches operations and plans only.\<close>

lemma operation_stores:
  "operation_ok p \<Longrightarrow> later s (snd (save_operation s p v))"
  "operation_ok p \<Longrightarrow> later s (snd (consume_deployment_plan_with_operation s pid a h act pol at p))"
  "operation_ok p \<Longrightarrow> later s (snd (consume_plan_with_operation s pid a m act pol p at))"
proof -
  show "operation_ok p \<Longrightarrow> later s (snd (save_operation s p v))"
    using later_run [of "SaveOperation p v" s] by simp
  show consume: "operation_ok p \<Longrightarrow>
      later s (snd (consume_deployment_plan_with_operation s pid a h act pol at p))" for h pid
    using later_run [of "ConsumePlan pid a h act pol at p" s] by simp
  show "operation_ok p \<Longrightarrow> later s (snd (consume_plan_with_operation s pid a m act pol p at))"
    by (auto simp: consume_plan_with_operation_def attempt_def ensure_def consume split: sum.split)
qed

lemma new_operations_ok:
  "operation_transition p target at failure = Inr q \<Longrightarrow> operation_ok q"
  "record_result p summary at = Inr q \<Longrightarrow> operation_ok q"
  "new_operation i u w act k h state at = Inr q \<Longrightarrow> operation_ok q"
  by (auto simp: operation_transition_def record_result_def new_operation_def res_simps)

lemma operation_step_runs:
  "justified.within J (andthen (compute (operation_transition p target at None))
     (\<lambda>q. storing (\<lambda>s. save_operation s q (op_version p))))"
  "justified.within J (andthen (compute (record_result p summary at))
     (\<lambda>q. storing (\<lambda>s. save_operation s q (op_version p))))"
  by (rule justified.within_compute_andthen, rule justified_storing, rule operation_stores,
      erule new_operations_ok)+

lemma finish_operation_runs: "justified.within J (finish_operation p at summary)"
  unfolding finish_operation_def step_operation_def
  by (intro justified.within_andthen justified_reading justified.within_if justified.within_give
      justified.within_check operation_step_runs)

lemma consume_secret_plan_runs:
  "operation_ok p \<Longrightarrow> justified.within J (consume_secret_plan plan prn m p now)"
  unfolding consume_secret_plan_def
  by (intro justified.within_rescue justified.within_if justified_storing operation_stores
      justified.within_stop)

lemma apply_consumed_runs:
  assumes "evolving_secrets services" and "held (wrl_store u) current"
  shows "since.within u (apply_consumed services current m owner_id ws payload now i consumed p)"
proof -
  have finish: "since.within u (finish_operation p now summary)" for summary
    by (rule since_intended [OF finish_operation_runs])
  show ?thesis unfolding apply_consumed_def Let_def
    by (auto intro!: since.within_andthen since.within_give since.within_compute finish
        resume_or_replay_runs execute_apply_runs assms)
qed

lemma current_secret_held:
  "store_keyed s \<Longrightarrow> current_secret_for_material p m s = Inr current \<Longrightarrow> held s current"
  by (auto simp: current_secret_for_material_def authorized_secret_def get_secret_metadata_def coll_get_def
      held_def store_keyed_def res_simps dest: keyed_by_get split: sum.splits if_splits option.splits)


text \<open>Plan checks and reviews call nothing but the clock and the id factory.\<close>

lemma secret_now_run: "secret_now services w = (r, w') \<Longrightarrow> wrl_store w' = wrl_store w"
  by (auto simp: secret_now_def observing_def outside_def andthen_def compute_def split: sum.splits)

lemma observed_runs:
  "justified.within intended (secret_now services)"
  "justified.within intended (secret_new_id services kind)"
  unfolding secret_now_def secret_new_id_def
  by (intro justified.within_andthen justified.within_compute justified_observing; simp)+

lemma denying_runs: "justified_run J u (snd (m v)) \<Longrightarrow> justified_run J u (snd (secret_denying caught m v))"
  unfolding secret_denying_def rescue_def
  by (auto simp: stop_def split: prod.splits sum.splits err.splits)

lemma apply_plan_rest:
  assumes "evolving_secrets services" and "held (wrl_store v) current"
  shows "justified_run intended v (snd (andthen (secret_new_id services ''operation'') (\<lambda>i.
      andthen (compute (new_operation i a wl act key h OpQueued now)) (\<lambda>requested.
      andthen (consume_secret_plan plan p m requested now) (\<lambda>(consumed, operation).
        apply_consumed services current m owner_id ws payload now i consumed operation))) v))"
proof -
  have "since.within v (andthen (secret_new_id services ''operation'') (\<lambda>i.
      andthen (compute (new_operation i a wl act key h OpQueued now)) (\<lambda>requested.
      andthen (consume_secret_plan plan p m requested now) (\<lambda>(consumed, operation).
        apply_consumed services current m owner_id ws payload now i consumed operation))))"
    using assms(2)
    by (auto intro!: since.within_andthen since_intended [OF observed_runs(2)] since.within_compute_andthen
        since_intended [OF consume_secret_plan_runs] apply_consumed_runs [OF assms(1)]
        dest: new_operations_ok(3))
  then show ?thesis by (simp add: since.within_def justified.stays)
qed

lemma apply_plan_runs:
  assumes "evolving_secrets services" and "store_keyed (wrl_store v)"
  shows "justified_run intended v (snd (apply_plan_at services p plan_id plan_hash key payload now v))"
  using apply_plan_rest [OF assms(1) current_secret_held [OF assms(2)]]
  unfolding apply_plan_at_def
  by (simp add: quiet_steps Let_def check_def stop_def justified.stays split: sum.split)

text \<open>
  C30: changes in the secret manager are recorded first. In a run of \<^verbatim>\<open>apply_secret_plan\<close>, whatever
  the secret manager answers and whoever else works on the store, the store evolves by legal calls
  only, and every call to the manager that changes something was asked for by a secret as the store
  held it at some moment of the run: bindings are those of its recorded mutation, a value that
  enters the manager has the hash of its recorded mutation, and a version is only disabled as the
  active one of a secret under a recorded mutation. So a run that was interrupted anywhere has left
  the record from which it can be resumed.
\<close>

theorem secret_changes_are_recorded_first:
  assumes "reachable (wrl_store w)" and "evolving_secrets services"
    and "apply_secret_plan services p plan_id plan_hash key payload w = (r, w')"
  shows "later (wrl_store w) (wrl_store w') \<and>
    (\<exists>calls. wrl_calls w' = wrl_calls w @ calls \<and>
      (\<forall>c \<in> set calls. \<exists>s. later (wrl_store w) s \<and> later s (wrl_store w') \<and> intended s c))"
proof -
  have "justified_run intended w (snd (apply_secret_plan services p plan_id plan_hash key payload w))"
    unfolding apply_secret_plan_def
  proof (rule justified.after_andthen)
    show "justified_run intended w (snd (secret_now services w))"
      using observed_runs(1) by (simp add: justified.within_def)
  next
    fix now v
    assume "secret_now services w = (Inr now, v)" and run: "justified_run intended w v"
    then have "store_keyed (wrl_store v)" using secret_now_run reachable_keyed [OF assms(1)] by metis
    then have "justified_run intended v (snd (apply_plan_at services p plan_id plan_hash key payload now v))"
      using apply_plan_runs [OF assms(2)] by blast
    with run show "justified_run intended w (snd (secret_denying (\<lambda>_. True)
        (apply_plan_at services p plan_id plan_hash key payload now) v))"
      by (intro denying_runs) (rule justified.compose)
  qed
  with assms(3) show ?thesis by (simp add: justified_run_def)
qed


lemma retire_asked:
  assumes "evolving_secrets services" and "dict_get (st_secrets s) (sec_id x) = Some x"
    and "sec_rotation_state x = RetiringOldVersion" and "sec_retiring_version x = Some old"
    and "sec_retirement_not_before x = Some not_before" and "\<not> time_less now not_before"
  shows "asked s (retire_old_version services x old not_before now)"
  unfolding retire_old_version_def using assms(2-6)
  by (auto intro!: justified.within_intros manager_runs [OF assms(1)] step_runs)

lemma denied_runs:
  "justified_run J u (snd (m v)) \<Longrightarrow> justified_run J u (snd (rescue m (\<lambda>_. stop e) v))"
  by (auto simp: rescue_def stop_def split: prod.splits sum.splits)

lemma finalize_runs:
  assumes "evolving_secrets services" and "store_keyed (wrl_store v)"
  shows "justified_run intended v (snd (finalize_retirement_at services i now v))"
proof -
  have retire: "justified_run intended v (snd (andthen (retire_old_version services x old nb now) f v))"
    if "get_secret_metadata (wrl_store v) j = Inr x" "sec_rotation_state x = RetiringOldVersion"
      "sec_retiring_version x = Some old" "sec_retirement_not_before x = Some nb" "\<not> time_less now nb"
      "\<And>y. justified.within intended (f y)" for j x old nb and f :: "secret_metadata \<Rightarrow> 'b secret_proc"
  proof (rule justified.after_andthen)
    from that(1) assms(2) have "dict_get (st_secrets (wrl_store v)) (sec_id x) = Some x"
      by (auto simp: get_secret_metadata_def coll_get_def store_keyed_def dest: keyed_by_get
          split: option.splits)
    from asked_run [OF justified.stays retire_asked [OF assms(1) this that(2-5)]]
    show "justified_run intended v (snd (retire_old_version services x old nb now v))" .
  qed (blast intro: justified.after_within that(6))
  show ?thesis
    unfolding finalize_retirement_at_def
    by (auto simp: quiet_steps proc_run justified.stays time_less_not_leq split: sum.split option.split
        intro!: retire justified.within_give)
qed



section \<open>Concrete runs\<close>

text \<open>A manager that answers every call and leaves the store alone.\<close>

definition manager_services :: "pytime \<Rightarrow> secret_services" where
  "manager_services now =
     \<lparr>xsv_clock = \<lambda>_. Inr now, xsv_new_id = \<lambda>_ _. Inr ''n9'',
      xsv_ensure = \<lambda>_ _ _ s. (Inr \<lparr>mgs_name = ''n'', mgs_created = False\<rparr>, s),
      xsv_add_version = \<lambda>_ _ _ s. (Inr 1, s),
      xsv_probe = \<lambda>_ _ _ s.
        (Inr \<lparr>obs_name = ''n'', obs_exists = True, obs_exact_bindings = False,
              obs_enabled_versions = [], obs_disabled_versions = [], obs_destroyed_versions = []\<rparr>, s),
      xsv_perform = \<lambda>_ _ s. (Inr (), s)\<rparr>"

lemma manager_evolves: "evolving_secrets (manager_services now)"
  by (simp add: evolving_secrets_def manager_services_def evolving_service_def)

text \<open>A secret whose rotation to version 2 is recorded, with version 1 retiring until \<open>t3\<close>.\<close>

definition rotating_secret :: secret_metadata where
  "rotating_secret = sample_secret
     \<lparr>sec_rotation_state := Rotating, sec_mutation_state := MutRotating,
      sec_mutation_idempotency_key := Some ''k2'', sec_pending_workload_ids := Some [''w1''],
      sec_pending_payload_sha256 := Some sample_digest, sec_updated_at := t1, sec_version := 2\<rparr>"

definition retiring_secret :: secret_metadata where
  "retiring_secret = sample_secret
     \<lparr>sec_active_version := 2, sec_rotation_state := RetiringOldVersion, sec_retiring_version := Some 1,
      sec_retirement_not_before := Some t3, sec_updated_at := t2, sec_version := 3\<rparr>"

definition retiring_store :: store where
  "retiring_store = foldl (\<lambda>s c. snd (run s c)) sample_store
     [SaveSecret rotating_secret 1, SaveSecret retiring_secret 2]"

lemma retiring_store_eq: "retiring_store = sample_store\<lparr>st_secrets := [(''z1'', retiring_secret)]\<rparr>"
  unfolding retiring_store_def sample_store_eq by code_simp

lemma retiring_reachable: "reachable retiring_store"
proof -
  have "list_all call_ok [SaveSecret rotating_secret 1, SaveSecret retiring_secret 2]" by code_simp
  then show ?thesis unfolding retiring_store_def by (rule reachable_runs [OF sample_reachable])
qed

lemma retirement_run:
  "wrl_calls (snd (finalize_secret_retirement (manager_services t9) ''z1''
      \<lparr>wrl_store = retiring_store, wrl_calls = []\<rparr>)) =
    [SecretClock, EnsureSecret ''z1'' [''w1''], DestroyOldVersion ''z1'' ''n/versions/1'' 2 t3 t9]"
  unfolding retiring_store_eq sample_store_eq by code_simp


text \<open>A secret whose attachment to a second workload was interrupted after its plan was consumed.\<close>

definition second_workload :: workload where
  "second_workload = sample_workload\<lparr>wl_id := ''w2'', wl_name := ''app2''\<rparr>"

definition attaching_secret :: secret_metadata where
  "attaching_secret = sample_secret
     \<lparr>sec_mutation_state := MutAttaching, sec_mutation_idempotency_key := Some ''k2'',
      sec_pending_workload_ids := Some [''w1'', ''w2''], sec_updated_at := t1, sec_version := 2\<rparr>"

definition attach_material :: secret_material where
  "attach_material =
     \<lparr>smt_mode = ''attach'', smt_secret_id = ''z1'', smt_owner_id = ''u1'', smt_secret_name = ''token'',
      smt_integration_type = ''api'', smt_workload_ids = [''w1'', ''w2''],
      smt_baseline_metadata_version = 1, smt_baseline_active_version = 1\<rparr>"

definition attach_plan :: deployment_plan where
  "attach_plan = sample_plan
     \<lparr>pln_id := ''p2'', pln_action := secret_plan_action, pln_policy_version := secret_plan_policy_version,
      pln_material_hash := sample_digest, pln_sanitized_summary := summary_from_material attach_material\<rparr>"

definition attach_operation :: operation where
  "attach_operation = sample_operation
     \<lparr>op_id := ''o2'', op_action := secret_plan_action, op_idempotency_key := ''k2'',
      op_request_hash := sample_digest\<rparr>"

definition attach_calls :: "call list" where
  "attach_calls =
     [CreateWorkload second_workload, CreatePlan attach_plan,
      ConsumePlan ''p2'' ''u1'' sample_digest secret_plan_action secret_plan_policy_version t1 attach_operation,
      SaveSecret attaching_secret 1]"

definition attaching_store :: store where
  "attaching_store = foldl (\<lambda>s c. snd (run s c)) sample_store attach_calls"

lemma attaching_reachable: "reachable attaching_store"
proof -
  have "list_all call_ok attach_calls" by code_simp
  then show ?thesis unfolding attaching_store_def by (rule reachable_runs [OF sample_reachable])
qed

definition used_plan :: deployment_plan where
  "used_plan = attach_plan\<lparr>pln_state := PlanConsumed, pln_updated_at := t1, pln_version := 2\<rparr>"

lemma attaching_store_eq:
  "attaching_store = sample_store
     \<lparr>st_workloads := [(''w1'', sample_workload), (''w2'', second_workload)],
      st_plans := [(''p1'', sample_plan), (''p2'', used_plan)],
      st_operations := [(''o1'', sample_operation), (''o2'', attach_operation)],
      st_op_claims := [((''u1'', ''k1''), (''h1'', ''deploy'', Some ''w1'', ''o1'')),
        ((''u1'', ''k2''), (sample_digest, secret_plan_action, Some ''w1'', ''o2''))],
      st_secrets := [(''z1'', attaching_secret)]\<rparr>"
  unfolding attaching_store_def sample_store_eq by code_simp

definition owner :: principal where
  "owner = \<lparr>prn_user_id = ''u1'', prn_email = ''u1@example.com'', prn_role = RoleUser\<rparr>"

definition retried_operation :: operation where
  "retried_operation = attach_operation\<lparr>op_id := ''n9'', op_created_at := t9, op_updated_at := t9\<rparr>"

lemma retry_reviews:
  "get_deployment_plan attaching_store ''p2'' = Inr used_plan"
  "review_workloads owner [''w1'', ''w2''] attaching_store = Inr [sample_workload, second_workload]"
  "current_secret_for_material owner attach_material attaching_store = Inr (Some attaching_secret)"
  "consume_deployment_plan_with_operation attaching_store ''p2'' ''u1'' sample_digest secret_plan_action
     secret_plan_policy_version t9 retried_operation = (Inr (used_plan, attach_operation), attaching_store)"
  unfolding attaching_store_eq sample_store_eq by code_simp+

lemma retry_checks:
  "require_identifier ''p2'' = Inr ''p2''" "require_hash sample_digest = Inr sample_digest"
  "require_idempotency_key ''k2'' = Inr ''k2''" "compare_digest sample_digest sample_digest = Inr True"
  "require_secret_name ''token'' = Inr ''token''"
  "material_from_summary (pln_sanitized_summary used_plan) = Inr attach_material"
  "new_operation ''n9'' ''u1'' ''w1'' secret_plan_action ''k2'' sample_digest OpQueued t9 = Inr retried_operation"
  "is_utc t9" "time_leq (pln_expires_at used_plan) t9" "utcoffset t9 = utcoffset (pln_expires_at used_plan)"
  "utcoffset t9 \<noteq> None"
  by code_simp+

lemma retry_resumed:
  "wrl_calls (snd (resume_or_replay_operation (manager_services t9) attach_operation (Some attaching_secret)
      attach_material [''w1'', ''w2''] None t9 \<lparr>wrl_store = attaching_store, wrl_calls = cs\<rparr>)) =
    (cs @ [ProbeSecret ''z1'' [''w1'', ''w2'']]) @ [EnsureExactBindings ''z1'' [''w1'', ''w2'']]"
  unfolding attaching_store_eq sample_store_eq by code_simp

lemma finish_operation_calls: "wrl_calls (snd (finish_operation p at summary w)) = wrl_calls w"
  using finish_operation_runs [of "\<lambda>_ _. False" p at summary]
  by (force simp: justified.within_def justified_run_def)

lemma finished_calls:
  "wrl_calls (snd (andthen m (\<lambda>x. andthen (finish_operation p at (f x)) (\<lambda>q. give (g q x))) w)) =
     wrl_calls (snd (m w))"
  using finish_operation_calls [of p at "f _" "snd (m w)"]
  by (auto simp: andthen_def give_def split: prod.splits sum.splits) (metis snd_conv)+

lemma retry_calls:
  "set (wrl_calls (snd (apply_secret_plan (manager_services t9) owner ''p2'' sample_digest ''k2'' None
      \<lparr>wrl_store = attaching_store, wrl_calls = []\<rparr>))) \<supseteq> {EnsureExactBindings ''z1'' [''w1'', ''w2'']}"
proof -
  let ?s = "manager_services t9" and ?w = "\<lparr>wrl_store = attaching_store, wrl_calls = []\<rparr>"
  let ?v = "\<lparr>wrl_store = attaching_store, wrl_calls = [SecretClock]\<rparr>"
  let ?u = "\<lparr>wrl_store = attaching_store, wrl_calls = [SecretClock, SecretNewId ''operation'']\<rparr>"
  have now: "secret_now ?s ?w = (Inr t9, ?v)"
    by (simp add: secret_now_def observing_def outside_def andthen_def compute_def manager_services_def
        require_def retry_checks)
  have new_id: "secret_new_id ?s ''operation'' ?v = (Inr ''n9'', ?u)"
    by (simp add: secret_new_id_def observing_def outside_def manager_services_def)
  have read_clock: "andthen (secret_now ?s) g ?w = g t9 ?v"
    for g :: "pytime \<Rightarrow> secret_apply_result secret_proc" using now by (simp add: andthen_def)
  have made_id: "andthen (secret_new_id ?s ''operation'') g ?v = g ''n9'' ?u"
    for g :: "string \<Rightarrow> secret_apply_result secret_proc" using new_id by (simp add: andthen_def)
  have plan: "pln_id used_plan = ''p2''" "pln_state used_plan = PlanConsumed"
    "pln_material_hash used_plan = sample_digest" "pln_workload_id used_plan = Some ''w1''"
    "pln_actor_id used_plan = ''u1''" "pln_action used_plan = secret_plan_action"
    "prn_user_id owner = ''u1''" "smt_workload_ids attach_material = [''w1'', ''w2'']"
    "smt_secret_name attach_material = ''token''" "smt_owner_id attach_material = ''u1''"
    "wl_owner_id sample_workload = ''u1''" "wl_id sample_workload = ''w1''" "wl_id second_workload = ''w2''"
    "op_id attach_operation = ''o2''" "op_state attach_operation = OpQueued"
    by (simp_all add: used_plan_def attach_plan_def sample_plan_def owner_def attach_material_def
        sample_workload_def second_workload_def attach_operation_def sample_operation_def)
  have "consume_plan_with_operation attaching_store ''p2'' ''u1'' (secret_material_value attach_material)
      secret_plan_action secret_plan_policy_version retried_operation t9 = (Inl (PlanErr PlanExpired), attaching_store)"
    using retry_reviews(1) retry_checks plan
    by (simp add: consume_plan_with_operation_def attempt_def validate_plan_request_def
        validate_plan_actor_and_action_def bind_res_def require_def)
  then have consumed: "consume_secret_plan used_plan owner attach_material retried_operation t9 ?u =
      (Inr (used_plan, attach_operation), ?u)"
    using retry_reviews(4) plan by (simp add: consume_secret_plan_def rescue_def storing_def)
  have again: "andthen (consume_secret_plan used_plan owner attach_material retried_operation t9) g ?u =
      g (used_plan, attach_operation) ?u"
    for g :: "_ \<Rightarrow> secret_apply_result secret_proc" using consumed by (simp add: andthen_def)
  have "wrl_calls (snd (apply_plan_at ?s owner ''p2'' sample_digest ''k2'' None t9 ?v)) =
      wrl_calls (snd (resume_or_replay_operation ?s attach_operation (Some attaching_secret) attach_material
        [''w1'', ''w2''] None t9 ?u))"
    using plan
    by (simp add: apply_plan_at_def quiet_steps retry_checks retry_reviews check_def Let_def
        made_id again apply_consumed_def finished_calls)
  then have "EnsureExactBindings ''z1'' [''w1'', ''w2''] \<in>
      set (wrl_calls (snd (apply_plan_at ?s owner ''p2'' sample_digest ''k2'' None t9 ?v)))"
    by (simp add: retry_resumed)
  then show ?thesis
    by (auto simp: apply_secret_plan_def read_clock secret_denying_def rescue_def stop_def
        split: prod.splits sum.splits err.splits)
qed

theorem secret_changes_are_recorded_first_witness:
  "\<exists>s. later attaching_store s \<and> intended s (EnsureExactBindings ''z1'' [''w1'', ''w2''])"
proof -
  let ?w = "\<lparr>wrl_store = attaching_store, wrl_calls = []\<rparr>"
  obtain r w' where run: "apply_secret_plan (manager_services t9) owner ''p2'' sample_digest ''k2'' None ?w =
      (r, w')" by force
  with retry_calls have "EnsureExactBindings ''z1'' [''w1'', ''w2''] \<in> set (wrl_calls w')" by simp
  moreover have "reachable (wrl_store ?w)" by (simp add: attaching_reachable)
  ultimately show ?thesis
    using secret_changes_are_recorded_first [OF _ manager_evolves run]
    unfolding world.select_convs append_Nil by metis
qed

end
