(* ===== verification/Secret_Recovery.thy ===== *)
theory Secret_Recovery
  imports Secret_Guarantees
begin

text \<open>
  What the secret service guarantees of its plans and of interrupted runs: a reviewed plan reads back
  as it was reviewed, and an interrupted creation can be completed.
\<close>

section \<open>Plans and results can be read back\<close>

lemma split_on_fresh: "sep \<notin> set w \<Longrightarrow> split_on sep w = [w]"
  by (induction w) auto

lemma split_on_append:
  "sep \<notin> set w \<Longrightarrow> split_on sep (w @ sep # v) = w # split_on sep v"
  by (induction w) auto

text \<open>Texts without a comma.\<close>

definition plain :: "string \<Rightarrow> bool" where
  "plain w \<longleftrightarrow> nonblank w \<and> CHR '','' \<notin> set w"

lemma split_join: "ws \<noteq> [] \<Longrightarrow> list_all plain ws \<Longrightarrow> split_on (CHR '','') (join_commas ws) = ws"
  by (induction ws rule: join_commas.induct) (auto simp: plain_def split_on_fresh split_on_append)

lemma require_identifier_all: "list_all nonblank ws \<Longrightarrow> map_res require_identifier ws = Inr ws"
  by (induction ws) (auto simp: require_identifier_def require_def bind_res_def)

lemma split_identifiers_join: "list_all plain ws \<Longrightarrow> split_identifiers (join_commas ws) = Inr ws"
proof (cases "ws = []")
  case True
  then show ?thesis by (simp add: split_identifiers_def)
next
  case False
  assume plain: "list_all plain ws"
  then have "filter nonblank ws = ws" "list_all nonblank ws"
    by (auto simp: list_all_iff plain_def filter_id_conv)
  with split_join [OF False plain] show ?thesis
    by (simp add: split_identifiers_def require_identifier_all)
qed

lemma read_back_int: "0 \<le> n \<Longrightarrow> require_non_negative_int (show_int n) = Inr n"
  by (auto simp: require_non_negative_int_def show_int_def read_show_nat list_all_iff require_def
      dest: show_nat_digits)

lemma summary_fields:
  "map fst (summary_from_material m) = summary_keys"
  "summary_field (summary_from_material m) ''mode'' = smt_mode m"
  "summary_field (summary_from_material m) ''secret_id'' = smt_secret_id m"
  "summary_field (summary_from_material m) ''owner_id'' = smt_owner_id m"
  "summary_field (summary_from_material m) ''secret_name'' = smt_secret_name m"
  "summary_field (summary_from_material m) ''integration_type'' = smt_integration_type m"
  "summary_field (summary_from_material m) ''workload_ids'' = join_commas (smt_workload_ids m)"
  "summary_field (summary_from_material m) ''baseline_metadata_version'' =
     show_int (smt_baseline_metadata_version m)"
  "summary_field (summary_from_material m) ''baseline_active_version'' =
     show_int (smt_baseline_active_version m)"
  by (simp_all add: summary_from_material_def summary_keys_def summary_field_def)

definition material_ok :: "secret_material \<Rightarrow> bool" where
  "material_ok m \<longleftrightarrow>
     nonblank (smt_secret_id m) \<and> nonblank (smt_owner_id m) \<and> nonblank (smt_secret_name m) \<and>
     nonblank (smt_integration_type m) \<and> smt_workload_ids m \<noteq> [] \<and> list_all plain (smt_workload_ids m) \<and>
     0 \<le> smt_baseline_metadata_version m \<and> 0 \<le> smt_baseline_active_version m"

lemma material_reads_back: "material_ok m \<Longrightarrow> material_from_summary (summary_from_material m) = Inr m"
  by (simp add: material_from_summary_def summary_fields material_ok_def split_identifiers_join
      read_back_int require_identifier_def require_def bind_res_def Let_def)

lemma new_plan_stored:
  assumes "store_secret_plan services p w m now v = (Inr plan, v')"
  shows "hash_plan_material (secret_material_value m) secret_plan_action secret_plan_policy_version =
      Inr (pln_material_hash plan) \<and>
    get_deployment_plan (wrl_store v') (pln_id plan) = Inr plan \<and>
    pln_sanitized_summary plan = summary_from_material m \<and> pln_state plan = PlanIssued \<and>
    pln_workload_id plan = Some (wl_id w) \<and> pln_actor_id plan = prn_user_id p"
  using assms
  by (auto simp: store_secret_plan_def proc_simps storing_def create_deployment_plan_def coll_create_def
      commit_def get_deployment_plan_def coll_get_def new_secret_plan_def plan_post_init_def res_simps
      split: prod.splits sum.splits if_splits)


lemma denying_Inr: "secret_denying caught m v = (Inr x, v') \<longleftrightarrow> m v = (Inr x, v')"
  by (auto simp: secret_denying_def rescue_def stop_def split: prod.splits sum.splits err.splits if_splits)

lemma reviewed_ids:
  assumes "store_keyed s" and "review_workloads p ids s = Inr workloads"
  shows "map wl_id workloads = sort ids \<and> ids \<noteq> [] \<and> workloads \<noteq> []"
proof -
  have same: "map_res require_identifier xs = Inr ys \<Longrightarrow> ys = xs" for xs ys
    by (induction xs arbitrary: ys) (auto simp: bind_res_Inr require_identifier_def res_simps)
  have "map_res (get_workload s) js = Inr ws \<Longrightarrow> map wl_id ws = js" for js ws
    using assms(1)
    by (induction js arbitrary: ws)
      (auto simp: bind_res_Inr get_workload_def coll_get_def store_keyed_def dest: keyed_by_get
        split: option.splits)
  moreover from assms(2) obtain n where "map_res require_identifier ids = Inr n" "ids \<noteq> []"
    "map_res (get_workload s) (sort n) = Inr workloads"
    by (auto simp: review_workloads_def normalize_workload_ids_def bind_res_Inr res_simps Let_def)
  ultimately show ?thesis using same [of ids n] by (metis list.map_disc_iff set_empty set_sort)
qed

lemma reviewed_stored:
  assumes "review_workloads p ids s = Inr workloads"
  shows "\<forall>w \<in> set workloads. \<exists>i. dict_get (st_workloads s) i = Some w"
proof -
  have "map_res (get_workload s) js = Inr ws \<Longrightarrow> \<forall>w \<in> set ws. \<exists>i. dict_get (st_workloads s) i = Some w"
    for js ws
    by (induction js arbitrary: ws)
      (auto simp: bind_res_Inr get_workload_def coll_get_def split: option.splits)
  with assms show ?thesis by (auto simp: review_workloads_def bind_res_Inr res_simps Let_def)
qed

lemma secret_by_name_ok:
  assumes "secret_by_name i name s = Inr (Some x)" and "store_valid s" and "store_keyed s"
  shows "secret_ok x"
proof -
  define found where "found = filter (\<lambda>x. sec_name x = name \<and> sec_lifecycle_state x \<noteq> SecDestroyed)
      (list_secret_metadata s (Some i))"
  from assms(1) have "found = [x]"
    unfolding secret_by_name_def found_def [symmetric] by (auto split: list.splits)
  then have "x \<in> set found" by simp
  then have "x \<in> set (dict_values (st_secrets s))" by (simp add: found_def list_secret_metadata_def)
  with assms(2,3) show ?thesis
    by (auto simp: store_valid_def store_keyed_def keyed_by_def dict_values_get dict_all_def
        simp del: set_map)
qed

lemma capacity_store:
  "require_secret_capacity services i v = (Inr u, v') \<Longrightarrow> wrl_store v' = wrl_store v"
  by (auto simp: require_secret_capacity_def proc_simps dest: secret_now_run split: if_splits)

lemma written_material:
  assumes "write_material services p owner_id name typ ws current v = (Inr m, v')"
  shows "wrl_store v' = wrl_store v \<and> smt_owner_id m = owner_id \<and> smt_secret_name m = name \<and>
    smt_integration_type m = typ \<and> smt_workload_ids m = ws \<and> require_fresh_baseline current m = Inr () \<and>
    (case current of
       None \<Rightarrow> smt_secret_id m = stable_secret_id owner_id name \<and> smt_baseline_metadata_version m = 0 \<and>
         smt_baseline_active_version m = 0
     | Some x \<Rightarrow> smt_secret_id m = sec_id x \<and> smt_baseline_metadata_version m = sec_version x \<and>
         smt_baseline_active_version m = sec_active_version x)"
  using assms
  by (auto simp: write_material_def proc_simps new_secret_material_def require_existing_secret_scope_def
      require_fresh_baseline_def res_simps split: option.splits if_splits dest: capacity_store)


lemma secret_name_nonblank: "secret_name_ok v \<Longrightarrow> nonblank v"
proof (cases v)
  case (Cons c cs)
  assume "secret_name_ok v"
  with Cons have "97 \<le> code_point c \<and> code_point c \<le> 122"
    by (simp add: secret_name_ok_def is_ascii_lower_def less_eq_char_def)
  then have "\<not> is_space c" by (auto simp: is_space_def)
  with Cons show ?thesis by (simp add: nonblank_Cons)
qed (simp add: secret_name_ok_def)

lemma stable_id_nonblank: "nonblank (stable_secret_id owner_id name)"
  unfolding stable_secret_id_def by (rule nonblank_append) code_simp


section \<open>An interrupted creation can be completed\<close>

text \<open>
  How the secret manager answers for a secret that is being created: it exists with its exact
  bindings from the first call on, has no version or version 1, and adds version 1 first. The store
  is not touched meanwhile.
\<close>

definition creation_answers :: "secret_services \<Rightarrow> secret_id \<Rightarrow> workload_id list \<Rightarrow> bytes \<Rightarrow> bool" where
  "creation_answers services i ws payload \<longleftrightarrow>
     (\<forall>history s.
        (\<exists>managed. xsv_ensure services i ws history s = (Inr managed, s)) \<and>
        (\<exists>observed. xsv_probe services i ws history s = (Inr observed, s) \<and>
           obs_exists observed \<and> obs_exact_bindings observed \<and>
           obs_enabled_versions observed \<in> {[], [1]} \<and> obs_disabled_versions observed = [] \<and>
           obs_destroyed_versions observed = []) \<and>
        xsv_add_version services i payload history s = (Inr 1, s))"

lemma outside_quiet:
  "f (wrl_calls w) (wrl_store w) = (Inr x, wrl_store w) \<Longrightarrow>
     andthen (outside c f) g w = g x (w\<lparr>wrl_calls := wrl_calls w @ [c]\<rparr>)"
  by (simp add: andthen_def outside_def)

lemma save_step_returns:
  assumes "dict_get (st_secrets (wrl_store w)) (sec_id x) = Some x" and "change x = Inr y"
    and "sec_id y = sec_id x" and "sec_version y = sec_version x + 1" and "secret_step x y"
  shows "save_secret_step x change w =
    (Inr y, w\<lparr>wrl_store := (wrl_store w)\<lparr>st_secrets := dict_put (sec_id x) y (st_secrets (wrl_store w))\<rparr>\<rparr>)"
proof -
  have "put_secret (st_secrets (wrl_store w)) y (sec_version x) =
      Inr (dict_put (sec_id x) y (st_secrets (wrl_store w)))"
    unfolding secrets.save_iff using assms by (simp add: secret_attrs_def)
  with assms(2) show ?thesis by (simp add: save_secret_step_def quiet_steps storing_def save_secret_metadata_def)
qed

text \<open>A draft of a creation, ready to be resumed with its payload at a time.\<close>

definition creating :: "secret_metadata \<Rightarrow> workload_id list \<Rightarrow> pytime \<Rightarrow> bool" where
  "creating x ws now \<longleftrightarrow>
     secret_ok x \<and> sec_mutation_state x = MutCreating \<and> sec_pending_workload_ids x = Some ws \<and>
     sec_rotation_state x = RotStable \<and> sec_active_version x = 1 \<and>
     transition_time_ok now (sec_updated_at x)"

definition advanced :: "secret_metadata \<Rightarrow> pytime \<Rightarrow> secret_metadata" where
  "advanced x now = x\<lparr>sec_updated_at := now, sec_version := sec_version x + 1\<rparr>"

definition created :: "secret_metadata \<Rightarrow> workload_id list \<Rightarrow> pytime \<Rightarrow> secret_metadata" where
  "created x ws now =
     x\<lparr>sec_attached_workload_ids := ws, sec_active_version := 1, sec_mutation_state := MutIdle,
       sec_mutation_idempotency_key := None, sec_pending_workload_ids := None,
       sec_pending_payload_sha256 := None, sec_updated_at := now, sec_version := sec_version x + 1\<rparr>"

lemma advance_creating:
  assumes "creating x ws now" and "dict_get (st_secrets (wrl_store w)) (sec_id x) = Some x"
  shows "creating (advanced x now) ws now"
    and "advance_draft now x w = (Inr (advanced x now), w\<lparr>wrl_store := (wrl_store w)
      \<lparr>st_secrets := dict_put (sec_id x) (advanced x now) (st_secrets (wrl_store w))\<rparr>\<rparr>)"
proof -
  show ok: "creating (advanced x now) ws now"
    using assms(1) by (auto simp: creating_def advanced_def secret_ok_def mutation_ok_def retirement_ok_def
        version_ok_Suc transition_time_ok_def transition_time_utc timestamp_order_trans)
  show "advance_draft now x w = (Inr (advanced x now), w\<lparr>wrl_store := (wrl_store w)
      \<lparr>st_secrets := dict_put (sec_id x) (advanced x now) (st_secrets (wrl_store w))\<rparr>\<rparr>)"
    unfolding advance_draft_def
  proof (rule save_step_returns [OF assms(2)])
    show "advance_mutation_progress x now = Inr (advanced x now)"
      using assms(1) ok by (simp add: advance_mutation_progress_def creating_def advanced_def res_simps)
    show "secret_step x (advanced x now)"
      using assms(1) by (auto simp: secret_step_def creating_def advanced_def next_version_def secret_attrs_def
          secret_same_def state_step_def secret_update_defs time_not_back_def transition_time_ok_def
          secret_ok_def retirement_ok_def split: option.splits)
  qed (simp_all add: advanced_def)
qed

lemma finalize_creating:
  assumes "creating x ws now" and "dict_get (st_secrets (wrl_store w)) (sec_id x) = Some x"
  shows "save_secret_step x (\<lambda>x. finalize_creation x 1 now) w =
    (Inr (created x ws now), w\<lparr>wrl_store := (wrl_store w)
      \<lparr>st_secrets := dict_put (sec_id x) (created x ws now) (st_secrets (wrl_store w))\<rparr>\<rparr>)"
proof (rule save_step_returns [OF assms(2)])
  show "finalize_creation x 1 now = Inr (created x ws now)"
    using assms(1) by (auto simp: finalize_creation_def creating_def created_def res_simps
        secret_ok_def mutation_ok_def retirement_ok_def version_ok_Suc transition_time_ok_def
        transition_time_utc timestamp_order_trans)
  show "secret_step x (created x ws now)"
    using assms(1) by (auto simp: secret_step_def creating_def created_def next_version_def secret_attrs_def
        secret_same_def state_step_def secret_update_defs time_not_back_def transition_time_ok_def
        secret_ok_def retirement_ok_def split: option.splits)
qed (simp_all add: created_def)

definition settled :: "secret_metadata \<Rightarrow> workload_id list \<Rightarrow> secret_metadata \<Rightarrow> store \<Rightarrow> bool" where
  "settled x ws y s \<longleftrightarrow>
     dict_get (st_secrets s) (sec_id x) = Some y \<and> sec_id y = sec_id x \<and>
     sec_mutation_state y = MutIdle \<and> sec_attached_workload_ids y = ws \<and> sec_active_version y = 1 \<and>
     sec_rotation_state y = RotStable \<and> sec_retiring_version y = None"

lemma finalized_settled:
  assumes "creating x ws now" and "dict_get (st_secrets (wrl_store w)) (sec_id x) = Some x"
  shows "\<exists>y w'. save_secret_step x (\<lambda>x. finalize_creation x 1 now) w = (Inr y, w') \<and>
    settled x ws y (wrl_store w') \<and> st_operations (wrl_store w') = st_operations (wrl_store w)"
  using finalize_creating [OF assms] assms(1)
  by (auto simp: settled_def created_def creating_def secret_ok_def retirement_ok_def split: option.splits)

lemma finish_creation_settles:
  assumes "creation_answers services (sec_id x) ws payload" and "creating x ws now"
    and "dict_get (st_secrets (wrl_store w)) (sec_id x) = Some x"
    and "obs_exists observed" "obs_exact_bindings observed" "obs_enabled_versions observed \<in> {[], [1]}"
      "obs_disabled_versions observed = []" "obs_destroyed_versions observed = []"
  shows "\<exists>y w'. finish_creation services x payload observed now w = (Inr y, w') \<and>
    settled x ws y (wrl_store w') \<and> st_operations (wrl_store w') = st_operations (wrl_store w)"
proof (cases "obs_enabled_versions observed = []")
  case True
  let ?v = "w\<lparr>wrl_calls := wrl_calls w @ [AddVersion (sec_id x) payload]\<rparr>"
  have add: "andthen (add_version services (sec_id x) payload) g w = g 1 ?v" for g :: "int \<Rightarrow> 'b secret_proc"
    unfolding add_version_def
    by (rule outside_quiet) (use assms(1) in \<open>simp add: creation_answers_def\<close>)
  have stored: "dict_get (st_secrets (wrl_store ?v)) (sec_id x) = Some x" using assms(3) by simp
  let ?u = "?v\<lparr>wrl_store := (wrl_store ?v)
      \<lparr>st_secrets := dict_put (sec_id x) (advanced x now) (st_secrets (wrl_store ?v))\<rparr>\<rparr>"
  have "finish_creation services x payload observed now w =
      save_secret_step (advanced x now) (\<lambda>x. finalize_creation x 1 now) ?u"
    using assms(4,5) True advance_creating(2) [OF assms(2) stored]
    by (simp add: finish_creation_def check_def add andthen_step)
  moreover have "settled (advanced x now) ws y s = settled x ws y s" for y s
    by (simp add: settled_def advanced_def)
  ultimately show ?thesis
    using finalized_settled [OF advance_creating(1) [OF assms(2) assms(3)], of ?u]
    by (simp add: advanced_def)
next
  case False
  with assms(4-8) finalized_settled [OF assms(2,3)] show ?thesis
    by (simp add: finish_creation_def check_def)
qed

lemma resume_creation_settles:
  assumes "creation_answers services (sec_id x) ws payload" and "creating x ws now"
    and "dict_get (st_secrets (wrl_store w)) (sec_id x) = Some x"
    and "resumable x (Some payload) = Inr (payload, ws)"
  shows "\<exists>y w'. resume_create_secret services x (Some payload) now w = (Inr y, w') \<and>
    settled x ws y (wrl_store w') \<and> st_operations (wrl_store w') = st_operations (wrl_store w)"
proof -
  have answers: "creation_answers services (sec_id y) ws payload" if "sec_id y = sec_id x" for y
    using assms(1) that by simp
  let ?v = "w\<lparr>wrl_calls := wrl_calls w @ [EnsureSecret (sec_id x) ws]\<rparr>"
  obtain managed where "xsv_ensure services (sec_id x) ws (wrl_calls w) (wrl_store w) =
      (Inr managed, wrl_store w)"
    using assms(1) unfolding creation_answers_def by blast
  note ensured = outside_quiet [where f = "xsv_ensure services (sec_id x) ws" and w = w, OF this]
  have probed: "\<exists>y w'. andthen (probe_secret services (sec_id z) ws)
        (\<lambda>observed. finish_creation services z payload observed now) u = (Inr y, w') \<and>
      settled z ws y (wrl_store w') \<and> st_operations (wrl_store w') = st_operations (wrl_store u)"
    if z: "creating z ws now" "dict_get (st_secrets (wrl_store u)) (sec_id z) = Some z" "sec_id z = sec_id x"
    for z u
  proof -
    obtain observed where observed: "xsv_probe services (sec_id z) ws (wrl_calls u) (wrl_store u) =
        (Inr observed, wrl_store u)" "obs_exists observed" "obs_exact_bindings observed"
      "obs_enabled_versions observed \<in> {[], [1]}" "obs_disabled_versions observed = []"
      "obs_destroyed_versions observed = []"
      using answers [OF z(3)] unfolding creation_answers_def by blast
    let ?u = "u\<lparr>wrl_calls := wrl_calls u @ [ProbeSecret (sec_id z) ws]\<rparr>"
    have "dict_get (st_secrets (wrl_store ?u)) (sec_id z) = Some z" using z(2) by simp
    from finish_creation_settles [OF answers [OF z(3)] z(1) this observed(2-6)]
    show ?thesis by (simp add: probe_secret_def outside_quiet [where f = "xsv_probe services (sec_id z) ws", OF observed(1)])
  qed
  have stored: "dict_get (st_secrets (wrl_store ?v)) (sec_id x) = Some x" using assms(3) by simp
  have run: "resume_create_secret services x (Some payload) now w =
      andthen (if mgs_created managed then advance_draft now x else give x)
        (\<lambda>z. andthen (probe_secret services (sec_id z) ws)
          (\<lambda>observed. finish_creation services z payload observed now)) ?v"
    unfolding resume_create_secret_def quiet_steps assms(4)
    by (simp add: ensure_secret_def ensured)
  show ?thesis
  proof (cases "mgs_created managed")
    case True
    let ?u = "?v\<lparr>wrl_store := (wrl_store ?v)
        \<lparr>st_secrets := dict_put (sec_id x) (advanced x now) (st_secrets (wrl_store ?v))\<rparr>\<rparr>"
    have step: "andthen (advance_draft now x) g ?v = g (advanced x now) ?u"
      for g :: "secret_metadata \<Rightarrow> secret_metadata secret_proc"
      using advance_creating(2) [OF assms(2) stored] by (simp add: andthen_def)
    have "settled (advanced x now) ws y s = settled x ws y s" for y s
      by (simp add: settled_def advanced_def)
    with probed [OF advance_creating(1) [OF assms(2) stored], of ?u] step True
    show ?thesis unfolding run by (simp add: advanced_def)
  next
    case False
    with probed [OF assms(2) stored] show ?thesis unfolding run
      by (simp add: andthen_def give_def)
  qed
qed

text \<open>An operation on its way to success.\<close>

definition underway :: "operation \<Rightarrow> pytime \<Rightarrow> store \<Rightarrow> bool" where
  "underway p now s \<longleftrightarrow>
     dict_get (st_operations s) (op_id p) = Some p \<and> operation_ok p \<and> op_result_summary p = [] \<and>
     op_state p \<in> {OpQueued, OpBuilding, OpDeploying, OpVerifying, OpSucceeded} \<and>
     transition_time_ok now (op_updated_at p)"

lemma step_underway:
  assumes "underway p now (wrl_store w)" and "target \<in> operation_transitions source"
    and "target \<in> {OpBuilding, OpDeploying, OpVerifying, OpSucceeded}"
  shows "\<exists>q w'. step_operation source target now p w = (Inr q, w') \<and> underway q now (wrl_store w') \<and>
    op_id q = op_id p \<and> op_state q = (if op_state p = source then target else op_state p) \<and>
    st_secrets (wrl_store w') = st_secrets (wrl_store w)"
proof (cases "op_state p = source")
  case True
  define q where "q = p\<lparr>op_state := target, op_updated_at := now, op_sanitized_failure := None,
      op_version := op_version p + 1\<rparr>"
  have moved: "operation_transition p target now None = Inr q"
    using assms True by (simp add: operation_transition_Inr underway_def q_def opt_text_ok_def)
  then have "operation_ok q" by (rule new_operations_ok)
  moreover have "put_operation (st_operations (wrl_store w)) q (op_version p) =
      Inr (dict_put (op_id p) q (st_operations (wrl_store w)))"
    unfolding operations.save_iff using assms True
    by (auto simp: underway_def q_def operation_step_def next_version_def operation_attrs_def
        operation_same_def state_step_def time_not_back_def transition_time_ok_def)
  moreover have "transition_time_ok now (op_updated_at q)"
    using assms(1) by (simp add: underway_def q_def transition_time_ok_def)
  ultimately show ?thesis
    using moved assms True
    by (auto simp: step_operation_def quiet_steps storing_def save_operation_def underway_def q_def)
qed (use assms in \<open>simp add: step_operation_def give_def\<close>)

lemma finish_settles:
  assumes "underway p now (wrl_store w)" and "summary_ok summary" and "summary \<noteq> []"
  shows "\<exists>q w'. finish_operation p now summary w = (Inr q, w') \<and> op_id q = op_id p \<and>
    dict_get (st_operations (wrl_store w')) (op_id p) = Some q \<and> op_state q = OpSucceeded \<and>
    op_result_summary q = summary \<and> st_secrets (wrl_store w') = st_secrets (wrl_store w)"
proof -
  from step_underway [OF assms(1), of OpBuilding OpQueued] obtain q1 w1 where
    1: "step_operation OpQueued OpBuilding now p w = (Inr q1, w1)" "underway q1 now (wrl_store w1)"
      "op_id q1 = op_id p" "op_state q1 = (if op_state p = OpQueued then OpBuilding else op_state p)"
      "st_secrets (wrl_store w1) = st_secrets (wrl_store w)" by auto
  from step_underway [OF 1(2), of OpDeploying OpBuilding] obtain q2 w2 where
    2: "step_operation OpBuilding OpDeploying now q1 w1 = (Inr q2, w2)" "underway q2 now (wrl_store w2)"
      "op_id q2 = op_id q1" "op_state q2 = (if op_state q1 = OpBuilding then OpDeploying else op_state q1)"
      "st_secrets (wrl_store w2) = st_secrets (wrl_store w1)" by auto
  from step_underway [OF 2(2), of OpVerifying OpDeploying] obtain q3 w3 where
    3: "step_operation OpDeploying OpVerifying now q2 w2 = (Inr q3, w3)" "underway q3 now (wrl_store w3)"
      "op_id q3 = op_id q2" "op_state q3 = (if op_state q2 = OpDeploying then OpVerifying else op_state q2)"
      "st_secrets (wrl_store w3) = st_secrets (wrl_store w2)" by auto
  from step_underway [OF 3(2), of OpSucceeded OpVerifying] obtain q4 w4 where
    4: "step_operation OpVerifying OpSucceeded now q3 w3 = (Inr q4, w4)" "underway q4 now (wrl_store w4)"
      "op_id q4 = op_id q3" "op_state q4 = (if op_state q3 = OpVerifying then OpSucceeded else op_state q3)"
      "st_secrets (wrl_store w4) = st_secrets (wrl_store w3)" by auto
  have succeeded: "op_state q4 = OpSucceeded"
    using 1(4) 2(4) 3(4) 4(4) assms(1) by (auto simp: underway_def split: if_splits)
  define q where "q = q4\<lparr>op_result_summary := summary, op_updated_at := now, op_version := op_version q4 + 1\<rparr>"
  have recorded: "record_result q4 summary now = Inr q"
    using 4(2) succeeded assms(2,3) by (simp add: record_result_Inr underway_def q_def)
  have saved: "put_operation (st_operations (wrl_store w4)) q (op_version q4) =
      Inr (dict_put (op_id q4) q (st_operations (wrl_store w4)))"
    unfolding operations.save_iff using 4(2)
    by (auto simp: underway_def q_def operation_step_def next_version_def operation_attrs_def
        operation_same_def state_step_def time_not_back_def transition_time_ok_def)
  have "get_operation (wrl_store w) (op_id p) = Inr p"
    using assms(1) by (simp add: get_operation_def coll_get_def underway_def)
  then show ?thesis
    using 1 2 3 4 succeeded recorded saved assms(1,3)
    by (simp add: finish_operation_def quiet_steps andthen_step check_def underway_def)
      (auto simp: quiet_steps storing_def save_operation_def q_def)
qed

lemma join_nonblank: "ws \<noteq> [] \<Longrightarrow> list_all nonblank ws \<Longrightarrow> nonblank (join_commas ws)"
  by (induction ws rule: join_commas.induct) (auto intro: nonblank_append)

lemma settled_summary_ok:
  assumes "settled x ws y s" and "list_all text_ok ws" and "ws \<noteq> []" and "text_ok (sec_id x)"
  shows "summary_ok (result_summary_for_secret y ''create'')"
proof -
  have "nonblank ''secret_id'' \<and> nonblank ''mode'' \<and> nonblank ''create'' \<and> nonblank ''active_version'' \<and>
      nonblank (show_int 1) \<and> nonblank ''rotation_state'' \<and> nonblank ''stable'' \<and>
      nonblank ''retiring_version'' \<and> nonblank none_sentinel \<and> nonblank ''attached_workload_ids''"
    by code_simp
  moreover have "nonblank (join_commas ws)" using assms(2,3) by (intro join_nonblank) (simp_all add: text_ok_def list_all_iff)
  ultimately show ?thesis
    using assms(1,4) by (simp add: summary_ok_def result_summary_for_secret_def settled_def text_ok_def)
qed



section \<open>Concrete runs\<close>

text \<open>A creation that was interrupted before its first version was added.\<close>

definition creating_secret :: secret_metadata where
  "creating_secret = sample_secret
     \<lparr>sec_attached_workload_ids := [], sec_mutation_state := MutCreating,
      sec_mutation_idempotency_key := Some ''k1'', sec_pending_workload_ids := Some [''w1''],
      sec_pending_payload_sha256 := Some (sha256_hex ''pw'')\<rparr>"

definition creating_services :: secret_services where
  "creating_services = (manager_services t9)
     \<lparr>xsv_probe := \<lambda>_ _ _ s.
        (Inr \<lparr>obs_name = ''n'', obs_exists = True, obs_exact_bindings = True,
              obs_enabled_versions = [], obs_disabled_versions = [], obs_destroyed_versions = []\<rparr>, s)\<rparr>"


text \<open>A review of a new value for a stored secret.\<close>

definition rotate_material :: secret_material where
  "rotate_material =
     \<lparr>smt_mode = ''rotate'', smt_secret_id = ''z1'', smt_owner_id = ''u1'', smt_secret_name = ''token'',
      smt_integration_type = ''api'', smt_workload_ids = [''w1''],
      smt_baseline_metadata_version = 1, smt_baseline_active_version = 1\<rparr>"

definition rotate_plan :: "string \<Rightarrow> deployment_plan" where
  "rotate_plan h =
     \<lparr>pln_id = ''n9'', pln_actor_id = ''u1'', pln_workload_id = Some ''w1'',
      pln_action = secret_plan_action, pln_material_hash = h,
      pln_policy_version = secret_plan_policy_version, pln_state = PlanIssued,
      pln_expires_at = utc (9000000 + 900 * 1000000), pln_created_at = t9, pln_updated_at = t9,
      pln_sanitized_summary = summary_from_material rotate_material, pln_version = 1\<rparr>"

lemma rotate_reviews:
  "review_workloads owner [''w1''] sample_store = Inr [sample_workload]"
  "secret_by_name ''u1'' ''token'' sample_store = Inr (Some sample_secret)"
  "require_existing_secret_scope owner sample_secret ''api'' = Inr ()"
  "set (sec_attached_workload_ids sample_secret) \<subseteq> set [''w1'']"
  "new_secret_material ''rotate'' (sec_id sample_secret) ''u1'' ''token'' ''api'' [''w1'']
     (sec_version sample_secret) (sec_active_version sample_secret) = Inr rotate_material"
  "add_delta t9 (seconds 900) = Inr (utc (9000000 + 900 * 1000000))"
  unfolding sample_store_eq by code_simp+

lemma rotate_plan_ok:
  assumes "text_ok h"
  shows "plan_ok (rotate_plan h)"
proof -
  have "plan_ok (rotate_plan ''h'')" by code_simp
  with assms show ?thesis by (simp add: plan_ok_def rotate_plan_def)
qed

lemma rotate_hash:
  "\<exists>h. hash_plan_material (secret_material_value rotate_material) secret_plan_action
     secret_plan_policy_version = Inr h \<and> text_ok h"
proof -
  have "\<not> isl (canonical_plan_payload (secret_material_value rotate_material) secret_plan_action
      secret_plan_policy_version)" by code_simp
  then show ?thesis
    by (cases "canonical_plan_payload (secret_material_value rotate_material) secret_plan_action
        secret_plan_policy_version") (simp_all add: hash_plan_material_def text_ok_def sha256_hex_nonblank bind_res_def)
qed

lemma rotate_planned:
  "\<exists>h w'. plan_secret_write (manager_services t9) owner ''token'' ''api'' [''w1'']
     \<lparr>wrl_store = sample_store, wrl_calls = []\<rparr> = (Inr (secret_plan_result_of (rotate_plan h) rotate_material), w')"
proof -
  obtain h where h: "hash_plan_material (secret_material_value rotate_material) secret_plan_action
      secret_plan_policy_version = Inr h" "text_ok h" using rotate_hash by blast
  let ?s = "manager_services t9"
  have clock: "andthen (secret_now ?s) g w = g t9 (w\<lparr>wrl_calls := wrl_calls w @ [SecretClock]\<rparr>)"
    for g :: "pytime \<Rightarrow> secret_plan_result secret_proc" and w
    by (simp add: secret_now_def observing_def outside_def andthen_def compute_def manager_services_def
        require_def retry_checks)
  have new_id: "andthen (secret_new_id ?s ''plan'') g w =
      g ''n9'' (w\<lparr>wrl_calls := wrl_calls w @ [SecretNewId ''plan'']\<rparr>)"
    for g :: "string \<Rightarrow> deployment_plan secret_proc" and w
    by (simp add: secret_new_id_def observing_def outside_def manager_services_def andthen_def)
  have stored: "\<exists>s'. create_deployment_plan sample_store (rotate_plan h) = (Inr (rotate_plan h), s')"
    unfolding sample_store_eq
    by (simp add: create_deployment_plan_def coll_create_def commit_def rotate_plan_def sample_plan_def)
  have "new_secret_plan owner sample_workload rotate_material ''n9'' h (utc (9000000 + 900 * 1000000)) t9 =
      Inr (rotate_plan h)"
    using rotate_plan_ok [OF h(2)]
    by (simp add: new_secret_plan_def plan_post_init_def require_def rotate_plan_def owner_def sample_workload_def)
  then have plan: "\<exists>w'. store_secret_plan ?s owner sample_workload rotate_material t9
      \<lparr>wrl_store = sample_store, wrl_calls = cs\<rparr> = (Inr (rotate_plan h), w')" for cs
    using h(1) rotate_reviews(6) stored
    by (auto simp: store_secret_plan_def new_id quiet_steps storing_def)
  have material: "write_material ?s owner ''u1'' ''token'' ''api'' [''w1''] (Some sample_secret) w =
      (Inr rotate_material, w)" for w
    using rotate_reviews(3-5) by (simp add: write_material_def quiet_steps check_def compute_def)
  have fields: "wl_owner_id sample_workload = ''u1''" "wl_id sample_workload = ''w1''"
    by (simp_all add: sample_workload_def)
  obtain w' where "store_secret_plan ?s owner sample_workload rotate_material t9
      \<lparr>wrl_store = sample_store, wrl_calls = [SecretClock]\<rparr> = (Inr (rotate_plan h), w')" using plan by blast
  then have "plan_secret_write ?s owner ''token'' ''api'' [''w1''] \<lparr>wrl_store = sample_store, wrl_calls = []\<rparr> =
      (Inr (secret_plan_result_of (rotate_plan h) rotate_material), w')"
    by (simp add: plan_secret_write_def clock secret_denying_def rescue_def quiet_steps retry_checks
        rotate_reviews fields Let_def andthen_step [OF material] andthen_step give_def)
  then show ?thesis by blast
qed


end
