(* ===== verification/PyJsonRead.thy ===== *)
theory PyJsonRead
  imports PyJson
begin

text \<open>
  Text that comes from outside: \<^verbatim>\<open>bytes.decode("utf-8")\<close> in its strict form and \<^verbatim>\<open>json.loads\<close>. Such
  text may use every code point, so it is a list of numbers here. The reader recurses on fuel, and
  the last lemma shows that the length of the text is enough of it. Python's limit on the nesting of
  values is not modelled.
\<close>

type_synonym utext = "nat list"

abbreviation code_points :: "string \<Rightarrow> utext" where
  "code_points \<equiv> map of_char"

text \<open>The text as a \<^typ>\<open>string\<close>, for those that later checks restrict to ASCII anyway.\<close>

definition narrow :: "utext \<Rightarrow> string option" where
  "narrow u = (if list_all (\<lambda>n. n < 256) u then Some (map char_of u) else None)"


lemma narrow_ascii: "narrow (code_points s) = Some s"
proof -
  have "of_char c < (256 :: nat)" for c :: char by simp
  then show ?thesis by (simp add: narrow_def list_all_iff comp_def)
qed


section \<open>UTF-8\<close>

definition continues :: "char \<Rightarrow> bool" where
  "continues b \<longleftrightarrow> code_point b div 64 = (2 :: nat)"

definition low_bits :: "char \<Rightarrow> nat" where
  "low_bits b = code_point b mod 64"

text \<open>No overlong form, no surrogate, nothing above U+10FFFF.\<close>

fun decode_utf8 :: "bytes \<Rightarrow> utext option" where
  "decode_utf8 [] = Some []"
| "decode_utf8 (b # bs) =
     (let n = code_point b in
      if n < 128 then map_option (Cons n) (decode_utf8 bs)
      else if 194 \<le> n \<and> n \<le> 223 then
        (case bs of
           c # cs \<Rightarrow>
             if continues c then map_option (Cons (64 * (n - 192) + low_bits c)) (decode_utf8 cs)
             else None
         | _ \<Rightarrow> None)
      else if 224 \<le> n \<and> n \<le> 239 then
        (case bs of
           c # d # cs \<Rightarrow>
             let m = 4096 * (n - 224) + 64 * low_bits c + low_bits d
             in if continues c \<and> continues d \<and> 2048 \<le> m \<and> \<not> (55296 \<le> m \<and> m \<le> 57343)
                then map_option (Cons m) (decode_utf8 cs) else None
         | _ \<Rightarrow> None)
      else if 240 \<le> n \<and> n \<le> 244 then
        (case bs of
           c # d # e # cs \<Rightarrow>
             let m = 262144 * (n - 240) + 4096 * low_bits c + 64 * low_bits d + low_bits e
             in if continues c \<and> continues d \<and> continues e \<and> 65536 \<le> m \<and> m \<le> 1114111
                then map_option (Cons m) (decode_utf8 cs) else None
         | _ \<Rightarrow> None)
      else None)"


lemma decode_ascii: "list_all (\<lambda>c. code_point c < 128) b \<Longrightarrow> decode_utf8 b = Some (code_points b)"
  by (induction b) (auto simp: Let_def)


section \<open>Text operations on all code points\<close>

definition unicode_space :: "nat \<Rightarrow> bool" where
  "unicode_space n \<longleftrightarrow>
     9 \<le> n \<and> n \<le> 13 \<or> 28 \<le> n \<and> n \<le> 32 \<or> 8192 \<le> n \<and> n \<le> 8202 \<or>
     n \<in> {133, 160, 5760, 8232, 8233, 8239, 8287, 12288}"

definition ustrip :: "utext \<Rightarrow> utext" where
  "ustrip u = rev (dropWhile unicode_space (rev (dropWhile unicode_space u)))"

text \<open>\<^verbatim>\<open>str.splitlines()\<close>, where a carriage return and a line feed are one boundary.\<close>

definition line_boundary :: "nat \<Rightarrow> bool" where
  "line_boundary n \<longleftrightarrow> n \<in> {10, 11, 12, 13, 28, 29, 30, 133, 8232, 8233}"

fun splitlines :: "utext \<Rightarrow> utext list" where
  "splitlines [] = []"
| "splitlines (c # r) =
     (if c = 13 \<and> r \<noteq> [] \<and> hd r = 10 then [] # splitlines (tl r)
      else if line_boundary c then [] # splitlines r
      else case splitlines r of
        [] \<Rightarrow> [[c]]
      | l # ls \<Rightarrow> (c # l) # ls)"


section \<open>Strings and numbers\<close>

datatype jvalue =
    VNull
  | VBool bool
  | VInt int
  | VFloat utext
  | VStr utext
  | VArr "jvalue list"
  | VObj "(utext \<times> jvalue) list"

definition is_udigit :: "nat \<Rightarrow> bool" where
  "is_udigit n \<longleftrightarrow> 48 \<le> n \<and> n \<le> 57"

definition hex_value :: "nat \<Rightarrow> nat option" where
  "hex_value n =
     (if is_udigit n then Some (n - 48)
      else if 97 \<le> n \<and> n \<le> 102 then Some (n - 87)
      else if 65 \<le> n \<and> n \<le> 70 then Some (n - 55)
      else None)"

text \<open>Four hexadecimal digits at the beginning of a text.\<close>

definition read_hex4 :: "utext \<Rightarrow> nat option" where
  "read_hex4 u =
     (case map hex_value (take 4 u) of
        [Some a, Some b, Some c, Some d] \<Rightarrow> Some (4096 * a + 256 * b + 16 * c + d)
      | _ \<Rightarrow> None)"

definition simple_escape :: "nat \<Rightarrow> nat option" where
  "simple_escape n =
     map_of [(34, 34), (92, 92), (47, 47), (98, 8), (102, 12), (110, 10), (114, 13), (116, 9)] n"

text \<open>What \<^verbatim>\<open>\u\<close> stands for and how much it takes: two escapes when they are a surrogate pair.\<close>

definition read_escape :: "utext \<Rightarrow> (nat \<times> nat) res" where
  "read_escape u =
     (case read_hex4 u of
        None \<Rightarrow> Inl JsonDecodeError
      | Some n \<Rightarrow>
          if 55296 \<le> n \<and> n \<le> 56319 \<and> take 2 (drop 4 u) = [92, 117] then
            (case read_hex4 (drop 6 u) of
               None \<Rightarrow> Inl JsonDecodeError
             | Some m \<Rightarrow>
                 Inr (if 56320 \<le> m \<and> m \<le> 57343
                   then (65536 + 1024 * (n - 55296) + (m - 56320), 10) else (n, 4)))
          else Inr (n, 4))"

text \<open>The rest of a string after its opening quote, and the text after its closing one.\<close>

fun read_string :: "utext \<Rightarrow> (utext \<times> utext) res" where
  "read_string [] = Inl JsonDecodeError"
| "read_string (c # r) =
     (if c = 34 then Inr ([], r)
      else if c < 32 then Inl JsonDecodeError
      else if c \<noteq> 92 then bind_res (read_string r) (\<lambda>(u, q). Inr (c # u, q))
      else if r = [] then Inl JsonDecodeError
      else if hd r = 117 then
        bind_res (read_escape (tl r)) (\<lambda>(n, k).
        bind_res (read_string (drop k (tl r))) (\<lambda>(u, q). Inr (n # u, q)))
      else
        case simple_escape (hd r) of
          None \<Rightarrow> Inl JsonDecodeError
        | Some n \<Rightarrow> bind_res (read_string (tl r)) (\<lambda>(u, q). Inr (n # u, q)))"

definition read_decimal :: "utext \<Rightarrow> nat" where
  "read_decimal u = foldl (\<lambda>n c. 10 * n + (c - 48)) 0 u"

definition max_int_digits :: nat where
  "max_int_digits = 4300"

text \<open>
  \<^verbatim>\<open>(-?(?:0|[1-9][0-9]*))(\.[0-9]+)?([eE][-+]?[0-9]+)?\<close>: the integer part, then how much of the rest
  belongs to a fraction and to an exponent.
\<close>

definition fraction_length :: "utext \<Rightarrow> nat" where
  "fraction_length u =
     (if u \<noteq> [] \<and> hd u = 46 \<and> tl u \<noteq> [] \<and> is_udigit (hd (tl u))
      then 1 + length (takeWhile is_udigit (tl u)) else 0)"

definition exponent_length :: "utext \<Rightarrow> nat" where
  "exponent_length u =
     (let sign = (if tl u \<noteq> [] \<and> hd (tl u) \<in> {43, 45} then 1 else 0);
          digits = takeWhile is_udigit (drop (1 + sign) u)
      in if u \<noteq> [] \<and> hd u \<in> {69, 101} \<and> digits \<noteq> [] then 1 + sign + length digits else 0)"

definition sign_length :: "utext \<Rightarrow> nat" where
  "sign_length u = (if u \<noteq> [] \<and> hd u = 45 then 1 else 0)"

definition int_digits :: "utext \<Rightarrow> utext" where
  "int_digits u = (if u \<noteq> [] \<and> hd u = 48 then [48] else takeWhile is_udigit u)"

definition read_number :: "utext \<Rightarrow> (jvalue \<times> utext) res" where
  "read_number u =
     (let sign = sign_length u;
          digits = int_digits (drop sign u);
          rest = drop (sign + length digits) u;
          fraction = fraction_length rest;
          more = fraction + exponent_length (drop fraction rest)
      in require (digits \<noteq> []) JsonDecodeError
           (if more = 0 then
              require (length digits \<le> max_int_digits) ValueErr
                (Inr (VInt ((if sign = 1 then -1 else 1) * int (read_decimal digits)), rest))
            else Inr (VFloat (take (sign + length digits + more) u), drop more rest)))"


section \<open>Values\<close>

definition skip_blank :: "utext \<Rightarrow> utext" where
  "skip_blank = dropWhile (\<lambda>c. c \<in> {32, 9, 10, 13})"

definition expect :: "nat \<Rightarrow> utext \<Rightarrow> utext res" where
  "expect c u = require (u \<noteq> [] \<and> hd u = c) JsonDecodeError (Inr (tl u))"

text \<open>The words a value can be, \<^verbatim>\<open>NaN\<close> and the infinities among them.\<close>

definition json_words :: "(utext \<times> jvalue) list" where
  "json_words =
     [(code_points ''null'', VNull), (code_points ''true'', VBool True),
      (code_points ''false'', VBool False), (code_points ''NaN'', VFloat (code_points ''NaN'')),
      (code_points ''Infinity'', VFloat (code_points ''Infinity'')),
      (code_points ''-Infinity'', VFloat (code_points ''-Infinity''))]"

definition read_scalar :: "utext \<Rightarrow> (jvalue \<times> utext) res" where
  "read_scalar u =
     (case filter (\<lambda>(w, _). take (length w) u = w) json_words of
        (w, v) # _ \<Rightarrow> Inr (v, drop (length w) u)
      | [] \<Rightarrow> read_number u)"

fun read_value :: "nat \<Rightarrow> utext \<Rightarrow> (jvalue \<times> utext) res"
  and read_members :: "nat \<Rightarrow> utext \<Rightarrow> ((utext \<times> jvalue) list \<times> utext) res"
  and read_elements :: "nat \<Rightarrow> utext \<Rightarrow> (jvalue list \<times> utext) res" where
  "read_value 0 u = Inl JsonDecodeError"
| "read_value (Suc n) u =
     (if u = [] then Inl JsonDecodeError
      else if hd u = 34 then bind_res (read_string (tl u)) (\<lambda>(t, r). Inr (VStr t, r))
      else if hd u = 123 then
        (let r = skip_blank (tl u)
         in if r \<noteq> [] \<and> hd r = 125 then Inr (VObj [], tl r)
            else bind_res (read_members n r) (\<lambda>(ps, q). Inr (VObj ps, q)))
      else if hd u = 91 then
        (let r = skip_blank (tl u)
         in if r \<noteq> [] \<and> hd r = 93 then Inr (VArr [], tl r)
            else bind_res (read_elements n r) (\<lambda>(vs, q). Inr (VArr vs, q)))
      else read_scalar u)"
| "read_members 0 u = Inl JsonDecodeError"
| "read_members (Suc n) u =
     bind_res (expect 34 u) (\<lambda>u1.
     bind_res (read_string u1) (\<lambda>(key, u2).
     bind_res (expect 58 (skip_blank u2)) (\<lambda>u3.
     bind_res (read_value n (skip_blank u3)) (\<lambda>(v, u4).
     let r = skip_blank u4
     in if r \<noteq> [] \<and> hd r = 125 then Inr ([(key, v)], tl r)
        else
          bind_res (expect 44 r) (\<lambda>u5.
          bind_res (read_members n (skip_blank u5)) (\<lambda>(ps, q). Inr ((key, v) # ps, q)))))))"
| "read_elements 0 u = Inl JsonDecodeError"
| "read_elements (Suc n) u =
     bind_res (read_value n u) (\<lambda>(v, u1).
     let r = skip_blank u1
     in if r \<noteq> [] \<and> hd r = 93 then Inr ([v], tl r)
        else
          bind_res (expect 44 r) (\<lambda>u2.
          bind_res (read_elements n (skip_blank u2)) (\<lambda>(vs, q). Inr (v # vs, q))))"

definition json_loads :: "utext \<Rightarrow> jvalue res" where
  "json_loads u =
     require (u = [] \<or> hd u \<noteq> 65279) JsonDecodeError
    (bind_res (read_value (Suc (2 * length u)) (skip_blank u)) (\<lambda>(v, r).
       require (skip_blank r = []) JsonDecodeError (Inr v)))"

text \<open>\<^verbatim>\<open>value.get(key)\<close> of an object: the last pair with the key counts.\<close>

definition member :: "(utext \<times> jvalue) list \<Rightarrow> string \<Rightarrow> jvalue option" where
  "member ps key = map_of (rev ps) (code_points key)"

text \<open>Whether no object anywhere in the value has a key twice.\<close>

fun unique_keys :: "jvalue \<Rightarrow> bool" where
  "unique_keys (VArr vs) = list_all unique_keys vs"
| "unique_keys (VObj ps) = (distinct (map fst ps) \<and> list_all (\<lambda>(_, v). unique_keys v) ps)"
| "unique_keys _ = True"


section \<open>Reading takes something off the text\<close>

lemma read_escape_takes: "read_escape u = Inr (n, k) \<Longrightarrow> 0 < k"
  by (auto simp: read_escape_def split: option.splits if_splits)

lemma read_string_takes: "read_string u = Inr (t, r) \<Longrightarrow> length r < length u"
proof (induction u arbitrary: t r rule: read_string.induct)
  case (2 c u)
  show ?case
    using 2
    by (fastforce simp: res_simps split: if_splits option.splits prod.splits)
qed simp

lemma skip_blank_length: "length (skip_blank u) \<le> length u"
  by (simp add: skip_blank_def length_dropWhile_le)

lemma expect_takes: "expect c u = Inr r \<Longrightarrow> Suc (length r) = length u"
  by (cases u) (auto simp: expect_def res_simps)

lemma expect_head: "expect c u = Inr r \<Longrightarrow> u \<noteq> [] \<and> hd u = c \<and> r = tl u"
  by (cases u) (auto simp: expect_def res_simps split: if_splits)

lemma int_digits_take: "int_digits u \<noteq> [] \<Longrightarrow> u \<noteq> [] \<and> length (int_digits u) \<le> length u"
  by (auto simp: int_digits_def length_takeWhile_le Suc_le_eq split: if_splits)

lemma read_number_takes: "read_number u = Inr (v, r) \<Longrightarrow> length r < length u"
proof -
  assume read: "read_number u = Inr (v, r)"
  define sign digits where "sign = sign_length u" and "digits = int_digits (drop sign u)"
  define rest where "rest = drop (sign + length digits) u"
  define more where
    "more = fraction_length rest + exponent_length (drop (fraction_length rest) rest)"
  from read have "digits \<noteq> []" and r: "r = drop more rest"
    unfolding read_number_def Let_def sign_def [symmetric] digits_def [symmetric] rest_def [symmetric]
      more_def [symmetric]
    by (auto simp: res_simps split: if_splits)
  then have "0 < length digits" "u \<noteq> []"
    using int_digits_take [of "drop sign u"] by (auto simp: digits_def)
  then show ?thesis by (simp add: r rest_def)
qed

lemma read_scalar_takes: "read_scalar u = Inr (v, r) \<Longrightarrow> length r < length u"
proof (cases "filter (\<lambda>(w, _). take (length w) u = w) json_words")
  case Nil
  then show "read_scalar u = Inr (v, r) \<Longrightarrow> length r < length u"
    by (simp add: read_scalar_def read_number_takes)
next
  case (Cons p ps)
  then have "p \<in> set (filter (\<lambda>(w, _). take (length w) u = w) json_words)" by simp
  then have "p \<in> set json_words" and take: "take (length (fst p)) u = fst p" by auto
  then have "0 < length (fst p)" by (auto simp: json_words_def)
  moreover from take have "length (fst p) \<le> length u" by (metis length_take min.cobounded1)
  ultimately have "0 < length u" "0 < length (fst p)" by linarith+
  then show "read_scalar u = Inr (v, r) \<Longrightarrow> length r < length u"
    using Cons by (auto simp: read_scalar_def split: prod.splits)
qed

lemma read_takes:
  "read_value n u = Inr (v, r) \<Longrightarrow> length r < length u"
  "read_members n u = Inr (ps, r) \<Longrightarrow> length r < length u"
  "read_elements n u = Inr (vs, r) \<Longrightarrow> length r < length u"
proof (induction n u and n u and n u arbitrary: v r and ps r and vs r
    rule: read_value_read_members_read_elements.induct)
  case (2 n u)
  have less: "length q < length u" if "length q < length (skip_blank (tl u))" for q
    using that skip_blank_length [of "tl u"] by simp
  have tl_less: "length q < length u" if "length q < length (tl u)" for q using that by simp
  show ?case
    using "2.prems" "2.IH" skip_blank_length [of "tl u"]
    by (auto simp: res_simps Let_def dest!: read_string_takes read_scalar_takes less tl_less
        split: if_splits)
      (cases u; simp)+
next
  case (4 n u)
  from "4.prems" obtain u1 key u2 u3 v u4 where
    steps: "expect 34 u = Inr u1" "read_string u1 = Inr (key, u2)" "expect 58 (skip_blank u2) = Inr u3"
      "read_value n (skip_blank u3) = Inr (v, u4)"
    and rest: "r = tl (skip_blank u4) \<or> (\<exists>u5 qs. expect 44 (skip_blank u4) = Inr u5 \<and>
      read_members n (skip_blank u5) = Inr (qs, r))"
    by (auto simp: res_simps Let_def split: if_splits)
  have "length u4 < length u"
    using expect_takes [OF steps(1)] read_string_takes [OF steps(2)] expect_takes [OF steps(3)]
      "4.IH"(1) [OF steps(1,2) refl steps(3,4)] skip_blank_length [of u2] skip_blank_length [of u3] by linarith
  from rest show ?case
  proof (elim disjE exE conjE)
    fix u5 qs
    assume u5: "expect 44 (skip_blank u4) = Inr u5" "read_members n (skip_blank u5) = Inr (qs, r)"
    have "length r < length (skip_blank u5)" by (rule "4.IH"(2) [OF steps(1,2) refl steps(3,4) refl refl])
        (use u5 expect_head [OF u5(1)] in auto)
    with \<open>length u4 < length u\<close> expect_takes [OF u5(1)] skip_blank_length [of u4] skip_blank_length [of u5]
    show ?thesis by linarith
  qed (use \<open>length u4 < length u\<close> skip_blank_length [of u4] in simp)
next
  case (6 n u)
  from "6.prems" obtain v u1 where step: "read_value n u = Inr (v, u1)"
    and rest: "r = tl (skip_blank u1) \<or> (\<exists>u2 ws. expect 44 (skip_blank u1) = Inr u2 \<and>
      read_elements n (skip_blank u2) = Inr (ws, r))"
    by (auto simp: res_simps Let_def split: if_splits)
  from "6.IH"(1) [OF step] have "length u1 < length u" .
  from rest show ?case
  proof (elim disjE exE conjE)
    fix u2 ws
    assume u2: "expect 44 (skip_blank u1) = Inr u2" "read_elements n (skip_blank u2) = Inr (ws, r)"
    have "length r < length (skip_blank u2)" by (rule "6.IH"(2) [OF step refl refl])
        (use u2 expect_head [OF u2(1)] in auto)
    with \<open>length u1 < length u\<close> expect_takes [OF u2(1)] skip_blank_length [of u1] skip_blank_length [of u2]
    show ?thesis by linarith
  qed (use \<open>length u1 < length u\<close> skip_blank_length [of u1] in simp)
qed simp_all


section \<open>The two ways to fail\<close>

lemma read_escape_Inl: "read_escape u = Inl e \<Longrightarrow> e = JsonDecodeError"
  by (auto simp: read_escape_def split: option.splits if_splits)

lemma read_string_Inl: "read_string u = Inl e \<Longrightarrow> e = JsonDecodeError"
  by (induction u rule: read_string.induct)
    (auto simp: res_simps dest: read_escape_Inl split: if_splits option.splits)

lemma expect_Inl: "expect c u = Inl e \<Longrightarrow> e = JsonDecodeError"
  by (auto simp: expect_def res_simps split: if_splits)

lemma read_scalar_Inl: "read_scalar u = Inl e \<Longrightarrow> e \<in> {JsonDecodeError, ValueErr}"
  by (auto simp: read_scalar_def read_number_def Let_def res_simps split: list.splits if_splits)

lemma read_Inl:
  "read_value n u = Inl e \<Longrightarrow> e \<in> {JsonDecodeError, ValueErr}"
  "read_members n u = Inl e \<Longrightarrow> e \<in> {JsonDecodeError, ValueErr}"
  "read_elements n u = Inl e \<Longrightarrow> e \<in> {JsonDecodeError, ValueErr}"
proof (induction n u and n u and n u rule: read_value_read_members_read_elements.induct)
  case (2 n u)
  then show ?case
    by (auto simp: res_simps Let_def dest: read_string_Inl read_scalar_Inl split: if_splits)
next
  case (4 n u)
  from "4.prems" "4.IH" show ?case
    by (fastforce simp: res_simps Let_def dest: read_string_Inl expect_Inl split: if_splits)
next
  case (6 n u)
  from "6.prems" "6.IH" show ?case
    by (fastforce simp: res_simps Let_def dest: expect_Inl split: if_splits)
qed simp_all

lemma json_loads_Inl: "json_loads u = Inl e \<Longrightarrow> e \<in> {JsonDecodeError, ValueErr}"
  by (auto simp: json_loads_def res_simps simp del: read_value.simps dest!: read_Inl(1)
      split: if_splits)


section \<open>The fuel is enough\<close>

text \<open>
  A value takes one unit of fuel and leaves its members to one unit less, and every member takes at
  least one character off the text.
\<close>

lemma read_fuel:
  "2 * length u < n \<Longrightarrow> n \<le> m \<Longrightarrow> read_value m u = read_value n u"
  "Suc (2 * length u) < n \<Longrightarrow> n \<le> m \<Longrightarrow> read_members m u = read_members n u"
  "Suc (2 * length u) < n \<Longrightarrow> n \<le> m \<Longrightarrow> read_elements m u = read_elements n u"
proof (induction n u and n u and n u arbitrary: m and m and m
    rule: read_value_read_members_read_elements.induct)
  case (2 n u)
  from "2.prems" obtain k where m: "m = Suc k" "n \<le> k" by (cases m) auto
  have less: "u \<noteq> [] \<Longrightarrow> Suc (2 * length (skip_blank (tl u))) < n"
    using "2.prems"(1) skip_blank_length [of "tl u"] by (cases u) auto
  have members_same: "read_members k (skip_blank (tl u)) = read_members n (skip_blank (tl u))"
    if "u \<noteq> []" "hd u \<noteq> 34" "hd u = 123" "\<not> (skip_blank (tl u) \<noteq> [] \<and> hd (skip_blank (tl u)) = 125)"
    using "2.IH"(1) [OF that(1-3) refl that(4) less [OF that(1)] m(2)] .
  have elements_same: "read_elements k (skip_blank (tl u)) = read_elements n (skip_blank (tl u))"
    if "u \<noteq> []" "hd u \<noteq> 34" "hd u \<noteq> 123" "hd u = 91"
      "\<not> (skip_blank (tl u) \<noteq> [] \<and> hd (skip_blank (tl u)) = 93)"
    using "2.IH"(2) [OF that(1-4) refl that(5) less [OF that(1)] m(2)] .
  show ?case
    unfolding m(1) read_value.simps Let_def
    by (rule if_cong [OF refl refl], rule if_cong [OF refl refl], rule if_cong [OF refl],
        rule if_cong [OF refl refl], simp add: members_same, rule if_cong [OF refl _ refl],
        rule if_cong [OF refl refl], simp add: elements_same)
next
  case (4 n u)
  from "4.prems" obtain k where m: "m = Suc k" "n \<le> k" by (cases m) auto
  have inner: "Suc (2 * length (skip_blank u3)) < n"
    if "expect 34 u = Inr u1" "read_string u1 = Inr (key, u2)" "expect 58 (skip_blank u2) = Inr u3"
    for u1 key u2 u3
    using expect_takes [OF that(1)] read_string_takes [OF that(2)] expect_takes [OF that(3)]
      skip_blank_length [of u2] skip_blank_length [of u3] "4.prems"(1) by linarith
  have outer: "Suc (2 * length (skip_blank u5)) < n"
    if "expect 34 u = Inr u1" "read_string u1 = Inr (key, u2)" "expect 58 (skip_blank u2) = Inr u3"
      "read_value n (skip_blank u3) = Inr (v, u4)" "expect 44 (skip_blank u4) = Inr u5"
    for u1 key u2 u3 v u4 u5
    using inner [OF that(1-3)] read_takes(1) [OF that(4)] expect_takes [OF that(5)]
      skip_blank_length [of u4] skip_blank_length [of u5] by linarith
  have value_same: "read_value k (skip_blank u3) = read_value n (skip_blank u3)"
    if "expect 34 u = Inr u1" "read_string u1 = Inr (key, u2)" "expect 58 (skip_blank u2) = Inr u3"
    for u1 key u2 u3
    using "4.IH"(1) [OF that(1,2) refl that(3) _ m(2)] inner [OF that] by simp
  have members_same: "read_members k (skip_blank u5) = read_members n (skip_blank u5)"
    if "expect 34 u = Inr u1" "read_string u1 = Inr (key, u2)" "expect 58 (skip_blank u2) = Inr u3"
      "read_value n (skip_blank u3) = Inr (v, u4)" "expect 44 (skip_blank u4) = Inr u5"
    for u1 key u2 u3 v u4 u5
    by (rule "4.IH"(2) [OF that(1,2) refl that(3,4) refl refl _ that(5) outer [OF that] m(2)])
      (use expect_head [OF that(5)] in auto)
  show ?case
    unfolding m(1) read_members.simps Let_def
  proof (rule bind_res_cong [OF refl], rule bind_res_cong [OF refl], goal_cases)
    case (1 u1 p)
    obtain key u2 where p: "p = (key, u2)" by (cases p)
    note first = 1(1) 1(2) [unfolded p]
    show ?case
      unfolding p prod.case
    proof (rule bind_res_cong [OF refl], rule bind_res_cong, goal_cases)
      case (1 u3)
      then show ?case by (rule value_same [OF first])
    next
      case (2 u3 q)
      obtain v u4 where q: "q = (v, u4)" by (cases q)
      from members_same [OF first 2(1) 2(2) [unfolded q]] show ?case
        by (auto simp: q intro!: bind_res_cong)
    qed
  qed
next
  case (6 n u)
  from "6.prems" obtain k where m: "m = Suc k" "n \<le> k" by (cases m) auto
  have outer: "Suc (2 * length (skip_blank u2)) < n"
    if "read_value n u = Inr (v, u1)" "expect 44 (skip_blank u1) = Inr u2" for v u1 u2
    using "6.prems"(1) read_takes(1) [OF that(1)] expect_takes [OF that(2)]
      skip_blank_length [of u1] skip_blank_length [of u2] by linarith
  have elements_same: "read_elements k (skip_blank u2) = read_elements n (skip_blank u2)"
    if "read_value n u = Inr (v, u1)" "expect 44 (skip_blank u1) = Inr u2" for v u1 u2
    by (rule "6.IH"(2) [OF that(1) refl refl _ that(2) outer [OF that] m(2)])
      (use expect_head [OF that(2)] in auto)
  show ?case
    unfolding m(1) read_elements.simps Let_def
  proof (rule bind_res_cong, goal_cases)
    case 1
    show ?case using "6.IH"(1) [OF _ m(2)] "6.prems"(1) by simp
  next
    case (2 q)
    obtain v u1 where q: "q = (v, u1)" by (cases q)
    from elements_same [OF 2 [unfolded q]] show ?case
      by (auto simp: q intro!: bind_res_cong)
  qed
qed simp_all


text \<open>How \<^verbatim>\<open>simp\<close> reads a concrete text.\<close>

lemmas read_numeral_fuel =
  read_value.simps(2) [of "pred_numeral k" for k, folded numeral_eq_Suc]
  read_members.simps(2) [of "pred_numeral k" for k, folded numeral_eq_Suc]
  read_elements.simps(2) [of "pred_numeral k" for k, folded numeral_eq_Suc]

lemma skip_blank_simps:
  "skip_blank [] = []"
  "skip_blank (c # u) = (if c = 32 \<or> c = 9 \<or> c = 10 \<or> c = 13 then skip_blank u else c # u)"
  by (auto simp: skip_blank_def)

lemma read_first: "m = m' \<Longrightarrow> bind_res m f = bind_res m' f"
  by simp

lemmas read_json_simps =
  json_loads_def skip_blank_simps expect_def Let_def read_scalar_def json_words_def is_udigit_def
  simple_escape_def read_number_def sign_length_def int_digits_def fraction_length_def
  exponent_length_def max_int_digits_def read_decimal_def read_numeral_fuel



end
