(* ===== verification/Naming.thy ===== *)
theory Naming
  imports Sha256 Signing
begin

text \<open>
  Names that are derived from ids: \<^verbatim>\<open>services/runtime_naming.py\<close>, \<^verbatim>\<open>services/runtime_identity.py\<close>, and
  the project id of \<^verbatim>\<open>config.py\<close> they are built with.
\<close>

section \<open>Configuration\<close>

definition REGION :: string where "REGION = ''asia-northeast3''"
definition github_owner :: string where "github_owner = ''madupmarketing''"
definition company_domain :: string where "company_domain = ''madup.com''"
definition timezone :: string where "timezone = ''Asia/Seoul''"
definition plan_expiry_minutes :: int where "plan_expiry_minutes = 15"
definition service_cpu :: int where "service_cpu = 1"
definition service_memory_mib :: int where "service_memory_mib = 512"
definition service_min_instances :: int where "service_min_instances = 0"
definition service_max_instances :: int where "service_max_instances = 1"

definition placeholder_markers :: "string list" where
  "placeholder_markers = [''changeme'', ''example'', ''placeholder'', ''replace-me'', ''your-'']"

definition contains_placeholder :: "string \<Rightarrow> bool" where
  "contains_placeholder v \<longleftrightarrow> list_ex (\<lambda>marker. contains marker (lower v)) placeholder_markers"

text \<open>\<^verbatim>\<open>^[a-z][a-z0-9-]{4,28}[a-z0-9]$\<close>\<close>

definition project_id_pattern :: "string \<Rightarrow> bool" where
  "project_id_pattern v \<longleftrightarrow>
     6 \<le> length v \<and> length v \<le> 30 \<and> is_ascii_lower (hd v) \<and> list_all is_label_char v \<and>
     is_lower_alnum (last v)"

definition validate_project_id :: "string \<Rightarrow> string res" where
  "validate_project_id v =
     require (\<not> contains_placeholder v \<and> project_id_pattern v) ConfigError (Inr v)"


section \<open>Runtime names\<close>

definition workload_resource_suffix :: "string \<Rightarrow> string res" where
  "workload_resource_suffix workload_id =
     require (nonblank workload_id) ValueErr (Inr (take 12 (sha256_hex (utf8 workload_id))))"

definition cloud_run_parent :: "string \<Rightarrow> string \<Rightarrow> string" where
  "cloud_run_parent project_id region = ''projects/'' @ project_id @ ''/locations/'' @ region"

definition cloud_run_service_name :: "string \<Rightarrow> string \<Rightarrow> string \<Rightarrow> string res" where
  "cloud_run_service_name project_id region workload_id =
     bind_res (workload_resource_suffix workload_id) (\<lambda>suffix.
       Inr (cloud_run_parent project_id region @ ''/services/mim-svc-'' @ suffix))"

definition cloud_run_job_name :: "string \<Rightarrow> string \<Rightarrow> string \<Rightarrow> string res" where
  "cloud_run_job_name project_id region workload_id =
     bind_res (workload_resource_suffix workload_id) (\<lambda>suffix.
       Inr (cloud_run_parent project_id region @ ''/jobs/mim-job-'' @ suffix))"

text \<open>\<^verbatim>\<open>^sec-[0-9a-f]{20}$\<close>\<close>

definition provider_secret_id :: "string \<Rightarrow> string res" where
  "provider_secret_id secret_id =
     require (starts_with secret_id ''sec-'' \<and> is_hex_text 20 (drop 4 secret_id)) ValueErr
       (Inr (''mim-'' @ secret_id))"

definition app_gateway_invoker_member :: "string \<Rightarrow> string res" where
  "app_gateway_invoker_member project_id =
     require (nonblank project_id) ValueErr
       (Inr (''serviceAccount:mim-app-gateway@'' @ project_id @ ''.iam.gserviceaccount.com''))"

definition schedule_gateway_invoker_member :: "string \<Rightarrow> string res" where
  "schedule_gateway_invoker_member project_id =
     require (nonblank project_id) ValueErr
       (Inr (''serviceAccount:mim-schedule-gateway@'' @ project_id @ ''.iam.gserviceaccount.com''))"

text \<open>\<^verbatim>\<open>^(user|group):[a-z0-9._%+-]+@madup\.com$\<close>\<close>

definition company_member_pattern :: "string \<Rightarrow> bool" where
  "company_member_pattern v \<longleftrightarrow>
     list_ex (\<lambda>kind.
       let domain = ''@'' @ company_domain; n = length v - length kind - length domain;
           account = take n (drop (length kind) v)
       in length kind + length domain < length v \<and> v = kind @ account @ domain \<and>
          list_all (\<lambda>c. is_lower_alnum c \<or> c \<in> set ''._%+-'') account)
     [''user:'', ''group:'']"

fun breakglass_scan :: "string list \<Rightarrow> string list \<Rightarrow> string list res" where
  "breakglass_scan [] normalized = Inr normalized"
| "breakglass_scan (member # members) normalized =
     (let lowered = strip (casefold member)
      in require (member = strip member \<and> company_member_pattern lowered) ValueErr
        (require (lowered \<notin> set normalized) ValueErr
           (breakglass_scan members (normalized @ [lowered]))))"

definition normalize_reviewed_breakglass_members :: "string list \<Rightarrow> string list res" where
  "normalize_reviewed_breakglass_members members =
     bind_res (breakglass_scan members []) (\<lambda>normalized. Inr (sort normalized))"


section \<open>Runtime identity\<close>

record runtime_identity_spec =
  rid_account_id :: string
  rid_email :: string
  rid_name :: string
  rid_display_name :: string
  rid_description :: string

definition require_exact_text :: "string \<Rightarrow> string res" where
  "require_exact_text v = require (v \<noteq> [] \<and> v = strip v) ValueErr (Inr v)"

definition runtime_identity_for :: "string \<Rightarrow> string \<Rightarrow> runtime_identity_spec res" where
  "runtime_identity_for project_id workload_id =
     bind_res (require_exact_text project_id) (\<lambda>exact.
     bind_res (validate_project_id exact) (\<lambda>project.
     bind_res (require_exact_text workload_id) (\<lambda>workload.
     let suffix = take 12 (sha256_hex (utf8 workload));
         account_id = ''mim-wrk-'' @ suffix;
         email = account_id @ ''@'' @ project @ ''.iam.gserviceaccount.com''
     in Inr \<lparr>rid_account_id = account_id, rid_email = email,
             rid_name = ''projects/'' @ project @ ''/serviceAccounts/'' @ email,
             rid_display_name = ''MIM workload '' @ suffix,
             rid_description = ''MIM managed runtime identity for workload '' @ suffix
               @ ''; no project roles.''\<rparr>)))"

end
