(* ===== verification/Source.thy ===== *)
theory Source
  imports Signing PyJsonRead Naming Models_Identity
begin

text \<open>
  Where deployed code may come from: \<^verbatim>\<open>services/repository_admission.py\<close>, and of
  \<^verbatim>\<open>adapters/github.py\<close> the two functions that authenticate a webhook delivery and narrow it to one
  push of a selected repository.
\<close>

section \<open>Repository admission\<close>

text \<open>The owner of the policy is a constant of its class.\<close>

record repository_policy =
  rpo_allowed_repository_ids :: "int set"
  rpo_installation_id :: int

definition repository_policy_post_init :: "repository_policy \<Rightarrow> repository_policy res" where
  "repository_policy_post_init p =
     require
       (rpo_allowed_repository_ids p \<noteq> {} \<and> (\<forall>i \<in> rpo_allowed_repository_ids p. 0 < i) \<and>
        0 < rpo_installation_id p)
       RepositoryAdmissionError (Inr p)"

record repository_candidate =
  rcd_repository_numeric_id :: int
  rcd_owner :: string
  rcd_name :: string
  rcd_installation_id :: int
  rcd_requested_ref :: string
  rcd_resolved_sha :: string
  rcd_is_fork :: bool
  rcd_redirected_from :: "string option"

text \<open>\<^verbatim>\<open>^[a-z0-9][a-z0-9-]{0,38}$\<close> and \<^verbatim>\<open>^[A-Za-z0-9._-]{1,100}$\<close>\<close>

definition owner_pattern :: "string \<Rightarrow> bool" where
  "owner_pattern v \<longleftrightarrow>
     v \<noteq> [] \<and> length v \<le> 39 \<and> is_lower_alnum (hd v) \<and> list_all is_label_char v"

definition name_pattern :: "string \<Rightarrow> bool" where
  "name_pattern v \<longleftrightarrow>
     v \<noteq> [] \<and> length v \<le> 100 \<and> list_all (\<lambda>c. is_ascii_alnum c \<or> c \<in> set ''._-'') v"

definition candidate_ok :: "repository_candidate \<Rightarrow> bool" where
  "candidate_ok c \<longleftrightarrow>
     0 < rcd_repository_numeric_id c \<and> 0 < rcd_installation_id c \<and>
     owner_pattern (rcd_owner c) \<and> name_pattern (rcd_name c) \<and>
     source_sha_ok (rcd_requested_ref c) \<and> source_sha_ok (rcd_resolved_sha c) \<and>
     (case rcd_redirected_from c of None \<Rightarrow> True | Some v \<Rightarrow> nonblank v)"

definition candidate_post_init :: "repository_candidate \<Rightarrow> repository_candidate res" where
  "candidate_post_init c = require (candidate_ok c) RepositoryAdmissionError (Inr c)"

record admitted_repository =
  adr_repository_numeric_id :: int
  adr_owner :: string
  adr_name :: string
  adr_installation_id :: int
  adr_sha :: string

definition candidate_full_name :: "repository_candidate \<Rightarrow> string" where
  "candidate_full_name c = rcd_owner c @ ''/'' @ rcd_name c"

definition admit_repository ::
    "repository_policy \<Rightarrow> repository_candidate \<Rightarrow> admitted_repository res" where
  "admit_repository policy c =
     require (candidate_full_name c \<noteq> ''madup-dct/claude-plugins'') RepositoryAdmissionError
    (require (rcd_owner c = github_owner) RepositoryAdmissionError
    (require (\<not> rcd_is_fork c) RepositoryAdmissionError
    (require (rcd_redirected_from c = None) RepositoryAdmissionError
    (require (rcd_repository_numeric_id c \<in> rpo_allowed_repository_ids policy) RepositoryAdmissionError
    (require (rcd_installation_id c = rpo_installation_id policy) RepositoryAdmissionError
    (require (rcd_requested_ref c = rcd_resolved_sha c) RepositoryAdmissionError
       (Inr \<lparr>adr_repository_numeric_id = rcd_repository_numeric_id c, adr_owner = rcd_owner c,
             adr_name = rcd_name c, adr_installation_id = rcd_installation_id c,
             adr_sha = rcd_resolved_sha c\<rparr>)))))))"


section \<open>Webhook deliveries\<close>

definition max_webhook_body_bytes :: nat where
  "max_webhook_body_bytes = 1048576"

text \<open>\<^verbatim>\<open>^sha256=[0-9a-f]{64}$\<close>\<close>

definition signature_pattern :: "string \<Rightarrow> bool" where
  "signature_pattern v \<longleftrightarrow> starts_with v ''sha256='' \<and> is_hex_text 64 (drop 7 v)"

definition verify_github_webhook_signature :: "bytes \<Rightarrow> string \<Rightarrow> bytes \<Rightarrow> unit res" where
  "verify_github_webhook_signature body signature_header webhook_secret =
     require (length body \<le> max_webhook_body_bytes) GitHubWebhookError
    (require (32 \<le> length webhook_secret) GitHubWebhookError
    (require (signature_pattern signature_header) GitHubWebhookError
    (bind_res (compare_digest signature_header (''sha256='' @ hmac_sha256 webhook_secret body)) (\<lambda>same.
       require same GitHubWebhookError (Inr ())))))"

text \<open>\<^verbatim>\<open>^refs/heads/[A-Za-z0-9._/-]{1,200}$\<close>, and the form of a delivery id, in either case.\<close>

definition ref_pattern :: "string \<Rightarrow> bool" where
  "ref_pattern v \<longleftrightarrow>
     starts_with v ''refs/heads/'' \<and> 11 < length v \<and> length v \<le> 211 \<and>
     list_all (\<lambda>c. is_ascii_alnum c \<or> c \<in> set ''._/-'') (drop 11 v)"

definition delivery_id_pattern :: "string \<Rightarrow> bool" where
  "delivery_id_pattern v \<longleftrightarrow>
     map length (split_on (CHR ''-'') v) = [8, 4, 4, 4, 12] \<and>
     list_all (\<lambda>c. is_lower_hex (lower_char c) \<and> code_point c < 128 \<or> c = CHR ''-'') v"

record verified_push =
  vps_delivery_id :: string
  vps_repository_numeric_id :: int
  vps_owner :: string
  vps_name :: string
  vps_installation_id :: int
  vps_ref :: string
  vps_sha :: string

definition as_mapping :: "jvalue option \<Rightarrow> (utext \<times> jvalue) list res" where
  "as_mapping v = (case v of Some (VObj ps) \<Rightarrow> Inr ps | _ \<Rightarrow> Inl ValueErr)"

definition as_positive_int :: "jvalue option \<Rightarrow> int res" where
  "as_positive_int v = (case v of Some (VInt i) \<Rightarrow> require (1 \<le> i) ValueErr (Inr i) | _ \<Rightarrow> Inl ValueErr)"

definition as_exact_bool :: "jvalue option \<Rightarrow> bool res" where
  "as_exact_bool v = (case v of Some (VBool b) \<Rightarrow> Inr b | _ \<Rightarrow> Inl ValueErr)"

definition as_text :: "jvalue option \<Rightarrow> utext res" where
  "as_text v = (case v of Some (VStr u) \<Rightarrow> Inr u | _ \<Rightarrow> Inl ValueErr)"

text \<open>
  \<^verbatim>\<open>json.loads(body.decode("utf-8"), object_pairs_hook=_unique_json_object)\<close>: a repeated key is a
  ValueError, as a syntax error is.
\<close>

definition unique_json :: "bytes \<Rightarrow> jvalue res" where
  "unique_json body =
     (case decode_utf8 body of
        None \<Rightarrow> Inl ValueErr
      | Some u \<Rightarrow> bind_res (json_loads u) (\<lambda>v. require (unique_keys v) ValueErr (Inr v)))"

text \<open>The repository a push names. Text outside the model's range fails the patterns of a candidate.\<close>

definition admissible_text :: "utext \<Rightarrow> string res" where
  "admissible_text u =
     (case narrow u of None \<Rightarrow> Inl RepositoryAdmissionError | Some s \<Rightarrow> Inr s)"

definition push_candidate ::
    "(utext \<times> jvalue) list \<Rightarrow> utext \<Rightarrow> (utext \<times> jvalue) list \<Rightarrow> repository_candidate res" where
  "push_candidate repository sha installation =
     bind_res (as_mapping (member repository ''owner'')) (\<lambda>owner.
     bind_res (as_text (member owner ''login'')) (\<lambda>owner_login.
     bind_res (as_text (member repository ''name'')) (\<lambda>repository_name.
     require (member repository ''full_name'' =
         Some (VStr (owner_login @ code_points ''/'' @ repository_name))) ValueErr
    (bind_res (as_positive_int (member repository ''id'')) (\<lambda>repository_id.
     bind_res (as_positive_int (member installation ''id'')) (\<lambda>installation_id.
     bind_res (as_exact_bool (member repository ''fork'')) (\<lambda>is_fork.
     bind_res (admissible_text owner_login) (\<lambda>owner_text.
     bind_res (admissible_text repository_name) (\<lambda>name_text.
     bind_res (admissible_text sha) (\<lambda>sha_text.
       candidate_post_init
         \<lparr>rcd_repository_numeric_id = repository_id, rcd_owner = owner_text, rcd_name = name_text,
          rcd_installation_id = installation_id, rcd_requested_ref = sha_text,
          rcd_resolved_sha = sha_text, rcd_is_fork = is_fork, rcd_redirected_from = None\<rparr>))))))))))"

definition parse_github_push ::
    "bytes \<Rightarrow> string \<Rightarrow> string \<Rightarrow> string \<Rightarrow> repository_policy \<Rightarrow> verified_push res" where
  "parse_github_push body event_name delivery_id allowed_ref policy =
     require (delivery_id_pattern delivery_id) ValueErr
    (require (event_name = ''push'') ValueErr
    (require (ref_pattern allowed_ref \<and> \<not> contains ''..'' allowed_ref) ValueErr
    (bind_res (unique_json body) (\<lambda>document.
     bind_res (as_mapping (Some document)) (\<lambda>payload.
     require (member payload ''ref'' = Some (VStr (code_points allowed_ref)) \<and>
         member payload ''deleted'' = Some (VBool False)) ValueErr
    (bind_res (as_text (member payload ''after'')) (\<lambda>sha.
     bind_res (as_mapping (member payload ''head_commit'')) (\<lambda>head_commit.
     require (member head_commit ''id'' = Some (VStr sha)) ValueErr
    (bind_res (as_mapping (member payload ''repository'')) (\<lambda>repository.
     bind_res (as_mapping (member payload ''installation'')) (\<lambda>installation.
     bind_res (push_candidate repository sha installation) (\<lambda>candidate.
     bind_res (admit_repository policy candidate) (\<lambda>admitted.
       Inr \<lparr>vps_delivery_id = lower delivery_id,
            vps_repository_numeric_id = adr_repository_numeric_id admitted,
            vps_owner = adr_owner admitted, vps_name = adr_name admitted,
            vps_installation_id = adr_installation_id admitted, vps_ref = allowed_ref,
            vps_sha = adr_sha admitted\<rparr>)))))))))))))"

text \<open>Whatever goes wrong after the signature was checked leaves as one error.\<close>

definition verify_github_push ::
    "bytes \<Rightarrow> string \<Rightarrow> bytes \<Rightarrow> string \<Rightarrow> string \<Rightarrow> string \<Rightarrow> repository_policy \<Rightarrow> verified_push res" where
  "verify_github_push body signature_header webhook_secret event_name delivery_id allowed_ref policy =
     bind_res (verify_github_webhook_signature body signature_header webhook_secret) (\<lambda>_.
       case parse_github_push body event_name delivery_id allowed_ref policy of
         Inl _ \<Rightarrow> Inl GitHubWebhookError
       | Inr push \<Rightarrow> Inr push)"


section \<open>What an accepted push says\<close>

lemma narrow_code_points: "narrow u = Some s \<Longrightarrow> u = code_points s"
  by (auto simp: narrow_def list_all_iff comp_def intro!: map_idI [symmetric] split: if_splits)

lemma json_fields_Inr [res_simps]:
  "as_mapping v = Inr ps \<longleftrightarrow> v = Some (VObj ps)"
  "as_positive_int v = Inr i \<longleftrightarrow> v = Some (VInt i) \<and> 1 \<le> i"
  "as_exact_bool v = Inr b \<longleftrightarrow> v = Some (VBool b)"
  "as_text v = Inr u \<longleftrightarrow> v = Some (VStr u)"
  by (auto simp: as_mapping_def as_positive_int_def as_exact_bool_def as_text_def res_simps
      split: option.splits jvalue.splits)

lemma admissible_text_Inr: "admissible_text u = Inr s \<Longrightarrow> u = code_points s"
  by (auto simp: admissible_text_def dest: narrow_code_points split: option.splits)

lemma signature_Inr:
  assumes "verify_github_webhook_signature body signature_header webhook_secret = Inr x"
  shows "signature_header = ''sha256='' @ hmac_sha256 webhook_secret body"
    "length body \<le> max_webhook_body_bytes" "32 \<le> length webhook_secret"
  using assms by (auto simp: verify_github_webhook_signature_def res_simps)

lemma push_candidate_Inr:
  assumes "push_candidate repository sha installation = Inr c"
  shows "sha = code_points (rcd_resolved_sha c)" "candidate_ok c"
    "member repository ''id'' = Some (VInt (rcd_repository_numeric_id c))"
    "member installation ''id'' = Some (VInt (rcd_installation_id c))"
    "member repository ''fork'' = Some (VBool (rcd_is_fork c))"
    "member repository ''full_name'' = Some (VStr (code_points (candidate_full_name c)))"
  using assms
  by (auto simp: push_candidate_def candidate_post_init_def candidate_full_name_def res_simps
      dest!: admissible_text_Inr)

lemma admit_Inr:
  assumes "admit_repository policy c = Inr a"
  shows "rcd_owner c = github_owner" "\<not> rcd_is_fork c"
    "rcd_repository_numeric_id c \<in> rpo_allowed_repository_ids policy"
    "rcd_installation_id c = rpo_installation_id policy"
    "a = \<lparr>adr_repository_numeric_id = rcd_repository_numeric_id c, adr_owner = rcd_owner c,
          adr_name = rcd_name c, adr_installation_id = rcd_installation_id c,
          adr_sha = rcd_resolved_sha c\<rparr>"
  using assms by (auto simp: admit_repository_def res_simps)

lemma signature_is_ascii:
  assumes "signature_pattern v"
  shows "list_all (\<lambda>c. code_point c < 128) v"
proof -
  have "v = ''sha256='' @ drop (length ''sha256='') v"
    using assms unfolding signature_pattern_def starts_with_def by (metis append_take_drop_id)
  then have "v = ''sha256='' @ drop 7 v" by (simp add: eval_nat_numeral)
  moreover have "list_all (\<lambda>c. code_point c < 128) (''sha256='' @ drop 7 v)"
    using assms hex_is_ascii by (auto simp: signature_pattern_def)
  ultimately show ?thesis by simp
qed

text \<open>The document says what the push is about.\<close>

definition push_document :: "bytes \<Rightarrow> verified_push \<Rightarrow> bool" where
  "push_document body p \<longleftrightarrow>
     (case unique_json body of
        Inr (VObj payload) \<Rightarrow>
          member payload ''ref'' = Some (VStr (code_points (vps_ref p))) \<and>
          member payload ''after'' = Some (VStr (code_points (vps_sha p))) \<and>
          member payload ''deleted'' = Some (VBool False) \<and>
          (case (member payload ''repository'', member payload ''installation'') of
             (Some (VObj repository), Some (VObj installation)) \<Rightarrow>
               member repository ''id'' = Some (VInt (vps_repository_numeric_id p)) \<and>
               member repository ''fork'' = Some (VBool False) \<and>
               member repository ''full_name'' =
                 Some (VStr (code_points (vps_owner p @ ''/'' @ vps_name p))) \<and>
               member installation ''id'' = Some (VInt (vps_installation_id p))
           | _ \<Rightarrow> False)
      | _ \<Rightarrow> False)"

lemma parse_push_Inr:
  assumes "parse_github_push body event_name delivery_id allowed_ref policy = Inr p"
  shows "event_name = ''push''" "vps_ref p = allowed_ref" "vps_delivery_id p = lower delivery_id"
    "push_document body p" "vps_owner p = github_owner" "source_sha_ok (vps_sha p)"
    "vps_repository_numeric_id p \<in> rpo_allowed_repository_ids policy"
    "vps_installation_id p = rpo_installation_id policy"
proof -
  from assms obtain payload sha repository installation c a where
    doc: "unique_json body = Inr (VObj payload)" and
    ref: "member payload ''ref'' = Some (VStr (code_points allowed_ref))" and
    deleted: "member payload ''deleted'' = Some (VBool False)" and
    after: "member payload ''after'' = Some (VStr sha)" and
    repository: "member payload ''repository'' = Some (VObj repository)" and
    installation: "member payload ''installation'' = Some (VObj installation)" and
    c: "push_candidate repository sha installation = Inr c" and
    a: "admit_repository policy c = Inr a" and
    push: "event_name = ''push''"
      "p = \<lparr>vps_delivery_id = lower delivery_id,
            vps_repository_numeric_id = adr_repository_numeric_id a, vps_owner = adr_owner a,
            vps_name = adr_name a, vps_installation_id = adr_installation_id a,
            vps_ref = allowed_ref, vps_sha = adr_sha a\<rparr>"
    by (auto simp: parse_github_push_def res_simps)
  note facts = push_candidate_Inr [OF c] admit_Inr [OF a]
  show "event_name = ''push''" "vps_ref p = allowed_ref" "vps_delivery_id p = lower delivery_id"
    by (simp_all add: push)
  show "push_document body p"
    using facts by (simp add: push_document_def doc ref deleted after repository installation push
        candidate_full_name_def)
  show "vps_owner p = github_owner" "source_sha_ok (vps_sha p)"
    "vps_repository_numeric_id p \<in> rpo_allowed_repository_ids policy"
    "vps_installation_id p = rpo_installation_id policy"
    using facts by (simp_all add: push candidate_ok_def)
qed


end
