(* ===== verification/Classifier.thy ===== *)
theory Classifier
  imports PyJsonRead Execution
begin

text \<open>
  \<^verbatim>\<open>services/classifier.py\<close> and \<^verbatim>\<open>services/build_template.py\<close>: which of the three kinds of workload
  a snapshot of a repository is, and the commands that the platform then runs. The YAML parser is
  a package and Python's own parser far larger than what is used of it, so both are parameters:
  what the one reads as documents, and what the other finds as statements of a module. That
  Python limits the nesting of values and of calls is not modelled.
\<close>

section \<open>What the parsers return\<close>

text \<open>
  A node of a YAML document as the loader constructs it: a mapping still has all its pairs, with
  keys of any kind. \<open>YOther\<close> is any other hashable value (a date), \<open>YBad\<close> a scalar whose
  construction raises ValueError, such as a date that does not exist.
\<close>

datatype yaml =
    YNull
  | YBool bool
  | YInt int
  | YFloat utext
  | YStr utext
  | YOther utext
  | YBad
  | YSeq "yaml list"
  | YMap "(yaml \<times> yaml) list"

datatype statement =
    Import "utext list"
  | ImportFrom "utext option"
  | OtherStatement

text \<open>
  The documents before the YAML parser gave up, and whether it gave up; the statements of a module,
  if it is one.
\<close>

record parsers =
  yaml_documents :: "utext \<Rightarrow> yaml list \<times> bool"
  python_module :: "utext \<Rightarrow> statement list option"


section \<open>Snapshots\<close>

text \<open>\<^verbatim>\<open>^[A-Za-z0-9._/-]+$\<close>\<close>

definition snapshot_path_pattern :: "string \<Rightarrow> bool" where
  "snapshot_path_pattern v \<longleftrightarrow> v \<noteq> [] \<and> list_all (\<lambda>c. is_ascii_alnum c \<or> c \<in> set ''._/-'') v"

definition max_path_length :: nat where
  "max_path_length = 180"

definition snapshot_part_ok :: "string \<Rightarrow> bool" where
  "snapshot_part_ok part \<longleftrightarrow>
     part \<notin> set ['''', ''.'', ''..''] \<and> (starts_with part ''.'' \<longrightarrow> part = ''.github'') \<and>
     \<not> starts_with part ''-'' \<and> list_all (\<lambda>c. 33 \<le> code_point c) part"

definition snapshot_path_ok :: "string \<Rightarrow> bool" where
  "snapshot_path_ok v \<longleftrightarrow>
     snapshot_path_pattern v \<and> length v \<le> max_path_length \<and>
     \<not> starts_with v ''/'' \<and> \<not> starts_with v ''./'' \<and> CHR 0x5C \<notin> set v \<and>
     list_all snapshot_part_ok (split_on (CHR ''/'') v)"

fun classifier_scan :: "(string \<times> bytes) list \<Rightarrow> nat \<Rightarrow> (string, bytes) dict \<Rightarrow> (string, bytes) dict res" where
  "classifier_scan [] total_bytes normalized = Inr normalized"
| "classifier_scan ((path, content) # items) total_bytes normalized =
     require (snapshot_path_ok path) SnapshotValidationError
    (require (length content \<le> max_snapshot_file_bytes) SnapshotValidationError
    (require (total_bytes + length content \<le> max_snapshot_total_bytes) SnapshotValidationError
       (classifier_scan items (total_bytes + length content) (dict_put path content normalized))))"

definition normalize_snapshot :: "(string, bytes) dict \<Rightarrow> (string, bytes) dict res" where
  "normalize_snapshot snapshot =
     require (length snapshot \<le> max_snapshot_files) SnapshotValidationError
       (classifier_scan snapshot 0 [])"


section \<open>The manifest\<close>

definition max_manifest_bytes :: nat where "max_manifest_bytes = 16384"
definition max_manifest_nodes :: nat where "max_manifest_nodes = 256"
definition max_manifest_depth :: nat where "max_manifest_depth = 12"
definition max_entrypoint_length :: nat where "max_entrypoint_length = 120"
definition hourly_cron :: string where "hourly_cron = ''0 * * * *''"

definition allowed_manifest_keys :: "string list" where
  "allowed_manifest_keys = [''entrypoint'', ''kind'', ''schedule'']"

text \<open>\<^verbatim>\<open>needle in text\<close>\<close>

fun contains_text :: "utext \<Rightarrow> utext \<Rightarrow> bool" where
  "contains_text needle [] = (needle = [])"
| "contains_text needle (c # u) = (take (length needle) (c # u) = needle \<or> contains_text needle u)"

text \<open>\<^verbatim>\<open>re.search(r"(^|[\s\[{,:])[*&][A-Za-z0-9_-]+", text)\<close>, with what stands before the text.\<close>

definition anchor_name_char :: "nat \<Rightarrow> bool" where
  "anchor_name_char n \<longleftrightarrow>
     n < 128 \<and> (is_ascii_alnum (char_of n) \<or> char_of n \<in> set ''_-'')"

fun has_anchor :: "nat option \<Rightarrow> utext \<Rightarrow> bool" where
  "has_anchor before (c # d # u) =
     ((before = None \<or> unicode_space (the before) \<or> the before \<in> set (code_points ''[{,:'')) \<and>
      c \<in> set (code_points ''*&'') \<and> anchor_name_char d \<or> has_anchor (Some c) (d # u))"
| "has_anchor before _ = False"

text \<open>
  The loader's mapping constructor wants string keys without repetition. PyYAML constructs nested
  sequences later than in the order of the text, which only decides which of two errors, both of
  them ValueErrors, is raised first.
\<close>

function (sequential) construct :: "yaml \<Rightarrow> unit res"
  and construct_pairs :: "(yaml \<times> yaml) list \<Rightarrow> utext list \<Rightarrow> unit res"
  and construct_all :: "yaml list \<Rightarrow> unit res" where
  "construct YBad = Inl ValueErr"
| "construct (YMap ps) = construct_pairs ps []"
| "construct (YSeq ys) = construct_all ys"
| "construct YNull = Inr ()"
| "construct (YBool _) = Inr ()"
| "construct (YInt _) = Inr ()"
| "construct (YFloat _) = Inr ()"
| "construct (YStr _) = Inr ()"
| "construct (YOther _) = Inr ()"
| "construct_pairs [] keys = Inr ()"
| "construct_pairs ((k, v) # ps) keys =
     bind_res (construct k) (\<lambda>_.
       case k of
         YStr key \<Rightarrow>
           require (key \<notin> set keys) ManifestValidationError
             (bind_res (construct v) (\<lambda>_. construct_pairs ps (key # keys)))
       | _ \<Rightarrow> Inl ManifestValidationError)"
| "construct_all [] = Inr ()"
| "construct_all (y # ys) = bind_res (construct y) (\<lambda>_. construct_all ys)"
  by pat_completeness auto
termination
  by (relation "measure (\<lambda>x. case x of
        Inl y \<Rightarrow> size y
      | Inr (Inl (ps, _)) \<Rightarrow> size_list (size_prod size size) ps
      | Inr (Inr ys) \<Rightarrow> size_list size ys)") auto

text \<open>\<^verbatim>\<open>list(yaml.load_all(...))\<close>: each document is constructed before the next is parsed.\<close>

definition load_documents :: "yaml list \<times> bool \<Rightarrow> yaml list res" where
  "load_documents stream =
     bind_res (construct_all (fst stream)) (\<lambda>_.
       require (\<not> snd stream) ManifestValidationError (Inr (fst stream)))"

text \<open>
  The shape of a document: the number of its nodes so far, the nodes of the rest counted through.
  Keys are strings already.
\<close>

function (sequential) manifest_shape :: "nat \<Rightarrow> yaml \<Rightarrow> nat \<Rightarrow> nat res"
  and manifest_shapes :: "nat \<Rightarrow> yaml list \<Rightarrow> nat \<Rightarrow> nat res"
  and manifest_pairs :: "nat \<Rightarrow> (yaml \<times> yaml) list \<Rightarrow> nat \<Rightarrow> nat res" where
  "manifest_shape depth y nodes =
     require (Suc nodes \<le> max_manifest_nodes \<and> depth \<le> max_manifest_depth) ManifestValidationError
       (case y of
          YMap ps \<Rightarrow> manifest_pairs (Suc depth) ps (Suc nodes)
        | YSeq ys \<Rightarrow> manifest_shapes (Suc depth) ys (Suc nodes)
        | _ \<Rightarrow> Inr (Suc nodes))"
| "manifest_shapes depth [] nodes = Inr nodes"
| "manifest_shapes depth (y # ys) nodes =
     bind_res (manifest_shape depth y nodes) (manifest_shapes depth ys)"
| "manifest_pairs depth [] nodes = Inr nodes"
| "manifest_pairs depth ((_, v) # ps) nodes =
     bind_res (manifest_shape depth v nodes) (manifest_pairs depth ps)"
  by pat_completeness auto
termination
  by (relation "measure (\<lambda>x. case x of
        Inl (_, y, _) \<Rightarrow> size y
      | Inr (Inl (_, ys, _)) \<Rightarrow> size_list size ys
      | Inr (Inr (_, ps, _)) \<Rightarrow> size_list (size_prod size size) ps)") auto

text \<open>\<^verbatim>\<open>document.get(key)\<close>: keys are distinct once constructed.\<close>

definition yaml_get :: "(yaml \<times> yaml) list \<Rightarrow> string \<Rightarrow> yaml option" where
  "yaml_get ps key = map_of ps (YStr (code_points key))"

text \<open>\<^verbatim>\<open>kind_value not in {...}\<close> hashes the value, which a list or a mapping does not allow.\<close>

definition all_kinds :: "workload_kind list" where
  "all_kinds = [Streamlit, NextJs, ScheduledScript]"

definition manifest_kind :: "yaml option \<Rightarrow> workload_kind res" where
  "manifest_kind v =
     (case v of
        Some (YSeq _) \<Rightarrow> Inl TypeErr
      | Some (YMap _) \<Rightarrow> Inl TypeErr
      | Some (YStr u) \<Rightarrow>
          (case find (\<lambda>kind. code_points (workload_kind_value kind) = u) all_kinds of
             None \<Rightarrow> Inl ManifestValidationError
           | Some kind \<Rightarrow> Inr kind)
      | _ \<Rightarrow> Inl ManifestValidationError)"

definition python_part_ok :: "utext \<Rightarrow> bool" where
  "python_part_ok part \<longleftrightarrow>
     part \<noteq> [] \<and> hd part \<notin> set (code_points ''.-'') \<and> list_all (\<lambda>n. 33 \<le> n) part"

definition split_slash :: "utext \<Rightarrow> utext list" where
  "split_slash u = foldr (\<lambda>c ps. if c = 47 then [] # ps else (c # hd ps) # tl ps) u [[]]"

definition python_entrypoint_ok :: "utext \<Rightarrow> bool" where
  "python_entrypoint_ok u \<longleftrightarrow>
     ustrip u \<noteq> [] \<and> length u \<le> max_entrypoint_length \<and> take 1 u \<noteq> code_points ''/'' \<and>
     take 2 u \<noteq> code_points ''./'' \<and> 92 \<notin> set u \<and> list_all python_part_ok (split_slash u) \<and>
     drop (length u - 3) u = code_points ''.py''"

definition validate_python_entrypoint :: "utext \<Rightarrow> unit res" where
  "validate_python_entrypoint u = require (python_entrypoint_ok u) ManifestValidationError (Inr ())"

record manifest =
  man_entrypoint :: string
  man_kind :: workload_kind

definition default_entrypoint_for :: "workload_kind \<Rightarrow> string" where
  "default_entrypoint_for kind =
     (case kind of
        Streamlit \<Rightarrow> ''app.py'' | NextJs \<Rightarrow> ''app/page.tsx'' | ScheduledScript \<Rightarrow> ''main.py'')"

definition manifest_entrypoint :: "workload_kind \<Rightarrow> yaml option \<Rightarrow> string list \<Rightarrow> string res" where
  "manifest_entrypoint kind v snapshot_paths =
     (if kind = ScheduledScript then
        (case v of
           Some (YStr u) \<Rightarrow>
             bind_res (validate_python_entrypoint u) (\<lambda>_.
               case narrow u of
                 None \<Rightarrow> Inl ManifestValidationError
               | Some path \<Rightarrow> require (path \<in> set snapshot_paths) ManifestValidationError (Inr path))
         | _ \<Rightarrow> Inl ManifestValidationError)
      else require (v = None \<or> v = Some YNull) ManifestValidationError
        (Inr (default_entrypoint_for kind)))"

definition manifest_schedule :: "workload_kind \<Rightarrow> yaml option \<Rightarrow> unit res" where
  "manifest_schedule kind v =
     (if kind = ScheduledScript
      then require (v = Some (YStr (code_points ''hourly''))) ManifestValidationError (Inr ())
      else require (v = None \<or> v = Some YNull) ManifestValidationError (Inr ()))"

definition manifest_of_document :: "yaml \<Rightarrow> string list \<Rightarrow> manifest res" where
  "manifest_of_document document snapshot_paths =
     (case document of
        YMap ps \<Rightarrow>
          bind_res (manifest_shape 0 document 0) (\<lambda>_.
          require (\<forall>k \<in> set (map fst ps). k \<in> set (map (YStr \<circ> code_points) allowed_manifest_keys))
            ManifestValidationError
         (bind_res (manifest_kind (yaml_get ps ''kind'')) (\<lambda>kind.
          bind_res (manifest_entrypoint kind (yaml_get ps ''entrypoint'') snapshot_paths) (\<lambda>entrypoint.
          bind_res (manifest_schedule kind (yaml_get ps ''schedule'')) (\<lambda>_.
            Inr \<lparr>man_entrypoint = entrypoint, man_kind = kind\<rparr>)))))
      | _ \<Rightarrow> Inl ManifestValidationError)"

definition single_document :: "yaml list \<Rightarrow> yaml res" where
  "single_document documents =
     (case documents of [document] \<Rightarrow> Inr document | _ \<Rightarrow> Inl ManifestValidationError)"

definition parse_manifest ::
    "parsers \<Rightarrow> bytes option \<Rightarrow> string list \<Rightarrow> manifest option res" where
  "parse_manifest P raw_manifest snapshot_paths =
     (case raw_manifest of
        None \<Rightarrow> Inr None
      | Some raw \<Rightarrow>
          require (length raw \<le> max_manifest_bytes) ManifestValidationError
         (case decode_utf8 raw of
            None \<Rightarrow> Inl ManifestValidationError
          | Some text \<Rightarrow>
              require (\<not> (contains_text (code_points ''<<'') text \<or> has_anchor None text))
                ManifestValidationError
             (require (33 \<notin> set text) ManifestValidationError
             (bind_res (load_documents (yaml_documents P text)) (\<lambda>documents.
              bind_res (single_document documents) (\<lambda>document.
              bind_res (manifest_of_document document snapshot_paths) (\<lambda>m. Inr (Some m))))))))"


section \<open>Evidence\<close>

definition requirement_char :: "nat \<Rightarrow> bool" where
  "requirement_char n \<longleftrightarrow> n < 128 \<and> (is_ascii_alnum (char_of n) \<or> char_of n \<in> set ''._-'')"

text \<open>\<^verbatim>\<open>name.replace("_", "-").replace(".", "-").lower()\<close> of an ASCII name.\<close>

definition normalized_requirement :: "utext \<Rightarrow> utext" where
  "normalized_requirement u =
     map (\<lambda>n. if n = 95 \<or> n = 46 then 45 else if 65 \<le> n \<and> n \<le> 90 then n + 32 else n) u"

definition streamlit_requirement_line :: "utext \<Rightarrow> bool" where
  "streamlit_requirement_line raw_line \<longleftrightarrow>
     (let line = ustrip (takeWhile (\<lambda>n. n \<noteq> 35) raw_line)
      in line \<noteq> [] \<and> hd line \<noteq> 45 \<and>
         normalized_requirement (takeWhile requirement_char line) = code_points ''streamlit'')"

definition has_streamlit_requirement :: "bytes \<Rightarrow> bool" where
  "has_streamlit_requirement raw_requirements \<longleftrightarrow>
     (case decode_utf8 raw_requirements of
        None \<Rightarrow> False
      | Some text \<Rightarrow> list_ex streamlit_requirement_line (splitlines text))"

fun streamlit_statement :: "statement \<Rightarrow> bool" where
  "streamlit_statement (Import names) = (code_points ''streamlit'' \<in> set names)"
| "streamlit_statement (ImportFrom module) = (module = Some (code_points ''streamlit''))"
| "streamlit_statement OtherStatement = False"

definition has_streamlit_import :: "parsers \<Rightarrow> bytes \<Rightarrow> bool" where
  "has_streamlit_import P raw_app \<longleftrightarrow>
     (case decode_utf8 raw_app of
        None \<Rightarrow> False
      | Some text \<Rightarrow>
          (case python_module P text of
             None \<Rightarrow> False
           | Some body \<Rightarrow> list_ex streamlit_statement body))"

definition looks_like_streamlit :: "parsers \<Rightarrow> (string, bytes) dict \<Rightarrow> bool" where
  "looks_like_streamlit P snapshot \<longleftrightarrow>
     (case (dict_get snapshot ''requirements.txt'', dict_get snapshot ''app.py'') of
        (Some requirements, Some app) \<Rightarrow>
          has_streamlit_requirement requirements \<and> has_streamlit_import P app
      | _ \<Rightarrow> False)"

text \<open>\<^verbatim>\<open>bool(page.strip())\<close> of bytes, which strips ASCII whitespace.\<close>

definition bytes_nonblank :: "bytes \<Rightarrow> bool" where
  "bytes_nonblank b \<longleftrightarrow>
     list_ex (\<lambda>c. \<not> (9 \<le> code_point c \<and> code_point c \<le> (13 :: nat) \<or> code_point c = (32 :: nat))) b"

text \<open>
  \<^verbatim>\<open>json.loads(raw.decode("utf-8"))\<close>, with None where UnicodeDecodeError or JSONDecodeError is
  caught. The ValueError of an integer with too many digits is not.
\<close>

definition read_json_file :: "bytes \<Rightarrow> jvalue option res" where
  "read_json_file raw =
     (case decode_utf8 raw of
        None \<Rightarrow> Inr None
      | Some text \<Rightarrow>
          (case json_loads text of
             Inl e \<Rightarrow> if e = JsonDecodeError then Inr None else Inl e
           | Inr v \<Rightarrow> Inr (Some v)))"

definition next_dependency :: "jvalue \<Rightarrow> bool" where
  "next_dependency parsed \<longleftrightarrow>
     (case parsed of
        VObj ps \<Rightarrow>
          (case member ps ''dependencies'' of
             Some (VObj dependencies) \<Rightarrow>
               (case member dependencies ''next'' of Some (VStr u) \<Rightarrow> ustrip u \<noteq> [] | _ \<Rightarrow> False)
           | _ \<Rightarrow> False)
      | _ \<Rightarrow> False)"

definition is_object :: "jvalue \<Rightarrow> bool" where
  "is_object v = (case v of VObj _ \<Rightarrow> True | _ \<Rightarrow> False)"

definition looks_like_nextjs :: "(string, bytes) dict \<Rightarrow> bool res" where
  "looks_like_nextjs snapshot =
     (case (dict_get snapshot ''package.json'', dict_get snapshot ''package-lock.json'',
            dict_get snapshot ''app/page.tsx'') of
        (Some package_json, Some package_lock, Some page) \<Rightarrow>
          if \<not> bytes_nonblank page then Inr False
          else
            bind_res (read_json_file package_json) (\<lambda>parsed.
            case parsed of
              None \<Rightarrow> Inr False
            | Some p \<Rightarrow>
                bind_res (read_json_file package_lock) (\<lambda>lock.
                case lock of
                  None \<Rightarrow> Inr False
                | Some l \<Rightarrow> Inr (is_object l \<and> next_dependency p)))
      | _ \<Rightarrow> Inr False)"

text \<open>A set of kinds is a list of them.\<close>

definition detect_kinds :: "parsers \<Rightarrow> (string, bytes) dict \<Rightarrow> workload_kind list res" where
  "detect_kinds P snapshot =
     bind_res (looks_like_nextjs snapshot) (\<lambda>nextjs.
       Inr ((if looks_like_streamlit P snapshot then [Streamlit] else []) @
            (if nextjs then [NextJs] else [])))"


section \<open>Classification\<close>

record workload_classification =
  cls_kind :: workload_kind
  cls_entrypoint :: string
  cls_schedule_cron :: "string option"

definition classification_post_init :: "workload_classification \<Rightarrow> workload_classification res" where
  "classification_post_init c =
     (case cls_kind c of
        Streamlit \<Rightarrow>
          require (cls_entrypoint c = ''app.py'' \<and> cls_schedule_cron c = None) ValueErr (Inr c)
      | NextJs \<Rightarrow>
          require (cls_entrypoint c = ''app/page.tsx'' \<and> cls_schedule_cron c = None) ValueErr (Inr c)
      | ScheduledScript \<Rightarrow>
          require (cls_schedule_cron c = Some hourly_cron) ValueErr
            (bind_res (validate_python_entrypoint (code_points (cls_entrypoint c))) (\<lambda>_. Inr c)))"

text \<open>A classification, or the kinds a question offers.\<close>

datatype classified =
    Classified workload_classification
  | Question "workload_kind list"

definition disambiguation :: "workload_kind list \<Rightarrow> classified" where
  "disambiguation kinds = Question (sort_key workload_kind_value (remdups kinds))"

definition detected_classification :: "workload_kind \<Rightarrow> classified res" where
  "detected_classification kind =
     (case kind of
        Streamlit \<Rightarrow>
          bind_res (classification_post_init
            \<lparr>cls_kind = kind, cls_entrypoint = ''app.py'', cls_schedule_cron = None\<rparr>)
            (\<lambda>c. Inr (Classified c))
      | NextJs \<Rightarrow>
          bind_res (classification_post_init
            \<lparr>cls_kind = kind, cls_entrypoint = ''app/page.tsx'', cls_schedule_cron = None\<rparr>)
            (\<lambda>c. Inr (Classified c))
      | ScheduledScript \<Rightarrow> Inl ManifestValidationError)"

definition decide_detected :: "workload_kind list \<Rightarrow> classified res" where
  "decide_detected detected =
     (case detected of
        [kind] \<Rightarrow> detected_classification kind
      | [] \<Rightarrow> Inr (disambiguation [NextJs, ScheduledScript, Streamlit])
      | _ \<Rightarrow> Inr (disambiguation detected))"

definition choose_kind ::
    "string list \<Rightarrow> manifest option \<Rightarrow> workload_kind list \<Rightarrow> classified res" where
  "choose_kind snapshot_paths declared detected =
     (case declared of
        None \<Rightarrow> decide_detected detected
      | Some m \<Rightarrow>
          if man_kind m = ScheduledScript then
            if detected \<noteq> [] then Inr (disambiguation (detected @ [ScheduledScript]))
            else
              bind_res (classification_post_init
                \<lparr>cls_kind = man_kind m, cls_entrypoint = man_entrypoint m,
                 cls_schedule_cron = Some hourly_cron\<rparr>) (\<lambda>c. Inr (Classified c))
          else if man_kind m \<notin> set detected then
            if detected = [] \<and> ''main.py'' \<in> set snapshot_paths
            then Inr (disambiguation [man_kind m, ScheduledScript])
            else if detected \<noteq> [] then Inr (disambiguation (detected @ [man_kind m]))
            else Inr (disambiguation [NextJs, ScheduledScript, Streamlit])
          else decide_detected detected)"

definition classify_snapshot :: "parsers \<Rightarrow> (string, bytes) dict \<Rightarrow> classified res" where
  "classify_snapshot P snapshot =
     bind_res (normalize_snapshot snapshot) (\<lambda>normalized.
     bind_res (parse_manifest P (dict_get normalized ''mim.yaml'') (dict_keys normalized)) (\<lambda>declared.
     bind_res (detect_kinds P normalized) (\<lambda>detected.
       choose_kind (dict_keys normalized) declared detected)))"


section \<open>Build templates\<close>

record build_template =
  btp_kind :: workload_kind
  btp_runtime :: string
  btp_install_command :: "string list"
  btp_build_command :: "string list"
  btp_launch_command :: "string list"
  btp_required_files :: "string list"
  btp_schedule_cron :: "string option"

definition build_template_for :: "workload_classification \<Rightarrow> build_template" where
  "build_template_for c =
     (case cls_kind c of
        Streamlit \<Rightarrow>
          \<lparr>btp_kind = cls_kind c, btp_runtime = ''python3.13'',
           btp_install_command = [''python'', ''-m'', ''pip'', ''install'', ''-r'', ''requirements.txt''],
           btp_build_command = [],
           btp_launch_command =
             [''streamlit'', ''run'', cls_entrypoint c, ''--server.address'', ''0.0.0.0'',
              ''--server.port'', ''8080''],
           btp_required_files = [''app.py'', ''requirements.txt''], btp_schedule_cron = None\<rparr>
      | NextJs \<Rightarrow>
          \<lparr>btp_kind = cls_kind c, btp_runtime = ''node20'',
           btp_install_command = [''npm'', ''ci'', ''--ignore-scripts''],
           btp_build_command = [''./node_modules/.bin/next'', ''build''],
           btp_launch_command =
             [''./node_modules/.bin/next'', ''start'', ''--hostname'', ''0.0.0.0'', ''--port'', ''8080''],
           btp_required_files = [''app/page.tsx'', ''package-lock.json'', ''package.json''],
           btp_schedule_cron = None\<rparr>
      | ScheduledScript \<Rightarrow>
          \<lparr>btp_kind = cls_kind c, btp_runtime = ''python3.13'', btp_install_command = [],
           btp_build_command = [], btp_launch_command = [''python'', cls_entrypoint c],
           btp_required_files = [cls_entrypoint c, ''mim.yaml''],
           btp_schedule_cron = cls_schedule_cron c\<rparr>)"


section \<open>What a classification rests on\<close>

lemma classifier_scan_Inr:
  assumes "classifier_scan items total_bytes acc = Inr n"
    and "dict_ok items" and "set (dict_keys items) \<inter> set (dict_keys acc) = {}"
  shows "n = acc @ items \<and> (\<forall>path \<in> set (dict_keys items). snapshot_path_ok path)"
  using assms
proof (induction items total_bytes acc rule: classifier_scan.induct)
  case (2 p c items total_bytes acc)
  have fresh: "dict_put p c acc = acc @ [(p, c)]"
    using "2.prems"(3) by (induction acc) auto
  from "2.prems"(1) have ok: "snapshot_path_ok p" "length c \<le> max_snapshot_file_bytes"
      "total_bytes + length c \<le> max_snapshot_total_bytes"
    and rest: "classifier_scan items (total_bytes + length c) (dict_put p c acc) = Inr n"
    by (auto simp: res_simps)
  from "2.IH" [OF rest] "2.prems"(2,3) ok(1) show ?case by (auto simp: fresh)
qed simp

lemma normalize_snapshot_Inr:
  assumes "normalize_snapshot snapshot = Inr n" and "dict_ok snapshot"
  shows "n = snapshot \<and> (\<forall>path \<in> set (dict_keys snapshot). snapshot_path_ok path)"
  using classifier_scan_Inr [of snapshot 0 "[]" n] assms by (auto simp: normalize_snapshot_def res_simps)

lemma normalized_keys_ok:
  "classifier_scan items total_bytes acc = Inr n \<Longrightarrow> dict_ok acc \<Longrightarrow> dict_ok n"
  by (induction items total_bytes acc rule: classifier_scan.induct) (auto simp: res_simps)

lemma single_document_Inr [res_simps]: "single_document documents = Inr d \<longleftrightarrow> documents = [d]"
  by (auto simp: single_document_def split: list.splits)

lemma parse_manifest_None: "parse_manifest P raw paths = Inr None \<Longrightarrow> raw = None"
  by (auto simp: parse_manifest_def res_simps split: option.splits list.splits)

lemma manifest_kind_scheduled: "man_kind m = ScheduledScript \<Longrightarrow>
  manifest_of_document document paths = Inr m \<Longrightarrow>
    man_entrypoint m \<in> set paths \<and> python_entrypoint_ok (code_points (man_entrypoint m))"
  by (auto simp: manifest_of_document_def manifest_entrypoint_def validate_python_entrypoint_def
      narrow_def list_all_iff comp_def map_idI res_simps
      split: yaml.splits option.splits if_splits)

lemma parse_manifest_scheduled:
  "parse_manifest P raw paths = Inr (Some m) \<Longrightarrow> man_kind m = ScheduledScript \<Longrightarrow>
    raw \<noteq> None \<and> man_entrypoint m \<in> set paths \<and> python_entrypoint_ok (code_points (man_entrypoint m))"
  by (auto simp: parse_manifest_def res_simps dest: manifest_kind_scheduled
      split: option.splits list.splits)

lemma detect_kinds_Inr: "detect_kinds P snapshot = Inr detected \<Longrightarrow>
  distinct detected \<and> ScheduledScript \<notin> set detected \<and>
  (Streamlit \<in> set detected \<longleftrightarrow> looks_like_streamlit P snapshot) \<and>
  looks_like_nextjs snapshot = Inr (NextJs \<in> set detected)"
  by (auto simp: detect_kinds_def res_simps split: if_splits)

lemma looks_like_streamlit_files:
  "looks_like_streamlit P snapshot \<Longrightarrow> {''app.py'', ''requirements.txt''} \<subseteq> set (dict_keys snapshot)"
  by (auto simp: looks_like_streamlit_def dict_keys_get simp del: set_map split: option.splits)

lemma looks_like_nextjs_files:
  "looks_like_nextjs snapshot = Inr True \<Longrightarrow>
     {''app/page.tsx'', ''package-lock.json'', ''package.json''} \<subseteq> set (dict_keys snapshot)"
  by (auto simp: looks_like_nextjs_def dict_keys_get simp del: set_map split: option.splits)

text \<open>The evidence a snapshot has to give for each kind.\<close>

definition kind_evidence :: "parsers \<Rightarrow> (string, bytes) dict \<Rightarrow> workload_classification \<Rightarrow> bool" where
  "kind_evidence P snapshot c \<longleftrightarrow>
     (case cls_kind c of
        Streamlit \<Rightarrow> looks_like_streamlit P snapshot \<and> looks_like_nextjs snapshot = Inr False
      | NextJs \<Rightarrow> \<not> looks_like_streamlit P snapshot \<and> looks_like_nextjs snapshot = Inr True
      | ScheduledScript \<Rightarrow>
          \<not> looks_like_streamlit P snapshot \<and> looks_like_nextjs snapshot = Inr False \<and>
          (\<exists>m. parse_manifest P (dict_get snapshot ''mim.yaml'') (dict_keys snapshot) = Inr (Some m) \<and>
               man_kind m = ScheduledScript \<and> man_entrypoint m = cls_entrypoint c))"

lemma decide_detected_Classified:
  "decide_detected detected = Inr (Classified c) \<Longrightarrow>
    detected = [cls_kind c] \<and> classification_post_init c = Inr c \<and> cls_kind c \<noteq> ScheduledScript"
  by (auto simp: decide_detected_def detected_classification_def disambiguation_def
      classification_post_init_def res_simps
      split: list.splits workload_kind.splits)

lemma classify_Classified:
  assumes "classify_snapshot P snapshot = Inr (Classified c)" and "dict_ok snapshot"
  shows "kind_evidence P snapshot c \<and> classification_post_init c = Inr c \<and>
    (\<forall>path \<in> set (dict_keys snapshot). snapshot_path_ok path) \<and>
    (cls_kind c = ScheduledScript \<longrightarrow>
       cls_entrypoint c \<in> set (dict_keys snapshot) \<and> ''mim.yaml'' \<in> set (dict_keys snapshot))"
proof -
  from assms obtain declared detected where
    paths: "\<forall>path \<in> set (dict_keys snapshot). snapshot_path_ok path" and
    declared: "parse_manifest P (dict_get snapshot ''mim.yaml'') (dict_keys snapshot) = Inr declared" and
    detected: "detect_kinds P snapshot = Inr detected" and
    decision: "choose_kind (dict_keys snapshot) declared detected = Inr (Classified c)"
    unfolding classify_snapshot_def bind_res_Inr using normalize_snapshot_Inr by blast
  note kinds = detect_kinds_Inr [OF detected]
  show ?thesis
  proof (cases "decide_detected detected = Inr (Classified c)")
    case True
    from decide_detected_Classified [OF this] kinds paths show ?thesis
      by (cases "cls_kind c") (auto simp: kind_evidence_def)
  next
    case False
    with decision obtain m where m: "declared = Some m" "man_kind m = ScheduledScript" "detected = []"
      and post: "classification_post_init
        \<lparr>cls_kind = man_kind m, cls_entrypoint = man_entrypoint m,
         cls_schedule_cron = Some hourly_cron\<rparr> = Inr c"
      by (auto simp: choose_kind_def disambiguation_def res_simps split: option.splits if_splits)
    then have c: "c = \<lparr>cls_kind = ScheduledScript, cls_entrypoint = man_entrypoint m,
        cls_schedule_cron = Some hourly_cron\<rparr>"
      by (auto simp: classification_post_init_def res_simps)
    from parse_manifest_scheduled [OF declared [unfolded m(1)] m(2)] kinds m declared post paths
    show ?thesis
      by (auto simp: c kind_evidence_def dict_keys_get simp del: set_map)
  qed
qed

text \<open>
  C39: A snapshot is classified only as the kind it gives evidence for and for no other one: the files
  that the platform's template needs are in the snapshot, under safe relative paths. What the
  platform runs is its own command; the only word of it that comes from the repository is the
  entrypoint of a scheduled script, a relative path to a Python file of the snapshot that cannot be
  taken for an option and does not leave the directory.
\<close>

theorem classified_code_is_reviewed:
  assumes "classify_snapshot P snapshot = Inr (Classified c)" and "dict_ok snapshot"
  shows "kind_evidence P snapshot c \<and>
    set (btp_required_files (build_template_for c)) \<subseteq> set (dict_keys snapshot) \<and>
    (\<forall>path \<in> set (dict_keys snapshot). snapshot_path_ok path) \<and>
    btp_kind (build_template_for c) = cls_kind c \<and>
    (case cls_kind c of
       Streamlit \<Rightarrow>
         btp_launch_command (build_template_for c) =
           [''streamlit'', ''run'', ''app.py'', ''--server.address'', ''0.0.0.0'', ''--server.port'',
            ''8080''] \<and> btp_schedule_cron (build_template_for c) = None
     | NextJs \<Rightarrow>
         btp_launch_command (build_template_for c) =
           [''./node_modules/.bin/next'', ''start'', ''--hostname'', ''0.0.0.0'', ''--port'', ''8080''] \<and>
         btp_schedule_cron (build_template_for c) = None
     | ScheduledScript \<Rightarrow>
         btp_launch_command (build_template_for c) = [''python'', cls_entrypoint c] \<and>
         python_entrypoint_ok (code_points (cls_entrypoint c)) \<and>
         btp_schedule_cron (build_template_for c) = Some hourly_cron)"
proof -
  note facts = classify_Classified [OF assms]
  have "set (btp_required_files (build_template_for c)) \<subseteq> set (dict_keys snapshot)"
    using facts looks_like_streamlit_files [of P snapshot] looks_like_nextjs_files [of snapshot]
    by (cases "cls_kind c") (auto simp: kind_evidence_def build_template_for_def simp del: set_map)
  with facts show ?thesis
    by (cases "cls_kind c")
      (auto simp: build_template_for_def classification_post_init_def validate_python_entrypoint_def
        res_simps)
qed


section \<open>The ways a classification fails\<close>

lemma classifier_scan_Inl: "classifier_scan items t acc = Inl e \<Longrightarrow> e = SnapshotValidationError"
  by (induction items t acc rule: classifier_scan.induct) (auto simp: res_simps split: if_splits)

lemma construct_Inl:
  "construct y = Inl e \<Longrightarrow> e \<in> {ManifestValidationError, ValueErr}"
  "construct_pairs ps keys = Inl e \<Longrightarrow> e \<in> {ManifestValidationError, ValueErr}"
  "construct_all ys = Inl e \<Longrightarrow> e \<in> {ManifestValidationError, ValueErr}"
proof (induction y and ps keys and ys rule: construct_construct_pairs_construct_all.induct)
  case (11 k v ps keys)
  then show ?case by (cases k) (auto simp: res_simps split: if_splits)
next
  case (13 y ys)
  then show ?case by (auto simp: res_simps)
qed auto

lemma manifest_shape_Inl:
  "manifest_shape depth y nodes = Inl e \<Longrightarrow> e = ManifestValidationError"
  "manifest_shapes depth ys nodes = Inl e \<Longrightarrow> e = ManifestValidationError"
  "manifest_pairs depth ps nodes = Inl e \<Longrightarrow> e = ManifestValidationError"
proof (induction depth y nodes and depth ys nodes and depth ps nodes
    rule: manifest_shape_manifest_shapes_manifest_pairs.induct)
  case (1 depth y nodes)
  then show ?case by (cases y) (auto simp: res_simps split: if_splits)
qed (auto simp: res_simps)

lemma manifest_of_document_Inl:
  "manifest_of_document document paths = Inl e \<Longrightarrow> e \<in> {ManifestValidationError, TypeErr}"
  by (auto simp: manifest_of_document_def manifest_kind_def manifest_entrypoint_def
      validate_python_entrypoint_def manifest_schedule_def res_simps
      dest: manifest_shape_Inl split: yaml.splits option.splits if_splits)

lemma load_documents_Inl: "load_documents stream = Inl e \<Longrightarrow> e \<in> {ManifestValidationError, ValueErr}"
  using construct_Inl(3) [of "fst stream" e]
  by (auto simp: load_documents_def res_simps simp del: construct_all.simps split: if_splits)

lemma single_document_Inl: "single_document documents = Inl e \<Longrightarrow> e = ManifestValidationError"
  by (auto simp: single_document_def split: list.splits)

lemma parse_manifest_Inl:
  "parse_manifest P raw paths = Inl e \<Longrightarrow> e \<in> {ManifestValidationError, ValueErr, TypeErr}"
  by (auto simp: parse_manifest_def res_simps dest: load_documents_Inl single_document_Inl
      manifest_of_document_Inl split: option.splits if_splits)

lemma looks_like_nextjs_Inl: "looks_like_nextjs snapshot = Inl e \<Longrightarrow> e = ValueErr"
  by (auto simp: looks_like_nextjs_def read_json_file_def res_simps
      dest: json_loads_Inl split: option.splits if_splits sum.splits)

text \<open>A question is a choice, and a classification satisfies its class invariant.\<close>

definition outcome_ok :: "classified res \<Rightarrow> bool" where
  "outcome_ok r \<longleftrightarrow>
     (case r of
        Inl e \<Rightarrow> e \<in> {SnapshotValidationError, ManifestValidationError, ValueErr, TypeErr}
      | Inr (Question kinds) \<Rightarrow>
          2 \<le> length kinds \<and> distinct kinds \<and> sorted (map workload_kind_value kinds)
      | Inr (Classified c) \<Rightarrow> classification_post_init c = Inr c)"

lemma disambiguation_ok: "2 \<le> card (set kinds) \<Longrightarrow> outcome_ok (Inr (disambiguation kinds))"
  by (simp add: outcome_ok_def disambiguation_def length_remdups_card_conv)

lemma post_init_ok: "outcome_ok (bind_res (classification_post_init c) (\<lambda>c. Inr (Classified c)))"
  by (auto simp: outcome_ok_def classification_post_init_def validate_python_entrypoint_def require_def
      split: workload_kind.splits)

lemma two_kinds: "distinct kinds \<Longrightarrow> kinds \<noteq> [] \<Longrightarrow> kind \<notin> set kinds \<Longrightarrow> 2 \<le> card (set (kinds @ [kind]))"
  by (cases kinds) (auto simp: distinct_card)

lemma decide_detected_ok:
  assumes "distinct detected"
  shows "outcome_ok (decide_detected detected)"
proof (cases detected rule: remdups_adj.cases)
  case (2 kind)
  then show ?thesis
    using post_init_ok
    by (cases kind) (auto simp: decide_detected_def detected_classification_def, simp add: outcome_ok_def)
next
  case (3 k l ks)
  with assms show ?thesis
    using disambiguation_ok [of detected] by (simp add: decide_detected_def distinct_card)
qed (simp add: decide_detected_def disambiguation_ok)

lemma choose_kind_ok:
  assumes "detect_kinds P n = Inr detected"
  shows "outcome_ok (choose_kind paths declared detected)"
  using detect_kinds_Inr [OF assms]
  by (auto simp: choose_kind_def intro!: decide_detected_ok disambiguation_ok post_init_ok two_kinds
      simp del: set_append split: option.splits)

lemma classify_outcome: "outcome_ok (classify_snapshot P snapshot)"
proof -
  have scan: "outcome_ok (Inl e)" if "normalize_snapshot snapshot = Inl e" for e
    using that classifier_scan_Inl [of snapshot 0 "[]" e]
    by (auto simp: normalize_snapshot_def res_simps outcome_ok_def split: if_splits)
  have kinds: "outcome_ok (Inl e)" if "detect_kinds P n = Inl e" for e n
    using that looks_like_nextjs_Inl [of n e] by (auto simp: detect_kinds_def res_simps outcome_ok_def)
  have manifest: "outcome_ok (Inl e)" if "parse_manifest P raw paths = Inl e" for e raw paths
    using parse_manifest_Inl [OF that] by (auto simp: outcome_ok_def)
  show ?thesis
    unfolding classify_snapshot_def bind_res_def
    by (auto intro: scan kinds manifest choose_kind_ok split: sum.splits)
qed


text \<open>
  A manifest whose kind is a list: every check before that of the kind accepts it, and then the
  membership test raises TypeError, which no caller catches.
\<close>

lemma unhashable_kind:
  assumes "normalize_snapshot snapshot = Inr normalized"
    and "dict_get normalized ''mim.yaml'' = Some raw" "length raw \<le> max_manifest_bytes"
    and "decode_utf8 raw = Some text"
    and "\<not> contains_text (code_points ''<<'') text" "\<not> has_anchor None text" "33 \<notin> set text"
    and "yaml_documents P text = ([YMap [(YStr (code_points ''kind''), YSeq [])]], False)"
  shows "classify_snapshot P snapshot = Inl TypeErr"
proof -
  have "manifest_of_document (YMap [(YStr (code_points ''kind''), YSeq [])]) paths = Inl TypeErr" for paths
    by (simp add: manifest_of_document_def max_manifest_nodes_def max_manifest_depth_def
        allowed_manifest_keys_def manifest_kind_def yaml_get_def)
  with assms show ?thesis
    by (simp add: classify_snapshot_def parse_manifest_def load_documents_def single_document_def)
qed


section \<open>A scheduled script\<close>

definition sample_manifest_text :: bytes where
  "sample_manifest_text =
     ''kind: scheduled_script'' @ [CHR 0x0A] @ ''entrypoint: jobs/run.py'' @ [CHR 0x0A] @
     ''schedule: hourly''"

text \<open>What the parsers say about the sample: a mapping of three keys, and no statement of interest.\<close>

definition sample_manifest_document :: yaml where
  "sample_manifest_document =
     YMap (map (\<lambda>(k, v). (YStr (code_points k), YStr (code_points v)))
       [(''kind'', ''scheduled_script''), (''entrypoint'', ''jobs/run.py''), (''schedule'', ''hourly'')])"

definition sample_parsers :: parsers where
  "sample_parsers =
     \<lparr>yaml_documents = \<lambda>_. ([sample_manifest_document], False), python_module = \<lambda>_. Some []\<rparr>"

definition sample_script_snapshot :: "(string, bytes) dict" where
  "sample_script_snapshot =
     [(''mim.yaml'', sample_manifest_text), (''jobs/run.py'', ''print(1)'')]"

definition sample_script :: workload_classification where
  "sample_script =
     \<lparr>cls_kind = ScheduledScript, cls_entrypoint = ''jobs/run.py'', cls_schedule_cron = Some hourly_cron\<rparr>"

lemma sample_path_texts: "snapshot_path_ok ''mim.yaml''" "snapshot_path_ok ''jobs/run.py''"
  by (simp_all add: snapshot_path_ok_def snapshot_path_pattern_def max_path_length_def is_ascii_alnum_def
      is_ascii_alpha_def is_digit_def less_eq_char_def starts_with_def snapshot_part_ok_def)

lemma sample_paths_ok: "normalize_snapshot sample_script_snapshot = Inr sample_script_snapshot"
  by (simp add: normalize_snapshot_def sample_script_snapshot_def sample_manifest_text_def
      max_snapshot_files_def max_snapshot_file_bytes_def max_snapshot_total_bytes_def
      sample_path_texts)

lemma sample_entrypoint_ok: "python_entrypoint_ok (code_points ''jobs/run.py'')"
  by (simp add: python_entrypoint_ok_def python_part_ok_def split_slash_def ustrip_def
      unicode_space_def max_entrypoint_length_def)

lemma sample_manifest_parses:
  "parse_manifest sample_parsers (Some sample_manifest_text) [''mim.yaml'', ''jobs/run.py''] =
     Inr (Some \<lparr>man_entrypoint = ''jobs/run.py'', man_kind = ScheduledScript\<rparr>)"
proof -
  have decoded: "decode_utf8 sample_manifest_text = Some (code_points sample_manifest_text)"
    by (rule decode_ascii) (simp add: sample_manifest_text_def)
  have clean: "\<not> contains_text (code_points ''<<'') (code_points sample_manifest_text)"
    "\<not> has_anchor None (code_points sample_manifest_text)" "33 \<notin> set (code_points sample_manifest_text)"
    "length sample_manifest_text \<le> max_manifest_bytes"
    by (simp_all add: sample_manifest_text_def max_manifest_bytes_def)
  have "manifest_of_document sample_manifest_document [''mim.yaml'', ''jobs/run.py''] =
      Inr \<lparr>man_entrypoint = ''jobs/run.py'', man_kind = ScheduledScript\<rparr>"
    using sample_entrypoint_ok narrow_ascii [of "''jobs/run.py''"]
    by (simp add: manifest_of_document_def sample_manifest_document_def allowed_manifest_keys_def
        max_manifest_nodes_def max_manifest_depth_def manifest_kind_def yaml_get_def all_kinds_def
        manifest_entrypoint_def manifest_schedule_def validate_python_entrypoint_def)
  moreover have "construct sample_manifest_document = Inr ()"
    by (simp add: sample_manifest_document_def)
  ultimately show ?thesis
    using decoded clean
    by (simp add: parse_manifest_def sample_parsers_def load_documents_def single_document_def)
qed

lemma sample_is_classified: "classify_snapshot sample_parsers sample_script_snapshot = Inr (Classified sample_script)"
proof -
  have "detect_kinds sample_parsers sample_script_snapshot = Inr []"
    by (simp add: detect_kinds_def looks_like_nextjs_def looks_like_streamlit_def sample_script_snapshot_def)
  with sample_paths_ok sample_manifest_parses sample_entrypoint_ok show ?thesis
    by (simp add: classify_snapshot_def choose_kind_def sample_script_snapshot_def sample_script_def
        classification_post_init_def validate_python_entrypoint_def)
qed

theorem classified_code_is_reviewed_witness:
  "kind_evidence sample_parsers sample_script_snapshot sample_script \<and>
   btp_launch_command (build_template_for sample_script) = [''python'', ''jobs/run.py'']"
  using classified_code_is_reviewed [OF sample_is_classified]
  by (simp add: sample_script_snapshot_def sample_script_def)

end
