(* ===== verification/Render.thy ===== *)
theory Render
  imports Classifier Naming Signing Samples
begin

text \<open>
  \<^verbatim>\<open>services/render.py\<close>: the desired state of one deployment, signed for the private deploy worker,
  and the check the worker makes before it acts on one. Both turn every exception into
  DesiredStateDenied.
\<close>

section \<open>Constants and patterns\<close>

definition state_schema_version :: string where "state_schema_version = ''mim-desired-state-v2''"
definition worker_audience :: string where "worker_audience = ''private-deploy-worker-v1''"
definition artifact_repository :: string where "artifact_repository = ''mim''"
definition artifact_image_name :: string where "artifact_image_name = ''workloads''"
definition service_concurrency :: int where "service_concurrency = 20"
definition nextjs_timeout_seconds :: int where "nextjs_timeout_seconds = 300"
definition streamlit_timeout_seconds :: int where "streamlit_timeout_seconds = 3600"
definition job_task_count :: int where "job_task_count = 1"
definition job_parallelism :: int where "job_parallelism = 1"
definition job_retry_count :: int where "job_retry_count = 1"
definition job_timeout_seconds :: int where "job_timeout_seconds = 300"

text \<open>A first character of one class, then at most \<open>n\<close> of another.\<close>

definition headed_text :: "(char \<Rightarrow> bool) \<Rightarrow> (char \<Rightarrow> bool) \<Rightarrow> nat \<Rightarrow> string \<Rightarrow> bool" where
  "headed_text first rest n v \<longleftrightarrow>
     v \<noteq> [] \<and> first (hd v) \<and> list_all rest (tl v) \<and> length (tl v) \<le> n"

text \<open>\<^verbatim>\<open>^[A-Za-z0-9._-]{1,128}$\<close> and \<^verbatim>\<open>^[A-Za-z0-9][A-Za-z0-9._-]{0,99}$\<close>\<close>

definition state_identifier_ok :: "string \<Rightarrow> bool" where
  "state_identifier_ok v \<longleftrightarrow>
     v \<noteq> [] \<and> length v \<le> 128 \<and> list_all (\<lambda>c. is_ascii_alnum c \<or> c \<in> set ''._-'') v"

definition repository_name_ok :: "string \<Rightarrow> bool" where
  "repository_name_ok = headed_text is_ascii_alnum (\<lambda>c. is_ascii_alnum c \<or> c \<in> set ''._-'') 99"

text \<open>\<^verbatim>\<open>[a-z0-9](?:[a-z0-9-]{0,37}[a-z0-9])?\<close>\<close>

definition repository_owner_ok :: "string \<Rightarrow> bool" where
  "repository_owner_ok v \<longleftrightarrow> headed_text is_lower_alnum is_label_char 38 v \<and> is_lower_alnum (last v)"

definition snapshot_digest_ok :: "string \<Rightarrow> bool" where
  "snapshot_digest_ok v \<longleftrightarrow> starts_with v ''sha256:'' \<and> is_hex_text 64 (drop 7 v)"

text \<open>\<^verbatim>\<open>^[a-z][a-z0-9-]{0,62}$\<close> and \<^verbatim>\<open>^[a-z0-9-]{1,63}$\<close>\<close>

definition label_key_ok :: "string \<Rightarrow> bool" where
  "label_key_ok = headed_text is_ascii_lower is_label_char 62"

definition label_value_ok :: "string \<Rightarrow> bool" where
  "label_value_ok v \<longleftrightarrow> v \<noteq> [] \<and> length v \<le> 63 \<and> list_all is_label_char v"

text \<open>
  \<^verbatim>\<open>^[a-z0-9][a-z0-9_-]{0,62}$\<close>, \<^verbatim>\<open>^[a-z][a-z0-9-]{0,62}$\<close>, \<^verbatim>\<open>^MIM_SECRET_[A-Z0-9_]{1,128}$\<close> and
  \<^verbatim>\<open>^[1-9][0-9]{0,9}$\<close>
\<close>

definition attached_id_ok :: "string \<Rightarrow> bool" where
  "attached_id_ok = headed_text is_lower_alnum (\<lambda>c. is_label_char c \<or> c = CHR ''_'') 62"

definition attached_name_ok :: "string \<Rightarrow> bool" where
  "attached_name_ok = headed_text is_ascii_lower is_label_char 62"

definition attached_env_ok :: "string \<Rightarrow> bool" where
  "attached_env_ok v \<longleftrightarrow>
     starts_with v ''MIM_SECRET_'' \<and> 11 < length v \<and> length v \<le> 139 \<and>
     list_all (\<lambda>c. is_ascii_alnum c \<and> \<not> is_ascii_lower c \<or> c = CHR ''_'') (drop 11 v)"

definition attached_version_ok :: "string \<Rightarrow> bool" where
  "attached_version_ok = headed_text (\<lambda>c. is_digit c \<and> c \<noteq> CHR ''0'') is_digit 9"

definition value_like_markers :: "string list" where
  "value_like_markers =
     [''ghp_'', ''sk-'', ''api_key'', ''authorization'', ''cookie'', ''bearer'', ''access_token'',
      ''refresh_token'']"

definition looks_value_like :: "string \<Rightarrow> bool" where
  "looks_value_like v \<longleftrightarrow> list_ex (\<lambda>marker. contains marker (lower v)) value_like_markers"


section \<open>Records\<close>

datatype desired_target = CloudRunService | CloudRunJob
datatype desired_auth_mode = GatewayIam | MachineOnly
datatype desired_ingress = PublicIam | NoIngress

fun desired_target_value :: "desired_target \<Rightarrow> string" where
  "desired_target_value CloudRunService = ''cloud_run_service''"
| "desired_target_value CloudRunJob = ''cloud_run_job''"

fun auth_mode_value :: "desired_auth_mode \<Rightarrow> string" where
  "auth_mode_value GatewayIam = ''gateway_iam''"
| "auth_mode_value MachineOnly = ''machine_only''"

fun ingress_value :: "desired_ingress \<Rightarrow> string" where
  "ingress_value PublicIam = ''public_iam''"
| "ingress_value NoIngress = ''none''"

text \<open>Region and audience of a context are constants of its class.\<close>

record render_context =
  rcx_project_id :: string
  rcx_key_id :: string

definition render_context_post_init :: "render_context \<Rightarrow> render_context res" where
  "render_context_post_init c =
     bind_res (validate_project_id (rcx_project_id c)) (\<lambda>_.
       require (state_identifier_ok (rcx_key_id c)) ValueErr (Inr c))"

record desired_secret_attachment =
  dsa_secret_id :: string
  dsa_secret_name :: string
  dsa_secret_version :: string
  dsa_env_name :: string

record desired_state_payload =
  pay_repository_admission_id :: string
  pay_repository_numeric_id :: int
  pay_repository_owner :: string
  pay_repository_name :: string
  pay_admitted_sha :: string
  pay_admission_version :: int
  pay_workload_id :: string
  pay_workload_owner_id :: string
  pay_workload_kind :: workload_kind
  pay_workload_version :: int
  pay_source_sha :: string
  pay_desired_manifest_hash :: string
  pay_snapshot_digest :: string
  pay_project_id :: string
  pay_region :: string
  pay_target :: desired_target
  pay_image_uri :: string
  pay_runtime :: string
  pay_entrypoint :: string
  pay_install_command :: "string list"
  pay_build_command :: "string list"
  pay_launch_command :: "string list"
  pay_required_files :: "string list"
  pay_runtime_service_account :: string
  pay_cpu :: int
  pay_memory_mib :: int
  pay_service_min_instances :: int
  pay_service_max_instances :: int
  pay_request_cpu_always_allocated :: bool
  pay_service_concurrency :: int
  pay_service_timeout_seconds :: int
  pay_job_task_count :: "int option"
  pay_job_parallelism :: "int option"
  pay_job_retry_count :: "int option"
  pay_job_timeout_seconds :: "int option"
  pay_auth_mode :: desired_auth_mode
  pay_ingress :: desired_ingress
  pay_allow_unauthenticated :: bool
  pay_custom_domain :: bool
  pay_labels :: "(string \<times> string) list"
  pay_secret_attachments :: "desired_secret_attachment list"
  pay_schedule_cron :: "string option"
  pay_schedule_timezone :: "string option"


definition positive_ok :: "int \<Rightarrow> bool" where
  "positive_ok i \<longleftrightarrow> 1 \<le> i"

definition payload_ok :: "desired_state_payload \<Rightarrow> bool" where
  "payload_ok p \<longleftrightarrow>
     nonblank (pay_repository_admission_id p) \<and> positive_ok (pay_repository_numeric_id p) \<and>
     nonblank (pay_repository_owner p) \<and> nonblank (pay_repository_name p) \<and>
     repository_owner_ok (pay_repository_owner p) \<and> repository_name_ok (pay_repository_name p) \<and>
     source_sha_ok (pay_admitted_sha p) \<and> source_sha_ok (pay_source_sha p) \<and>
     positive_ok (pay_admission_version p) \<and> nonblank (pay_workload_id p) \<and>
     nonblank (pay_workload_owner_id p) \<and> positive_ok (pay_workload_version p) \<and>
     nonblank (pay_desired_manifest_hash p) \<and> snapshot_digest_ok (pay_snapshot_digest p)"

definition payload_post_init :: "desired_state_payload \<Rightarrow> desired_state_payload res" where
  "payload_post_init p = require (payload_ok p) ValueErr (Inr p)"

record signed_envelope =
  env_schema_version :: string
  env_key_id :: string
  env_audience :: string
  env_issued_at :: pytime
  env_expires_at :: pytime
  env_payload :: desired_state_payload
  env_signature :: string

definition utc_second :: "pytime \<Rightarrow> bool" where
  "utc_second t \<longleftrightarrow> is_utc t \<and> instant t mod seconds 1 = 0"

definition envelope_post_init :: "signed_envelope \<Rightarrow> signed_envelope res" where
  "envelope_post_init e =
     require (utc_second (env_issued_at e)) DesiredStateDenied
    (require (utc_second (env_expires_at e)) DesiredStateDenied
    (require (is_hex_text 64 (env_signature e)) ValueErr (Inr e)))"

record verified_state =
  vst_envelope :: signed_envelope
  vst_canonical_unsigned :: bytes
  vst_snapshot_digest :: string


section \<open>The signed bytes\<close>

text \<open>\<^verbatim>\<open>value.isoformat().replace("+00:00", "Z")\<close> of a UTC second.\<close>

definition isoformat_utc :: "pytime \<Rightarrow> string res" where
  "isoformat_utc t =
     require (utc_second t) DesiredStateDenied
       (Inr (take (length (isoformat t) - 6) (isoformat t) @ ''Z''))"

abbreviation json_strings :: "string list \<Rightarrow> json" where
  "json_strings vs \<equiv> JArr (map JStr vs)"

abbreviation json_int_option :: "int option \<Rightarrow> json" where
  "json_int_option v \<equiv> (case v of None \<Rightarrow> JNull | Some i \<Rightarrow> JInt i)"

abbreviation json_text_option :: "string option \<Rightarrow> json" where
  "json_text_option v \<equiv> (case v of None \<Rightarrow> JNull | Some s \<Rightarrow> JStr s)"

definition attachment_json :: "desired_secret_attachment \<Rightarrow> json" where
  "attachment_json a =
     JObj
       [(''secret_id'', JStr (dsa_secret_id a)), (''secret_name'', JStr (dsa_secret_name a)),
        (''secret_version'', JStr (dsa_secret_version a)), (''env_name'', JStr (dsa_env_name a))]"

text \<open>The dictionary of the payload, its keys and then its values.\<close>

definition payload_keys :: "string list" where
  "payload_keys =
     [''admission_version'', ''admitted_sha'', ''allow_unauthenticated'', ''auth_mode'',
      ''build_command'', ''cpu'', ''custom_domain'', ''desired_manifest_hash'', ''entrypoint'',
      ''image_uri'', ''ingress'', ''install_command'', ''job_parallelism'', ''job_retry_count'',
      ''job_task_count'', ''job_timeout_seconds'', ''labels'', ''launch_command'', ''memory_mib'',
      ''project_id'', ''region'', ''repository_admission_id'', ''repository_name'',
      ''repository_numeric_id'', ''repository_owner'', ''request_cpu_always_allocated'',
      ''required_files'', ''runtime'', ''runtime_service_account'', ''schedule_cron'',
      ''schedule_timezone'', ''secret_attachments'', ''service_concurrency'',
      ''service_max_instances'', ''service_min_instances'', ''service_timeout_seconds'',
      ''snapshot_digest'', ''source_sha'', ''target'', ''workload_id'', ''workload_kind'',
      ''workload_owner_id'', ''workload_version'']"

definition payload_values :: "desired_state_payload \<Rightarrow> json list" where
  "payload_values p =
     [JInt (pay_admission_version p), JStr (pay_admitted_sha p), JBool (pay_allow_unauthenticated p),
      JStr (auth_mode_value (pay_auth_mode p)), json_strings (pay_build_command p),
      JInt (pay_cpu p), JBool (pay_custom_domain p), JStr (pay_desired_manifest_hash p),
      JStr (pay_entrypoint p), JStr (pay_image_uri p), JStr (ingress_value (pay_ingress p)),
      json_strings (pay_install_command p), json_int_option (pay_job_parallelism p),
      json_int_option (pay_job_retry_count p), json_int_option (pay_job_task_count p),
      json_int_option (pay_job_timeout_seconds p),
      JObj (map (\<lambda>(k, v). (k, JStr v)) (dict_of (pay_labels p))),
      json_strings (pay_launch_command p), JInt (pay_memory_mib p), JStr (pay_project_id p),
      JStr (pay_region p), JStr (pay_repository_admission_id p), JStr (pay_repository_name p),
      JInt (pay_repository_numeric_id p), JStr (pay_repository_owner p),
      JBool (pay_request_cpu_always_allocated p), json_strings (pay_required_files p),
      JStr (pay_runtime p), JStr (pay_runtime_service_account p),
      json_text_option (pay_schedule_cron p), json_text_option (pay_schedule_timezone p),
      JArr (map attachment_json (pay_secret_attachments p)), JInt (pay_service_concurrency p),
      JInt (pay_service_max_instances p), JInt (pay_service_min_instances p),
      JInt (pay_service_timeout_seconds p), JStr (pay_snapshot_digest p), JStr (pay_source_sha p),
      JStr (desired_target_value (pay_target p)), JStr (pay_workload_id p),
      JStr (workload_kind_value (pay_workload_kind p)), JStr (pay_workload_owner_id p),
      JInt (pay_workload_version p)]"

definition payload_to_json_ready :: "desired_state_payload \<Rightarrow> json" where
  "payload_to_json_ready p = JObj (zip payload_keys (payload_values p))"

definition unsigned_json :: "signed_envelope \<Rightarrow> string \<Rightarrow> string \<Rightarrow> json" where
  "unsigned_json e expires issued =
     JObj
       [(''audience'', JStr (env_audience e)), (''expires_at'', JStr expires),
        (''issued_at'', JStr issued), (''key_id'', JStr (env_key_id e)),
        (''payload'', payload_to_json_ready (env_payload e)),
        (''schema_version'', JStr (env_schema_version e))]"

definition canonical_json_bytes :: "json \<Rightarrow> bytes" where
  "canonical_json_bytes j = utf8 (json_text_by raw_escape (sort_json j))"

definition canonical_unsigned_bytes :: "signed_envelope \<Rightarrow> bytes res" where
  "canonical_unsigned_bytes e =
     bind_res (isoformat_utc (env_expires_at e)) (\<lambda>expires.
     bind_res (isoformat_utc (env_issued_at e)) (\<lambda>issued.
       Inr (canonical_json_bytes (unsigned_json e expires issued))))"


section \<open>Parts of the desired state\<close>

definition validate_signing_key :: "bytes \<Rightarrow> unit res" where
  "validate_signing_key key = require (32 \<le> length key) DesiredStateDenied (Inr ())"

definition validate_workload_and_admission :: "workload \<Rightarrow> repository_admission \<Rightarrow> unit res" where
  "validate_workload_and_admission w a =
     require
       (adm_state a = Admitted \<and> wl_repository_admission_id w = adm_id a \<and>
        wl_source_sha w = adm_admitted_sha a \<and> adm_owner a = github_owner \<and>
        repository_name_ok (adm_name a) \<and> source_sha_ok (adm_admitted_sha a) \<and>
        source_sha_ok (wl_source_sha w))
       DesiredStateDenied (Inr ())"

text \<open>Every failure raises the same error, so the loop with its three sets is one condition.\<close>

definition attachments_ok :: "desired_secret_attachment list \<Rightarrow> bool" where
  "attachments_ok atts \<longleftrightarrow>
     length atts \<le> 5 \<and>
     list_all (\<lambda>a.
       attached_id_ok (dsa_secret_id a) \<and> attached_name_ok (dsa_secret_name a) \<and>
       attached_version_ok (dsa_secret_version a) \<and> \<not> looks_value_like (dsa_secret_id a) \<and>
       \<not> looks_value_like (dsa_secret_name a) \<and> attached_env_ok (dsa_env_name a)) atts \<and>
     distinct (map dsa_secret_id atts) \<and> distinct (map dsa_secret_name atts) \<and>
     distinct (map dsa_env_name atts)"

definition normalized_secret_attachments ::
    "desired_secret_attachment list \<Rightarrow> desired_secret_attachment list res" where
  "normalized_secret_attachments atts =
     require (attachments_ok atts) DesiredStateDenied
       (Inr (sort_key (\<lambda>a. (dsa_secret_id a, dsa_secret_name a, dsa_secret_version a, dsa_env_name a)) atts))"

definition service_timeout_seconds :: "workload_kind \<Rightarrow> int" where
  "service_timeout_seconds kind =
     (case kind of
        Streamlit \<Rightarrow> streamlit_timeout_seconds
      | NextJs \<Rightarrow> nextjs_timeout_seconds
      | ScheduledScript \<Rightarrow> nextjs_timeout_seconds)"

definition image_uri_of :: "string \<Rightarrow> string \<Rightarrow> string res" where
  "image_uri_of project_id image_digest =
     require (is_hex_text 64 image_digest) DesiredStateDenied
       (Inr (REGION @ ''-docker.pkg.dev/'' @ project_id @ ''/'' @ artifact_repository @ ''/'' @
             artifact_image_name @ ''@sha256:'' @ image_digest))"

text \<open>\<^verbatim>\<open>text.rsplit(marker, 1)[1]\<close>\<close>

fun after_last :: "string \<Rightarrow> string \<Rightarrow> string" where
  "after_last marker [] = []"
| "after_last marker (c # s) =
     (if contains marker s then after_last marker s
      else if starts_with (c # s) marker then drop (length marker) (c # s)
      else [])"

definition extract_image_digest :: "string \<Rightarrow> string res" where
  "extract_image_digest image_uri =
     require (contains ''@sha256:'' image_uri) DesiredStateDenied
       (let digest = after_last ''@sha256:'' image_uri
        in require (is_hex_text 64 digest) DesiredStateDenied (Inr digest))"

text \<open>\<^verbatim>\<open>len(x).to_bytes(8, "big")\<close>\<close>

definition length_bytes :: "nat \<Rightarrow> bytes" where
  "length_bytes n = map (\<lambda>i. char_of (n div 256 ^ i)) (rev [0..<8])"

definition snapshot_digest :: "(string, bytes) dict \<Rightarrow> string" where
  "snapshot_digest snapshot =
     ''sha256:'' @ sha256_hex
       (length_bytes (length snapshot) @
        concat (map (\<lambda>(path, content).
            length_bytes (length (utf8 path)) @ utf8 path @ length_bytes (length content) @ content)
          (sort_key fst snapshot)))"

definition runtime_service_account :: "string \<Rightarrow> string \<Rightarrow> string res" where
  "runtime_service_account project_id workload_id =
     (case runtime_identity_for project_id workload_id of
        Inl _ \<Rightarrow> Inl DesiredStateDenied
      | Inr spec \<Rightarrow> Inr (rid_email spec))"

definition stable_hash :: "string \<Rightarrow> string" where
  "stable_hash v = take 12 (sha256_hex (utf8 v))"

text \<open>The labels, in the order of their keys.\<close>

definition desired_labels :: "string \<Rightarrow> int \<Rightarrow> string \<Rightarrow> workload_kind \<Rightarrow> (string \<times> string) list" where
  "desired_labels owner_id repository_numeric_id workload_id kind =
     [(''managed-by'', ''mim-control-plane''), (''owner-hash'', stable_hash owner_id),
      (''repo-hash'', stable_hash (show_int repository_numeric_id)),
      (''workload-hash'', stable_hash workload_id),
      (''workload-kind'', map (\<lambda>c. if c = CHR ''_'' then CHR ''-'' else c) (workload_kind_value kind))]"

definition labels_for :: "workload \<Rightarrow> repository_admission \<Rightarrow> (string \<times> string) list" where
  "labels_for w a =
     desired_labels (wl_owner_id w) (adm_repository_numeric_id a) (wl_id w) (wl_kind w)"

definition labels_for_payload :: "desired_state_payload \<Rightarrow> (string \<times> string) list res" where
  "labels_for_payload p =
     (let labels = desired_labels (pay_workload_owner_id p) (pay_repository_numeric_id p)
            (pay_workload_id p) (pay_workload_kind p)
      in require (list_all (\<lambda>(k, v). label_key_ok k \<and> label_value_ok v) labels) DesiredStateDenied
           (Inr labels))"


section \<open>Rendering\<close>

definition desired_payload ::
    "workload \<Rightarrow> repository_admission \<Rightarrow> render_context \<Rightarrow> workload_classification \<Rightarrow>
     string \<Rightarrow> string \<Rightarrow> string \<Rightarrow> desired_secret_attachment list \<Rightarrow> desired_state_payload" where
  "desired_payload w a context classified digest image_uri service_account attachments =
     (let template = build_template_for classified;
          job = wl_kind w = ScheduledScript
      in \<lparr>pay_repository_admission_id = adm_id a,
          pay_repository_numeric_id = adm_repository_numeric_id a,
          pay_repository_owner = adm_owner a, pay_repository_name = adm_name a,
          pay_admitted_sha = adm_admitted_sha a, pay_admission_version = adm_version a,
          pay_workload_id = wl_id w, pay_workload_owner_id = wl_owner_id w,
          pay_workload_kind = wl_kind w, pay_workload_version = wl_version w,
          pay_source_sha = wl_source_sha w,
          pay_desired_manifest_hash = wl_desired_manifest_hash w, pay_snapshot_digest = digest,
          pay_project_id = rcx_project_id context, pay_region = REGION,
          pay_target = (if job then CloudRunJob else CloudRunService), pay_image_uri = image_uri,
          pay_runtime = btp_runtime template, pay_entrypoint = cls_entrypoint classified,
          pay_install_command = btp_install_command template,
          pay_build_command = btp_build_command template,
          pay_launch_command = btp_launch_command template,
          pay_required_files = btp_required_files template,
          pay_runtime_service_account = service_account, pay_cpu = service_cpu,
          pay_memory_mib = service_memory_mib, pay_service_min_instances = service_min_instances,
          pay_service_max_instances = service_max_instances,
          pay_request_cpu_always_allocated = False, pay_service_concurrency = service_concurrency,
          pay_service_timeout_seconds = service_timeout_seconds (wl_kind w),
          pay_job_task_count = (if job then Some job_task_count else None),
          pay_job_parallelism = (if job then Some job_parallelism else None),
          pay_job_retry_count = (if job then Some job_retry_count else None),
          pay_job_timeout_seconds = (if job then Some job_timeout_seconds else None),
          pay_auth_mode = (if job then MachineOnly else GatewayIam),
          pay_ingress = (if job then NoIngress else PublicIam),
          pay_allow_unauthenticated = False, pay_custom_domain = False,
          pay_labels = labels_for w a, pay_secret_attachments = attachments,
          pay_schedule_cron = btp_schedule_cron template,
          pay_schedule_timezone =
            (if btp_schedule_cron template \<noteq> None then Some timezone else None)\<rparr>)"

text \<open>The envelope of a payload, signed over the same envelope with a placeholder signature.\<close>

definition sign_payload ::
    "desired_state_payload \<Rightarrow> render_context \<Rightarrow> pytime \<Rightarrow> bytes \<Rightarrow> signed_envelope res" where
  "sign_payload p context issued_at signing_key =
     bind_res (add_delta issued_at (seconds (60 * plan_expiry_minutes))) (\<lambda>expires_at.
     bind_res (envelope_post_init
       \<lparr>env_schema_version = state_schema_version, env_key_id = rcx_key_id context,
        env_audience = worker_audience, env_issued_at = issued_at, env_expires_at = expires_at,
        env_payload = p, env_signature = replicate 64 (CHR ''0'')\<rparr>) (\<lambda>unsigned.
     bind_res (canonical_unsigned_bytes unsigned) (\<lambda>message.
       envelope_post_init (unsigned\<lparr>env_signature := hmac_sha256 signing_key message\<rparr>))))"

definition require_classified :: "err \<Rightarrow> classified \<Rightarrow> workload_classification res" where
  "require_classified e result = (case result of Question _ \<Rightarrow> Inl e | Classified c \<Rightarrow> Inr c)"

lemma require_classified_Inr [res_simps]: "require_classified e r = Inr c \<longleftrightarrow> r = Classified c"
  by (simp add: require_classified_def split: classified.splits)

definition render_checked ::
    "parsers \<Rightarrow> workload \<Rightarrow> repository_admission \<Rightarrow> (string, bytes) dict \<Rightarrow> string \<Rightarrow>
     render_context \<Rightarrow> pytime \<Rightarrow> bytes \<Rightarrow> desired_secret_attachment list \<Rightarrow> signed_envelope res" where
  "render_checked P w a snapshot image_digest context issued_at signing_key secret_attachments =
     require (utc_second issued_at) DesiredStateDenied
    (bind_res (validate_signing_key signing_key) (\<lambda>_.
     bind_res (validate_workload_and_admission w a) (\<lambda>_.
     bind_res (image_uri_of (rcx_project_id context) image_digest) (\<lambda>image_uri.
     bind_res (normalized_secret_attachments secret_attachments) (\<lambda>attachments.
     bind_res (classify_snapshot P snapshot) (\<lambda>result.
     bind_res (require_classified DesiredStateDenied result) (\<lambda>classified.
     require (wl_kind w = cls_kind classified) DesiredStateDenied
    (bind_res (runtime_service_account (rcx_project_id context) (wl_id w)) (\<lambda>service_account.
     bind_res (payload_post_init
       (desired_payload w a context classified (snapshot_digest snapshot) image_uri
         service_account attachments)) (\<lambda>p.
       sign_payload p context issued_at signing_key))))))))))"

definition denied_only :: "'a res \<Rightarrow> 'a res" where
  "denied_only r = (case r of Inl _ \<Rightarrow> Inl DesiredStateDenied | Inr x \<Rightarrow> Inr x)"

definition render_signed_desired_state ::
    "parsers \<Rightarrow> workload \<Rightarrow> repository_admission \<Rightarrow> (string, bytes) dict \<Rightarrow> string \<Rightarrow>
     render_context \<Rightarrow> pytime \<Rightarrow> bytes \<Rightarrow> desired_secret_attachment list \<Rightarrow> signed_envelope res" where
  "render_signed_desired_state P w a snapshot image_digest context issued_at signing_key atts =
     denied_only (render_checked P w a snapshot image_digest context issued_at signing_key atts)"


section \<open>Verification\<close>

definition resource_policy_ok :: "desired_state_payload \<Rightarrow> bool" where
  "resource_policy_ok p \<longleftrightarrow>
     pay_cpu p = service_cpu \<and> pay_memory_mib p = service_memory_mib \<and>
     pay_service_min_instances p = service_min_instances \<and>
     pay_service_max_instances p = service_max_instances \<and>
     pay_service_concurrency p = service_concurrency \<and>
     pay_service_timeout_seconds p = service_timeout_seconds (pay_workload_kind p) \<and>
     \<not> pay_request_cpu_always_allocated p \<and>
     \<not> (pay_allow_unauthenticated p \<or> pay_custom_domain p)"

definition template_policy_ok :: "desired_state_payload \<Rightarrow> build_template \<Rightarrow> bool" where
  "template_policy_ok p template \<longleftrightarrow>
     pay_runtime p = btp_runtime template \<and> pay_install_command p = btp_install_command template \<and>
     pay_build_command p = btp_build_command template \<and>
     pay_launch_command p = btp_launch_command template \<and>
     pay_required_files p = btp_required_files template \<and>
     pay_schedule_cron p = btp_schedule_cron template"

definition target_policy_ok :: "desired_state_payload \<Rightarrow> bool" where
  "target_policy_ok p \<longleftrightarrow>
     (if pay_workload_kind p = ScheduledScript then
        pay_target p = CloudRunJob \<and> pay_auth_mode p = MachineOnly \<and> pay_ingress p = NoIngress \<and>
        pay_job_task_count p = Some job_task_count \<and> pay_job_parallelism p = Some job_parallelism \<and>
        pay_job_retry_count p = Some job_retry_count \<and>
        pay_job_timeout_seconds p = Some job_timeout_seconds \<and>
        pay_schedule_timezone p = Some timezone
      else
        pay_target p = CloudRunService \<and> pay_auth_mode p = GatewayIam \<and> pay_ingress p = PublicIam \<and>
        pay_job_task_count p = None \<and> pay_job_parallelism p = None \<and>
        pay_job_retry_count p = None \<and> pay_job_timeout_seconds p = None \<and>
        pay_schedule_cron p = None \<and> pay_schedule_timezone p = None)"

definition identity_policy_ok :: "desired_state_payload \<Rightarrow> render_context \<Rightarrow> bool" where
  "identity_policy_ok p context \<longleftrightarrow>
     pay_project_id p = rcx_project_id context \<and> pay_region p = REGION \<and>
     repository_owner_ok (pay_repository_owner p) \<and> pay_repository_owner p = github_owner \<and>
     repository_name_ok (pay_repository_name p) \<and> nonblank (pay_repository_admission_id p) \<and>
     nonblank (pay_workload_id p) \<and> nonblank (pay_workload_owner_id p) \<and>
     nonblank (pay_desired_manifest_hash p) \<and> 1 \<le> pay_repository_numeric_id p \<and>
     1 \<le> pay_admission_version p \<and> 1 \<le> pay_workload_version p \<and>
     source_sha_ok (pay_admitted_sha p) \<and> source_sha_ok (pay_source_sha p) \<and>
     pay_source_sha p = pay_admitted_sha p \<and> snapshot_digest_ok (pay_snapshot_digest p)"

definition validate_payload_policy :: "desired_state_payload \<Rightarrow> render_context \<Rightarrow> unit res" where
  "validate_payload_policy p context =
     require (identity_policy_ok p context) DesiredStateDenied
    (require (resource_policy_ok p) DesiredStateDenied
    (bind_res (runtime_service_account (pay_project_id p) (pay_workload_id p)) (\<lambda>service_account.
     require (pay_runtime_service_account p = service_account) DesiredStateDenied
    (bind_res (labels_for_payload p) (\<lambda>labels.
     require (pay_labels p = labels) DesiredStateDenied
    (bind_res (extract_image_digest (pay_image_uri p)) (\<lambda>digest.
     bind_res (image_uri_of (pay_project_id p) digest) (\<lambda>image_uri.
     require (pay_image_uri p = image_uri) DesiredStateDenied
    (bind_res (normalized_secret_attachments (pay_secret_attachments p)) (\<lambda>attachments.
     require (pay_secret_attachments p = attachments) DesiredStateDenied
    (bind_res (classification_post_init
       \<lparr>cls_kind = pay_workload_kind p, cls_entrypoint = pay_entrypoint p,
        cls_schedule_cron = pay_schedule_cron p\<rparr>) (\<lambda>classification.
     require (template_policy_ok p (build_template_for classification)) DesiredStateDenied
    (require (target_policy_ok p) DesiredStateDenied (Inr ()))))))))))))))"

definition verify_checked ::
    "signed_envelope \<Rightarrow> render_context \<Rightarrow> bytes \<Rightarrow> pytime \<Rightarrow> verified_state res" where
  "verify_checked e context signing_key now =
     bind_res (validate_signing_key signing_key) (\<lambda>_.
     require (utc_second now) DesiredStateDenied
    (require (env_schema_version e = state_schema_version) DesiredStateDenied
    (require (env_key_id e = rcx_key_id context \<and> env_audience e = worker_audience) DesiredStateDenied
    (require (time_leq (env_issued_at e) now \<and> time_less now (env_expires_at e)) DesiredStateDenied
    (require (time_less (env_issued_at e) (env_expires_at e)) DesiredStateDenied
    (require (instant (env_expires_at e) - instant (env_issued_at e) \<le> seconds (60 * plan_expiry_minutes))
       DesiredStateDenied
    (bind_res (validate_payload_policy (env_payload e) context) (\<lambda>_.
     bind_res (canonical_unsigned_bytes e) (\<lambda>message.
     bind_res (compare_digest (hmac_sha256 signing_key message) (env_signature e)) (\<lambda>same.
     require same DesiredStateDenied
       (Inr \<lparr>vst_envelope = e, vst_canonical_unsigned = message,
             vst_snapshot_digest = pay_snapshot_digest (env_payload e)\<rparr>)))))))))))"

definition verify_signed_desired_state ::
    "signed_envelope \<Rightarrow> render_context \<Rightarrow> bytes \<Rightarrow> pytime \<Rightarrow> verified_state res" where
  "verify_signed_desired_state e context signing_key now =
     denied_only (verify_checked e context signing_key now)"


section \<open>Labels, images and attachments\<close>

lemma hex_label_chars: "list_all is_lower_hex s \<Longrightarrow> list_all is_label_char s"
  by (auto simp: list_all_iff is_lower_hex_def is_label_char_def is_lower_alnum_def is_ascii_lower_def
      less_eq_char_def)

lemma stable_hash_label: "label_value_ok (stable_hash v)"
proof -
  have hex: "length (sha256_hex (utf8 v)) = 64" "list_all is_lower_hex (sha256_hex (utf8 v))"
    using sha256_hex_text by (auto simp: is_hex_text_def)
  then have "list_all is_label_char (stable_hash v)"
    using hex_label_chars by (auto simp: stable_hash_def list_all_iff dest: in_set_takeD)
  with hex(1) show ?thesis
    by (auto simp: label_value_ok_def stable_hash_def simp flip: length_0_conv)
qed

lemma desired_labels_ok:
  "list_all (\<lambda>(k, v). label_key_ok k \<and> label_value_ok v) (desired_labels owner_id i workload_id kind)"
proof -
  have "label_key_ok ''managed-by''" "label_key_ok ''owner-hash''" "label_key_ok ''repo-hash''"
    "label_key_ok ''workload-hash''" "label_key_ok ''workload-kind''"
    "label_value_ok ''mim-control-plane''"
    "label_value_ok (map (\<lambda>c. if c = CHR ''_'' then CHR ''-'' else c) (workload_kind_value kind))"
    by (cases kind; simp add: label_key_ok_def headed_text_def label_value_ok_def is_label_char_def
        is_lower_alnum_def is_ascii_lower_def is_digit_def less_eq_char_def)+
  then show ?thesis by (simp add: desired_labels_def stable_hash_label)
qed

lemma marker_not_in_hex:
  assumes "list_all is_lower_hex s" and "contains ''@sha256:'' s"
  shows False
proof -
  from assms(2) obtain u v where "s = u @ ''@sha256:'' @ v" by (auto simp: contains_iff)
  with assms(1) show False by (simp add: is_lower_hex_def is_digit_def less_eq_char_def)
qed

lemma after_last_hex:
  assumes "list_all is_lower_hex d"
  shows "after_last ''@sha256:'' (u @ ''@sha256:'' @ d) = d"
proof (induction u)
  case Nil
  have "\<not> contains ''@sha256:'' (''sha256:'' @ d)"
  proof
    assume "contains ''@sha256:'' (''sha256:'' @ d)"
    then obtain x y where "''sha256:'' @ d = x @ ''@sha256:'' @ y" by (auto simp: contains_iff)
    then have "CHR ''@'' \<in> set (''sha256:'' @ d)" by simp
    then have "CHR ''@'' \<in> set d" by simp
    with assms show False
      by (auto simp: list_all_iff is_lower_hex_def is_digit_def less_eq_char_def)
  qed
  then show ?case by (simp add: starts_with_def)
next
  case (Cons c u)
  have "contains ''@sha256:'' (u @ ''@sha256:'' @ d)"
    unfolding contains_iff by (intro exI) (rule refl)
  with Cons show ?case by simp
qed

lemma image_uri_digest:
  assumes "image_uri_of project_id digest = Inr uri"
  shows "extract_image_digest uri = Inr digest"
proof -
  from assms have hex: "is_hex_text 64 digest"
    and uri: "uri = (REGION @ ''-docker.pkg.dev/'' @ project_id @ ''/'' @ artifact_repository @ ''/'' @
      artifact_image_name) @ ''@sha256:'' @ digest"
    by (auto simp: image_uri_of_def res_simps)
  have "contains ''@sha256:'' uri"
    unfolding uri contains_iff by (intro exI) (rule refl)
  moreover have "after_last ''@sha256:'' uri = digest"
    unfolding uri by (rule after_last_hex) (use hex in \<open>simp add: is_hex_text_def\<close>)
  ultimately show ?thesis using hex by (simp add: extract_image_digest_def)
qed

lemma attachments_ok_perm:
  assumes "mset xs = mset ys"
  shows "attachments_ok xs = attachments_ok ys"
proof -
  have "length xs = length ys" "set xs = set ys" using assms mset_eq_length mset_eq_setD by blast+
  moreover have "distinct (map f xs) = distinct (map f ys)" for f :: "desired_secret_attachment \<Rightarrow> string"
    using assms by (intro mset_eq_imp_distinct_iff) simp
  ultimately show ?thesis by (simp add: attachments_ok_def list_all_iff)
qed

lemma normalized_again:
  assumes "normalized_secret_attachments xs = Inr ys"
  shows "normalized_secret_attachments ys = Inr ys"
proof -
  from assms have "attachments_ok xs" and
    ys: "ys = sort_key (\<lambda>a. (dsa_secret_id a, dsa_secret_name a, dsa_secret_version a, dsa_env_name a)) xs"
    by (auto simp: normalized_secret_attachments_def res_simps)
  then have "attachments_ok ys" using attachments_ok_perm [of ys xs] by simp
  then show ?thesis by (simp add: normalized_secret_attachments_def ys sort_key_id_if_sorted)
qed


section \<open>What is rendered can be verified\<close>

lemma classification_post_init_same: "classification_post_init c = Inr d \<Longrightarrow> d = c"
  by (auto simp: classification_post_init_def res_simps split: workload_kind.splits)

lemma template_schedule:
  "classification_post_init c = Inr c \<Longrightarrow> btp_schedule_cron (build_template_for c) = cls_schedule_cron c"
  by (auto simp: classification_post_init_def build_template_for_def res_simps split: workload_kind.splits)

lemma canonical_ignores_signature:
  "canonical_unsigned_bytes (e\<lparr>env_signature := x\<rparr>) = canonical_unsigned_bytes e"
  by (simp add: canonical_unsigned_bytes_def unsigned_json_def)

lemma sign_payload_Inr:
  assumes "sign_payload p context issued_at signing_key = Inr e"
  obtains message where
    "canonical_unsigned_bytes e = Inr message" "env_signature e = hmac_sha256 signing_key message"
    "env_payload e = p" "env_schema_version e = state_schema_version"
    "env_key_id e = rcx_key_id context" "env_audience e = worker_audience"
    "env_issued_at e = issued_at"
    "instant (env_expires_at e) = instant issued_at + seconds (60 * plan_expiry_minutes)"
    "envelope_post_init e = Inr e"
proof -
  from assms obtain expires_at u message where
    expires: "add_delta issued_at (seconds (60 * plan_expiry_minutes)) = Inr expires_at" and
    u: "u = \<lparr>env_schema_version = state_schema_version, env_key_id = rcx_key_id context,
        env_audience = worker_audience, env_issued_at = issued_at, env_expires_at = expires_at,
        env_payload = p, env_signature = replicate 64 (CHR ''0'')\<rparr>" and
    message: "canonical_unsigned_bytes u = Inr message" and
    e: "e = u\<lparr>env_signature := hmac_sha256 signing_key message\<rparr>" "envelope_post_init e = Inr e"
    by (auto simp: sign_payload_def envelope_post_init_def res_simps)
  have "canonical_unsigned_bytes e = Inr message"
    using message by (simp only: e(1) canonical_ignores_signature)
  from that [OF this] show thesis
    using add_delta_instant [OF expires] e(2) by (simp add: e(1) u)
qed

lemma render_checked_Inr:
  assumes "render_checked P w a snapshot image_digest context issued_at signing_key atts = Inr e"
  obtains classified image_uri attachments service_account p where
    "utc_second issued_at" "32 \<le> length signing_key" "validate_workload_and_admission w a = Inr ()"
    "image_uri_of (rcx_project_id context) image_digest = Inr image_uri"
    "normalized_secret_attachments atts = Inr attachments"
    "classify_snapshot P snapshot = Inr (Classified classified)" "wl_kind w = cls_kind classified"
    "runtime_service_account (rcx_project_id context) (wl_id w) = Inr service_account"
    "p = desired_payload w a context classified (snapshot_digest snapshot) image_uri service_account
      attachments"
    "payload_ok p" "sign_payload p context issued_at signing_key = Inr e"
  using assms
  by (auto simp: render_checked_def validate_signing_key_def payload_post_init_def res_simps)

lemma rendered_policy:
  assumes "validate_workload_and_admission w a = Inr ()"
    and image: "image_uri_of (rcx_project_id context) image_digest = Inr image_uri"
    and "normalized_secret_attachments atts = Inr attachments"
    and classified: "classify_snapshot P snapshot = Inr (Classified classified)"
      "wl_kind w = cls_kind classified"
    and account: "runtime_service_account (rcx_project_id context) (wl_id w) = Inr service_account"
    and p: "p = desired_payload w a context classified (snapshot_digest snapshot) image_uri
      service_account attachments" "payload_ok p"
  shows "validate_payload_policy p context = Inr ()"
proof -
  have post: "classification_post_init classified = Inr classified"
    using classify_outcome [of P snapshot] classified(1) by (simp add: outcome_ok_def)
  have cron: "btp_schedule_cron (build_template_for classified) = cls_schedule_cron classified"
    by (rule template_schedule [OF post])
  have again: "\<lparr>cls_kind = pay_workload_kind p, cls_entrypoint = pay_entrypoint p,
      cls_schedule_cron = pay_schedule_cron p\<rparr> = classified"
    using classified(2) by (simp add: p desired_payload_def Let_def cron)
  have "identity_policy_ok p context"
    using assms(1) p(2)
    by (simp add: identity_policy_ok_def payload_ok_def validate_workload_and_admission_def res_simps
        positive_ok_def p(1) desired_payload_def Let_def)
  moreover have "resource_policy_ok p"
    by (simp add: resource_policy_ok_def p(1) desired_payload_def Let_def)
  moreover have "runtime_service_account (pay_project_id p) (pay_workload_id p) = Inr service_account"
    "pay_runtime_service_account p = service_account"
    using account by (simp_all add: p(1) desired_payload_def Let_def)
  moreover have "labels_for_payload p = Inr (pay_labels p)"
    using desired_labels_ok
    by (simp add: labels_for_payload_def p(1) desired_payload_def labels_for_def Let_def)
  moreover have "extract_image_digest (pay_image_uri p) = Inr image_digest"
    "image_uri_of (pay_project_id p) image_digest = Inr (pay_image_uri p)"
    using image_uri_digest [OF image] image by (simp_all add: p(1) desired_payload_def Let_def)
  moreover have "normalized_secret_attachments (pay_secret_attachments p) = Inr (pay_secret_attachments p)"
    using normalized_again [OF assms(3)] by (simp add: p(1) desired_payload_def Let_def)
  moreover have "template_policy_ok p (build_template_for classified)"
    by (simp add: template_policy_ok_def p(1) desired_payload_def Let_def)
  moreover have "target_policy_ok p"
    using post classified(2) cron
    by (cases "cls_kind classified")
      (auto simp: target_policy_ok_def p(1) desired_payload_def Let_def classification_post_init_def
        res_simps)
  ultimately show ?thesis
    by (simp add: validate_payload_policy_def again post)
qed


text \<open>Checking a signed envelope, when its payload and its bytes are in order.\<close>

lemma verify_checked_iff:
  "verify_checked e context signing_key now = Inr v \<longleftrightarrow>
     32 \<le> length signing_key \<and> utc_second now \<and> env_schema_version e = state_schema_version \<and>
     env_key_id e = rcx_key_id context \<and> env_audience e = worker_audience \<and>
     time_leq (env_issued_at e) now \<and> time_less now (env_expires_at e) \<and>
     time_less (env_issued_at e) (env_expires_at e) \<and>
     instant (env_expires_at e) - instant (env_issued_at e) \<le> seconds (60 * plan_expiry_minutes) \<and>
     validate_payload_policy (env_payload e) context = Inr () \<and>
     (\<exists>message. canonical_unsigned_bytes e = Inr message \<and>
        env_signature e = hmac_sha256 signing_key message \<and>
        v = \<lparr>vst_envelope = e, vst_canonical_unsigned = message,
             vst_snapshot_digest = pay_snapshot_digest (env_payload e)\<rparr>)"
proof -
  have ascii: "list_all (\<lambda>c. code_point c < 128) (hmac_sha256 signing_key message)" for message
    by (rule hex_is_ascii [OF hmac_sha256_text])
  show ?thesis
    by (auto simp: verify_checked_def validate_signing_key_def res_simps ascii)
qed

lemma verify_Inr: "verify_signed_desired_state e context signing_key now = Inr v \<longleftrightarrow>
    verify_checked e context signing_key now = Inr v"
  by (simp add: verify_signed_desired_state_def denied_only_def split: sum.splits)

lemma verify_denied:
  "verify_signed_desired_state e context signing_key now = Inl err \<Longrightarrow> err = DesiredStateDenied"
  by (simp add: verify_signed_desired_state_def denied_only_def split: sum.splits)

lemma rendered_verifies:
  assumes "render_signed_desired_state P w a snapshot image_digest context issued_at signing_key atts =
      Inr e"
    and "utc_second now"
  shows "\<exists>message. canonical_unsigned_bytes e = Inr message \<and>
    verify_signed_desired_state e context signing_key now =
      (if time_leq issued_at now \<and> instant now < instant issued_at + seconds 900
       then Inr \<lparr>vst_envelope = e, vst_canonical_unsigned = message,
                 vst_snapshot_digest = snapshot_digest snapshot\<rparr>
       else Inl DesiredStateDenied)"
proof -
  have rendered: "render_checked P w a snapshot image_digest context issued_at signing_key atts = Inr e"
    using assms(1) by (simp add: render_signed_desired_state_def denied_only_def split: sum.splits)
  obtain classified image_uri attachments service_account p where
    key: "utc_second issued_at" "32 \<le> length signing_key" and
    parts: "validate_workload_and_admission w a = Inr ()"
      "image_uri_of (rcx_project_id context) image_digest = Inr image_uri"
      "normalized_secret_attachments atts = Inr attachments"
      "classify_snapshot P snapshot = Inr (Classified classified)" "wl_kind w = cls_kind classified"
      "runtime_service_account (rcx_project_id context) (wl_id w) = Inr service_account"
      "p = desired_payload w a context classified (snapshot_digest snapshot) image_uri service_account
        attachments"
      "payload_ok p" and
    signed: "sign_payload p context issued_at signing_key = Inr e"
    by (rule render_checked_Inr [OF rendered])
  from sign_payload_Inr [OF signed] obtain message where
    e: "canonical_unsigned_bytes e = Inr message" "env_signature e = hmac_sha256 signing_key message"
      "env_payload e = p" "env_schema_version e = state_schema_version"
      "env_key_id e = rcx_key_id context" "env_audience e = worker_audience"
      "env_issued_at e = issued_at"
      "instant (env_expires_at e) = instant issued_at + seconds (60 * plan_expiry_minutes)"
      "envelope_post_init e = Inr e"
    by (rule sign_payload_Inr [OF signed])
  have digest: "pay_snapshot_digest (env_payload e) = snapshot_digest snapshot"
    by (simp add: e(3) parts(7) desired_payload_def Let_def)
  have policy: "validate_payload_policy (env_payload e) context = Inr ()"
    unfolding e(3) by (rule rendered_policy [OF parts])
  have span: "instant (env_expires_at e) - instant (env_issued_at e) \<le> seconds (60 * plan_expiry_minutes)"
    by (simp add: e(7,8))
  have minutes: "60 * plan_expiry_minutes = 900" by (simp add: plan_expiry_minutes_def)
  have window: "time_less (env_issued_at e) (env_expires_at e)"
    by (simp add: time_less_def e(7,8) minutes seconds_def)
  have now: "time_less now (env_expires_at e) \<longleftrightarrow> instant now < instant issued_at + seconds 900"
    by (simp add: time_less_def e(8) minutes)
  have accepted: "verify_signed_desired_state e context signing_key now = Inr v \<longleftrightarrow>
      time_leq issued_at now \<and> instant now < instant issued_at + seconds 900 \<and>
      v = \<lparr>vst_envelope = e, vst_canonical_unsigned = message,
           vst_snapshot_digest = snapshot_digest snapshot\<rparr>" for v
    unfolding verify_Inr verify_checked_iff
    by (simp add: key assms(2) e(1,2,4-6) window [unfolded e(7)] now span [unfolded e(7)] policy digest e(7))
  show ?thesis
  proof (cases "verify_signed_desired_state e context signing_key now")
    case (Inl err)
    with accepted have "\<not> (time_leq issued_at now \<and> instant now < instant issued_at + seconds 900)"
      by (metis Inl_Inr_False)
    with Inl verify_denied [OF Inl] e(1) show ?thesis by simp
  next
    case (Inr v)
    with accepted [of v] e(1) show ?thesis by simp
  qed
qed

text \<open>
  C38: What \<^verbatim>\<open>render_signed_desired_state\<close> signs, \<^verbatim>\<open>verify_signed_desired_state\<close> accepts under the same
  key and context from the second it was issued and for fifteen minutes, and at no other time; and
  then it hands the worker exactly the rendered envelope and the digest of the reviewed snapshot.
\<close>

theorem rendered_state_verifies:
  assumes "render_signed_desired_state P w a snapshot image_digest context issued_at signing_key atts =
      Inr e"
    and "utc_second now"
  shows "\<exists>message. canonical_unsigned_bytes e = Inr message \<and>
    verify_signed_desired_state e context signing_key now =
      (if time_leq issued_at now \<and> instant now < instant issued_at + seconds 900
       then Inr \<lparr>vst_envelope = e, vst_canonical_unsigned = message,
                 vst_snapshot_digest = snapshot_digest snapshot\<rparr>
       else Inl DesiredStateDenied)"
  using assms by (rule rendered_verifies)


section \<open>What a verified state guarantees\<close>

lemma validate_payload_policy_Inr:
  assumes "validate_payload_policy p context = Inr ()"
  obtains template digest where
    "identity_policy_ok p context" "resource_policy_ok p" "target_policy_ok p"
    "runtime_service_account (pay_project_id p) (pay_workload_id p) = Inr (pay_runtime_service_account p)"
    "pay_labels p = desired_labels (pay_workload_owner_id p) (pay_repository_numeric_id p)
      (pay_workload_id p) (pay_workload_kind p)"
    "image_uri_of (pay_project_id p) digest = Inr (pay_image_uri p)"
    "attachments_ok (pay_secret_attachments p)"
    "classification_post_init
       \<lparr>cls_kind = pay_workload_kind p, cls_entrypoint = pay_entrypoint p,
        cls_schedule_cron = pay_schedule_cron p\<rparr> = Inr
       \<lparr>cls_kind = pay_workload_kind p, cls_entrypoint = pay_entrypoint p,
        cls_schedule_cron = pay_schedule_cron p\<rparr>"
    "template = build_template_for
       \<lparr>cls_kind = pay_workload_kind p, cls_entrypoint = pay_entrypoint p,
        cls_schedule_cron = pay_schedule_cron p\<rparr>"
    "template_policy_ok p template"
proof -
  let ?c = "\<lparr>cls_kind = pay_workload_kind p, cls_entrypoint = pay_entrypoint p,
        cls_schedule_cron = pay_schedule_cron p\<rparr>"
  from assms obtain d where "classification_post_init ?c = Inr d"
    by (auto simp: validate_payload_policy_def res_simps)
  with classification_post_init_same have valid: "classification_post_init ?c = Inr ?c" by blast
  show thesis
    using assms that [OF _ _ _ _ _ _ _ valid refl]
    by (auto simp: validate_payload_policy_def valid labels_for_payload_def
        normalized_secret_attachments_def res_simps Let_def)
qed

lemma verified_launch:
  assumes "classification_post_init
       \<lparr>cls_kind = kind, cls_entrypoint = entrypoint, cls_schedule_cron = cron\<rparr> = Inr d"
    and "template_policy_ok p (build_template_for
       \<lparr>cls_kind = kind, cls_entrypoint = entrypoint, cls_schedule_cron = cron\<rparr>)"
  shows "pay_launch_command p =
      (case kind of
         Streamlit \<Rightarrow>
           [''streamlit'', ''run'', ''app.py'', ''--server.address'', ''0.0.0.0'', ''--server.port'',
            ''8080'']
       | NextJs \<Rightarrow>
           [''./node_modules/.bin/next'', ''start'', ''--hostname'', ''0.0.0.0'', ''--port'', ''8080'']
       | ScheduledScript \<Rightarrow> [''python'', entrypoint]) \<and>
    (kind = ScheduledScript \<longrightarrow> python_entrypoint_ok (code_points entrypoint))"
  using assms
  by (cases kind)
    (auto simp: classification_post_init_def template_policy_ok_def build_template_for_def
      validate_python_entrypoint_def require_def split: if_splits)

text \<open>
  C36: A state that \<^verbatim>\<open>verify_signed_desired_state\<close> lets pass carries the code of its canonical bytes
  under the key and is in its fifteen minutes. Whoever wrote it, it deploys an image of the
  platform's own registry at a fixed digest, from a repository of the company at the admitted
  commit, under the service account and the labels of its own workload, behind IAM, without a public
  or a custom domain, within the fixed resources, with at most five secrets, and it starts a command
  of the platform.
\<close>

theorem verified_state_obeys_policy:
  assumes "verify_signed_desired_state e context signing_key now = Inr v"
  shows "\<exists>message digest.
    canonical_unsigned_bytes e = Inr message \<and> env_signature e = hmac_sha256 signing_key message \<and>
    time_leq (env_issued_at e) now \<and> time_less now (env_expires_at e) \<and>
    instant now < instant (env_issued_at e) + seconds 900 \<and>
    (let p = env_payload e in
       vst_snapshot_digest v = pay_snapshot_digest p \<and>
       pay_project_id p = rcx_project_id context \<and>
       image_uri_of (rcx_project_id context) digest = Inr (pay_image_uri p) \<and>
       pay_repository_owner p = github_owner \<and> pay_source_sha p = pay_admitted_sha p \<and>
       source_sha_ok (pay_source_sha p) \<and>
       runtime_service_account (rcx_project_id context) (pay_workload_id p) =
         Inr (pay_runtime_service_account p) \<and>
       pay_labels p = desired_labels (pay_workload_owner_id p) (pay_repository_numeric_id p)
         (pay_workload_id p) (pay_workload_kind p) \<and>
       \<not> pay_allow_unauthenticated p \<and> \<not> pay_custom_domain p \<and>
       pay_service_min_instances p = 0 \<and> pay_service_max_instances p = 1 \<and>
       pay_cpu p = 1 \<and> pay_memory_mib p = 512 \<and> attachments_ok (pay_secret_attachments p) \<and>
       pay_auth_mode p = (if pay_workload_kind p = ScheduledScript then MachineOnly else GatewayIam) \<and>
       pay_launch_command p =
         (case pay_workload_kind p of
            Streamlit \<Rightarrow>
              [''streamlit'', ''run'', ''app.py'', ''--server.address'', ''0.0.0.0'', ''--server.port'',
               ''8080'']
          | NextJs \<Rightarrow>
              [''./node_modules/.bin/next'', ''start'', ''--hostname'', ''0.0.0.0'', ''--port'', ''8080'']
          | ScheduledScript \<Rightarrow> [''python'', pay_entrypoint p]))"
proof -
  from assms have checked: "verify_checked e context signing_key now = Inr v"
    by (simp only: verify_Inr)
  then have policy: "validate_payload_policy (env_payload e) context = Inr ()"
    unfolding verify_checked_iff by blast
  obtain template digest where facts:
    "identity_policy_ok (env_payload e) context" "resource_policy_ok (env_payload e)"
    "target_policy_ok (env_payload e)"
    "runtime_service_account (pay_project_id (env_payload e)) (pay_workload_id (env_payload e)) =
      Inr (pay_runtime_service_account (env_payload e))"
    "pay_labels (env_payload e) = desired_labels (pay_workload_owner_id (env_payload e))
      (pay_repository_numeric_id (env_payload e)) (pay_workload_id (env_payload e))
      (pay_workload_kind (env_payload e))"
    "image_uri_of (pay_project_id (env_payload e)) digest = Inr (pay_image_uri (env_payload e))"
    "attachments_ok (pay_secret_attachments (env_payload e))" and
    valid: "classification_post_init
       \<lparr>cls_kind = pay_workload_kind (env_payload e), cls_entrypoint = pay_entrypoint (env_payload e),
        cls_schedule_cron = pay_schedule_cron (env_payload e)\<rparr> = Inr
       \<lparr>cls_kind = pay_workload_kind (env_payload e), cls_entrypoint = pay_entrypoint (env_payload e),
        cls_schedule_cron = pay_schedule_cron (env_payload e)\<rparr>" and
    template: "template = build_template_for
       \<lparr>cls_kind = pay_workload_kind (env_payload e), cls_entrypoint = pay_entrypoint (env_payload e),
        cls_schedule_cron = pay_schedule_cron (env_payload e)\<rparr>"
    "template_policy_ok (env_payload e) template"
    by (rule validate_payload_policy_Inr [OF policy])
  note launch = verified_launch [OF valid template(2) [unfolded template(1)]]
  from checked obtain message where message: "canonical_unsigned_bytes e = Inr message"
      "env_signature e = hmac_sha256 signing_key message"
    and window: "time_leq (env_issued_at e) now" "time_less now (env_expires_at e)"
      "instant (env_expires_at e) - instant (env_issued_at e) \<le> seconds 900"
    and digest: "vst_snapshot_digest v = pay_snapshot_digest (env_payload e)"
    unfolding verify_checked_iff by (auto simp: plan_expiry_minutes_def)
  have "instant now < instant (env_issued_at e) + seconds 900"
    using window by (simp add: time_less_def)
  with facts launch message window(1,2) digest show ?thesis
    by (intro exI [of _ message] exI [of _ digest])
      (simp add: Let_def identity_policy_ok_def resource_policy_ok_def target_policy_ok_def
        service_min_instances_def service_max_instances_def service_cpu_def service_memory_mib_def
        split: if_splits)
qed


section \<open>The signature binds the state\<close>

lemma sort_key_fst_inject:
  assumes "distinct (map fst xs)" and "map fst xs = map fst ys" and "sort_key fst xs = sort_key fst ys"
  shows "xs = ys"
proof -
  have same: "set xs = set ys" by (metis assms(3) set_sort)
  have "map_of xs = map_of ys"
    using map_of_inject_set [of xs ys] assms(1,2) same by simp
  then have "map (\<lambda>k. (k, the (map_of xs k))) (map fst xs) = map (\<lambda>k. (k, the (map_of ys k))) (map fst ys)"
    using assms(2) by simp
  moreover have "map (\<lambda>k. (k, the (map_of zs k))) (map fst zs) = zs" if "distinct (map fst zs)"
    for zs :: "('a \<times> 'b) list"
    using that by (auto intro!: map_idI)
  ultimately show ?thesis using assms(1,2) by metis
qed

lemma sorted_object_inject:
  assumes "distinct ks" and "length ks = length vs" and "length ks = length ws"
    and "sort_json (JObj (zip ks vs)) = sort_json (JObj (zip ks ws))"
  shows "map sort_json vs = map sort_json ws"
proof -
  have pairs: "map (\<lambda>(k, v). (k, sort_json v)) (zip ks us) = zip ks (map sort_json us)" for us
    by (simp add: zip_map2)
  have "zip ks (map sort_json vs) = zip ks (map sort_json ws)"
    by (rule sort_key_fst_inject) (use assms in \<open>simp_all add: pairs\<close>)
  with assms(2,3) show ?thesis by (metis length_map map_snd_zip)
qed

lemma sort_json_strings: "sort_json (json_strings vs) = json_strings vs"
  by (simp add: comp_def)

lemma json_strings_inject: "json_strings vs = json_strings ws \<longleftrightarrow> vs = ws"
  by (auto simp: inj_def dest!: map_injective)

lemma json_option_inject:
  "(case i of None \<Rightarrow> JNull | Some n \<Rightarrow> JInt n) = (case j of None \<Rightarrow> JNull | Some n \<Rightarrow> JInt n) \<longleftrightarrow> i = j"
  "(case u of None \<Rightarrow> JNull | Some t \<Rightarrow> JStr t) = (case v of None \<Rightarrow> JNull | Some t \<Rightarrow> JStr t) \<longleftrightarrow> u = v"
  "sort_json (case i of None \<Rightarrow> JNull | Some n \<Rightarrow> JInt n) = (case i of None \<Rightarrow> JNull | Some n \<Rightarrow> JInt n)"
  "sort_json (case u of None \<Rightarrow> JNull | Some t \<Rightarrow> JStr t) = (case u of None \<Rightarrow> JNull | Some t \<Rightarrow> JStr t)"
  "floats_ok (case i of None \<Rightarrow> JNull | Some n \<Rightarrow> JInt n)"
  "floats_ok (case u of None \<Rightarrow> JNull | Some t \<Rightarrow> JStr t)"
  by (auto split: option.splits)

lemma attachment_json_inject: "sort_json (attachment_json a) = sort_json (attachment_json b) \<longleftrightarrow> a = b"
proof
  assume eq: "sort_json (attachment_json a) = sort_json (attachment_json b)"
  let ?ks = "[''secret_id'', ''secret_name'', ''secret_version'', ''env_name'']"
  let ?vs = "\<lambda>a. [JStr (dsa_secret_id a), JStr (dsa_secret_name a), JStr (dsa_secret_version a),
    JStr (dsa_env_name a)]"
  have json: "attachment_json c = JObj (zip ?ks (?vs c))" for c by (simp add: attachment_json_def)
  have "map sort_json (?vs a) = map sort_json (?vs b)"
    by (rule sorted_object_inject [of ?ks]) (use eq in \<open>simp_all add: json del: sort_json.simps\<close>)
  then show "a = b" by (cases a; cases b) simp
qed simp

lemma attachments_json_inject:
  "map (\<lambda>a. sort_json (attachment_json a)) as = map (\<lambda>a. sort_json (attachment_json a)) bs \<longleftrightarrow> as = bs"
  by (auto simp: inj_def attachment_json_inject dest!: map_injective)

lemma payload_keys_distinct: "distinct payload_keys"
  by code_simp

lemma payload_lengths: "length payload_keys = 43" "length (payload_values p) = 43"
  by (simp_all add: payload_keys_def payload_values_def)

lemma value_injects:
  "auth_mode_value a = auth_mode_value b \<longleftrightarrow> a = b"
  "ingress_value i = ingress_value j \<longleftrightarrow> i = j"
  "desired_target_value t = desired_target_value u \<longleftrightarrow> t = u"
  "workload_kind_value k = workload_kind_value l \<longleftrightarrow> k = l"
  by ((cases a; cases b; simp), (cases i; cases j; simp), (cases t; cases u; simp),
    (cases k; cases l; simp))


lemma payload_json_inject:
  assumes "sort_json (payload_to_json_ready p) = sort_json (payload_to_json_ready q)"
    and "pay_labels p = desired_labels (pay_workload_owner_id p) (pay_repository_numeric_id p)
      (pay_workload_id p) (pay_workload_kind p)"
    and "pay_labels q = desired_labels (pay_workload_owner_id q) (pay_repository_numeric_id q)
      (pay_workload_id q) (pay_workload_kind q)"
  shows "p = q"
proof -
  have "map sort_json (payload_values p) = map sort_json (payload_values q)"
    by (rule sorted_object_inject [OF payload_keys_distinct])
      (use assms(1) in \<open>simp_all only: payload_lengths payload_to_json_ready_def\<close>)
  then show ?thesis
    using assms(2,3)
    by (cases p; cases q)
      (simp add: payload_values_def json_option_inject value_injects attachments_json_inject
        inj_map_eq_map inj_def comp_def)
qed

lemma envelope_json_inject:
  assumes "sort_json (unsigned_json e x i) = sort_json (unsigned_json f y j)"
  shows "env_audience e = env_audience f \<and> x = y \<and> i = j \<and> env_key_id e = env_key_id f \<and>
    env_schema_version e = env_schema_version f \<and>
    sort_json (payload_to_json_ready (env_payload e)) = sort_json (payload_to_json_ready (env_payload f))"
proof -
  let ?ks = "[''audience'', ''expires_at'', ''issued_at'', ''key_id'', ''payload'', ''schema_version'']"
  let ?vs = "\<lambda>e x i. [JStr (env_audience e), JStr x, JStr i, JStr (env_key_id e),
    payload_to_json_ready (env_payload e), JStr (env_schema_version e)]"
  have json: "unsigned_json e x i = JObj (zip ?ks (?vs e x i))" for e x i by (simp add: unsigned_json_def)
  have "map sort_json (?vs e x i) = map sort_json (?vs f y j)"
    by (rule sorted_object_inject [of ?ks]) (use assms in \<open>simp_all add: json del: sort_json.simps\<close>)
  then show ?thesis by simp
qed

lemma canonical_json_inject:
  assumes "floats_ok j" "floats_ok k"
  shows "canonical_json_bytes j = canonical_json_bytes k \<longleftrightarrow> sort_json j = sort_json k"
  using raw.json_text_inject [of "sort_json j" "[]" "sort_json k" "[]"] assms
  by (auto simp: canonical_json_bytes_def utf8_inject sort_json_floats_ok closes_def)

lemma unsigned_floats_ok: "floats_ok (unsigned_json e x i)"
proof -
  have "list_all floats_ok (payload_values p)" for p
    by (simp add: payload_values_def list_all_iff attachment_json_def json_option_inject split_beta)
  then have "floats_ok (payload_to_json_ready p)" for p
    by (auto simp: payload_to_json_ready_def list_all_iff dest: set_zip_rightD)
  then show ?thesis by (simp add: unsigned_json_def)
qed

text \<open>
  C37: A signature stands for one desired state: if two verified envelopes carry the same signature,
  they agree in their whole payload, in key, audience and schema, and in the printed times; the only
  alternative is a collision of the keyed hash on two different texts.
\<close>

theorem signature_binds_the_state:
  assumes "verify_signed_desired_state e context signing_key now = Inr v"
    and "verify_signed_desired_state f context signing_key now2 = Inr u"
    and "env_signature e = env_signature f"
  shows "env_payload e = env_payload f \<and> env_key_id e = env_key_id f \<and>
      env_audience e = env_audience f \<and> env_schema_version e = env_schema_version f \<and>
      isoformat_utc (env_issued_at e) = isoformat_utc (env_issued_at f) \<and>
      isoformat_utc (env_expires_at e) = isoformat_utc (env_expires_at f) \<or>
    hmac_collides signing_key (vst_canonical_unsigned v) (vst_canonical_unsigned u)"
proof -
  from assms(1) obtain m where m: "canonical_unsigned_bytes e = Inr m" "vst_canonical_unsigned v = m"
      "env_signature e = hmac_sha256 signing_key m"
    and e: "validate_payload_policy (env_payload e) context = Inr ()"
    unfolding verify_Inr verify_checked_iff by auto
  from assms(2) obtain n where n: "canonical_unsigned_bytes f = Inr n" "vst_canonical_unsigned u = n"
      "env_signature f = hmac_sha256 signing_key n"
    and f: "validate_payload_policy (env_payload f) context = Inr ()"
    unfolding verify_Inr verify_checked_iff by auto
  show ?thesis
  proof (cases "m = n")
    case True
    from m(1) obtain x i where e_times: "isoformat_utc (env_expires_at e) = Inr x"
        "isoformat_utc (env_issued_at e) = Inr i" "m = canonical_json_bytes (unsigned_json e x i)"
      by (auto simp: canonical_unsigned_bytes_def res_simps)
    from n(1) obtain y j where f_times: "isoformat_utc (env_expires_at f) = Inr y"
        "isoformat_utc (env_issued_at f) = Inr j" "n = canonical_json_bytes (unsigned_json f y j)"
      by (auto simp: canonical_unsigned_bytes_def res_simps)
    from True have "sort_json (unsigned_json e x i) = sort_json (unsigned_json f y j)"
      by (simp only: e_times f_times canonical_json_inject [OF unsigned_floats_ok unsigned_floats_ok])
    note same = envelope_json_inject [OF this]
    have "env_payload e = env_payload f"
      by (rule payload_json_inject) (use same in blast, (rule validate_payload_policy_Inr [OF e]),
        assumption, (rule validate_payload_policy_Inr [OF f]), assumption)
    with same show ?thesis by (simp add: e_times f_times)
  next
    case False
    with m n assms(3) show ?thesis by (simp add: hmac_collides_def)
  qed
qed


section \<open>A rendered state\<close>

definition company_admission :: repository_admission where
  "company_admission = sample_admission\<lparr>adm_owner := github_owner\<rparr>"

definition script_workload :: workload where
  "script_workload = sample_workload\<lparr>wl_kind := ScheduledScript\<rparr>"

definition sample_context :: render_context where
  "sample_context = \<lparr>rcx_project_id = ''madup-infra'', rcx_key_id = ''k1''\<rparr>"

definition sample_key :: bytes where
  "sample_key = replicate 32 (CHR ''k'')"

abbreviation sample_render :: "signed_envelope res" where
  "sample_render \<equiv> render_signed_desired_state sample_parsers script_workload company_admission
     sample_script_snapshot sample_digest sample_context t0 sample_key []"

lemma sample_seconds: "utc_second t0" "utc_second t1" "utc_second (utc (seconds 900))"
  by (simp_all add: utc_second_def time_samples seconds_def)

lemma sample_project: "validate_project_id ''madup-infra'' = Inr ''madup-infra''"
  by code_simp

lemma sample_account: "\<exists>account. runtime_service_account ''madup-infra'' ''w1'' = Inr account"
proof -
  have "require_exact_text ''madup-infra'' = Inr ''madup-infra''" "require_exact_text ''w1'' = Inr ''w1''"
    by code_simp+
  then show ?thesis
    by (simp add: runtime_service_account_def runtime_identity_for_def sample_project Let_def)
qed

lemma digest_text: "snapshot_digest_ok (snapshot_digest snapshot)"
  using sha256_hex_text by (simp add: snapshot_digest_ok_def snapshot_digest_def starts_with_def)

lemma signing_succeeds:
  "\<exists>e. sign_payload p sample_context t0 sample_key = Inr e"
proof -
  have later: "add_delta t0 (seconds (60 * plan_expiry_minutes)) = Inr (utc (seconds 900))"
    by (simp add: t0_def plan_expiry_minutes_def time_min_def time_max_def seconds_def)
  have zeros: "is_hex_text 64 (replicate 64 (CHR ''0''))" by code_simp
  show ?thesis
    by (simp add: sign_payload_def later envelope_post_init_def sample_seconds zeros hmac_sha256_text
        canonical_unsigned_bytes_def isoformat_utc_def)
qed

lemma sample_repository:
  "repository_owner_ok github_owner" "repository_name_ok ''app''" "nonblank github_owner"
  "nonblank ''app''" "nonblank ''a1''" "nonblank ''w1''" "nonblank ''u1''" "nonblank ''m1''"
  by code_simp+

lemma sample_payload_ok:
  "payload_ok (desired_payload script_workload company_admission sample_context sample_script
     (snapshot_digest sample_script_snapshot) uri account [])"
proof -
  have "snapshot_digest_ok (snapshot_digest sample_script_snapshot)" by (rule digest_text)
  moreover have "source_sha_ok sample_sha" by simp
  ultimately show ?thesis
    unfolding payload_ok_def desired_payload_def Let_def script_workload_def company_admission_def
      record_samples positive_ok_def
    by (simp only: workload.simps repository_admission.simps desired_state_payload.simps
        sample_repository) simp
qed

lemma sample_renders: "\<exists>e. sample_render = Inr e"
proof -
  obtain account where account: "runtime_service_account ''madup-infra'' ''w1'' = Inr account"
    using sample_account by blast
  have fields: "wl_kind script_workload = ScheduledScript" "wl_id script_workload = ''w1''"
    "cls_kind sample_script = ScheduledScript" "rcx_project_id sample_context = ''madup-infra''"
    by (simp_all add: script_workload_def record_samples sample_script_def sample_context_def)
  have stages: "validate_signing_key sample_key = Inr ()"
    "validate_workload_and_admission script_workload company_admission = Inr ()"
    "normalized_secret_attachments [] = Inr []"
    by (simp_all add: validate_signing_key_def sample_key_def validate_workload_and_admission_def
        script_workload_def company_admission_def record_samples sample_repository
        normalized_secret_attachments_def attachments_ok_def)
  obtain uri where uri: "image_uri_of ''madup-infra'' sample_digest = Inr uri"
    by (simp add: image_uri_of_def)
  obtain e where e: "sign_payload (desired_payload script_workload company_admission sample_context
      sample_script (snapshot_digest sample_script_snapshot) uri account []) sample_context t0 sample_key
      = Inr e"
    using signing_succeeds by blast
  have "render_checked sample_parsers script_workload company_admission sample_script_snapshot
      sample_digest sample_context t0 sample_key [] = Inr e"
    unfolding render_checked_def
    by (simp only: sample_seconds stages fields uri sample_is_classified account require_classified_def
        classified.case payload_post_init_def sample_payload_ok e bind_res_simps require_simps refl)
  then show ?thesis by (simp add: render_signed_desired_state_def denied_only_def)
qed

theorem rendered_state_verifies_witness:
  "\<exists>e message. sample_render = Inr e \<and>
     verify_signed_desired_state e sample_context sample_key t1 =
       Inr \<lparr>vst_envelope = e, vst_canonical_unsigned = message,
            vst_snapshot_digest = snapshot_digest sample_script_snapshot\<rparr> \<and>
     verify_signed_desired_state e sample_context sample_key (utc (seconds 900)) = Inl DesiredStateDenied"
proof -
  obtain e where e: "sample_render = Inr e" using sample_renders by blast
  from rendered_state_verifies [OF e sample_seconds(2)] rendered_state_verifies [OF e sample_seconds(3)]
  show ?thesis
    by (intro exI [of _ e]) (auto simp: e [unfolded t0_def] time_samples time_leq_def seconds_def)
qed

lemma sample_verifies:
  "\<exists>e v u. sample_render = Inr e \<and>
     verify_signed_desired_state e sample_context sample_key t0 = Inr v \<and>
     verify_signed_desired_state e sample_context sample_key t1 = Inr u"
proof -
  obtain e where e: "sample_render = Inr e" using sample_renders by blast
  from rendered_verifies [OF e sample_seconds(1)] rendered_verifies [OF e sample_seconds(2)]
  show ?thesis
    by (intro exI [of _ e]) (auto simp: e [unfolded t0_def] time_samples time_leq_def seconds_def)
qed

theorem verified_state_obeys_policy_witness:
  "\<exists>e v digest. verify_signed_desired_state e sample_context sample_key t0 = Inr v \<and>
     image_uri_of (rcx_project_id sample_context) digest = Inr (pay_image_uri (env_payload e)) \<and>
     \<not> pay_allow_unauthenticated (env_payload e)"
proof -
  obtain e v where "verify_signed_desired_state e sample_context sample_key t0 = Inr v"
    using sample_verifies by blast
  with verified_state_obeys_policy [OF this] show ?thesis unfolding Let_def by blast
qed

theorem signature_binds_the_state_witness:
  "\<exists>e f v u. verify_signed_desired_state e sample_context sample_key t0 = Inr v \<and>
     verify_signed_desired_state f sample_context sample_key t1 = Inr u \<and>
     (env_payload e = env_payload f \<or>
      hmac_collides sample_key (vst_canonical_unsigned v) (vst_canonical_unsigned u))"
proof -
  obtain e v u where "verify_signed_desired_state e sample_context sample_key t0 = Inr v"
      "verify_signed_desired_state e sample_context sample_key t1 = Inr u"
    using sample_verifies by blast
  with signature_binds_the_state [OF this refl] show ?thesis by blast
qed

end
