(* ===== verification/Spec2Isabelle.thy ===== *)
theory Spec2Isabelle
  imports Store_Guarantees Plan_Guarantees Accounting Worker_Guarantees Schedule_Guarantees
    Secret_Recovery Source Render
begin

text \<open>
  This library models the core of the infrastructure manager's control plane, the Python package
  \<^verbatim>\<open>plugins/madup-infra-manager/control-plane/src/mim_control_plane\<close>: a service through which
  employees deploy small web services and scheduled jobs. File names below are relative to that
  package.

  \<^bold>\<open>The program.\<close> Immutable domain records (\<^verbatim>\<open>domain/models.py\<close>) with legal state transitions
  (\<^verbatim>\<open>domain/states.py\<close>) are kept by a store with compare-and-set saves, idempotency claims and a few
  multi-record transactions (\<^verbatim>\<open>adapters/memory_store.py\<close>, the in-process counterpart of
  \<^verbatim>\<open>adapters/firestore_store.py\<close>). Services, workers and jobs read records, decide, and write back
  through the store; deploy requests travel as queued tasks bound to hashes of their material
  (\<^verbatim>\<open>ports/execution.py\<close>).

  \<^bold>\<open>The theories, in import order.\<close>
  \<^item> \<open>Prelude\<close>: errors as a datatype, results as sums, calls that return a result and the state
    after them, insertion-ordered dictionaries, claim indexes. \<open>PyText\<close>, \<open>PyTime\<close>, \<open>PyCalendar\<close>:
    the Python text, datetime and calendar operations the code uses. \<open>Sha256\<close>: SHA-256 over
    \<^typ>\<open>32 word\<close>, as \<^verbatim>\<open>hashlib\<close> computes it.
  \<^item> \<open>States\<close>: the enums and transition tables. \<open>Models_Identity\<close>, \<open>Models_Work\<close>, \<open>Models_Secret\<close>,
    \<open>Models_Ledger\<close>: the domain records; \<open>x_ok\<close> is the check of \<^verbatim>\<open>__post_init__\<close> and \<open>x_post_init\<close> the
    constructor, which returns the record or the error that the class raises.
  \<^item> \<open>Versioned\<close>: the generic \<^verbatim>\<open>_create\<close>, \<^verbatim>\<open>_get\<close> and versioned save of the store, and the locales
    that state what a guarded, a versioned and a stateful collection promise.
  \<^item> \<open>Schedules\<close>, \<open>Execution\<close>, \<open>DeployTask\<close>, \<open>Directory\<close>: the pure helpers of
    \<^verbatim>\<open>services/schedules.py\<close>, \<^verbatim>\<open>ports/execution.py\<close>, \<^verbatim>\<open>domain/directory_sync.py\<close> and
    \<^verbatim>\<open>services/directory_repository.py\<close>.
  \<^item> \<open>Store_Base\<close>, \<open>Store_Work\<close>, \<open>Store_Deploy\<close>, \<open>Store_Secrets\<close>, \<open>Store_Ledger\<close>: the state of
    \<^verbatim>\<open>MemoryStore\<close> as the record \<open>store\<close>, one definition per method, and the interpretation of the
    locales of \<open>Versioned\<close> on each collection.
  \<^item> \<open>Store_System\<close>: all state-changing methods as one datatype of calls with its \<open>run\<close>, the
    abstract relation \<open>effect\<close> of what one call may do to the records, and the proof that \<open>run\<close>
    refines it.
  \<^item> \<open>Store_Invariants\<close>, \<open>Store_History\<close>: reachable stores, their invariants, and what stays true of a
    record along every sequence of calls (locales over histories, interpreted per collection).
  \<^item> \<open>Samples\<close>: concrete records and stores on which the theorems are applied.
  \<^item> \<open>Store_Guarantees\<close>: the properties of the store.
  \<^item> \<open>PyJson\<close>, \<open>Plans\<close>, \<open>Plan_Guarantees\<close>: JSON values and canonical JSON text as \<^verbatim>\<open>json.dumps\<close>
    prints it, plan material and its hash (\<^verbatim>\<open>domain/plans.py\<close>), and what a reviewed plan binds.
  \<^item> \<open>Usage\<close>, \<open>Activity\<close>, \<open>Quota\<close>, \<open>Accounting\<close>: \<^verbatim>\<open>services/usage.py\<close>, \<^verbatim>\<open>services/quota.py\<close> and
    \<^verbatim>\<open>services/org_cost_guard.py\<close>: ledgers, cost snapshots and decisions, the guard of the
    organization, activity events and their metrics, and the laws of their arithmetic.
  \<^item> \<open>Procs\<close>: procedures, which take a world (the store and the calls to outside services so far)
    and return a result or an exception with the world they leave; relations that runs compose
    under, as the locale \<open>run_relation\<close>. What an outside service answers, and what it does to the
    store meanwhile, is a parameter that may depend on everything before it.
  \<^item> \<open>Lifecycle\<close>, \<open>Lifecycle_Guarantees\<close>: \<^verbatim>\<open>services/lifecycle.py\<close>, the pure planning of warnings,
    locks and cleanups. \<open>Lifecycle_Worker\<close>, \<open>Worker_Guarantees\<close>: \<^verbatim>\<open>workers/lifecycle.py\<close> and
    \<^verbatim>\<open>workers/maintenance.py\<close>, which execute those plans over the store and the services.
  \<^item> \<open>Access\<close>: \<^verbatim>\<open>security/authorization.py\<close>, who may act. \<open>ScheduleService\<close>, \<open>Schedule_Guarantees\<close>:
    \<^verbatim>\<open>services/schedule_management.py\<close>, schedules from their plan to one hourly tick, and at most one
    dispatch per tick whoever else works on the store.
  \<^item> \<open>SecretService\<close>, \<open>Secret_Guarantees\<close>, \<open>Secret_Recovery\<close>: \<^verbatim>\<open>services/secret_management.py\<close>,
    which keeps the values of secrets in the secret manager and only their metadata in the store:
    changes there are recorded first, plans read back as reviewed, and an interrupted creation can
    be completed.
  \<^item> \<open>Signing\<close>: HMAC over SHA-256. \<open>PyJsonRead\<close>: text from outside, as \<^verbatim>\<open>bytes.decode\<close> and
    \<^verbatim>\<open>json.loads\<close> read it. \<open>Naming\<close>: \<^verbatim>\<open>services/runtime_naming.py\<close> and
    \<^verbatim>\<open>services/runtime_identity.py\<close>. \<open>Source\<close>: \<^verbatim>\<open>services/repository_admission.py\<close> and the webhook
    half of \<^verbatim>\<open>adapters/github.py\<close>: an accepted push is authentic and narrowed to policy.
  \<^item> \<open>Classifier\<close>: \<^verbatim>\<open>services/classifier.py\<close> and \<^verbatim>\<open>services/build_template.py\<close>, with the YAML and
    Python parsers as parameters: what runs is what was reviewed. \<open>Render\<close>: \<^verbatim>\<open>services/render.py\<close>,
    the signed desired state: what is rendered verifies, what verifies obeys the policy, and a
    signature stands for one state.

  \<^bold>\<open>How state corresponds.\<close> A Python dict is a list of pairs with distinct keys in insertion order,
  because the code's listings and \<^verbatim>\<open>max\<close> depend on the order. Each store method takes the store and
  returns a result and the store after it, so a theorem can say what a raising call wrote. The
  methods hold the store's lock for their whole body, so calls are atomic and interleavings are
  sequences of calls. Unbounded Python ints are \<^typ>\<open>int\<close>. Records of the wrong Python type are not
  represented, so the \<^verbatim>\<open>isinstance\<close> checks that only reject such values have no branch.

  \<^bold>\<open>Bounds.\<close> Only the reader of JSON uses fuel, twice the length of its text, and more of it is
  proved to change no answer; every other recursion is structural or on the length of its input. The
  hash definitions compute, but theorems keep hashes symbolic and state the alternative of a
  SHA-256 collision where two hashes are compared.

  \<^bold>\<open>Not modelled.\<close> Network adapters, the HTTP, MCP and dashboard front ends, Slack sign-in, process
  wiring and the document encoding of the Firestore store: they consist of calls to services and
  packages whose code is not in the repository. The other plugins are prompt packages without
  shared state.
\<close>

end
